(* ===== verification/Prelude.thy ===== *)
theory Prelude
  imports Main "HOL-Library.Word" "HOL-Library.Monad_Syntax"
begin

section \<open>Shared types, loops and lemmas\<close>

text \<open>
  The types every component uses, the \<open>for len(buf) > 0\<close> loop of the protobuf decoders
  with its termination lemmas, big-endian integers (\<open>encoding/binary\<close>), and small facts on
  lists and maps. Bytes are 8-bit words and a \<open>[]byte\<close> is a list of them; a nil slice is
  the empty list, except where the code tells nil from empty, which is then an option.
  Addresses (\<open>common.Address\<close>, 20 bytes), hashes (\<open>common.Hash\<close>, 32 bytes) and
  \<open>uint256.Int\<close> values are words of that width.
\<close>

type_synonym byte = "8 word"
type_synonym bytes = "byte list"
type_synonym u8 = "8 word"
type_synonym u32 = "32 word"
type_synonym u64 = "64 word"
type_synonym u256 = "256 word"
type_synonym address = "160 word"
type_synonym hash = "256 word"

named_theorems wire_simps \<open>rewriting one field of an encoded protobuf message\<close>
named_theorems store_simps \<open>reads and heights of the state store after an operation\<close>
named_theorems frame_simps \<open>fields an operation of the in-memory state leaves alone\<close>

subsection \<open>Results\<close>

text \<open>A Go \<open>(value, error)\<close> pair is a sum: \<open>Inl\<close> the error, \<open>Inr\<close> the value.\<close>

fun is_ok :: "'e + 'a \<Rightarrow> bool" where
  "is_ok (Inl e) = False"
| "is_ok (Inr a) = True"

lemma is_ok_iff: "is_ok r \<longleftrightarrow> (\<exists>a. r = Inr a)"
  by (cases r) simp_all

subsection \<open>The loop \<open>for len(buf) > 0\<close> with early return\<close>

text \<open>
  One iteration either returns from the enclosing function or goes on with an updated
  accumulator and the rest of the buffer. A loop whose body does not shorten the buffer may
  run forever: the loop is \<open>None\<close> then.
\<close>

datatype ('a, 'r) flow = Return 'r | Next 'a bytes

partial_function (option) buf_loop ::
  "('a \<Rightarrow> bytes \<Rightarrow> ('a, 'r) flow) \<Rightarrow> ('a \<Rightarrow> 'r) \<Rightarrow> 'a \<Rightarrow> bytes \<Rightarrow> 'r option" where
  "buf_loop body fin acc buf =
     (if buf = [] then Some (fin acc)
      else (case body acc buf of
              Return r \<Rightarrow> Some r
            | Next acc' buf' \<Rightarrow> buf_loop body fin acc' buf'))"

definition shrinking :: "('a \<Rightarrow> bytes \<Rightarrow> ('a, 'r) flow) \<Rightarrow> bool" where
  "shrinking body \<longleftrightarrow>
     (\<forall>acc buf acc' buf'. body acc buf = Next acc' buf' \<longrightarrow> length buf' < length buf)"

lemma shrinkingD: "shrinking body \<Longrightarrow> body acc buf = Next acc' buf' \<Longrightarrow> length buf' < length buf"
  by (auto simp: shrinking_def)

lemma buf_loop_Nil [simp]: "buf_loop body fin acc [] = Some (fin acc)"
  by (simp add: buf_loop.simps)

lemma buf_loop_Next:
  "buf \<noteq> [] \<Longrightarrow> body acc buf = Next acc' buf' \<Longrightarrow>
   buf_loop body fin acc buf = buf_loop body fin acc' buf'"
  by (subst buf_loop.simps) simp

lemma buf_loop_Return:
  "buf \<noteq> [] \<Longrightarrow> body acc buf = Return r \<Longrightarrow> buf_loop body fin acc buf = Some r"
  by (subst buf_loop.simps) simp

lemma buf_loop_total:
  assumes "shrinking body"
  shows "\<exists>r. buf_loop body fin acc buf = Some r"
proof (induction buf arbitrary: acc rule: length_induct)
  case (1 buf)
  show ?case
  proof (cases "buf = []")
    case False
    show ?thesis
    proof (cases "body acc buf")
      case (Next acc' buf')
      with assms have "length buf' < length buf" by (rule shrinkingD)
      with "1.IH" Next False show ?thesis by (simp add: buf_loop_Next)
    qed (simp add: False buf_loop_Return)
  qed simp
qed

text \<open>A property of every way out of the loop, by an invariant on the accumulator.\<close>

lemma buf_loop_invariant:
  assumes "shrinking body"
    and step: "\<And>acc buf acc' buf'. I acc \<Longrightarrow> body acc buf = Next acc' buf' \<Longrightarrow> I acc'"
    and out: "\<And>acc buf r. I acc \<Longrightarrow> body acc buf = Return r \<Longrightarrow> Q r"
    and fin: "\<And>acc. I acc \<Longrightarrow> Q (fin acc)"
    and "I acc" and "buf_loop body fin acc buf = Some r"
  shows "Q r"
  using assms(5,6)
proof (induction buf arbitrary: acc rule: length_induct)
  case (1 buf)
  show ?case
  proof (cases "buf = []")
    case True
    with "1.prems" fin show ?thesis by auto
  next
    case False
    show ?thesis
    proof (cases "body acc buf")
      case (Return r')
      with False "1.prems" out show ?thesis by (auto simp: buf_loop_Return)
    next
      case (Next acc' buf')
      with assms(1) have "length buf' < length buf" by (rule shrinkingD)
      moreover from step "1.prems"(1) Next have "I acc'" by blast
      moreover from "1.prems"(2) False Next have "buf_loop body fin acc' buf' = Some r"
        by (simp add: buf_loop_Next)
      ultimately show ?thesis using "1.IH" by blast
    qed
  qed
qed

subsection \<open>Slices\<close>

lemma drop_length_append [simp]: "drop (length xs) (xs @ ys) = ys"
  by simp

declare drop_append [simp del]

lemma length_drop_less: "0 < n \<Longrightarrow> n \<le> length xs \<Longrightarrow> length (drop n xs) < length xs"
  by simp

lemma length_drop_nat_less: "0 < n \<Longrightarrow> n \<le> int (length xs) \<Longrightarrow> length (drop (nat n) xs) < length xs"
  by (simp add: nat_le_iff)

subsection \<open>Big-endian integers (encoding/binary)\<close>

lemma unat_bound: "unat (w :: 'a::len word) < 2 ^ LENGTH('a)"
  by (rule unsigned_less)

definition byte_of :: "nat \<Rightarrow> byte" where
  "byte_of n = word_of_nat n"

lemma unat_byte_of [simp]: "unat (byte_of n) = n mod 256"
  by (simp add: byte_of_def unat_of_nat)

lemma byte_of_unat [simp]: "byte_of (unat b) = b"
  by (simp add: byte_of_def)

fun be_nat_acc :: "nat \<Rightarrow> bytes \<Rightarrow> nat" where
  "be_nat_acc a [] = a"
| "be_nat_acc a (b # bs) = be_nat_acc (a * 256 + unat b) bs"

definition be_nat :: "bytes \<Rightarrow> nat" where
  "be_nat bs = be_nat_acc 0 bs"

fun be_bytes :: "nat \<Rightarrow> nat \<Rightarrow> bytes" where
  "be_bytes 0 x = []"
| "be_bytes (Suc n) x = be_bytes n (x div 256) @ [byte_of x]"

lemma length_be_bytes [simp]: "length (be_bytes n x) = n"
  by (induction n arbitrary: x) simp_all

lemma be_bytes_eq_Nil [simp]: "be_bytes n x = [] \<longleftrightarrow> n = 0"
  by (metis length_be_bytes length_0_conv)

lemma be_nat_acc_append: "be_nat_acc a (xs @ ys) = be_nat_acc (be_nat_acc a xs) ys"
  by (induction xs arbitrary: a) simp_all

lemma be_nat_be_bytes: "be_nat (be_bytes n x) = x mod 256 ^ n"
proof (induction n arbitrary: x)
  case (Suc n)
  have "be_nat (be_bytes (Suc n) x) = (x div 256 mod 256 ^ n) * 256 + x mod 256"
    using Suc.IH [of "x div 256"] by (simp add: be_nat_def be_nat_acc_append)
  also have "\<dots> = x mod 256 ^ Suc n"
    by (simp add: mod_mult2_eq)
  finally show ?case .
qed (simp add: be_nat_def)

lemma be_nat_snoc: "be_nat (xs @ [b]) = be_nat xs * 256 + unat b"
  by (simp add: be_nat_def be_nat_acc_append)

lemma be_nat_bound: "be_nat bs < 256 ^ length bs"
proof (induction bs rule: rev_induct)
  case (snoc b bs)
  have b: "unat b < 256" using unat_bound [of b] by simp
  from snoc have "be_nat bs + 1 \<le> 256 ^ length bs" by simp
  then have "(be_nat bs + 1) * 256 \<le> 256 ^ length bs * 256" by (rule mult_le_mono1)
  with b show ?case by (simp add: be_nat_snoc)
qed (simp add: be_nat_def)

lemma be_bytes_be_nat: "be_bytes (length bs) (be_nat bs) = bs"
proof (induction bs rule: rev_induct)
  case (snoc b bs)
  have b: "unat b < 256" using unat_bound [of b] by simp
  have "byte_of (be_nat bs * 256 + unat b) = byte_of (unat b)"
    using b by (simp add: word_unat_eq_iff)
  with snoc b show ?case by (simp add: be_nat_snoc)
qed simp

definition be_u64 :: "bytes \<Rightarrow> u64" where
  "be_u64 bs = word_of_nat (be_nat bs)"

definition be_u32 :: "bytes \<Rightarrow> u32" where
  "be_u32 bs = word_of_nat (be_nat bs)"

definition put_u64 :: "u64 \<Rightarrow> bytes" where
  "put_u64 w = be_bytes 8 (unat w)"

definition put_u32 :: "u32 \<Rightarrow> bytes" where
  "put_u32 w = be_bytes 4 (unat w)"

lemma length_put_u64 [simp]: "length (put_u64 w) = 8"
  by (simp add: put_u64_def)

lemma length_put_u32 [simp]: "length (put_u32 w) = 4"
  by (simp add: put_u32_def)

lemma be_u64_put_u64 [simp]: "be_u64 (put_u64 w) = w"
proof -
  have "unat w mod 256 ^ 8 = unat w" using unat_bound [of w] by simp
  then show ?thesis by (simp add: be_u64_def put_u64_def be_nat_be_bytes del: power_numeral)
qed

lemma be_u32_put_u32 [simp]: "be_u32 (put_u32 w) = w"
proof -
  have "unat w mod 256 ^ 4 = unat w" using unat_bound [of w] by simp
  then show ?thesis by (simp add: be_u32_def put_u32_def be_nat_be_bytes del: power_numeral)
qed

lemma put_u64_inject: "put_u64 v = put_u64 w \<longleftrightarrow> v = w"
  by (metis be_u64_put_u64)

subsection \<open>The bytes of a fixed-size array\<close>

text \<open>\<open>addr[:]\<close> of a \<open>[20]byte\<close> and \<open>slot[:]\<close> of a \<open>[32]byte\<close>.\<close>

definition addr_bytes :: "address \<Rightarrow> bytes" where
  "addr_bytes a = be_bytes 20 (unat a)"

definition hash_bytes :: "hash \<Rightarrow> bytes" where
  "hash_bytes h = be_bytes 32 (unat h)"

lemma length_addr_bytes [simp]: "length (addr_bytes a) = 20"
  by (simp add: addr_bytes_def)

lemma length_hash_bytes [simp]: "length (hash_bytes h) = 32"
  by (simp add: hash_bytes_def)

lemma addr_bytes_inject: "addr_bytes a = addr_bytes b \<longleftrightarrow> a = b"
proof
  assume "addr_bytes a = addr_bytes b"
  then have "unat a mod 256 ^ 20 = unat b mod 256 ^ 20"
    by (metis addr_bytes_def be_nat_be_bytes)
  moreover have "unat a mod 256 ^ 20 = unat a" "unat b mod 256 ^ 20 = unat b"
    using unat_bound [of a] unat_bound [of b] by simp_all
  ultimately show "a = b" by (simp add: word_unat_eq_iff)
qed simp

subsection \<open>Maps\<close>

text \<open>A nested Go map: the inner map is created on first use and then updated.\<close>

definition upd2 :: "('a \<rightharpoonup> ('k \<rightharpoonup> 'v)) \<Rightarrow> 'a \<Rightarrow> 'k \<Rightarrow> 'v \<Rightarrow> ('a \<rightharpoonup> ('k \<rightharpoonup> 'v))" where
  "upd2 m a k v = m(a \<mapsto> (case m a of None \<Rightarrow> Map.empty | Some m' \<Rightarrow> m')(k \<mapsto> v))"

definition get2 :: "('a \<rightharpoonup> ('k \<rightharpoonup> 'v)) \<Rightarrow> 'a \<Rightarrow> 'k \<Rightarrow> 'v option" where
  "get2 m a k = (case m a of None \<Rightarrow> None | Some m' \<Rightarrow> m' k)"

lemma get2_upd2 [simp]:
  "get2 (upd2 m a k v) b j = (if a = b \<and> k = j then Some v else get2 m b j)"
  by (auto simp: get2_def upd2_def split: option.splits)

lemma get2_empty [simp]: "get2 Map.empty a k = None"
  by (simp add: get2_def)

end
