(* ===== verification/Protowire.thy ===== *)
theory Protowire
  imports Prelude
begin

section \<open>The protobuf wire package\<close>

text \<open>
  \<open>google.golang.org/protobuf/encoding/protowire\<close> is not under src/: its functions are the
  fields of a record the decoders and encoders take as an argument. The locale
  \<open>protowire_laws\<close> states the documented behaviour the source relies on: a consume function
  returns a negative length on a malformed field and otherwise a positive length within the
  buffer, and it reads back what the append function of its kind wrote.
\<close>

type_synonym wire_type = int
type_synonym field_num = int

definition VarintType :: wire_type where "VarintType = 0"
definition Fixed64Type :: wire_type where "Fixed64Type = 1"
definition BytesType :: wire_type where "BytesType = 2"
definition Fixed32Type :: wire_type where "Fixed32Type = 5"

lemmas wire_type_defs = VarintType_def Fixed64Type_def BytesType_def Fixed32Type_def

record protowire =
  ConsumeTag :: "bytes \<Rightarrow> field_num \<times> wire_type \<times> int"
  ConsumeVarint :: "bytes \<Rightarrow> u64 \<times> int"
  ConsumeBytes :: "bytes \<Rightarrow> bytes \<times> int"
  ConsumeFixed32 :: "bytes \<Rightarrow> u32 \<times> int"
  ConsumeFixed64 :: "bytes \<Rightarrow> u64 \<times> int"
  AppendTag :: "bytes \<Rightarrow> field_num \<Rightarrow> wire_type \<Rightarrow> bytes"
  AppendVarint :: "bytes \<Rightarrow> u64 \<Rightarrow> bytes"
  AppendBytes :: "bytes \<Rightarrow> bytes \<Rightarrow> bytes"

text \<open>A length a consume function may return on success: \<open>buf[n:]\<close> is then in range.\<close>

definition consumed :: "int \<Rightarrow> bytes \<Rightarrow> bool" where
  "consumed n buf \<longleftrightarrow> n < 0 \<or> 0 < n \<and> n \<le> int (length buf)"

definition field_tag :: "field_num \<Rightarrow> wire_type \<Rightarrow> bool" where
  "field_tag num t \<longleftrightarrow> 1 \<le> num \<and> num \<le> 2 ^ 29 - 1 \<and> 0 \<le> t \<and> t \<le> 5"

locale protowire_laws =
  fixes P :: protowire
  assumes tag_consumed: "consumed (snd (snd (ConsumeTag P buf))) buf"
    and varint_consumed: "consumed (snd (ConsumeVarint P buf)) buf"
    and bytes_consumed: "consumed (snd (ConsumeBytes P buf)) buf"
    and fixed32_consumed: "consumed (snd (ConsumeFixed32 P buf)) buf"
    and fixed64_consumed: "consumed (snd (ConsumeFixed64 P buf)) buf"
    and tag_prefix: "AppendTag P b num t = b @ AppendTag P [] num t"
    and varint_prefix: "AppendVarint P b v = b @ AppendVarint P [] v"
    and bytes_prefix: "AppendBytes P b x = b @ AppendBytes P [] x"
    and tag_round: "field_tag num t \<Longrightarrow>
      ConsumeTag P (AppendTag P [] num t @ r) = (num, t, int (length (AppendTag P [] num t)))"
    and varint_round:
      "ConsumeVarint P (AppendVarint P [] v @ r) = (v, int (length (AppendVarint P [] v)))"
    and bytes_length: "length x \<le> length (AppendBytes P [] x)"
    and bytes_round: "length x < 2 ^ 63 \<Longrightarrow>
      ConsumeBytes P (AppendBytes P [] x @ r) = (x, int (length (AppendBytes P [] x)))"
begin

lemma tag_nonempty: "field_tag num t \<Longrightarrow> AppendTag P [] num t \<noteq> []"
  using tag_round [of num t "[]"] tag_consumed [of "AppendTag P [] num t"]
  by (auto simp: consumed_def)

lemma rest_shorter:
  "0 \<le> n \<Longrightarrow> consumed n buf \<Longrightarrow> length (drop (nat n) buf) < length buf"
  by (simp add: consumed_def) linarith

lemma tag_shorter:
  "ConsumeTag P buf = (num, t, n) \<Longrightarrow> \<not> n < 0 \<Longrightarrow> length (drop (nat n) buf) < length buf"
  using tag_consumed [of buf] rest_shorter [of n buf] by simp

text \<open>A loop body that starts by consuming a tag and never looks back makes progress.\<close>

lemma shrinking_by_tag:
  assumes "\<And>acc buf acc' buf'. body acc buf = Next acc' buf' \<Longrightarrow>
    \<not> snd (snd (ConsumeTag P buf)) < 0 \<and>
    length buf' \<le> length (drop (nat (snd (snd (ConsumeTag P buf)))) buf)"
  shows "shrinking body"
  unfolding shrinking_def
proof (intro allI impI)
  fix acc buf acc' buf'
  assume "body acc buf = Next acc' buf'"
  note step = assms [OF this]
  obtain num t n where tag: "ConsumeTag P buf = (num, t, n)" by (cases "ConsumeTag P buf") auto
  with step have "\<not> n < 0" by simp
  with tag have "length (drop (nat n) buf) < length buf" by (rule tag_shorter)
  with step tag show "length buf' < length buf" by simp
qed

end

text \<open>The five field kinds the source encodes.\<close>

lemma field_tag_simps [simp]:
  "field_tag 1 VarintType" "field_tag 1 BytesType" "field_tag 2 BytesType"
  "field_tag 3 BytesType" "field_tag 4 BytesType"
  by (simp_all add: field_tag_def wire_type_defs)

lemma wire_type_distinct [simp]:
  "VarintType \<noteq> BytesType" "BytesType \<noteq> VarintType"
  "VarintType \<noteq> Fixed32Type" "Fixed32Type \<noteq> VarintType"
  "VarintType \<noteq> Fixed64Type" "Fixed64Type \<noteq> VarintType"
  "BytesType \<noteq> Fixed32Type" "Fixed32Type \<noteq> BytesType"
  "BytesType \<noteq> Fixed64Type" "Fixed64Type \<noteq> BytesType"
  "Fixed32Type \<noteq> Fixed64Type" "Fixed64Type \<noteq> Fixed32Type"
  by (simp_all add: wire_type_defs)

subsection \<open>Messages as lists of fields\<close>

text \<open>
  A protobuf message is the concatenation of its fields. The encoders of the source append
  fields one by one; a decoder applied to a message must act as a fold over its fields.
\<close>

datatype field = FVarint field_num u64 | FBytes field_num bytes

fun field_no :: "field \<Rightarrow> field_num" where
  "field_no (FVarint k v) = k"
| "field_no (FBytes k x) = k"

fun field_type :: "field \<Rightarrow> wire_type" where
  "field_type (FVarint k v) = VarintType"
| "field_type (FBytes k x) = BytesType"

fun wf_field :: "field \<Rightarrow> bool" where
  "wf_field (FVarint k v) = field_tag k VarintType"
| "wf_field (FBytes k x) = (field_tag k BytesType \<and> length x < 2 ^ 63)"

fun payload :: "protowire \<Rightarrow> field \<Rightarrow> bytes" where
  "payload P (FVarint k v) = AppendVarint P [] v"
| "payload P (FBytes k x) = AppendBytes P [] x"

definition tag_of :: "protowire \<Rightarrow> field \<Rightarrow> bytes" where
  "tag_of P f = AppendTag P [] (field_no f) (field_type f)"

definition enc_field :: "protowire \<Rightarrow> field \<Rightarrow> bytes" where
  "enc_field P f = tag_of P f @ payload P f"

definition enc_fields :: "protowire \<Rightarrow> field list \<Rightarrow> bytes" where
  "enc_fields P fs = concat (map (enc_field P) fs)"

lemma enc_fields_simps [simp]:
  "enc_fields P [] = []"
  "enc_fields P (f # fs) = enc_field P f @ enc_fields P fs"
  "enc_fields P (fs @ gs) = enc_fields P fs @ enc_fields P gs"
  by (simp_all add: enc_fields_def)

context protowire_laws
begin

lemma consume_tag [wire_simps]:
  "wf_field f \<Longrightarrow> ConsumeTag P (enc_field P f @ r) =
     (field_no f, field_type f, int (length (tag_of P f)))"
  using tag_round [of "field_no f" "field_type f" "payload P f @ r"]
  by (cases f) (auto simp: enc_field_def tag_of_def)

lemma drop_tag [wire_simps]: "drop (length (tag_of P f)) (enc_field P f @ r) = payload P f @ r"
  by (simp add: enc_field_def)

lemma consume_varint [wire_simps]:
  "ConsumeVarint P (payload P (FVarint k v) @ r) = (v, int (length (payload P (FVarint k v))))"
  by (simp add: varint_round)

lemma consume_bytes [wire_simps]:
  "wf_field (FBytes k x) \<Longrightarrow>
   ConsumeBytes P (payload P (FBytes k x) @ r) = (x, int (length (payload P (FBytes k x))))"
  by (simp add: bytes_round)

lemma enc_field_nonempty [simp]: "wf_field f \<Longrightarrow> enc_field P f \<noteq> []"
  using tag_nonempty [of "field_no f" "field_type f"]
  by (cases f) (auto simp: enc_field_def tag_of_def)

text \<open>Appending a field to a buffer, as the encoders do, is appending its encoding.\<close>

lemma append_varint_field:
  "AppendVarint P (AppendTag P b k VarintType) v = b @ enc_field P (FVarint k v)"
  by (metis append_assoc enc_field_def field_no.simps(1) field_type.simps(1) payload.simps(1)
      tag_of_def tag_prefix varint_prefix)

lemma append_bytes_field:
  "AppendBytes P (AppendTag P b k BytesType) x = b @ enc_field P (FBytes k x)"
  by (metis append_assoc enc_field_def field_no.simps(2) field_type.simps(2) payload.simps(2)
      tag_of_def tag_prefix bytes_prefix)

lemmas append_field = append_varint_field append_bytes_field

text \<open>
  A decoder loop whose body consumes one encoded field and updates its accumulator by
  \<open>app\<close> folds \<open>app\<close> over the message.
\<close>

lemma buf_loop_fields:
  assumes body: "\<And>acc f r. f \<in> set fs \<Longrightarrow> body acc (enc_field P f @ r) = Next (app acc f) r"
    and wf: "\<And>f. f \<in> set fs \<Longrightarrow> wf_field f"
  shows "buf_loop body fin acc (enc_fields P fs @ r) = buf_loop body fin (foldl app acc fs) r"
  using assms
proof (induction fs arbitrary: acc)
  case (Cons f fs)
  have "buf_loop body fin acc (enc_fields P (f # fs) @ r) =
      buf_loop body fin (app acc f) (enc_fields P fs @ r)"
    using Cons.prems by (simp add: buf_loop_Next)
  with Cons show ?case by simp
qed simp

end

end
