(* ===== verification/GoLib.thy ===== *)
theory GoLib
  imports Prelude
begin

section \<open>The Go standard library the source uses\<close>

text \<open>
  Decimal parsing (\<open>big.Int.SetString(s, 10)\<close>, \<open>strconv.Atoi\<close>), the string functions
  (\<open>strings.HasPrefix\<close>, \<open>TrimPrefix\<close>, \<open>Split\<close>, \<open>SplitN\<close>, \<open>TrimSpace\<close>, \<open>ToUpper\<close>) and reads
  from an \<open>io.Reader\<close>. A Go string is a list of bytes, here of \<open>char\<close>s; the case and space
  functions are modelled on ASCII, which is all the source passes them.
\<close>

subsection \<open>Decimal numbers\<close>

definition digit_of :: "char \<Rightarrow> nat option" where
  "digit_of c = (let n = of_char c :: nat in if 48 \<le> n \<and> n \<le> 57 then Some (n - 48) else None)"

fun digits10 :: "nat \<Rightarrow> string \<Rightarrow> nat option" where
  "digits10 a [] = Some a"
| "digits10 a (c # cs) =
     (case digit_of c of None \<Rightarrow> None | Some d \<Rightarrow> digits10 (a * 10 + d) cs)"

text \<open>\<open>new(big.Int).SetString(s, 10)\<close>: an optional sign and at least one digit, nothing else.\<close>

definition set_string10 :: "string \<Rightarrow> int option" where
  "set_string10 s =
     (case s of
        [] \<Rightarrow> None
      | c # cs \<Rightarrow>
          if c = CHR ''-'' then (if cs = [] then None else map_option (\<lambda>n. - int n) (digits10 0 cs))
          else if c = CHR ''+'' then (if cs = [] then None else map_option int (digits10 0 cs))
          else map_option int (digits10 0 s))"

fun dec_string :: "nat \<Rightarrow> string" where
  "dec_string n =
     (if n < 10 then [char_of (48 + n)] else dec_string (n div 10) @ [char_of (48 + n mod 10)])"

declare dec_string.simps [simp del]

lemma digit_of_char_of: "d < 10 \<Longrightarrow> digit_of (char_of (48 + d)) = Some d"
  by (simp add: digit_of_def)

lemma digits10_append:
  "digits10 a (xs @ ys) = (case digits10 a xs of None \<Rightarrow> None | Some b \<Rightarrow> digits10 b ys)"
  by (induction xs arbitrary: a) (auto split: option.splits)

lemma digits10_dec_string: "digits10 0 (dec_string n) = Some n"
proof (induction n rule: dec_string.induct)
  case (1 n)
  show ?case
  proof (cases "n < 10")
    case True
    then show ?thesis by (subst dec_string.simps) (simp add: digit_of_char_of)
  next
    case False
    with "1.IH" show ?thesis
      by (subst dec_string.simps) (simp add: digits10_append digit_of_char_of)
  qed
qed

lemma dec_string_digits: "\<forall>c \<in> set (dec_string n). digit_of c \<noteq> None"
proof (induction n rule: dec_string.induct)
  case (1 n)
  show ?case
  proof (cases "n < 10")
    case True
    then show ?thesis by (subst dec_string.simps) (simp add: digit_of_char_of)
  next
    case False
    with "1.IH" show ?thesis by (subst dec_string.simps) (simp add: digit_of_char_of)
  qed
qed

lemma dec_string_nonempty [simp]: "dec_string n \<noteq> []"
  by (subst dec_string.simps) simp

lemma set_string10_dec_string [simp]: "set_string10 (dec_string n) = Some (int n)"
proof -
  obtain c cs where c: "dec_string n = c # cs"
    by (meson dec_string_nonempty neq_Nil_conv)
  then have "digit_of c \<noteq> None" using dec_string_digits [of n] by simp
  then have "c \<noteq> CHR ''-''" "c \<noteq> CHR ''+''" by (auto simp: digit_of_def)
  then show ?thesis using digits10_dec_string [of n] by (simp add: set_string10_def c)
qed

text \<open>
  The value of \<open>strconv.Atoi\<close> when its error is dropped: 0 for a string that is no number,
  the nearest 64-bit integer for one out of range.
\<close>

definition clamp_int :: "int \<Rightarrow> int" where
  "clamp_int i = (if i > 2 ^ 63 - 1 then 2 ^ 63 - 1 else if i < - (2 ^ 63) then - (2 ^ 63) else i)"

definition atoi :: "string \<Rightarrow> int" where
  "atoi s = (case set_string10 s of None \<Rightarrow> 0 | Some i \<Rightarrow> clamp_int i)"

lemma clamp_int_bounds: "- (2 ^ 63) \<le> clamp_int i \<and> clamp_int i \<le> 2 ^ 63 - 1"
  by (simp add: clamp_int_def)

subsection \<open>Strings\<close>

fun has_prefix :: "string \<Rightarrow> string \<Rightarrow> bool" where
  "has_prefix s [] = True"
| "has_prefix [] (p # ps) = False"
| "has_prefix (c # cs) (p # ps) = (c = p \<and> has_prefix cs ps)"

definition has_suffix :: "string \<Rightarrow> string \<Rightarrow> bool" where
  "has_suffix s p = has_prefix (rev s) (rev p)"

definition trim_prefix :: "string \<Rightarrow> string \<Rightarrow> string" where
  "trim_prefix s p = (if has_prefix s p then drop (length p) s else s)"

text \<open>\<open>strings.Split\<close> and \<open>strings.SplitN\<close> on a one-character separator.\<close>

fun split_on :: "char \<Rightarrow> string \<Rightarrow> string list" where
  "split_on c [] = [[]]"
| "split_on c (x # xs) =
     (if x = c then [] # split_on c xs
      else (case split_on c xs of [] \<Rightarrow> [[x]] | p # ps \<Rightarrow> (x # p) # ps))"

fun cut_on :: "char \<Rightarrow> string \<Rightarrow> string \<times> string option" where
  "cut_on c [] = ([], None)"
| "cut_on c (x # xs) =
     (if x = c then ([], Some xs)
      else (case cut_on c xs of (p, r) \<Rightarrow> (x # p, r)))"

fun split_n :: "nat \<Rightarrow> char \<Rightarrow> string \<Rightarrow> string list" where
  "split_n 0 c s = []"
| "split_n (Suc 0) c s = [s]"
| "split_n (Suc (Suc n)) c s =
     (case cut_on c s of
        (p, None) \<Rightarrow> [p]
      | (p, Some r) \<Rightarrow> p # split_n (Suc n) c r)"

definition is_space :: "char \<Rightarrow> bool" where
  "is_space c = (let n = of_char c :: nat in n = 32 \<or> (9 \<le> n \<and> n \<le> 13))"

definition trim_space :: "string \<Rightarrow> string" where
  "trim_space s = rev (dropWhile is_space (rev (dropWhile is_space s)))"

definition to_upper_char :: "char \<Rightarrow> char" where
  "to_upper_char c = (let n = of_char c :: nat in if 97 \<le> n \<and> n \<le> 122 then char_of (n - 32) else c)"

definition to_upper :: "string \<Rightarrow> string" where
  "to_upper s = map to_upper_char s"

definition to_lower_char :: "char \<Rightarrow> char" where
  "to_lower_char c = (let n = of_char c :: nat in if 65 \<le> n \<and> n \<le> 90 then char_of (n + 32) else c)"

definition to_lower :: "string \<Rightarrow> string" where
  "to_lower s = map to_lower_char s"

lemma has_prefix_iff: "has_prefix s p \<longleftrightarrow> (\<exists>r. s = p @ r)"
  by (induction s p rule: has_prefix.induct) auto

lemma split_on_nonempty [simp]: "split_on c s \<noteq> []"
  by (induction s) (auto split: list.splits)

lemma split_on_append: "c \<notin> set p \<Longrightarrow> split_on c (p @ c # r) = p # split_on c r"
  by (induction p) auto

lemma split_on_free: "c \<notin> set p \<Longrightarrow> split_on c p = [p]"
  by (induction p) auto

lemma cut_on_None: "c \<notin> set s \<Longrightarrow> cut_on c s = (s, None)"
  by (induction s) auto

lemma cut_on_append: "c \<notin> set p \<Longrightarrow> cut_on c (p @ c # r) = (p, Some r)"
  by (induction p) auto

lemma length_split_n: "length (split_n n c s) \<le> n"
  by (induction n c s rule: split_n.induct) (auto split: prod.splits option.splits)

text \<open>Bytes as a string: \<open>string(v)\<close>.\<close>

definition string_of_bytes :: "bytes \<Rightarrow> string" where
  "string_of_bytes bs = map (\<lambda>b. char_of (unat b)) bs"

definition bytes_of_string :: "string \<Rightarrow> bytes" where
  "bytes_of_string s = map (\<lambda>c. byte_of (of_char c)) s"

lemma string_of_bytes_of_string [simp]: "string_of_bytes (bytes_of_string s) = s"
  by (induction s) (simp_all add: string_of_bytes_def bytes_of_string_def)

lemma bytes_of_string_of_bytes [simp]: "bytes_of_string (string_of_bytes b) = b"
proof (induction b)
  case (Cons x b)
  have "unat x < 256" using unat_bound [of x] by simp
  with Cons show ?case
    by (simp add: string_of_bytes_def bytes_of_string_def byte_of_def)
qed (simp add: string_of_bytes_def bytes_of_string_def)

lemma length_bytes_of_string [simp]: "length (bytes_of_string s) = length s"
  by (simp add: bytes_of_string_def)

lemma length_string_of_bytes [simp]: "length (string_of_bytes b) = length b"
  by (simp add: string_of_bytes_def)

subsection \<open>Readers\<close>

text \<open>
  The bytes an \<open>io.Reader\<close> has left. \<open>io.ReadFull(r, buf)\<close> and \<open>binary.Read\<close> of a
  fixed-size integer take exactly the bytes they need or fail: both are \<open>None\<close> when the
  reader ends first.
\<close>

definition read_full :: "nat \<Rightarrow> bytes \<Rightarrow> (bytes \<times> bytes) option" where
  "read_full n r = (if n \<le> length r then Some (take n r, drop n r) else None)"

definition read_u8 :: "bytes \<Rightarrow> (u8 \<times> bytes) option" where
  "read_u8 r = (case r of [] \<Rightarrow> None | b # bs \<Rightarrow> Some (b, bs))"

definition read_u32 :: "bytes \<Rightarrow> (u32 \<times> bytes) option" where
  "read_u32 r = map_option (\<lambda>(b, r'). (be_u32 b, r')) (read_full 4 r)"

definition read_u64 :: "bytes \<Rightarrow> (u64 \<times> bytes) option" where
  "read_u64 r = map_option (\<lambda>(b, r'). (be_u64 b, r')) (read_full 8 r)"

lemma read_full_append [simp]: "n = length xs \<Longrightarrow> read_full n (xs @ ys) = Some (xs, ys)"
  by (simp add: read_full_def)

lemma read_u8_Cons [simp]: "read_u8 (b # bs) = Some (b, bs)"
  by (simp add: read_u8_def)

lemma read_u32_put [simp]: "read_u32 (put_u32 w @ ys) = Some (w, ys)"
  by (simp add: read_u32_def)

lemma read_u64_put [simp]: "read_u64 (put_u64 w @ ys) = Some (w, ys)"
  by (simp add: read_u64_def)

lemma read_full_SomeD: "read_full n r = Some (x, r') \<Longrightarrow> r = x @ r' \<and> length x = n"
  by (auto simp: read_full_def split: if_splits)

lemma read_u8_SomeD: "read_u8 r = Some (x, r') \<Longrightarrow> r = x # r'"
  by (auto simp: read_u8_def split: list.splits)

lemma read_u32_SomeD: "read_u32 r = Some (x, r') \<Longrightarrow> r = put_u32 x @ r'"
proof -
  assume "read_u32 r = Some (x, r')"
  then obtain b where b: "read_full 4 r = Some (b, r')" and x: "x = be_u32 b"
    by (auto simp: read_u32_def)
  from read_full_SomeD [OF b] have r: "r = b @ r'" and l: "length b = 4" by auto
  have "be_nat b < 2 ^ 32" using be_nat_bound [of b] l by simp
  then have "unat (be_u32 b) = be_nat b" by (simp add: be_u32_def unat_of_nat)
  then have "put_u32 x = b" using be_bytes_be_nat [of b] l by (simp add: put_u32_def x)
  with r show ?thesis by simp
qed

lemma read_u64_SomeD: "read_u64 r = Some (x, r') \<Longrightarrow> r = put_u64 x @ r'"
proof -
  assume "read_u64 r = Some (x, r')"
  then obtain b where b: "read_full 8 r = Some (b, r')" and x: "x = be_u64 b"
    by (auto simp: read_u64_def)
  from read_full_SomeD [OF b] have r: "r = b @ r'" and l: "length b = 8" by auto
  have "be_nat b < 2 ^ 64" using be_nat_bound [of b] l by simp
  then have "unat (be_u64 b) = be_nat b" by (simp add: be_u64_def unat_of_nat)
  then have "put_u64 x = b" using be_bytes_be_nat [of b] l by (simp add: put_u64_def x)
  with r show ?thesis by simp
qed

end
