(* ===== verification/Account.thy ===== *)
theory Account
  imports Protowire GoLib
begin

section \<open>Account records and addresses (account.go)\<close>

text \<open>
  \<open>DecodeAccount\<close> reads the protobuf of an IoTeX account; \<open>addressToHash160\<close> turns a
  0x-prefixed address into the 20-byte key of the Account namespace. The decoder's loop is
  \<open>buf_loop\<close> with the loop body written out; errors are constructors, one per message.
\<close>

record iotxAccount =
  acNonce :: u64
  acBalance :: int
  acRoot :: bytes
  acCodeHash :: bytes

datatype account_error =
    EmptyAccountData
  | InvalidTag nat
  | InvalidVarint field_num
  | InvalidBytes field_num
  | InvalidBalance string
  | InvalidFixed32 field_num
  | InvalidFixed64 field_num
  | UnsupportedWireType wire_type field_num

definition empty_account :: iotxAccount where
  "empty_account = \<lparr>acNonce = 0, acBalance = 0, acRoot = [], acCodeHash = []\<rparr>"

text \<open>The inner switch on the field number of a bytes field.\<close>

definition account_bytes :: "iotxAccount \<Rightarrow> field_num \<Rightarrow> bytes \<Rightarrow> account_error + iotxAccount" where
  "account_bytes acct num v =
     (if num = 2 then
        (if 0 < length v then
           (case set_string10 (string_of_bytes v) of
              None \<Rightarrow> Inl (InvalidBalance (string_of_bytes v))
            | Some bal \<Rightarrow> Inr (acct\<lparr>acBalance := bal\<rparr>))
         else Inr acct)
      else if num = 3 then Inr (acct\<lparr>acRoot := v\<rparr>)
      else if num = 4 then Inr (acct\<lparr>acCodeHash := v\<rparr>)
      else Inr acct)"

text \<open>One iteration of the loop, from the tag to the rest of the buffer.\<close>

definition account_body ::
  "protowire \<Rightarrow> nat \<Rightarrow> iotxAccount \<Rightarrow> bytes \<Rightarrow> (iotxAccount, account_error + iotxAccount) flow" where
  "account_body P len acct buf =
     (let (num, wtype, n) = ConsumeTag P buf in
      if n < 0 then Return (Inl (InvalidTag (len - length buf)))
      else
        let buf = drop (nat n) buf in
        if wtype = VarintType then
          (let (v, n) = ConsumeVarint P buf in
           if n < 0 then Return (Inl (InvalidVarint num))
           else Next (if num = 1 then acct\<lparr>acNonce := v\<rparr> else acct) (drop (nat n) buf))
        else if wtype = BytesType then
          (let (v, n) = ConsumeBytes P buf in
           if n < 0 then Return (Inl (InvalidBytes num))
           else (case account_bytes acct num v of
                   Inl e \<Rightarrow> Return (Inl e)
                 | Inr acct' \<Rightarrow> Next acct' (drop (nat n) buf)))
        else if wtype = Fixed32Type then
          (let (_, n) = ConsumeFixed32 P buf in
           if n < 0 then Return (Inl (InvalidFixed32 num)) else Next acct (drop (nat n) buf))
        else if wtype = Fixed64Type then
          (let (_, n) = ConsumeFixed64 P buf in
           if n < 0 then Return (Inl (InvalidFixed64 num)) else Next acct (drop (nat n) buf))
        else Return (Inl (UnsupportedWireType wtype num)))"

definition DecodeAccount :: "protowire \<Rightarrow> bytes \<Rightarrow> (account_error + iotxAccount) option" where
  "DecodeAccount P data =
     (if data = [] then Some (Inl EmptyAccountData)
      else buf_loop (account_body P (length data)) Inr empty_account data)"

subsection \<open>Termination\<close>

context protowire_laws
begin

lemma account_body_shrinking: "shrinking (account_body P len)"
  by (rule shrinking_by_tag)
    (auto simp: account_body_def Let_def split: prod.splits if_splits sum.splits)

lemma DecodeAccount_total: "\<exists>r. DecodeAccount P data = Some r"
  using buf_loop_total [OF account_body_shrinking]
  by (simp add: DecodeAccount_def)

end

subsection \<open>Decoding a message is a fold over its fields\<close>

fun account_field :: "iotxAccount \<Rightarrow> field \<Rightarrow> account_error + iotxAccount" where
  "account_field acct (FVarint k v) = Inr (if k = 1 then acct\<lparr>acNonce := v\<rparr> else acct)"
| "account_field acct (FBytes k x) = account_bytes acct k x"

fun account_fields :: "iotxAccount \<Rightarrow> field list \<Rightarrow> account_error + iotxAccount" where
  "account_fields acct [] = Inr acct"
| "account_fields acct (f # fs) =
     (case account_field acct f of Inl e \<Rightarrow> Inl e | Inr acct' \<Rightarrow> account_fields acct' fs)"

context protowire_laws
begin

lemma account_body_field:
  assumes "wf_field f"
  shows "account_body P len acct (enc_field P f @ r) =
    (case account_field acct f of Inl e \<Rightarrow> Return (Inl e) | Inr acct' \<Rightarrow> Next acct' r)"
proof (cases f)
  case (FVarint k v)
  show ?thesis unfolding account_body_def consume_tag [OF assms] drop_tag
    by (simp add: Let_def drop_tag FVarint consume_varint varint_round)
next
  case (FBytes k x)
  with assms have "length x < 2 ^ 63" by simp
  then show ?thesis unfolding account_body_def consume_tag [OF assms]
    by (simp add: Let_def drop_tag FBytes bytes_round split: sum.split)
qed

lemma account_loop_fields:
  "\<forall>f \<in> set fs. wf_field f \<Longrightarrow>
   buf_loop (account_body P len) Inr acct (enc_fields P fs) = Some (account_fields acct fs)"
proof (induction fs arbitrary: acct)
  case (Cons f fs)
  then have wf: "wf_field f" by simp
  show ?case
  proof (cases "account_field acct f")
    case (Inl e)
    with wf show ?thesis
      by (simp add: buf_loop_Return account_body_field)
  next
    case (Inr acct')
    with Cons wf show ?thesis
      by (simp add: buf_loop_Next [of _ _ _ acct' "enc_fields P fs"] account_body_field)
  qed
qed simp

lemma DecodeAccount_fields:
  assumes "fs \<noteq> []" and "\<forall>f \<in> set fs. wf_field f"
  shows "DecodeAccount P (enc_fields P fs) = Some (account_fields empty_account fs)"
proof -
  have "enc_fields P fs \<noteq> []" using assms by (cases fs) auto
  then show ?thesis using assms(2) by (simp add: DecodeAccount_def account_loop_fields)
qed

end

subsection \<open>The test encoder\<close>

text \<open>\<open>encodeTestAccount\<close> writes the accounts the tests store; fields left at zero are omitted.\<close>

definition encodeTestAccount :: "protowire \<Rightarrow> u64 \<Rightarrow> string \<Rightarrow> bytes \<Rightarrow> bytes \<Rightarrow> bytes" where
  "encodeTestAccount P nonce balance root codeHash =
     (let buf = AppendVarint P (AppendTag P [] 1 VarintType) nonce;
          buf = (if balance \<noteq> [] then
                   AppendBytes P (AppendTag P buf 2 BytesType) (bytes_of_string balance) else buf);
          buf = (if 0 < length root then AppendBytes P (AppendTag P buf 3 BytesType) root else buf)
      in if 0 < length codeHash then AppendBytes P (AppendTag P buf 4 BytesType) codeHash else buf)"

definition account_message :: "u64 \<Rightarrow> string \<Rightarrow> bytes \<Rightarrow> bytes \<Rightarrow> field list" where
  "account_message nonce balance root codeHash =
     FVarint 1 nonce
     # (if balance \<noteq> [] then [FBytes 2 (bytes_of_string balance)] else [])
     @ (if root \<noteq> [] then [FBytes 3 root] else [])
     @ (if codeHash \<noteq> [] then [FBytes 4 codeHash] else [])"

context protowire_laws
begin

lemma encodeTestAccount_message:
  "encodeTestAccount P nonce balance root codeHash =
   enc_fields P (account_message nonce balance root codeHash)"
  by (simp add: encodeTestAccount_def account_message_def append_field Let_def)

lemma DecodeAccount_round:
  assumes "set_string10 balance = Some b" and "length balance < 2 ^ 63"
    and "length root < 2 ^ 63" and "length codeHash < 2 ^ 63"
  shows "DecodeAccount P (encodeTestAccount P nonce balance root codeHash) =
    Some (Inr \<lparr>acNonce = nonce, acBalance = b, acRoot = root, acCodeHash = codeHash\<rparr>)"
proof -
  have "balance \<noteq> []" using assms(1) by (auto simp: set_string10_def)
  moreover have "account_fields empty_account (account_message nonce balance root codeHash) =
      Inr \<lparr>acNonce = nonce, acBalance = b, acRoot = root, acCodeHash = codeHash\<rparr>"
    using assms(1) calculation
    by (simp add: account_message_def account_bytes_def empty_account_def)
  moreover have "\<forall>f \<in> set (account_message nonce balance root codeHash). wf_field f"
    using assms by (auto simp: account_message_def)
  ultimately show ?thesis
    unfolding encodeTestAccount_message
    by (subst DecodeAccount_fields) (simp_all add: account_message_def)
qed

end

subsection \<open>Addresses\<close>

datatype address_error =
    AddressTooShort
  | InvalidHexLength nat
  | InvalidHexChar char
  | UnsupportedAddress string

definition hexVal :: "char \<Rightarrow> address_error + u8" where
  "hexVal c =
     (let n = of_char c :: nat in
      if 48 \<le> n \<and> n \<le> 57 then Inr (word_of_nat (n - 48))
      else if 97 \<le> n \<and> n \<le> 102 then Inr (word_of_nat (n - 97 + 10))
      else if 65 \<le> n \<and> n \<le> 70 then Inr (word_of_nat (n - 65 + 10))
      else Inl (InvalidHexChar c))"

text \<open>The loop over the twenty digit pairs; the first bad digit is the error returned.\<close>

fun hex_pairs :: "string \<Rightarrow> address_error + bytes" where
  "hex_pairs (h # l # cs) =
     (case hexVal h of Inl e \<Rightarrow> Inl e | Inr hi \<Rightarrow>
      (case hexVal l of Inl e \<Rightarrow> Inl e | Inr lo \<Rightarrow>
       (case hex_pairs cs of Inl e \<Rightarrow> Inl e | Inr b \<Rightarrow> Inr (or (push_bit 4 hi) lo # b))))"
| "hex_pairs cs = Inr []"

definition addressToHash160 :: "string \<Rightarrow> address_error + bytes" where
  "addressToHash160 addr =
     (if length addr < 2 then Inl AddressTooShort
      else if take 2 addr = ''0x'' \<or> take 2 addr = ''0X'' then
        (let hex = drop 2 addr in
         if length hex \<noteq> 40 then Inl (InvalidHexLength (length hex)) else hex_pairs hex)
      else Inl (UnsupportedAddress addr))"

fun hex_digit :: "nat \<Rightarrow> char" where
  "hex_digit d = (if d < 10 then char_of (48 + d) else char_of (87 + d))"

definition hex_of :: "bytes \<Rightarrow> string" where
  "hex_of bs = concat (map (\<lambda>b. [hex_digit (unat b div 16), hex_digit (unat b mod 16)]) bs)"

lemma hexVal_hex_digit: "d < 16 \<Longrightarrow> hexVal (hex_digit d) = Inr (word_of_nat d)"
  by (auto simp: hexVal_def Let_def not_less)

lemma nibbles_word: "or (push_bit 4 (word_of_nat (unat b div 16))) (word_of_nat (unat b mod 16)) = (b :: u8)"
proof -
  have "or (push_bit 4 (take_bit 4 (drop_bit 4 b))) (take_bit 4 b) = b"
    by (rule bit_eqI) (auto simp: bit_simps)
  moreover have "word_of_nat (unat b div 16) = drop_bit 4 b"
  proof -
    have "unat b div 16 < 256" using unat_bound [of b] by simp
    then have "unat (word_of_nat (unat b div 16) :: u8) = unat b div 16" by (simp add: unat_of_nat)
    moreover have "unat (drop_bit 4 b) = unat b div 16"
      by (subst unat_drop_bit_eq) (simp add: drop_bit_eq_div)
    ultimately show ?thesis by (metis word_unat_eq_iff)
  qed
  moreover have "word_of_nat (unat b mod 16) = take_bit 4 b"
  proof -
    have "unat (word_of_nat (unat b mod 16) :: u8) = unat b mod 16" by (simp add: unat_of_nat)
    moreover have "unat (take_bit 4 b) = unat b mod 16"
      by (subst unsigned_take_bit_eq) (simp add: take_bit_eq_mod)
    ultimately show ?thesis by (metis word_unat_eq_iff)
  qed
  moreover have "take_bit 4 (drop_bit 4 b) = drop_bit 4 b"
    by (rule bit_eqI) (auto simp: bit_simps dest: bit_imp_le_length)
  ultimately show ?thesis by simp
qed

lemma hex_pairs_hex_of: "hex_pairs (hex_of bs) = Inr bs"
proof (induction bs)
  case (Cons b bs)
  have "unat b div 16 < 16" using unat_bound [of b] by simp
  with Cons show ?case
    by (simp add: hex_of_def hexVal_hex_digit nibbles_word del: hex_digit.simps)
qed (simp add: hex_of_def)

lemma length_hex_of [simp]: "length (hex_of bs) = 2 * length bs"
  by (induction bs) (simp_all add: hex_of_def)

lemma hex_pairs_length:
  "hex_pairs cs = Inr b \<Longrightarrow> length b = length cs div 2"
  by (induction cs arbitrary: b rule: hex_pairs.induct) (auto split: sum.splits)

lemma addressToHash160_length: "addressToHash160 addr = Inr b \<Longrightarrow> length b = 20"
  by (auto simp: addressToHash160_def Let_def dest!: hex_pairs_length split: if_splits)

lemma addressToHash160_hex_of:
  "length bs = 20 \<Longrightarrow> addressToHash160 (''0x'' @ hex_of bs) = Inr bs"
  by (simp add: addressToHash160_def hex_pairs_hex_of)

text \<open>Which strings are accepted: a 0x prefix and forty hexadecimal digits.\<close>

definition is_hex :: "char \<Rightarrow> bool" where
  "is_hex c = is_ok (hexVal c)"

lemma hex_pairs_ok: "even (length cs) \<Longrightarrow> is_ok (hex_pairs cs) \<longleftrightarrow> list_all is_hex cs"
  by (induction cs rule: induct_list012) (auto simp: is_hex_def split: sum.splits)

lemma addressToHash160_accepts:
  "is_ok (addressToHash160 addr) \<longleftrightarrow>
     length addr = 42 \<and> (take 2 addr = ''0x'' \<or> take 2 addr = ''0X'') \<and>
     list_all is_hex (drop 2 addr)"
proof (cases "length addr = 42")
  case True
  then have "even (length (drop 2 addr))" by simp
  with True show ?thesis by (auto simp: addressToHash160_def Let_def hex_pairs_ok)
next
  case False
  then show ?thesis by (auto simp: addressToHash160_def Let_def)
qed

text \<open>
  Address parsing accepts exactly the strings of a 0x or 0X prefix and forty hexadecimal digits, and
  the lower-case hexadecimal spelling of any twenty bytes is parsed to these bytes.
\<close>

lemma address_accepted_exactly:
  "(is_ok (addressToHash160 addr) \<longleftrightarrow>
     length addr = 42 \<and> (take 2 addr = ''0x'' \<or> take 2 addr = ''0X'') \<and> list_all is_hex (drop 2 addr)) \<and>
   addressToHash160 (''0x'' @ hex_of (addr_bytes a)) = Inr (addr_bytes a)"
  using addressToHash160_accepts [of addr] addressToHash160_hex_of [of "addr_bytes a"] by simp

end
