(* ===== verification/EthLib.thy ===== *)
theory EthLib
  imports Account
begin

section \<open>The go-ethereum helpers\<close>

text \<open>
  The functions of go-ethereum (\<open>common\<close>, \<open>crypto\<close>) and of \<open>holiman/uint256\<close> that the source
  calls and that are not under src/: hex and byte conversions of addresses and hashes,
  Keccak-256, and the conversion from \<open>big.Int\<close>. \<open>uint256.Int\<close> itself is a 256-bit word whose
  \<open>Add\<close>, \<open>Sub\<close> and \<open>Cmp\<close> are those of the machine integer. The locale \<open>ethlib_laws\<close> states the
  documented behaviour the properties rely on.
\<close>

record ethlib =
  HexToAddress :: "string \<Rightarrow> address"
  HexToHash :: "string \<Rightarrow> hash"
  BytesToHash :: "bytes \<Rightarrow> hash"
  AddressHex :: "address \<Rightarrow> string"
  HashHex :: "hash \<Rightarrow> string"
  Keccak256Hash :: "bytes \<Rightarrow> hash"
  U256FromBig :: "int \<Rightarrow> u256 \<times> bool"
  U256Bytes :: "u256 \<Rightarrow> bytes"
  LeftPadBytes :: "bytes \<Rightarrow> nat \<Rightarrow> bytes"

locale ethlib_laws =
  fixes L :: ethlib
  assumes hash_hex_inj: "HashHex L h = HashHex L h' \<Longrightarrow> h = h'"
    and address_hex_inj: "AddressHex L a = AddressHex L a' \<Longrightarrow> a = a'"
    and bytes_to_hash: "BytesToHash L (hash_bytes h) = h"
    and from_big: "0 \<le> i \<Longrightarrow> i < 2 ^ 256 \<Longrightarrow> U256FromBig L i = (word_of_int i, False)"
    and from_big_overflow: "2 ^ 256 \<le> i \<Longrightarrow> snd (U256FromBig L i)"
    and left_pad: "LeftPadBytes L b n = replicate (n - length b) 0 @ b"
begin

lemma hash_hex_eq [simp]: "HashHex L h = HashHex L h' \<longleftrightarrow> h = h'"
  using hash_hex_inj by blast

lemma address_hex_eq [simp]: "AddressHex L a = AddressHex L a' \<longleftrightarrow> a = a'"
  using address_hex_inj by blast

end

subsection \<open>An instance\<close>

text \<open>
  Hex strings of twenty and thirty-two bytes, cropping and padding on the left as documented.
  Keccak-256 is the one function whose value no law constrains; the instance uses the number
  its argument spells.
\<close>

definition crop_left :: "nat \<Rightarrow> bytes \<Rightarrow> bytes" where
  "crop_left n b = drop (length b - n) b"

fun hex_decode :: "string \<Rightarrow> bytes" where
  "hex_decode cs = (case hex_pairs (if even (length cs) then cs else CHR ''0'' # cs) of
     Inl e \<Rightarrow> [] | Inr b \<Rightarrow> b)"

definition from_hex :: "string \<Rightarrow> bytes" where
  "from_hex s =
     hex_decode (if take 2 s = ''0x'' \<or> take 2 s = ''0X'' then drop 2 s else s)"

definition eth_instance :: ethlib where
  "eth_instance =
     \<lparr>HexToAddress = (\<lambda>s. word_of_nat (be_nat (crop_left 20 (from_hex s)))),
      HexToHash = (\<lambda>s. word_of_nat (be_nat (crop_left 32 (from_hex s)))),
      BytesToHash = (\<lambda>b. word_of_nat (be_nat (crop_left 32 b))),
      AddressHex = (\<lambda>a. ''0x'' @ hex_of (addr_bytes a)),
      HashHex = (\<lambda>h. ''0x'' @ hex_of (hash_bytes h)),
      Keccak256Hash = (\<lambda>b. word_of_nat (be_nat (1 # b))),
      U256FromBig = (\<lambda>i. (word_of_int i, 2 ^ 256 \<le> \<bar>i\<bar>)),
      U256Bytes = (\<lambda>v. dropWhile (\<lambda>b. b = 0) (be_bytes 32 (unat v))),
      LeftPadBytes = (\<lambda>b n. replicate (n - length b) 0 @ b)\<rparr>"

lemma hash_bytes_nat: "be_nat (hash_bytes h) = unat h"
  using unat_bound [of h] by (simp add: hash_bytes_def be_nat_be_bytes)

lemma hex_of_inject: "hex_of a = hex_of b \<longleftrightarrow> a = b"
  by (metis hex_pairs_hex_of sum.inject(2))

interpretation eth: ethlib_laws eth_instance
proof
  fix h h' :: hash and a a' :: address and i :: int and b :: bytes and n :: nat
  show "LeftPadBytes eth_instance b n = replicate (n - length b) 0 @ b"
    by (simp add: eth_instance_def)
  show "HashHex eth_instance h = HashHex eth_instance h' \<Longrightarrow> h = h'"
    by (simp add: eth_instance_def hex_of_inject) (metis hash_bytes_nat word_unat_eq_iff)
  show "AddressHex eth_instance a = AddressHex eth_instance a' \<Longrightarrow> a = a'"
    by (simp add: eth_instance_def hex_of_inject addr_bytes_inject)
  show "BytesToHash eth_instance (hash_bytes h) = h"
    by (simp add: eth_instance_def crop_left_def hash_bytes_nat)
  show "0 \<le> i \<Longrightarrow> i < 2 ^ 256 \<Longrightarrow> U256FromBig eth_instance i = (word_of_int i, False)"
    by (simp add: eth_instance_def)
  show "2 ^ 256 \<le> i \<Longrightarrow> snd (U256FromBig eth_instance i)"
    by (simp add: eth_instance_def)
qed

end
