(* ===== verification/Mpt.thy ===== *)
theory Mpt
  imports Protowire
begin

section \<open>Trie nodes (mpt.go: decoding and encoding)\<close>

text \<open>
  The decoders of the trie node protobuf (\<open>decodeNodePb\<close> and the four messages inside it),
  \<open>skipField\<close> and the three encoders. Each decoder is a \<open>buf_loop\<close> over a body that
  translates one iteration. The value of a leaf is an option: a leaf without a value field
  has the nil value, which \<open>trieGet\<close> hands out as it is.
\<close>

datatype wire_error = InvalidNode | UnsupportedType wire_type

record mptExtNode =
  ex_path :: bytes
  childHash :: bytes

record mptLeafNode =
  lf_key :: bytes
  lf_value :: "bytes option"

text \<open>What \<open>decodeNodePb\<close> returns: the tag byte 'B', 'E' or 'L' and the node of that kind.\<close>

datatype node_pb =
    NodeB "byte \<rightharpoonup> bytes"
  | NodeE mptExtNode
  | NodeL mptLeafNode

definition skipField :: "protowire \<Rightarrow> bytes \<Rightarrow> wire_type \<Rightarrow> wire_error + int" where
  "skipField P buf wtype =
     (if wtype = VarintType then
        (let (_, n) = ConsumeVarint P buf in if n < 0 then Inl InvalidNode else Inr n)
      else if wtype = BytesType then
        (let (_, n) = ConsumeBytes P buf in if n < 0 then Inl InvalidNode else Inr n)
      else if wtype = Fixed32Type then
        (let (_, n) = ConsumeFixed32 P buf in if n < 0 then Inl InvalidNode else Inr n)
      else if wtype = Fixed64Type then
        (let (_, n) = ConsumeFixed64 P buf in if n < 0 then Inl InvalidNode else Inr n)
      else Inl (UnsupportedType wtype))"

text \<open>The default case of the decoders: skip the field or return its error.\<close>

definition skip_step ::
  "protowire \<Rightarrow> bytes \<Rightarrow> wire_type \<Rightarrow> 'a \<Rightarrow> ('a, wire_error + 'b) flow" where
  "skip_step P buf wtype acc =
     (case skipField P buf wtype of
        Inl e \<Rightarrow> Return (Inl e)
      | Inr n \<Rightarrow> Next acc (drop (nat n) buf))"

definition branchNode_body ::
  "protowire \<Rightarrow> u32 \<times> bytes \<Rightarrow> bytes \<Rightarrow> (u32 \<times> bytes, wire_error + u32 \<times> bytes) flow" where
  "branchNode_body P acc buf =
     (let (index, path) = acc; (num, wtype, n) = ConsumeTag P buf in
      if n < 0 then Return (Inl InvalidNode)
      else
        let buf = drop (nat n) buf in
        if num = 1 \<and> wtype = VarintType then
          (let (v, n) = ConsumeVarint P buf in
           if n < 0 then Return (Inl InvalidNode)
           else Next (ucast v, path) (drop (nat n) buf))
        else if num = 2 \<and> wtype = BytesType then
          (let (v, n) = ConsumeBytes P buf in
           if n < 0 then Return (Inl InvalidNode)
           else Next (index, v) (drop (nat n) buf))
        else skip_step P buf wtype (index, path))"

definition decodeBranchNodePb :: "protowire \<Rightarrow> bytes \<Rightarrow> (wire_error + u32 \<times> bytes) option" where
  "decodeBranchNodePb P data = buf_loop (branchNode_body P) Inr (0, []) data"

text \<open>
  The body of \<open>decodeBranchPb\<close> calls another decoder, which might not return; its loop is
  over an option-valued body, folded into the loop's result.
\<close>

definition branch_body ::
  "protowire \<Rightarrow> (byte \<rightharpoonup> bytes) \<Rightarrow> bytes \<Rightarrow> (byte \<rightharpoonup> bytes, (wire_error + (byte \<rightharpoonup> bytes)) option) flow" where
  "branch_body P children buf =
     (let (num, wtype, n) = ConsumeTag P buf in
      if n < 0 then Return (Some (Inl InvalidNode))
      else
        let buf = drop (nat n) buf in
        if num = 1 \<and> wtype = BytesType then
          (let (v, n) = ConsumeBytes P buf in
           if n < 0 then Return (Some (Inl InvalidNode))
           else (case decodeBranchNodePb P v of
                   None \<Rightarrow> Return None
                 | Some (Inl e) \<Rightarrow> Return (Some (Inl e))
                 | Some (Inr (idx, path)) \<Rightarrow>
                     Next (children(ucast idx \<mapsto> path)) (drop (nat n) buf)))
        else (case skipField P buf wtype of
                Inl e \<Rightarrow> Return (Some (Inl e))
              | Inr n \<Rightarrow> Next children (drop (nat n) buf)))"

definition decodeBranchPb :: "protowire \<Rightarrow> bytes \<Rightarrow> (wire_error + (byte \<rightharpoonup> bytes)) option" where
  "decodeBranchPb P data =
     Option.bind (buf_loop (branch_body P) (\<lambda>c. Some (Inr c)) Map.empty data) (\<lambda>r. r)"

definition leaf_body ::
  "protowire \<Rightarrow> mptLeafNode \<Rightarrow> bytes \<Rightarrow> (mptLeafNode, wire_error + mptLeafNode) flow" where
  "leaf_body P leaf buf =
     (let (num, wtype, n) = ConsumeTag P buf in
      if n < 0 then Return (Inl InvalidNode)
      else
        let buf = drop (nat n) buf in
        if num = 1 \<and> wtype = VarintType then
          (let (_, n) = ConsumeVarint P buf in
           if n < 0 then Return (Inl InvalidNode) else Next leaf (drop (nat n) buf))
        else if num = 2 \<and> wtype = BytesType then
          (let (v, n) = ConsumeBytes P buf in
           if n < 0 then Return (Inl InvalidNode)
           else Next (leaf\<lparr>lf_key := v\<rparr>) (drop (nat n) buf))
        else if num = 3 \<and> wtype = BytesType then
          (let (v, n) = ConsumeBytes P buf in
           if n < 0 then Return (Inl InvalidNode)
           else Next (leaf\<lparr>lf_value := Some v\<rparr>) (drop (nat n) buf))
        else skip_step P buf wtype leaf)"

definition empty_leaf :: mptLeafNode where
  "empty_leaf = \<lparr>lf_key = [], lf_value = None\<rparr>"

definition decodeLeafPb :: "protowire \<Rightarrow> bytes \<Rightarrow> (wire_error + mptLeafNode) option" where
  "decodeLeafPb P data = buf_loop (leaf_body P) Inr empty_leaf data"

definition extend_body ::
  "protowire \<Rightarrow> mptExtNode \<Rightarrow> bytes \<Rightarrow> (mptExtNode, wire_error + mptExtNode) flow" where
  "extend_body P ext buf =
     (let (num, wtype, n) = ConsumeTag P buf in
      if n < 0 then Return (Inl InvalidNode)
      else
        let buf = drop (nat n) buf in
        if num = 1 \<and> wtype = BytesType then
          (let (v, n) = ConsumeBytes P buf in
           if n < 0 then Return (Inl InvalidNode)
           else Next (ext\<lparr>ex_path := v\<rparr>) (drop (nat n) buf))
        else if num = 2 \<and> wtype = BytesType then
          (let (v, n) = ConsumeBytes P buf in
           if n < 0 then Return (Inl InvalidNode)
           else Next (ext\<lparr>childHash := v\<rparr>) (drop (nat n) buf))
        else skip_step P buf wtype ext)"

definition empty_ext :: mptExtNode where
  "empty_ext = \<lparr>ex_path = [], childHash = []\<rparr>"

definition decodeExtendPb :: "protowire \<Rightarrow> bytes \<Rightarrow> (wire_error + mptExtNode) option" where
  "decodeExtendPb P data = buf_loop (extend_body P) Inr empty_ext data"

definition node_body ::
  "protowire \<Rightarrow> unit \<Rightarrow> bytes \<Rightarrow> (unit, (wire_error + node_pb) option) flow" where
  "node_body P u buf =
     (let (num, wtype, n) = ConsumeTag P buf in
      if n < 0 then Return (Some (Inl InvalidNode))
      else
        let buf = drop (nat n) buf in
        if wtype = BytesType then
          (let (v, n) = ConsumeBytes P buf in
           if n < 0 then Return (Some (Inl InvalidNode))
           else
             let buf = drop (nat n) buf in
             if num = 2 then Return (map_option (map_sum id NodeB) (decodeBranchPb P v))
             else if num = 3 then Return (map_option (map_sum id NodeL) (decodeLeafPb P v))
             else if num = 4 then Return (map_option (map_sum id NodeE) (decodeExtendPb P v))
             else Next u buf)
        else (case skipField P buf wtype of
                Inl e \<Rightarrow> Return (Some (Inl e))
              | Inr n \<Rightarrow> Next u (drop (nat n) buf)))"

definition decodeNodePb :: "protowire \<Rightarrow> bytes \<Rightarrow> (wire_error + node_pb) option" where
  "decodeNodePb P data =
     Option.bind (buf_loop (node_body P) (\<lambda>_. Some (Inl InvalidNode)) () data) (\<lambda>r. r)"

subsection \<open>Encoders\<close>

definition encodeLeafNode :: "protowire \<Rightarrow> bytes \<Rightarrow> bytes \<Rightarrow> bytes" where
  "encodeLeafNode P key val =
     (let leaf = AppendTag P [] 2 BytesType;
          leaf = AppendBytes P leaf key;
          leaf = AppendTag P leaf 3 BytesType;
          leaf = AppendBytes P leaf val;
          node = AppendTag P [] 3 BytesType
      in AppendBytes P node leaf)"

text \<open>
  \<open>encodeBranchNode\<close> ranges over a Go map; its argument here is the list of the map's
  entries in the order the range visits them, which Go leaves open.
\<close>

fun branch_entries :: "protowire \<Rightarrow> bytes \<Rightarrow> (byte \<times> bytes) list \<Rightarrow> bytes" where
  "branch_entries P branch [] = branch"
| "branch_entries P branch ((idx, h) # es) =
     (let bnp = AppendTag P [] 1 VarintType;
          bnp = AppendVarint P bnp (ucast idx);
          bnp = AppendTag P bnp 2 BytesType;
          bnp = AppendBytes P bnp h;
          branch = AppendTag P branch 1 BytesType;
          branch = AppendBytes P branch bnp
      in branch_entries P branch es)"

definition encodeBranchNode :: "protowire \<Rightarrow> (byte \<times> bytes) list \<Rightarrow> bytes" where
  "encodeBranchNode P children =
     (let branch = branch_entries P [] children;
          node = AppendTag P [] 2 BytesType
      in AppendBytes P node branch)"

definition encodeExtensionNode :: "protowire \<Rightarrow> bytes \<Rightarrow> bytes \<Rightarrow> bytes" where
  "encodeExtensionNode P path child =
     (let ext = AppendTag P [] 1 BytesType;
          ext = AppendBytes P ext path;
          ext = AppendTag P ext 2 BytesType;
          ext = AppendBytes P ext child;
          node = AppendTag P [] 4 BytesType
      in AppendBytes P node ext)"

end
