(* ===== verification/WireFormat.thy ===== *)
theory WireFormat
  imports Protowire GoLib
begin

section \<open>The protobuf wire format\<close>

text \<open>
  The wire format the protobuf documentation specifies (base-128 varints of at most ten bytes,
  tags \<open>num * 8 + type\<close>, length-prefixed bytes, little-endian fixed fields), as an instance of
  the wire package. It discharges the laws, so no theorem with them as a hypothesis is
  vacuous, and it makes the decoders evaluate on concrete bytes.
\<close>

fun uvarint :: "nat \<Rightarrow> bytes" where
  "uvarint n = (if n < 128 then [byte_of n] else byte_of (128 + n mod 128) # uvarint (n div 128))"

declare uvarint.simps [simp del]

fun parse_uvarint :: "nat \<Rightarrow> bytes \<Rightarrow> (nat \<times> nat) option" where
  "parse_uvarint 0 bs = None"
| "parse_uvarint (Suc k) [] = None"
| "parse_uvarint (Suc k) (b # bs) =
     (if unat b < 128 then Some (unat b, 1)
      else map_option (\<lambda>(v, n). (unat b - 128 + 128 * v, Suc n)) (parse_uvarint k bs))"

lemma parse_uvarint_round:
  "n < 128 ^ k \<Longrightarrow> k \<noteq> 0 \<Longrightarrow> parse_uvarint k (uvarint n @ r) = Some (n, length (uvarint n))"
proof (induction n arbitrary: k rule: uvarint.induct)
  case (1 n)
  show ?case
  proof (cases k)
    case 0
    with "1.prems" show ?thesis by simp
  next
    case (Suc j)
    show ?thesis
    proof (cases "n < 128")
      case True
      with Suc show ?thesis by (subst (1 2) uvarint.simps) simp
    next
      case False
      with "1.prems" Suc have "n div 128 < 128 ^ j" by (simp add: less_mult_imp_div_less mult.commute)
      moreover from False "1.prems" Suc have "j \<noteq> 0" by (cases j) auto
      ultimately have
        "parse_uvarint j (uvarint (n div 128) @ r) = Some (n div 128, length (uvarint (n div 128)))"
        using "1.IH" False by blast
      moreover have "\<not> unat (byte_of (128 + n mod 128)) < 128"
        by simp
      moreover have "unat (byte_of (128 + n mod 128)) - 128 + 128 * (n div 128) = n"
        by simp
      ultimately show ?thesis using False Suc by (subst (1 2) uvarint.simps) simp
    qed
  qed
qed

lemma parse_uvarint_length: "parse_uvarint k bs = Some (v, n) \<Longrightarrow> 0 < n \<and> n \<le> length bs"
proof (induction k bs arbitrary: v n rule: parse_uvarint.induct)
  case (3 k b bs)
  then show ?case by (auto split: if_splits)
qed simp_all

definition wf_varint :: "bytes \<Rightarrow> u64 \<times> int" where
  "wf_varint buf =
     (case parse_uvarint 10 buf of
        None \<Rightarrow> (0, -1)
      | Some (v, n) \<Rightarrow> if v < 2 ^ 64 then (word_of_nat v, int n) else (0, -3))"

definition wf_tag :: "bytes \<Rightarrow> field_num \<times> wire_type \<times> int" where
  "wf_tag buf =
     (case wf_varint buf of
        (v, n) \<Rightarrow>
          if n < 0 then (0, 0, n)
          else (let num = unat v div 8 in
            if num < 1 \<or> 2 ^ 31 - 1 < num then (0, 0, -2)
            else (int num, int (unat v mod 8), n)))"

definition wf_bytes :: "bytes \<Rightarrow> bytes \<times> int" where
  "wf_bytes buf =
     (case wf_varint buf of
        (m, n) \<Rightarrow>
          if n < 0 then ([], n)
          else if length buf - nat n < unat m then ([], -1)
          else (take (unat m) (drop (nat n) buf), n + int (unat m)))"

definition wf_fixed32 :: "bytes \<Rightarrow> u32 \<times> int" where
  "wf_fixed32 buf = (if length buf < 4 then (0, -1) else (be_u32 (rev (take 4 buf)), 4))"

definition wf_fixed64 :: "bytes \<Rightarrow> u64 \<times> int" where
  "wf_fixed64 buf = (if length buf < 8 then (0, -1) else (be_u64 (rev (take 8 buf)), 8))"

definition wire_format :: protowire where
  "wire_format =
     \<lparr>ConsumeTag = wf_tag, ConsumeVarint = wf_varint, ConsumeBytes = wf_bytes,
      ConsumeFixed32 = wf_fixed32, ConsumeFixed64 = wf_fixed64,
      AppendTag = (\<lambda>b num t. b @ uvarint (nat num * 8 + nat t)),
      AppendVarint = (\<lambda>b v. b @ uvarint (unat v)),
      AppendBytes = (\<lambda>b x. b @ uvarint (length x) @ x)\<rparr>"

lemma wire_format_simps [simp]:
  "ConsumeTag wire_format = wf_tag" "ConsumeVarint wire_format = wf_varint"
  "ConsumeBytes wire_format = wf_bytes" "ConsumeFixed32 wire_format = wf_fixed32"
  "ConsumeFixed64 wire_format = wf_fixed64"
  "AppendTag wire_format b num t = b @ uvarint (nat num * 8 + nat t)"
  "AppendVarint wire_format b v = b @ uvarint (unat v)"
  "AppendBytes wire_format b x = b @ uvarint (length x) @ x"
  by (simp_all add: wire_format_def)

lemma wf_varint_consumed: "consumed (snd (wf_varint buf)) buf"
  using parse_uvarint_length [of 10 buf]
  by (auto simp: wf_varint_def consumed_def split: option.splits)

lemma wf_varint_uvarint:
  assumes "n < 2 ^ 64"
  shows "wf_varint (uvarint n @ r) = (word_of_nat n, int (length (uvarint n)))"
proof -
  have "n < 128 ^ 10" using assms by simp
  then show ?thesis using assms by (simp add: wf_varint_def parse_uvarint_round)
qed

lemma wf_tag_consumed: "consumed (snd (snd (wf_tag buf))) buf"
  using wf_varint_consumed [of buf]
  by (auto simp: wf_tag_def Let_def consumed_def split: prod.splits)

lemma wf_bytes_consumed: "consumed (snd (wf_bytes buf)) buf"
proof (cases "wf_varint buf")
  case (Pair m n)
  have m: "int (unat m) = uint m" "0 \<le> uint m" by simp_all
  from wf_varint_consumed [of buf] Pair have n: "consumed n buf" by simp
  show ?thesis
  proof (cases "n < 0 \<or> length buf - nat n < unat m")
    case True
    with n Pair show ?thesis by (auto simp: wf_bytes_def consumed_def)
  next
    case False
    with n have "0 < n" "n \<le> int (length buf)" "unat m \<le> length buf - nat n"
      by (auto simp: consumed_def)
    with m have "0 < n + int (unat m)" "n + int (unat m) \<le> int (length buf)" by linarith+
    with False Pair show ?thesis by (simp add: wf_bytes_def consumed_def)
  qed
qed

lemma wf_tag_round:
  assumes "field_tag num t"
  shows "wf_tag (uvarint (nat num * 8 + nat t) @ r) =
    (num, t, int (length (uvarint (nat num * 8 + nat t))))"
proof -
  let ?v = "nat num * 8 + nat t"
  from assms have n: "1 \<le> nat num" "nat num \<le> 2 ^ 29 - 1" and t: "nat t \<le> 5" and
    nn: "int (nat num) = num" "int (nat t) = t"
    by (auto simp: field_tag_def nat_le_iff)
  then have v: "?v < 2 ^ 64" by simp
  then have u: "unat (word_of_nat ?v :: u64) = ?v"
    by (simp add: unat_of_nat del: of_nat_add of_nat_mult)
  have "?v div 8 = nat num" "?v mod 8 = nat t" using t by simp_all
  then show ?thesis using n nn unfolding wf_tag_def wf_varint_uvarint [OF v]
    by (simp add: u Let_def del: of_nat_add of_nat_mult)
qed

lemma wf_bytes_round:
  assumes "length x < 2 ^ 63"
  shows "wf_bytes (uvarint (length x) @ x @ r) = (x, int (length (uvarint (length x) @ x)))"
proof -
  from assms have v: "length x < 2 ^ 64" by simp
  then have u: "unat (word_of_nat (length x) :: u64) = length x" by (simp add: unat_of_nat)
  show ?thesis unfolding wf_bytes_def wf_varint_uvarint [OF v] by (simp add: u)
qed

interpretation wire: protowire_laws wire_format
proof
  show "consumed (snd (ConsumeFixed32 wire_format buf)) buf" for buf
    by (simp add: wf_fixed32_def consumed_def)
  show "consumed (snd (ConsumeFixed64 wire_format buf)) buf" for buf
    by (simp add: wf_fixed64_def consumed_def)
  show "ConsumeVarint wire_format (AppendVarint wire_format [] v @ r) =
      (v, int (length (AppendVarint wire_format [] v)))" for v r
    using wf_varint_uvarint [of "unat v" r] unat_bound [of v] by simp
  show "field_tag num t \<Longrightarrow> ConsumeTag wire_format (AppendTag wire_format [] num t @ r) =
      (num, t, int (length (AppendTag wire_format [] num t)))" for num t r
    using wf_tag_round [of num t r] by simp
  show "length x < 2 ^ 63 \<Longrightarrow> ConsumeBytes wire_format (AppendBytes wire_format [] x @ r) =
      (x, int (length (AppendBytes wire_format [] x)))" for x r
    using wf_bytes_round [of x r] by simp
qed (simp_all add: wf_tag_consumed wf_varint_consumed wf_bytes_consumed)

end
