(* ===== verification/MptCodec.thy ===== *)
theory MptCodec
  imports Mpt WireFormat
begin

section \<open>Trie nodes: termination and round trips of the codec\<close>

text \<open>
  Every decoder of mpt.go returns on every input, decodes a message as a fold over its fields,
  and reads back the nodes the encoders write, whatever order a branch's map is ranged over.
\<close>

subsection \<open>Termination\<close>

context protowire_laws
begin

lemma branchNode_shrinking: "shrinking (branchNode_body P)"
  by (rule shrinking_by_tag)
    (auto simp: branchNode_body_def skip_step_def Let_def split: prod.splits if_splits sum.splits)

lemma branch_shrinking: "shrinking (branch_body P)"
  by (rule shrinking_by_tag)
    (auto simp: branch_body_def Let_def split: prod.splits if_splits sum.splits option.splits)

lemma leaf_shrinking: "shrinking (leaf_body P)"
  by (rule shrinking_by_tag)
    (auto simp: leaf_body_def skip_step_def Let_def split: prod.splits if_splits sum.splits)

lemma extend_shrinking: "shrinking (extend_body P)"
  by (rule shrinking_by_tag)
    (auto simp: extend_body_def skip_step_def Let_def split: prod.splits if_splits sum.splits)

lemma node_shrinking: "shrinking (node_body P)"
  by (rule shrinking_by_tag)
    (auto simp: node_body_def Let_def split: prod.splits if_splits sum.splits)

lemma decodeBranchNodePb_total: "\<exists>r. decodeBranchNodePb P data = Some r"
  unfolding decodeBranchNodePb_def by (rule buf_loop_total [OF branchNode_shrinking])

lemma decodeBranchNodePb_not_None: "decodeBranchNodePb P data \<noteq> None"
  using decodeBranchNodePb_total by simp

lemma decodeLeafPb_total: "\<exists>r. decodeLeafPb P data = Some r"
  unfolding decodeLeafPb_def by (rule buf_loop_total [OF leaf_shrinking])

lemma decodeExtendPb_total: "\<exists>r. decodeExtendPb P data = Some r"
  unfolding decodeExtendPb_def by (rule buf_loop_total [OF extend_shrinking])

lemma branch_body_returns: "branch_body P acc buf = Return r \<Longrightarrow> r \<noteq> None"
  by (auto simp: decodeBranchNodePb_not_None branch_body_def Let_def split: prod.splits if_splits sum.splits option.splits)

lemma decodeBranchPb_total: "\<exists>r. decodeBranchPb P data = Some r"
proof -
  obtain r where r: "buf_loop (branch_body P) (\<lambda>c. Some (Inr c)) Map.empty data = Some r"
    using buf_loop_total [OF branch_shrinking] by blast
  have "r \<noteq> None"
    by (rule buf_loop_invariant [OF branch_shrinking, where I = "\<lambda>_. True", OF _ _ _ _ r])
      (auto dest: branch_body_returns)
  with r show ?thesis by (auto simp: decodeBranchPb_def)
qed

lemma node_body_returns: "node_body P acc buf = Return r \<Longrightarrow> r \<noteq> None"
  using decodeBranchPb_total decodeLeafPb_total decodeExtendPb_total
  by (auto simp: node_body_def Let_def split: prod.splits if_splits sum.splits)

lemma decodeNodePb_total: "\<exists>r. decodeNodePb P data = Some r"
proof -
  obtain r where r: "buf_loop (node_body P) (\<lambda>_. Some (Inl InvalidNode)) () data = Some r"
    using buf_loop_total [OF node_shrinking] by blast
  have "r \<noteq> None"
    by (rule buf_loop_invariant [OF node_shrinking, where I = "\<lambda>_. True", OF _ _ _ _ r])
      (auto dest: node_body_returns)
  with r show ?thesis by (auto simp: decodeNodePb_def)
qed

end

subsection \<open>Decoding is a fold over the fields\<close>

fun branchNode_app :: "u32 \<times> bytes \<Rightarrow> field \<Rightarrow> u32 \<times> bytes" where
  "branchNode_app (i, p) (FVarint k v) = (if k = 1 then (ucast v, p) else (i, p))"
| "branchNode_app (i, p) (FBytes k x) = (if k = 2 then (i, x) else (i, p))"

fun leaf_app :: "mptLeafNode \<Rightarrow> field \<Rightarrow> mptLeafNode" where
  "leaf_app l (FVarint k v) = l"
| "leaf_app l (FBytes k x) =
     (if k = 2 then l\<lparr>lf_key := x\<rparr> else if k = 3 then l\<lparr>lf_value := Some x\<rparr> else l)"

fun extend_app :: "mptExtNode \<Rightarrow> field \<Rightarrow> mptExtNode" where
  "extend_app e (FVarint k v) = e"
| "extend_app e (FBytes k x) =
     (if k = 1 then e\<lparr>ex_path := x\<rparr> else if k = 2 then e\<lparr>childHash := x\<rparr> else e)"

context protowire_laws
begin

lemma skip_varint: "skip_step P (AppendVarint P [] v @ r) VarintType acc = Next acc r"
  by (simp add: skip_step_def skipField_def varint_round)

lemma skip_bytes:
  "length x < 2 ^ 63 \<Longrightarrow> skip_step P (AppendBytes P [] x @ r) BytesType acc = Next acc r"
  by (simp add: skip_step_def skipField_def bytes_round)

lemmas field_steps = drop_tag varint_round bytes_round skip_varint skip_bytes

lemma branchNode_field:
  assumes "wf_field f"
  shows "branchNode_body P acc (enc_field P f @ r) = Next (branchNode_app acc f) r"
  unfolding branchNode_body_def consume_tag [OF assms]
  using assms by (cases f; cases acc) (simp_all add: Let_def field_steps)

lemma leaf_field:
  assumes "wf_field f"
  shows "leaf_body P acc (enc_field P f @ r) = Next (leaf_app acc f) r"
  unfolding leaf_body_def consume_tag [OF assms]
  using assms by (cases f) (simp_all add: Let_def field_steps)

lemma extend_field:
  assumes "wf_field f"
  shows "extend_body P acc (enc_field P f @ r) = Next (extend_app acc f) r"
  unfolding extend_body_def consume_tag [OF assms]
  using assms by (cases f) (simp_all add: Let_def field_steps)

lemma decodeBranchNodePb_fields:
  "(\<And>f. f \<in> set fs \<Longrightarrow> wf_field f) \<Longrightarrow>
   decodeBranchNodePb P (enc_fields P fs) = Some (Inr (foldl branchNode_app (0, []) fs))"
  using buf_loop_fields [of fs "branchNode_body P" branchNode_app Inr "(0, [])" "[]"]
  by (simp add: decodeBranchNodePb_def branchNode_field)

lemma decodeLeafPb_fields:
  "(\<And>f. f \<in> set fs \<Longrightarrow> wf_field f) \<Longrightarrow>
   decodeLeafPb P (enc_fields P fs) = Some (Inr (foldl leaf_app empty_leaf fs))"
  using buf_loop_fields [of fs "leaf_body P" leaf_app Inr empty_leaf "[]"]
  by (simp add: decodeLeafPb_def leaf_field)

lemma decodeExtendPb_fields:
  "(\<And>f. f \<in> set fs \<Longrightarrow> wf_field f) \<Longrightarrow>
   decodeExtendPb P (enc_fields P fs) = Some (Inr (foldl extend_app empty_ext fs))"
  using buf_loop_fields [of fs "extend_body P" extend_app Inr empty_ext "[]"]
  by (simp add: decodeExtendPb_def extend_field)

text \<open>The outer message: the first node field decides.\<close>

lemma decodeNodePb_field:
  assumes "length x < 2 ^ 63"
  shows "decodeNodePb P (enc_field P (FBytes 2 x) @ r) = map_option (map_sum id NodeB) (decodeBranchPb P x)"
    and "decodeNodePb P (enc_field P (FBytes 3 x) @ r) = map_option (map_sum id NodeL) (decodeLeafPb P x)"
    and "decodeNodePb P (enc_field P (FBytes 4 x) @ r) = map_option (map_sum id NodeE) (decodeExtendPb P x)"
proof -
  have wf: "wf_field (FBytes 2 x)" "wf_field (FBytes 3 x)" "wf_field (FBytes 4 x)"
    using assms by simp_all
  have "node_body P () (enc_field P (FBytes 2 x) @ r) =
      Return (map_option (map_sum id NodeB) (decodeBranchPb P x))"
    unfolding node_body_def consume_tag [OF wf(1)]
    using assms by (simp add: Let_def field_steps)
  then show "decodeNodePb P (enc_field P (FBytes 2 x) @ r) =
      map_option (map_sum id NodeB) (decodeBranchPb P x)"
    using wf(1) by (simp add: decodeNodePb_def buf_loop_Return)
  have "node_body P () (enc_field P (FBytes 3 x) @ r) =
      Return (map_option (map_sum id NodeL) (decodeLeafPb P x))"
    unfolding node_body_def consume_tag [OF wf(2)]
    using assms by (simp add: Let_def field_steps)
  then show "decodeNodePb P (enc_field P (FBytes 3 x) @ r) =
      map_option (map_sum id NodeL) (decodeLeafPb P x)"
    using wf(2) by (simp add: decodeNodePb_def buf_loop_Return)
  have "node_body P () (enc_field P (FBytes 4 x) @ r) =
      Return (map_option (map_sum id NodeE) (decodeExtendPb P x))"
    unfolding node_body_def consume_tag [OF wf(3)]
    using assms by (simp add: Let_def field_steps)
  then show "decodeNodePb P (enc_field P (FBytes 4 x) @ r) =
      map_option (map_sum id NodeE) (decodeExtendPb P x)"
    using wf(3) by (simp add: decodeNodePb_def buf_loop_Return)
qed

end

subsection \<open>Round trips\<close>

definition branch_entry :: "protowire \<Rightarrow> byte \<times> bytes \<Rightarrow> field" where
  "branch_entry P e = FBytes 1 (enc_fields P [FVarint 1 (ucast (fst e)), FBytes 2 (snd e)])"

fun put_entry :: "(byte \<rightharpoonup> bytes) \<Rightarrow> byte \<times> bytes \<Rightarrow> (byte \<rightharpoonup> bytes)" where
  "put_entry m (k, v) = m(k \<mapsto> v)"

lemma foldl_put_entry: "foldl put_entry m es = m ++ map_of (rev es)"
  by (induction es arbitrary: m) (auto simp: map_add_def fun_eq_iff split: option.splits)

lemma foldl_put_entry_distinct:
  assumes "distinct (map fst es)"
  shows "foldl put_entry Map.empty es = map_of es"
proof -
  have "distinct (map fst (rev es))" using assms by (simp add: rev_map [symmetric])
  then have "map_of (rev es) k = Some v \<longleftrightarrow> map_of es k = Some v" for k v
    using assms by simp
  then have "map_of (rev es) = map_of es" by (metis option.exhaust ext)
  then show ?thesis by (simp add: foldl_put_entry)
qed

lemma ucast_byte [simp]: "ucast (ucast (ucast (b :: byte) :: u64) :: u32) = b"
  by (rule bit_word_eqI) (simp add: bit_simps)

context protowire_laws
begin

lemma enc_bytes_length: "length x \<le> length (enc_field P (FBytes k x))"
  using bytes_length [of x] by (simp add: enc_field_def)

lemma encodeLeafNode_fields:
  "encodeLeafNode P k v = enc_field P (FBytes 3 (enc_fields P [FBytes 2 k, FBytes 3 v]))"
  by (simp add: encodeLeafNode_def Let_def append_field)

lemma encodeExtensionNode_fields:
  "encodeExtensionNode P p h = enc_field P (FBytes 4 (enc_fields P [FBytes 1 p, FBytes 2 h]))"
  by (simp add: encodeExtensionNode_def Let_def append_field)

lemma branch_entries_fields:
  "branch_entries P b es = b @ enc_fields P (map (branch_entry P) es)"
proof (induction es arbitrary: b)
  case (Cons e es)
  then show ?case by (cases e) (simp add: branch_entry_def Let_def append_field)
qed simp

lemma encodeBranchNode_fields:
  "encodeBranchNode P es = enc_field P (FBytes 2 (enc_fields P (map (branch_entry P) es)))"
  by (simp add: encodeBranchNode_def Let_def append_field branch_entries_fields)

lemma branch_entry_step:
  assumes "wf_field (branch_entry P e)"
  shows "branch_body P acc (enc_field P (branch_entry P e) @ r) = Next (put_entry acc e) r"
proof (cases e)
  case (Pair k v)
  let ?x = "enc_fields P [FVarint 1 (ucast k), FBytes 2 v]"
  from assms Pair have x: "length ?x < 2 ^ 63" by (simp add: branch_entry_def)
  then have "length v < 2 ^ 63" using enc_bytes_length [of v 2] by simp
  then have "decodeBranchNodePb P ?x = Some (Inr (ucast (ucast k :: u64), v))"
    by (subst decodeBranchNodePb_fields) auto
  moreover have wf: "wf_field (FBytes 1 ?x)" using assms Pair by (simp add: branch_entry_def)
  ultimately show ?thesis
    unfolding branch_body_def Pair branch_entry_def fst_conv snd_conv consume_tag [OF wf]
    using x by (simp add: Let_def drop_tag bytes_round)
qed

lemma decodeBranchPb_round:
  assumes "length (enc_fields P (map (branch_entry P) es)) < 2 ^ 63"
  shows "decodeBranchPb P (enc_fields P (map (branch_entry P) es)) =
    Some (Inr (foldl put_entry Map.empty es))"
proof -
  have "buf_loop (branch_body P) (\<lambda>c. Some (Inr c)) m (enc_fields P (map (branch_entry P) es)) =
      Some (Some (Inr (foldl put_entry m es)))" for m
    using assms
  proof (induction es arbitrary: m)
    case (Cons e es)
    have "length (enc_fields P [FVarint 1 (ucast (fst e)), FBytes 2 (snd e)]) < 2 ^ 63"
      using Cons.prems enc_bytes_length [of "enc_fields P [FVarint 1 (ucast (fst e)), FBytes 2 (snd e)]" 1]
      by (simp add: branch_entry_def)
    then have wf: "wf_field (branch_entry P e)" by (simp add: branch_entry_def)
    then have "buf_loop (branch_body P) (\<lambda>c. Some (Inr c)) m (enc_fields P (map (branch_entry P) (e # es))) =
        buf_loop (branch_body P) (\<lambda>c. Some (Inr c)) (put_entry m e) (enc_fields P (map (branch_entry P) es))"
      by (intro buf_loop_Next) (simp_all add: branch_entry_step)
    with Cons show ?case by simp
  qed simp
  then show ?thesis by (simp add: decodeBranchPb_def)
qed

lemma decode_encodeLeafNode:
  assumes "length (encodeLeafNode P k v) < 2 ^ 63"
  shows "decodeNodePb P (encodeLeafNode P k v) = Some (Inr (NodeL \<lparr>lf_key = k, lf_value = Some v\<rparr>))"
proof -
  let ?x = "enc_fields P [FBytes 2 k, FBytes 3 v]"
  have x: "length ?x < 2 ^ 63"
    using assms enc_bytes_length [of ?x 3] by (simp add: encodeLeafNode_fields)
  then have "length k < 2 ^ 63" "length v < 2 ^ 63"
    using enc_bytes_length [of k 2] enc_bytes_length [of v 3] by simp_all
  then have "decodeLeafPb P ?x = Some (Inr \<lparr>lf_key = k, lf_value = Some v\<rparr>)"
    by (subst decodeLeafPb_fields) (auto simp: empty_leaf_def)
  then show ?thesis
    using decodeNodePb_field(2) [OF x, of "[]"] by (simp add: encodeLeafNode_fields)
qed

lemma decode_encodeExtensionNode:
  assumes "length (encodeExtensionNode P p h) < 2 ^ 63"
  shows "decodeNodePb P (encodeExtensionNode P p h) = Some (Inr (NodeE \<lparr>ex_path = p, childHash = h\<rparr>))"
proof -
  let ?x = "enc_fields P [FBytes 1 p, FBytes 2 h]"
  have x: "length ?x < 2 ^ 63"
    using assms enc_bytes_length [of ?x 4] by (simp add: encodeExtensionNode_fields)
  then have "length p < 2 ^ 63" "length h < 2 ^ 63"
    using enc_bytes_length [of p 1] enc_bytes_length [of h 2] by simp_all
  then have "decodeExtendPb P ?x = Some (Inr \<lparr>ex_path = p, childHash = h\<rparr>)"
    by (subst decodeExtendPb_fields) (auto simp: empty_ext_def)
  then show ?thesis
    using decodeNodePb_field(3) [OF x, of "[]"] by (simp add: encodeExtensionNode_fields)
qed

lemma decode_encodeBranchNode:
  assumes "length (encodeBranchNode P es) < 2 ^ 63" and "distinct (map fst es)"
  shows "decodeNodePb P (encodeBranchNode P es) = Some (Inr (NodeB (map_of es)))"
proof -
  let ?x = "enc_fields P (map (branch_entry P) es)"
  have x: "length ?x < 2 ^ 63"
    using assms(1) enc_bytes_length [of ?x 2] by (simp add: encodeBranchNode_fields)
  then show ?thesis
    using decodeNodePb_field(1) [OF x, of "[]"] assms(2)
    by (simp add: encodeBranchNode_fields decodeBranchPb_round foldl_put_entry_distinct)
qed

end

end
