(* ===== verification/Types.thy ===== *)
theory Types
  imports Prelude
begin

section \<open>Messages and tasks (types.go)\<close>

text \<open>
  The structs agent and coordinator exchange. A pointer that may be nil is an option; a Go map
  the code only ranges over is the list of its entries in the order the range visits them; a
  \<open>float64\<close> is carried as its 64 bits, since no modelled code computes with one. The reject
  reasons, notes and execution errors of a result are constructors, one per message of the
  source, which are strings there.
\<close>

type_synonym float64 = "64 word"

record registerRequest =
  rqAgentID :: string
  rqCapability :: int
  rqRegion :: string
  rqVersion :: string
  rqWalletAddress :: string

record registerResponse =
  rsAccepted :: bool
  rsReason :: string
  rsHeartbeatIntervalSec :: u32

record getTasksRequest =
  gtAgentID :: string
  gtMaxLevel :: int
  gtMaxBatchSize :: u32

record blockCtx =
  bcTimestamp :: u64
  bcGasLimit :: u64
  bcBaseFee :: string
  bcCoinbase :: string
  bcNumber :: u64

record evmTx =
  txTo :: string
  txValue :: string
  txData :: bytes
  txGasLimit :: u64
  txGasPrice :: string

record stateChange =
  scAddress :: string
  scSlot :: string
  scOldValue :: string
  scNewValue :: string

record logEntry =
  leAddress :: string
  leTopics :: "string list"
  leData :: bytes

record accountSnapshot =
  snAddress :: string
  snBalance :: string
  snNonce :: u64
  snCodeHash :: bytes

record taskPackage =
  tpTaskID :: u32
  tpTxRaw :: bytes
  tpLevel :: int
  tpSender :: "accountSnapshot option"
  tpReceiver :: "accountSnapshot option"
  tpBlockHeight :: u64
  tpBlockContext :: "blockCtx option"
  tpContractCode :: "(string \<times> bytes) list"
  tpStorageSlots :: "(string \<times> (string \<times> string) list) list"
  tpEvmTx :: "evmTx option"

record taskBatch =
  tbBatchID :: string
  tbTasks :: "taskPackage list"
  tbTimestamp :: u64

datatype exec_error =
    NoExecError
  | NoEvmTxData
  | NoSenderState
  | ValueOverflow
  | EvmFailed string
  | EvmPanic string

datatype reason =
    NoReason
  | TxTooShort
  | SigRZero
  | SigSZero
  | SigRTooBig
  | SigSTooBig
  | MissingSender
  | InvalidSenderBalance string
  | ZeroBalance
  | NonceTooLow u64 u64
  | StoreNotInitialized
  | ZeroBalanceLocal
  | NonceTooLowLocal u64 u64
  | ExecReason exec_error

datatype acct_source = Coord | Local

datatype result_note =
    NoNote
  | L2Only
  | L4Local u64
  | L4NoEvm u64 acct_source
  | L4Evm u64 acct_source

record taskResult =
  trTaskID :: u32
  trValid :: bool
  trRejectReason :: reason
  trNote :: result_note
  trGasEstimate :: u64
  trLatencyUs :: u64
  trGasUsed :: u64
  trReturnData :: bytes
  trStateChanges :: "stateChange list"
  trLogs :: "logEntry list"
  trExecError :: exec_error

record batchResult =
  brAgentID :: string
  brBatchID :: string
  brResults :: "taskResult list"
  brTimestamp :: u64

record submitResponse =
  suAccepted :: bool
  suReason :: string

record heartbeatRequest =
  hbAgentID :: string
  hbTasksProcessed :: u32
  hbTasksPending :: u32
  hbCPUUsage :: float64
  hbMemUsage :: float64

record payoutInfo =
  poEpoch :: u64
  poAmountIOTX :: float64
  poRank :: int
  poTotalAgents :: int

record heartbeatResponse =
  hrAlive :: bool
  hrDirective :: string
  hrPayout :: "payoutInfo option"

record streamStateDiffsRequest =
  sdAgentID :: string
  sdFromHeight :: u64

record stateDiffEntry =
  deWriteType :: u8
  deNamespace :: string
  deKey :: bytes
  deValue :: bytes

record stateDiffResponse =
  srHeight :: u64
  srEntries :: "stateDiffEntry list"
  srDigestBytes :: bytes

end
