(* ===== verification/Bolt.thy ===== *)
theory Bolt
  imports Prelude "HOL-Library.AList"
begin

section \<open>The key-value database\<close>

text \<open>
  \<open>go.etcd.io/bbolt\<close> is not under src/: a database is a value of any type \<open>'d\<close> and the
  operations the source calls are the fields of a record. \<open>bkBegin\<close> and \<open>bkCommit\<close> are the
  errors of opening and committing a transaction. The locale \<open>bolt_laws\<close> states the documented
  behaviour of buckets. \<open>bolt_update\<close> is \<open>db.Update\<close>: the function runs in a transaction that is
  committed when it returns no error and rolled back otherwise.
\<close>

type_synonym bolt_error = string

record 'd bolt =
  bkBegin :: "'d \<Rightarrow> bolt_error option"
  bkCommit :: "'d \<Rightarrow> bolt_error option"
  bkBucket :: "'d \<Rightarrow> string \<Rightarrow> bool"
  bkCreate :: "'d \<Rightarrow> string \<Rightarrow> bolt_error + 'd"
  bkPut :: "'d \<Rightarrow> string \<Rightarrow> bytes \<Rightarrow> bytes \<Rightarrow> bolt_error + 'd"
  bkDelete :: "'d \<Rightarrow> string \<Rightarrow> bytes \<Rightarrow> bolt_error + 'd"
  bkGet :: "'d \<Rightarrow> string \<Rightarrow> bytes \<Rightarrow> bytes option"
  bkKeyN :: "'d \<Rightarrow> string \<Rightarrow> nat"

definition bolt_update ::
  "'d bolt \<Rightarrow> (bolt_error \<Rightarrow> 'e) \<Rightarrow> ('d \<Rightarrow> 'e + 'd) \<Rightarrow> 'd \<Rightarrow> 'e + 'd" where
  "bolt_update B wrap f d =
     (case bkBegin B d of
        Some e \<Rightarrow> Inl (wrap e)
      | None \<Rightarrow>
          (case f d of
             Inl e \<Rightarrow> Inl e
           | Inr d' \<Rightarrow> (case bkCommit B d' of Some e \<Rightarrow> Inl (wrap e) | None \<Rightarrow> Inr d')))"

text \<open>What a read transaction sees: nothing under a bucket that is not there.\<close>

definition db_view :: "'d bolt \<Rightarrow> 'd \<Rightarrow> string \<Rightarrow> bytes \<Rightarrow> bytes option" where
  "db_view B d ns k = (if bkBucket B d ns then bkGet B d ns k else None)"

locale bolt_laws =
  fixes B :: "'d bolt"
  assumes create_bucket:
      "bkCreate B d ns = Inr d' \<Longrightarrow> bkBucket B d' ns' \<longleftrightarrow> ns' = ns \<or> bkBucket B d ns'"
    and create_view: "bkCreate B d ns = Inr d' \<Longrightarrow> db_view B d' = db_view B d"
    and put_bucket: "bkPut B d ns k v = Inr d' \<Longrightarrow> bkBucket B d' = bkBucket B d"
    and put_view: "bkBucket B d ns \<Longrightarrow> bkPut B d ns k v = Inr d' \<Longrightarrow>
      db_view B d' ns' k' = (if ns' = ns \<and> k' = k then Some v else db_view B d ns' k')"
    and delete_bucket: "bkDelete B d ns k = Inr d' \<Longrightarrow> bkBucket B d' = bkBucket B d"
    and delete_view: "bkBucket B d ns \<Longrightarrow> bkDelete B d ns k = Inr d' \<Longrightarrow>
      db_view B d' ns' k' = (if ns' = ns \<and> k' = k then None else db_view B d ns' k')"

subsection \<open>A database in memory\<close>

text \<open>
  Buckets as association lists, with bbolt's limits on names and keys: an empty bucket name
  and an empty or oversized key are refused. It discharges the laws and makes the store
  evaluate on concrete entries.
\<close>

type_synonym mem_db = "(string \<times> (bytes \<times> bytes) list) list"

definition mem_bucket :: "mem_db \<Rightarrow> string \<Rightarrow> (bytes \<times> bytes) list" where
  "mem_bucket d ns = (case map_of d ns of None \<Rightarrow> [] | Some b \<Rightarrow> b)"

definition mem_create :: "mem_db \<Rightarrow> string \<Rightarrow> bolt_error + mem_db" where
  "mem_create d ns =
     (if ns = [] then Inl ''bucket name required''
      else if map_of d ns = None then Inr ((ns, []) # d) else Inr d)"

definition mem_put :: "mem_db \<Rightarrow> string \<Rightarrow> bytes \<Rightarrow> bytes \<Rightarrow> bolt_error + mem_db" where
  "mem_put d ns k v =
     (if k = [] then Inl ''key required''
      else if 32768 < length k then Inl ''key too large''
      else if map_of d ns = None then Inl ''bucket not found''
      else Inr (AList.update ns (AList.update k v (mem_bucket d ns)) d))"

definition mem_delete :: "mem_db \<Rightarrow> string \<Rightarrow> bytes \<Rightarrow> bolt_error + mem_db" where
  "mem_delete d ns k =
     (if map_of d ns = None then Inl ''bucket not found''
      else Inr (AList.update ns (AList.delete k (mem_bucket d ns)) d))"

definition mem_bolt :: "mem_db bolt" where
  "mem_bolt =
     \<lparr>bkBegin = (\<lambda>d. None), bkCommit = (\<lambda>d. None),
      bkBucket = (\<lambda>d ns. map_of d ns \<noteq> None),
      bkCreate = mem_create, bkPut = mem_put, bkDelete = mem_delete,
      bkGet = (\<lambda>d ns k. map_of (mem_bucket d ns) k),
      bkKeyN = (\<lambda>d ns. length (mem_bucket d ns))\<rparr>"

lemma mem_bolt_simps [simp]:
  "bkBegin mem_bolt d = None" "bkCommit mem_bolt d = None"
  "bkBucket mem_bolt d ns \<longleftrightarrow> map_of d ns \<noteq> None"
  "bkCreate mem_bolt = mem_create" "bkPut mem_bolt = mem_put" "bkDelete mem_bolt = mem_delete"
  "bkGet mem_bolt d ns k = map_of (mem_bucket d ns) k"
  "bkKeyN mem_bolt d ns = length (mem_bucket d ns)"
  by (simp_all add: mem_bolt_def)

lemma db_view_mem_bolt: "db_view mem_bolt d ns k = map_of (mem_bucket d ns) k"
  by (simp add: db_view_def mem_bucket_def)

interpretation mem: bolt_laws mem_bolt
proof
  fix d ns d' ns' k v k'
  show "bkCreate mem_bolt d ns = Inr d' \<Longrightarrow> bkBucket mem_bolt d' ns' \<longleftrightarrow> ns' = ns \<or> bkBucket mem_bolt d ns'"
    by (auto simp: mem_create_def split: if_splits)
  show "bkCreate mem_bolt d ns = Inr d' \<Longrightarrow> db_view mem_bolt d' = db_view mem_bolt d"
    by (auto simp: mem_create_def db_view_mem_bolt mem_bucket_def fun_eq_iff split: if_splits)
  show "bkPut mem_bolt d ns k v = Inr d' \<Longrightarrow> bkBucket mem_bolt d' = bkBucket mem_bolt d"
    by (auto simp: mem_put_def update_conv' fun_eq_iff split: if_splits)
  show "bkBucket mem_bolt d ns \<Longrightarrow> bkPut mem_bolt d ns k v = Inr d' \<Longrightarrow>
      db_view mem_bolt d' ns' k' = (if ns' = ns \<and> k' = k then Some v else db_view mem_bolt d ns' k')"
    by (auto simp: mem_put_def db_view_mem_bolt mem_bucket_def update_conv' split: if_splits)
  show "bkDelete mem_bolt d ns k = Inr d' \<Longrightarrow> bkBucket mem_bolt d' = bkBucket mem_bolt d"
    by (auto simp: mem_delete_def update_conv' fun_eq_iff split: if_splits)
  show "bkBucket mem_bolt d ns \<Longrightarrow> bkDelete mem_bolt d ns k = Inr d' \<Longrightarrow>
      db_view mem_bolt d' ns' k' = (if ns' = ns \<and> k' = k then None else db_view mem_bolt d ns' k')"
    by (auto simp: mem_delete_def db_view_mem_bolt mem_bucket_def update_conv' delete_conv' split: if_splits)
qed

end
