(* ===== verification/Store.thy ===== *)
theory Store
  imports Types Bolt Account WireFormat
begin

section \<open>The state store (statestore.go)\<close>

text \<open>
  \<open>OpenStateStore\<close>, \<open>ApplyDiff\<close> and the readers. The store is the database and the in-memory
  height (the atomic the code updates after a commit); the logger has no effect. \<open>bolt.Open\<close> is
  the argument of \<open>OpenStateStore\<close>. \<open>NilBucket\<close> is the panic of a method call on a nil bucket.
\<close>

record 'd stateStore =
  st_db :: "'d"
  st_height :: u64

definition nsAccount :: string where "nsAccount = ''Account''"
definition nsCode :: string where "nsCode = ''Code''"
definition nsContract :: string where "nsContract = ''Contract''"
definition nsMeta :: string where "nsMeta = ''_meta''"
definition metaHeight :: bytes where "metaHeight = bytes_of_string ''height''"

lemmas ns_defs = nsAccount_def nsCode_def nsContract_def nsMeta_def

definition WriteTypePut :: u8 where "WriteTypePut = 0"
definition WriteTypeDelete :: u8 where "WriteTypeDelete = 1"

datatype store_error =
    OpenFailed bolt_error
  | InitBuckets bolt_error
  | CreateBucket string bolt_error
  | BoltFailed bolt_error
  | NilBucket
  | BadAccount account_error

subsection \<open>Opening\<close>

fun create_buckets :: "'d bolt \<Rightarrow> string list \<Rightarrow> 'd \<Rightarrow> store_error + 'd" where
  "create_buckets B [] d = Inr d"
| "create_buckets B (ns # nss) d =
     (case bkCreate B d ns of
        Inl e \<Rightarrow> Inl (InitBuckets e)
      | Inr d' \<Rightarrow> create_buckets B nss d')"

text \<open>The height the meta bucket holds: 0 unless the value is eight bytes long.\<close>

definition persisted_height :: "'d bolt \<Rightarrow> 'd \<Rightarrow> u64" where
  "persisted_height B d =
     (if bkBucket B d nsMeta then
        (case bkGet B d nsMeta metaHeight of
           Some v \<Rightarrow> if length v = 8 then be_u64 v else 0
         | None \<Rightarrow> 0)
      else 0)"

definition OpenStateStore :: "'d bolt \<Rightarrow> bolt_error + 'd \<Rightarrow> store_error + 'd stateStore" where
  "OpenStateStore B opened =
     (case opened of
        Inl e \<Rightarrow> Inl (OpenFailed e)
      | Inr d \<Rightarrow>
          (case bolt_update B InitBuckets
                  (create_buckets B [nsAccount, nsCode, nsContract, nsMeta]) d of
             Inl e \<Rightarrow> Inl e
           | Inr d' \<Rightarrow> Inr \<lparr>st_db = d', st_height = persisted_height B d'\<rparr>))"

definition Height :: "'d stateStore \<Rightarrow> u64" where
  "Height s = st_height s"

subsection \<open>Applying a block's diff\<close>

definition ensure_bucket :: "'d bolt \<Rightarrow> string \<Rightarrow> 'd \<Rightarrow> store_error + 'd" where
  "ensure_bucket B ns d =
     (if bkBucket B d ns then Inr d
      else (case bkCreate B d ns of Inl e \<Rightarrow> Inl (CreateBucket ns e) | Inr d' \<Rightarrow> Inr d'))"

definition apply_entry :: "'d bolt \<Rightarrow> stateDiffEntry \<Rightarrow> 'd \<Rightarrow> store_error + 'd" where
  "apply_entry B e d =
     (case ensure_bucket B (deNamespace e) d of
        Inl x \<Rightarrow> Inl x
      | Inr d' \<Rightarrow>
          if deWriteType e = WriteTypePut then
            map_sum BoltFailed id (bkPut B d' (deNamespace e) (deKey e) (deValue e))
          else if deWriteType e = WriteTypeDelete then
            map_sum BoltFailed id (bkDelete B d' (deNamespace e) (deKey e))
          else Inr d')"

fun apply_entries :: "'d bolt \<Rightarrow> stateDiffEntry list \<Rightarrow> 'd \<Rightarrow> store_error + 'd" where
  "apply_entries B [] d = Inr d"
| "apply_entries B (e # es) d =
     (case apply_entry B e d of Inl x \<Rightarrow> Inl x | Inr d' \<Rightarrow> apply_entries B es d')"

definition put_height :: "'d bolt \<Rightarrow> u64 \<Rightarrow> 'd \<Rightarrow> store_error + 'd" where
  "put_height B h d =
     (if bkBucket B d nsMeta then map_sum BoltFailed id (bkPut B d nsMeta metaHeight (put_u64 h))
      else Inl NilBucket)"

definition diff_tx :: "'d bolt \<Rightarrow> u64 \<Rightarrow> stateDiffEntry list \<Rightarrow> 'd \<Rightarrow> store_error + 'd" where
  "diff_tx B h entries d =
     (case apply_entries B entries d of Inl x \<Rightarrow> Inl x | Inr d' \<Rightarrow> put_height B h d')"

text \<open>The error, if any, and the store after the call.\<close>

definition ApplyDiff ::
  "'d bolt \<Rightarrow> 'd stateStore \<Rightarrow> u64 \<Rightarrow> stateDiffEntry list \<Rightarrow> store_error option \<times> 'd stateStore" where
  "ApplyDiff B s h entries =
     (case bolt_update B BoltFailed (diff_tx B h entries) (st_db s) of
        Inl x \<Rightarrow> (Some x, s)
      | Inr d' \<Rightarrow> (None, s\<lparr>st_db := d', st_height := h\<rparr>))"

subsection \<open>Readers\<close>

definition Get :: "'d bolt \<Rightarrow> 'd stateStore \<Rightarrow> string \<Rightarrow> bytes \<Rightarrow> bolt_error + bytes option" where
  "Get B s ns k =
     (case bkBegin B (st_db s) of
        Some e \<Rightarrow> Inl e
      | None \<Rightarrow> Inr (if bkBucket B (st_db s) ns then bkGet B (st_db s) ns k else None))"

definition GetAccount ::
  "protowire \<Rightarrow> 'd bolt \<Rightarrow> 'd stateStore \<Rightarrow> bytes \<Rightarrow> (store_error + iotxAccount option) option" where
  "GetAccount P B s addrHash =
     (case Get B s nsAccount addrHash of
        Inl e \<Rightarrow> Some (Inl (BoltFailed e))
      | Inr None \<Rightarrow> Some (Inr None)
      | Inr (Some data) \<Rightarrow> map_option (map_sum BadAccount Some) (DecodeAccount P data))"

definition GetCode :: "'d bolt \<Rightarrow> 'd stateStore \<Rightarrow> bytes \<Rightarrow> bolt_error + bytes option" where
  "GetCode B s codeHash = Get B s nsCode codeHash"

definition Stats :: "'d bolt \<Rightarrow> 'd stateStore \<Rightarrow> string \<rightharpoonup> nat" where
  "Stats B s =
     (case bkBegin B (st_db s) of
        Some e \<Rightarrow> Map.empty
      | None \<Rightarrow> (\<lambda>ns. if ns \<in> set [nsAccount, nsCode, nsContract] \<and> bkBucket B (st_db s) ns
                      then Some (bkKeyN B (st_db s) ns) else None))"

end
