(* ===== verification/StoreSpec.thy ===== *)
theory StoreSpec
  imports Store
begin

section \<open>The store as a versioned map\<close>

text \<open>
  What the rest of the agent relies on: a store is a map from namespaces and keys to values
  with a height, and applying a diff either leaves it alone with an error or performs every
  entry in order and records the height. The contract is the locale \<open>versioned_store\<close>; the
  clients' lemmas (sequences of blocks, replays) are proved in it, and \<open>ApplyDiff\<close> over any
  lawful database satisfies it.
\<close>

type_synonym kv = "string \<Rightarrow> bytes \<Rightarrow> bytes option"

definition entry_effect :: "kv \<Rightarrow> stateDiffEntry \<Rightarrow> kv" where
  "entry_effect m e =
     (\<lambda>ns k. if ns = deNamespace e \<and> k = deKey e then
               (if deWriteType e = WriteTypePut then Some (deValue e)
                else if deWriteType e = WriteTypeDelete then None
                else m ns k)
             else m ns k)"

definition diff_effect :: "kv \<Rightarrow> stateDiffEntry list \<Rightarrow> kv" where
  "diff_effect m es = foldl entry_effect m es"

definition with_height :: "kv \<Rightarrow> u64 \<Rightarrow> kv" where
  "with_height m h = (\<lambda>ns k. if ns = nsMeta \<and> k = metaHeight then Some (put_u64 h) else m ns k)"

lemma diff_effect_simps [simp]:
  "diff_effect m [] = m"
  "diff_effect m (e # es) = diff_effect (entry_effect m e) es"
  "diff_effect m (es @ fs) = diff_effect (diff_effect m es) fs"
  by (simp_all add: diff_effect_def)

subsection \<open>The last write wins\<close>

definition writes :: "string \<Rightarrow> bytes \<Rightarrow> stateDiffEntry \<Rightarrow> bool" where
  "writes ns k e \<longleftrightarrow> deNamespace e = ns \<and> deKey e = k \<and> deWriteType e \<in> {WriteTypePut, WriteTypeDelete}"

definition written :: "stateDiffEntry \<Rightarrow> bytes option" where
  "written e = (if deWriteType e = WriteTypePut then Some (deValue e) else None)"

definition last_write :: "string \<Rightarrow> bytes \<Rightarrow> stateDiffEntry list \<Rightarrow> stateDiffEntry option" where
  "last_write ns k es = (let ws = filter (writes ns k) es in if ws = [] then None else Some (last ws))"

lemma entry_effect_writes:
  "entry_effect m e ns k = (if writes ns k e then written e else m ns k)"
  by (auto simp: entry_effect_def writes_def written_def WriteTypePut_def WriteTypeDelete_def)

lemma last_write_snoc:
  "last_write ns k (es @ [e]) = (if writes ns k e then Some e else last_write ns k es)"
  by (simp add: last_write_def Let_def)

lemma diff_effect_last_write:
  "diff_effect m es ns k = (case last_write ns k es of None \<Rightarrow> m ns k | Some e \<Rightarrow> written e)"
proof (induction es rule: rev_induct)
  case (snoc e es)
  then show ?case by (simp add: last_write_snoc entry_effect_writes)
qed (simp add: last_write_def)

lemma diff_effect_idem: "diff_effect (diff_effect m es) es = diff_effect m es"
  by (intro ext) (simp add: diff_effect_last_write split: option.split)

subsection \<open>The contract and its clients\<close>

fun run_blocks ::
  "('s \<Rightarrow> u64 \<Rightarrow> stateDiffEntry list \<Rightarrow> 'e option \<times> 's) \<Rightarrow>
   's \<Rightarrow> (u64 \<times> stateDiffEntry list) list \<Rightarrow> 'e option \<times> 's" where
  "run_blocks app s [] = (None, s)"
| "run_blocks app s ((h, es) # bs) =
     (case app s h es of
        (Some e, s') \<Rightarrow> (Some e, s')
      | (None, s') \<Rightarrow> run_blocks app s' bs)"

fun blocks_effect :: "kv \<Rightarrow> (u64 \<times> stateDiffEntry list) list \<Rightarrow> kv" where
  "blocks_effect m [] = m"
| "blocks_effect m ((h, es) # bs) = blocks_effect (with_height (diff_effect m es) h) bs"

locale versioned_store =
  fixes view :: "'s \<Rightarrow> kv"
    and ht :: "'s \<Rightarrow> u64"
    and app :: "'s \<Rightarrow> u64 \<Rightarrow> stateDiffEntry list \<Rightarrow> 'e option \<times> 's"
  assumes app_view: "app s h es = (None, s') \<Longrightarrow> view s' = with_height (diff_effect (view s) es) h"
    and app_height: "app s h es = (None, s') \<Longrightarrow> ht s' = h"
    and app_error: "app s h es = (Some e, s') \<Longrightarrow> s' = s"
begin

lemma run_blocks_Cons:
  "run_blocks app s ((h, es) # bs) = (None, s') \<Longrightarrow>
   \<exists>s1. app s h es = (None, s1) \<and> run_blocks app s1 bs = (None, s')"
  by (auto split: prod.splits option.splits)

lemma run_blocks_view:
  "run_blocks app s bs = (None, s') \<Longrightarrow> view s' = blocks_effect (view s) bs"
proof (induction bs arbitrary: s)
  case (Cons b bs)
  obtain h es where b: "b = (h, es)" by (cases b)
  from Cons.prems b obtain s1 where "app s h es = (None, s1)" "run_blocks app s1 bs = (None, s')"
    using run_blocks_Cons by blast
  then show ?case using Cons.IH app_view b by simp
qed simp

lemma run_blocks_height:
  "run_blocks app s bs = (None, s') \<Longrightarrow> ht s' = (if bs = [] then ht s else fst (last bs))"
proof (induction bs arbitrary: s)
  case (Cons b bs)
  obtain h es where b: "b = (h, es)" by (cases b)
  from Cons.prems b obtain s1 where "app s h es = (None, s1)" "run_blocks app s1 bs = (None, s')"
    using run_blocks_Cons by blast
  then show ?case using Cons.IH app_height b by simp
qed simp

text \<open>A failed run leaves exactly the blocks before the failing one applied.\<close>

lemma run_blocks_error:
  "run_blocks app s bs = (Some e, s') \<Longrightarrow>
   \<exists>pre h es post. bs = pre @ (h, es) # post \<and> run_blocks app s pre = (None, s') \<and>
     fst (app s' h es) = Some e"
proof (induction bs arbitrary: s)
  case (Cons b bs)
  obtain h es where b: "b = (h, es)" by (cases b)
  show ?case
  proof (cases "app s h es")
    case (Pair r s1)
    show ?thesis
    proof (cases r)
      case None
      with Cons.prems b Pair have "run_blocks app s1 bs = (Some e, s')" by simp
      from Cons.IH [OF this] obtain pre h' es' post where
        "bs = pre @ (h', es') # post" "run_blocks app s1 pre = (None, s')"
        "fst (app s' h' es') = Some e" by blast
      with b Pair None show ?thesis
        by (intro exI [of _ "(h, es) # pre"] exI [of _ h'] exI [of _ es'] exI [of _ post]) simp
    next
      case (Some x)
      with Cons.prems b Pair have x: "x = e" and s': "s' = s1" by auto
      with Pair Some app_error have "s1 = s" by blast
      with b Pair Some x s' show ?thesis
        by (intro exI [of _ "[]"] exI [of _ h] exI [of _ es] exI [of _ bs]) simp
    qed
  qed
qed simp

text \<open>Applying the same block again changes nothing.\<close>

lemma replay_view:
  assumes "app s h es = (None, s1)" and "app s1 h es = (None, s2)"
  shows "view s2 = view s1"
proof -
  have "with_height (diff_effect (with_height (diff_effect m es) h) es) h =
      with_height (diff_effect m es) h" for m
    by (intro ext) (simp add: with_height_def diff_effect_last_write split: option.split)
  with assms show ?thesis by (simp add: app_view)
qed

end

subsection \<open>\<open>ApplyDiff\<close> satisfies the contract\<close>

context bolt_laws
begin

lemma ensure_bucket_ok:
  "ensure_bucket B ns d = Inr d' \<Longrightarrow>
   db_view B d' = db_view B d \<and> bkBucket B d' ns \<and> (\<forall>n. bkBucket B d n \<longrightarrow> bkBucket B d' n)"
  using create_bucket create_view
  by (auto simp: ensure_bucket_def split: if_splits sum.splits)

lemma apply_entry_view:
  assumes "apply_entry B e d = Inr d'"
  shows "db_view B d' = entry_effect (db_view B d) e"
proof -
  from assms obtain d1 where d1: "ensure_bucket B (deNamespace e) d = Inr d1"
    by (auto simp: apply_entry_def split: sum.splits)
  note ok = ensure_bucket_ok [OF d1]
  then have b: "bkBucket B d1 (deNamespace e)" and v: "db_view B d1 = db_view B d" by blast+
  consider (put) "deWriteType e = WriteTypePut" "bkPut B d1 (deNamespace e) (deKey e) (deValue e) = Inr d'"
    | (del) "deWriteType e = WriteTypeDelete" "deWriteType e \<noteq> WriteTypePut"
        "bkDelete B d1 (deNamespace e) (deKey e) = Inr d'"
    | (skip) "deWriteType e \<noteq> WriteTypePut" "deWriteType e \<noteq> WriteTypeDelete" "d' = d1"
    using assms d1
    by (cases "bkPut B d1 (deNamespace e) (deKey e) (deValue e)";
        cases "bkDelete B d1 (deNamespace e) (deKey e)")
      (auto simp: apply_entry_def split: if_splits)
  then show ?thesis
    by cases (auto simp: entry_effect_def put_view [OF b] delete_view [OF b] v fun_eq_iff)
qed

lemma apply_entry_bucket:
  assumes "apply_entry B e d = Inr d'" and "bkBucket B d ns"
  shows "bkBucket B d' ns"
proof -
  from assms obtain d1 where d1: "ensure_bucket B (deNamespace e) d = Inr d1"
    by (auto simp: apply_entry_def split: sum.splits)
  from ensure_bucket_ok [OF d1] assms(2) have "bkBucket B d1 ns" by blast
  moreover have "bkBucket B d' = bkBucket B d1"
    using assms(1) d1
    by (cases "bkPut B d1 (deNamespace e) (deKey e) (deValue e)";
        cases "bkDelete B d1 (deNamespace e) (deKey e)")
      (auto simp: apply_entry_def dest: put_bucket delete_bucket split: if_splits)
  ultimately show ?thesis by simp
qed

lemma apply_entries_view: "apply_entries B es d = Inr d' \<Longrightarrow> db_view B d' = diff_effect (db_view B d) es"
  by (induction es arbitrary: d) (auto simp: apply_entry_view split: sum.splits)

lemma apply_entries_bucket: "apply_entries B es d = Inr d' \<Longrightarrow> bkBucket B d ns \<Longrightarrow> bkBucket B d' ns"
  by (induction es arbitrary: d) (auto dest: apply_entry_bucket split: sum.splits)

lemma put_height_view: "put_height B h d = Inr d' \<Longrightarrow> db_view B d' = with_height (db_view B d) h"
  by (cases "bkPut B d nsMeta metaHeight (put_u64 h)")
    (auto simp: put_height_def with_height_def put_view fun_eq_iff split: if_splits)

lemma put_height_bucket: "put_height B h d = Inr d' \<Longrightarrow> bkBucket B d' = bkBucket B d \<and> bkBucket B d' nsMeta"
  by (cases "bkPut B d nsMeta metaHeight (put_u64 h)")
    (auto simp: put_height_def dest: put_bucket split: if_splits)

lemma ApplyDiff_ok:
  "ApplyDiff B s h es = (None, s') \<Longrightarrow>
   db_view B (st_db s') = with_height (diff_effect (db_view B (st_db s)) es) h \<and> st_height s' = h"
  by (auto simp: ApplyDiff_def bolt_update_def diff_tx_def put_height_view apply_entries_view
      split: sum.splits option.splits)

lemma ApplyDiff_error: "ApplyDiff B s h es = (Some e, s') \<Longrightarrow> s' = s"
  by (auto simp: ApplyDiff_def split: sum.splits)

end

sublocale bolt_laws \<subseteq> vs: versioned_store "\<lambda>s. db_view B (st_db s)" st_height "ApplyDiff B"
  by unfold_locales (auto dest: ApplyDiff_ok ApplyDiff_error)

subsection \<open>Heights across restarts\<close>

text \<open>Between operations the in-memory height is the persisted one and the buckets exist.\<close>

definition store_inv :: "'d bolt \<Rightarrow> 'd stateStore \<Rightarrow> bool" where
  "store_inv B s \<longleftrightarrow>
     st_height s = persisted_height B (st_db s) \<and>
     (\<forall>ns \<in> set [nsAccount, nsCode, nsContract, nsMeta]. bkBucket B (st_db s) ns)"

context bolt_laws
begin

lemma persisted_height_view:
  "persisted_height B d =
     (case db_view B d nsMeta metaHeight of
        Some v \<Rightarrow> if length v = 8 then be_u64 v else 0 | None \<Rightarrow> 0)"
  by (simp add: persisted_height_def db_view_def)

lemma create_buckets_ok:
  "create_buckets B nss d = Inr d' \<Longrightarrow>
   db_view B d' = db_view B d \<and>
   (\<forall>ns. bkBucket B d' ns \<longleftrightarrow> ns \<in> set nss \<or> bkBucket B d ns)"
proof (induction nss arbitrary: d)
  case (Cons n nss)
  then show ?case
    by (auto split: sum.splits dest: create_bucket create_view)
qed simp

lemma OpenStateStore_ok:
  assumes "OpenStateStore B (Inr d) = Inr s"
  shows "store_inv B s" and "db_view B (st_db s) = db_view B d"
  using assms
  by (auto simp: OpenStateStore_def bolt_update_def store_inv_def simp del: create_buckets.simps
      split: sum.splits option.splits dest!: create_buckets_ok)

lemma ApplyDiff_inv:
  assumes "store_inv B s" and "ApplyDiff B s h es = (r, s')"
  shows "store_inv B s'"
proof (cases r)
  case (Some e)
  with assms ApplyDiff_error show ?thesis by blast
next
  case None
  with assms(2) have ok: "ApplyDiff B s h es = (None, s')" by simp
  have "persisted_height B (st_db s') = h"
    using ApplyDiff_ok [OF ok] by (simp add: persisted_height_view with_height_def)
  moreover from ok obtain d where d: "apply_entries B es (st_db s) = Inr d"
      "put_height B h d = Inr (st_db s')"
    by (auto simp: ApplyDiff_def bolt_update_def diff_tx_def split: sum.splits option.splits)
  ultimately show ?thesis
    using assms(1) ApplyDiff_ok [OF ok] put_height_bucket [OF d(2)] apply_entries_bucket [OF d(1)]
    by (auto simp: store_inv_def)
qed

lemma restart_height:
  assumes "store_inv B s" and "OpenStateStore B (Inr (st_db s)) = Inr s'"
  shows "st_height s' = st_height s" and "db_view B (st_db s') = db_view B (st_db s)"
proof -
  show v: "db_view B (st_db s') = db_view B (st_db s)" using OpenStateStore_ok(2) [OF assms(2)] .
  show "st_height s' = st_height s"
    using assms(1) OpenStateStore_ok(1) [OF assms(2)] v
    by (simp add: store_inv_def persisted_height_view)
qed

lemma Get_view: "Get B s ns k = Inr v \<Longrightarrow> v = db_view B (st_db s) ns k"
  by (auto simp: Get_def db_view_def split: option.splits)

end

lemma bolt_versioned:
  assumes "bolt_laws B"
  shows "versioned_store (\<lambda>s. db_view B (st_db s)) st_height (ApplyDiff B)"
  using bolt_laws.ApplyDiff_ok [OF assms] bolt_laws.ApplyDiff_error [OF assms]
  by unfold_locales blast+

text \<open>All the blocks in turn, whether they succeed or not.\<close>

definition apply_all :: "'d bolt \<Rightarrow> 'd stateStore \<Rightarrow> (u64 \<times> stateDiffEntry list) list \<Rightarrow> 'd stateStore" where
  "apply_all B s bs = foldl (\<lambda>s (h, es). snd (ApplyDiff B s h es)) s bs"

lemma apply_all_inv:
  assumes "bolt_laws B" and "store_inv B s"
  shows "store_inv B (apply_all B s bs)"
  using assms(2)
proof (induction bs arbitrary: s)
  case (Cons b bs)
  obtain h es where b: "b = (h, es)" by (cases b)
  obtain r s1 where s1: "ApplyDiff B s h es = (r, s1)" by (cases "ApplyDiff B s h es")
  from Cons.IH [OF bolt_laws.ApplyDiff_inv [OF assms(1) Cons.prems s1]] show ?case
    by (simp add: apply_all_def b s1)
qed (simp add: apply_all_def)

end
