(* ===== verification/TrieLookup.thy ===== *)
theory TrieLookup
  imports MptCodec StoreSpec
begin

section \<open>Trie lookups (mpt.go: trieGet, statestore.go: GetStorageSlot)\<close>

text \<open>
  \<open>trieGet\<close> follows node hashes through the Contract namespace. Its loop carries the hash of the
  next node and the offset in the key; a trie whose extension nodes do not move the offset can
  make it run forever, so the loop is \<open>None\<close> when it does not return.
\<close>

datatype trie_error =
    LoadNode bytes bolt_error
  | NodeNotFound bytes
  | DecodeNode bytes wire_error
  | KeyNotFound

definition emptyTrieRoot :: bytes where
  "emptyTrieRoot =
     [0x61, 0x8e, 0x1c, 0xe1, 0xff, 0xfb, 0x18, 0x25,
      0x15, 0x9f, 0x9a, 0xa2, 0xc2, 0xe9, 0x37, 0x24,
      0x02, 0xfb, 0xd0, 0xab]"

partial_function (option) trie_loop ::
  "protowire \<Rightarrow> 'd bolt \<Rightarrow> 'd stateStore \<Rightarrow> bytes \<Rightarrow> bytes \<Rightarrow> nat \<Rightarrow> (trie_error + bytes option) option" where
  "trie_loop W B s key nodeHash offset =
     (case Get B s nsContract nodeHash of
        Inl e \<Rightarrow> Some (Inl (LoadNode nodeHash e))
      | Inr None \<Rightarrow> Some (Inl (NodeNotFound nodeHash))
      | Inr (Some data) \<Rightarrow>
          (case decodeNodePb W data of
             None \<Rightarrow> None
           | Some (Inl e) \<Rightarrow> Some (Inl (DecodeNode nodeHash e))
           | Some (Inr (NodeB branch)) \<Rightarrow>
               if length key \<le> offset then Some (Inl KeyNotFound)
               else (case branch (key ! offset) of
                       None \<Rightarrow> Some (Inl KeyNotFound)
                     | Some child \<Rightarrow> trie_loop W B s key child (Suc offset))
           | Some (Inr (NodeE ext)) \<Rightarrow>
               if length key < offset + length (ex_path ext) then Some (Inl KeyNotFound)
               else if ex_path ext \<noteq> take (length (ex_path ext)) (drop offset key) then Some (Inl KeyNotFound)
               else trie_loop W B s key (childHash ext) (offset + length (ex_path ext))
           | Some (Inr (NodeL leaf)) \<Rightarrow>
               if length (lf_key leaf) < offset \<or> length key < offset then Some (Inl KeyNotFound)
               else if drop offset (lf_key leaf) \<noteq> drop offset key then Some (Inl KeyNotFound)
               else Some (Inr (lf_value leaf))))"

definition trieGet ::
  "protowire \<Rightarrow> 'd bolt \<Rightarrow> 'd stateStore \<Rightarrow> bytes \<Rightarrow> bytes \<Rightarrow> (trie_error + bytes option) option" where
  "trieGet P B s rootHash key =
     (if rootHash = [] \<or> rootHash = emptyTrieRoot then Some (Inl KeyNotFound)
      else trie_loop P B s key rootHash 0)"

text \<open>The two error wrappings of \<open>GetStorageSlot\<close>.\<close>

datatype slot_error = SlotAccount store_error | SlotTrie trie_error

definition GetStorageSlot ::
  "protowire \<Rightarrow> 'd bolt \<Rightarrow> 'd stateStore \<Rightarrow> bytes \<Rightarrow> bytes \<Rightarrow> (slot_error + bytes option) option" where
  "GetStorageSlot P B s addrHash slot =
     (case GetAccount P B s addrHash of
        None \<Rightarrow> None
      | Some (Inl e) \<Rightarrow> Some (Inl (SlotAccount e))
      | Some (Inr None) \<Rightarrow> Some (Inr None)
      | Some (Inr (Some acct)) \<Rightarrow>
          if acRoot acct = [] then Some (Inr None)
          else (case trieGet P B s (acRoot acct) slot of
                  None \<Rightarrow> None
                | Some (Inl e) \<Rightarrow> if e = KeyNotFound then Some (Inr None) else Some (Inl (SlotTrie e))
                | Some (Inr val) \<Rightarrow> Some (Inr val)))"

subsection \<open>Tries as maps from keys to values\<close>

text \<open>
  The abstract trie a store holds at a hash. A leaf holds the rest of its key, the way a lookup
  sees it; \<open>tlookup\<close> follows the rest of the key.
\<close>

datatype trie =
    TLeaf bytes "bytes option"
  | TExt bytes trie
  | TBranch "byte \<Rightarrow> trie option"

primrec tlookup :: "trie \<Rightarrow> bytes \<Rightarrow> bytes option option" where
  "tlookup (TLeaf rest v) = (\<lambda>key. if key = rest then Some v else None)"
| "tlookup (TExt p t) = (\<lambda>key. if take (length p) key = p then tlookup t (drop (length p) key) else None)"
| "tlookup (TBranch ts) = (\<lambda>key.
     (case key of
        [] \<Rightarrow> None
      | b # key' \<Rightarrow> (case map_option tlookup (ts b) of None \<Rightarrow> None | Some f \<Rightarrow> f key')))"

text \<open>The store holds the trie \<open>t\<close> at the hash, reached with \<open>off\<close> bytes of the key consumed.\<close>

inductive represents ::
  "protowire \<Rightarrow> 'd bolt \<Rightarrow> 'd stateStore \<Rightarrow> bytes \<Rightarrow> nat \<Rightarrow> trie \<Rightarrow> bool" for P B s where
  rep_leaf: "Get B s nsContract h = Inr (Some data) \<Longrightarrow> decodeNodePb P data = Some (Inr (NodeL l)) \<Longrightarrow>
    off \<le> length (lf_key l) \<Longrightarrow>
    represents P B s h off (TLeaf (drop off (lf_key l)) (lf_value l))"
| rep_ext: "Get B s nsContract h = Inr (Some data) \<Longrightarrow> decodeNodePb P data = Some (Inr (NodeE e)) \<Longrightarrow>
    represents P B s (childHash e) (off + length (ex_path e)) t \<Longrightarrow>
    represents P B s h off (TExt (ex_path e) t)"
| rep_branch: "Get B s nsContract h = Inr (Some data) \<Longrightarrow> decodeNodePb P data = Some (Inr (NodeB m)) \<Longrightarrow>
    (\<And>b. m b = None \<longleftrightarrow> ts b = None) \<Longrightarrow>
    (\<And>b c t. m b = Some c \<Longrightarrow> ts b = Some t \<Longrightarrow> represents P B s c (Suc off) t) \<Longrightarrow>
    represents P B s h off (TBranch ts)"

definition lookup_result :: "bytes option option \<Rightarrow> trie_error + bytes option" where
  "lookup_result r = (case r of None \<Rightarrow> Inl KeyNotFound | Some v \<Rightarrow> Inr v)"

text \<open>One iteration, by the kind of the node.\<close>

lemma trie_loop_leaf:
  "Get B s nsContract h = Inr (Some data) \<Longrightarrow> decodeNodePb P data = Some (Inr (NodeL l)) \<Longrightarrow>
   trie_loop P B s key h off =
     Some (if off \<le> length (lf_key l) \<and> off \<le> length key \<and> drop off (lf_key l) = drop off key
           then Inr (lf_value l) else Inl KeyNotFound)"
  by (subst trie_loop.simps) simp

lemma trie_loop_ext:
  "Get B s nsContract h = Inr (Some data) \<Longrightarrow> decodeNodePb P data = Some (Inr (NodeE e)) \<Longrightarrow>
   trie_loop P B s key h off =
     (if off + length (ex_path e) \<le> length key \<and> take (length (ex_path e)) (drop off key) = ex_path e
      then trie_loop P B s key (childHash e) (off + length (ex_path e))
      else Some (Inl KeyNotFound))"
  by (subst trie_loop.simps) auto

lemma trie_loop_branch:
  "Get B s nsContract h = Inr (Some data) \<Longrightarrow> decodeNodePb P data = Some (Inr (NodeB m)) \<Longrightarrow>
   trie_loop P B s key h off =
     (if off < length key then
        (case m (key ! off) of
           None \<Rightarrow> Some (Inl KeyNotFound) | Some c \<Rightarrow> trie_loop P B s key c (Suc off))
      else Some (Inl KeyNotFound))"
  by (subst trie_loop.simps) simp

lemma trie_loop_failed:
  "Get B s nsContract h = Inl e \<Longrightarrow> trie_loop P B s key h off = Some (Inl (LoadNode h e))"
  "Get B s nsContract h = Inr None \<Longrightarrow> trie_loop P B s key h off = Some (Inl (NodeNotFound h))"
  "Get B s nsContract h = Inr (Some data) \<Longrightarrow> decodeNodePb P data = Some (Inl e') \<Longrightarrow>
   trie_loop P B s key h off = Some (Inl (DecodeNode h e'))"
  by (subst trie_loop.simps, simp)+

lemma trie_loop_refines:
  assumes "represents P B s h off t" and "off \<le> length key"
  shows "trie_loop P B s key h off = Some (lookup_result (tlookup t (drop off key)))"
  using assms
proof (induction rule: represents.induct)
  case (rep_leaf h data l off)
  then show ?case
    by (auto simp: trie_loop_leaf [OF rep_leaf.hyps(1,2)] lookup_result_def)
next
  case (rep_ext h data e off t)
  let ?n = "length (ex_path e)"
  have "off + ?n \<le> length key" if "take ?n (drop off key) = ex_path e"
  proof -
    have "length (take ?n (drop off key)) = ?n" using that by simp
    with rep_ext.prems show ?thesis by simp
  qed
  moreover have "drop ?n (drop off key) = drop (off + ?n) key" by (simp add: add.commute)
  ultimately show ?case
    using rep_ext.IH by (simp add: trie_loop_ext [OF rep_ext.hyps(1,2)] lookup_result_def)
next
  case (rep_branch h data m ts off)
  note loop = trie_loop_branch [OF rep_branch.hyps(1,2)]
  show ?case
  proof (cases "off < length key")
    case False
    then show ?thesis by (simp add: loop lookup_result_def)
  next
    case True
    then have d: "drop off key = key ! off # drop (Suc off) key"
      by (simp add: Cons_nth_drop_Suc)
    show ?thesis
    proof (cases "m (key ! off)")
      case None
      with rep_branch.hyps(3) have "ts (key ! off) = None" by simp
      with None d True show ?thesis by (simp add: loop lookup_result_def)
    next
      case (Some c)
      with rep_branch.hyps(3) [of "key ! off"] obtain t where t: "ts (key ! off) = Some t" by auto
      from True have "Suc off \<le> length key" by simp
      with rep_branch.IH [OF Some t] have
        "trie_loop P B s key c (Suc off) = Some (lookup_result (tlookup t (drop (Suc off) key)))" .
      with Some t d True show ?thesis by (simp add: loop)
    qed
  qed
qed

lemma trieGet_refines:
  assumes "represents P B s root 0 t" and "root \<noteq> []" and "root \<noteq> emptyTrieRoot"
  shows "trieGet P B s root key = Some (lookup_result (tlookup t key))"
  using trie_loop_refines [OF assms(1)] assms(2,3) by (simp add: trieGet_def)

subsection \<open>Termination\<close>

text \<open>The lookup returns whenever no extension node of the store has an empty path.\<close>

definition no_empty_ext :: "protowire \<Rightarrow> 'd bolt \<Rightarrow> 'd stateStore \<Rightarrow> bool" where
  "no_empty_ext P B s \<longleftrightarrow>
     (\<forall>h data e. Get B s nsContract h = Inr (Some data) \<longrightarrow>
        decodeNodePb P data = Some (Inr (NodeE e)) \<longrightarrow> ex_path e \<noteq> [])"

context protowire_laws
begin

lemma trie_loop_total:
  assumes "no_empty_ext P B s"
  shows "\<exists>r. trie_loop P B s key h off = Some r"
proof (induction "length key - off" arbitrary: h off rule: less_induct)
  case less
  show ?case
  proof (cases "\<exists>data. Get B s nsContract h = Inr (Some data)")
    case False
    then show ?thesis
      by (cases "Get B s nsContract h") (auto simp: trie_loop_failed not_Some_eq)
  next
    case True
    then obtain data where data: "Get B s nsContract h = Inr (Some data)" by blast
    obtain r where r: "decodeNodePb P data = Some r" using decodeNodePb_total by blast
    show ?thesis
    proof (cases r)
      case (Inl e)
      with data r show ?thesis by (simp add: trie_loop_failed)
    next
      case (Inr n)
      with r have r: "decodeNodePb P data = Some (Inr n)" by simp
      show ?thesis
      proof (cases n)
        case (NodeB m)
        have "\<exists>r. trie_loop P B s key c (Suc off) = Some r" if "off < length key" for c
          using that by (intro less.hyps) simp
        with r show ?thesis
          unfolding NodeB by (simp add: trie_loop_branch [OF data] split: option.split)
      next
        case (NodeE e)
        with assms data r have p: "ex_path e \<noteq> []" by (auto simp: no_empty_ext_def)
        have "\<exists>r. trie_loop P B s key (childHash e) (off + length (ex_path e)) = Some r"
          if "off + length (ex_path e) \<le> length key"
          using that p by (intro less.hyps) (cases "ex_path e"; simp)
        with r show ?thesis unfolding NodeE by (simp add: trie_loop_ext [OF data])
      next
        case (NodeL l)
        with r show ?thesis by (simp add: trie_loop_leaf [OF data])
      qed
    qed
  qed
qed

lemma trieGet_total: "no_empty_ext P B s \<Longrightarrow> \<exists>r. trieGet P B s root key = Some r"
  by (simp add: trieGet_def trie_loop_total)

end

text \<open>
  The store is not checked against the hashes of its nodes. A node that is an extension with an
  empty path leading back to itself keeps the loop going forever, for every key.
\<close>

lemma trie_loop_diverges:
  assumes "Get B s nsContract h = Inr (Some data)"
    and "decodeNodePb P data = Some (Inr (NodeE \<lparr>ex_path = [], childHash = h\<rparr>))"
    and "off \<le> length key"
  shows "trie_loop P B s key h off = None"
proof -
  have "trie_loop P B s key h off = Some r \<Longrightarrow> False" for r
  proof -
    assume ret: "trie_loop P B s key h off = Some r"
    let ?Q = "\<lambda>P' B' s' key' h' off' r. \<not> (P' = P \<and> B' = B \<and> s' = s \<and> key' = key \<and> h' = h \<and> off' = off)"
    have "?Q P B s key h off r"
    proof (rule trie_loop.raw_induct [where P = "?Q", OF _ ret], goal_cases)
      case (1 f P' B' s' key' h' off' y)
      show ?case
      proof
        assume same: "P' = P \<and> B' = B \<and> s' = s \<and> key' = key \<and> h' = h \<and> off' = off"
        with "1"(2) assms have "f P B s key h off = Some y" by simp
        from "1"(1) [OF this] show False by simp
      qed
    qed
    then show False by simp
  qed
  then show ?thesis by (cases "trie_loop P B s key h off") auto
qed

end
