(* ===== verification/StoredTrie.thy ===== *)
theory StoredTrie
  imports TrieLookup
begin

section \<open>Tries written with the encoders\<close>

text \<open>
  A concrete trie, its nodes encoded with the encoders of mpt.go and stored under their hashes
  by one \<open>ApplyDiff\<close>, as the tests' \<open>storeNode\<close> does one by one. The hash function
  (\<open>hash160b\<close>, RIPEMD-160 from outside src/) is the parameter \<open>H\<close>. Lookups in the store
  then agree with the trie as a map.
\<close>

datatype ctrie =
    CLeaf bytes bytes
  | CExt bytes ctrie
  | CBranch "(byte \<times> ctrie) list"

text \<open>The encoding of a trie's root node, \<open>pre\<close> being the key bytes above it.\<close>

fun node_data :: "protowire \<Rightarrow> (bytes \<Rightarrow> bytes) \<Rightarrow> bytes \<Rightarrow> ctrie \<Rightarrow> bytes" where
  "node_data P H pre (CLeaf rest v) = encodeLeafNode P (pre @ rest) v"
| "node_data P H pre (CExt p t) = encodeExtensionNode P p (H (node_data P H (pre @ p) t))"
| "node_data P H pre (CBranch ts) =
     encodeBranchNode P (map (\<lambda>(b, t). (b, H (node_data P H (pre @ [b]) t))) ts)"

fun trie_nodes :: "protowire \<Rightarrow> (bytes \<Rightarrow> bytes) \<Rightarrow> bytes \<Rightarrow> ctrie \<Rightarrow> bytes list" where
  "trie_nodes P H pre (CLeaf rest v) = [node_data P H pre (CLeaf rest v)]"
| "trie_nodes P H pre (CExt p t) = node_data P H pre (CExt p t) # trie_nodes P H (pre @ p) t"
| "trie_nodes P H pre (CBranch ts) =
     node_data P H pre (CBranch ts) # concat (map (\<lambda>(b, t). trie_nodes P H (pre @ [b]) t) ts)"

fun abs_trie :: "ctrie \<Rightarrow> trie" where
  "abs_trie (CLeaf rest v) = TLeaf rest (Some v)"
| "abs_trie (CExt p t) = TExt p (abs_trie t)"
| "abs_trie (CBranch ts) = TBranch (map_of (map (\<lambda>(b, t). (b, abs_trie t)) ts))"

text \<open>No branch has two children for one byte, and no node is too long for a length prefix.\<close>

fun wf_ctrie :: "ctrie \<Rightarrow> bool" where
  "wf_ctrie (CLeaf rest v) = True"
| "wf_ctrie (CExt p t) = wf_ctrie t"
| "wf_ctrie (CBranch ts) = (distinct (map fst ts) \<and> (\<forall>(b, t) \<in> set ts. wf_ctrie t))"

definition node_entry :: "(bytes \<Rightarrow> bytes) \<Rightarrow> bytes \<Rightarrow> stateDiffEntry" where
  "node_entry H d = \<lparr>deWriteType = WriteTypePut, deNamespace = nsContract, deKey = H d, deValue = d\<rparr>"

definition trie_entries :: "protowire \<Rightarrow> (bytes \<Rightarrow> bytes) \<Rightarrow> ctrie \<Rightarrow> stateDiffEntry list" where
  "trie_entries P H t = map (node_entry H) (trie_nodes P H [] t)"

definition root_hash :: "protowire \<Rightarrow> (bytes \<Rightarrow> bytes) \<Rightarrow> ctrie \<Rightarrow> bytes" where
  "root_hash P H t = H (node_data P H [] t)"

lemma node_data_in_nodes: "node_data P H pre t \<in> set (trie_nodes P H pre t)"
  by (cases t) simp_all

lemma map_of_map_pair:
  "map_of (map (\<lambda>(b, t). (b, f b t)) ts) b = map_option (f b) (map_of ts b)"
  by (induction ts) auto

subsection \<open>A store that has the nodes represents the trie\<close>

context protowire_laws
begin

lemma nodes_represent:
  assumes "wf_ctrie t"
    and "\<And>d. d \<in> set (trie_nodes P H pre t) \<Longrightarrow> Get B s nsContract (H d) = Inr (Some d) \<and> length d < 2 ^ 63"
  shows "represents P B s (H (node_data P H pre t)) (length pre) (abs_trie t)"
  using assms
proof (induction t arbitrary: pre rule: abs_trie.induct)
  case (1 rest v)
  let ?d = "encodeLeafNode P (pre @ rest) v"
  from 1 have "Get B s nsContract (H ?d) = Inr (Some ?d)" and "length ?d < 2 ^ 63" by simp_all
  from rep_leaf [OF this(1) decode_encodeLeafNode [OF this(2)], of "length pre"]
  show ?case by simp
next
  case (2 p t)
  let ?d = "node_data P H pre (CExt p t)"
  from "2.prems" have get: "Get B s nsContract (H ?d) = Inr (Some ?d)" and
    len: "length (encodeExtensionNode P p (H (node_data P H (pre @ p) t))) < 2 ^ 63" by simp_all
  have "represents P B s (H (node_data P H (pre @ p) t)) (length (pre @ p)) (abs_trie t)"
    using "2.prems" by (intro "2.IH") simp_all
  then show ?case
    using rep_ext [OF get, of P "\<lparr>ex_path = p, childHash = H (node_data P H (pre @ p) t)\<rparr>"
        "length pre" "abs_trie t"] decode_encodeExtensionNode [OF len]
    by simp
next
  case (3 ts)
  let ?es = "map (\<lambda>(b, t). (b, H (node_data P H (pre @ [b]) t))) ts"
  let ?d = "encodeBranchNode P ?es"
  let ?m = "map_of ?es" and ?ts = "map_of (map (\<lambda>(b, t). (b, abs_trie t)) ts)"
  from "3.prems" have get: "Get B s nsContract (H ?d) = Inr (Some ?d)" and len: "length ?d < 2 ^ 63"
    by simp_all
  have "map fst ?es = map fst ts" by (induction ts) auto
  with "3.prems"(1) have "distinct (map fst ?es)" by (metis wf_ctrie.simps(3))
  from decode_encodeBranchNode [OF len this] have dec: "decodeNodePb P ?d = Some (Inr (NodeB ?m))" .
  have m: "?m b = map_option (\<lambda>t. H (node_data P H (pre @ [b]) t)) (map_of ts b)" for b
    using map_of_map_pair [of "\<lambda>b t. H (node_data P H (pre @ [b]) t)" ts b] by simp
  have a: "?ts b = map_option abs_trie (map_of ts b)" for b
    using map_of_map_pair [of "\<lambda>b. abs_trie" ts b] by simp
  have "represents P B s c (Suc (length pre)) u" if mb: "?m b = Some c" and tb: "?ts b = Some u" for b c u
  proof -
    from mb tb m a obtain t where t: "map_of ts b = Some t"
      and c: "c = H (node_data P H (pre @ [b]) t)" and u: "u = abs_trie t" by auto
    from t have mem: "(b, t) \<in> set ts" by (rule map_of_SomeD)
    have "represents P B s (H (node_data P H (pre @ [b]) t)) (length (pre @ [b])) (abs_trie t)"
      using "3.prems" mem by (intro "3.IH" [OF mem refl]) auto
    then show ?thesis by (simp add: c u)
  qed
  moreover have "?m b = None \<longleftrightarrow> ?ts b = None" for b by (simp add: m a)
  ultimately have "represents P B s (H ?d) (length pre) (TBranch ?ts)"
    using rep_branch [OF get dec, of ?ts "length pre"] by blast
  then show ?case by simp
qed

end

subsection \<open>Storing the nodes and looking a key up\<close>

lemma node_entries_effect:
  assumes "inj_on H (set ds)" and "d \<in> set ds"
  shows "diff_effect m (map (node_entry H) ds) nsContract (H d) = Some d"
proof -
  let ?ws = "filter (writes nsContract (H d)) (map (node_entry H) ds)"
  have mem: "e \<in> set ?ws \<Longrightarrow> e = node_entry H d" for e
    using assms by (auto simp: writes_def node_entry_def inj_on_def)
  have "node_entry H d \<in> set ?ws"
    using assms(2) by (auto simp: writes_def node_entry_def WriteTypePut_def)
  then have "?ws \<noteq> []" by (metis empty_iff list.set(1))
  then have "last_write nsContract (H d) (map (node_entry H) ds) = Some (node_entry H d)"
    using mem last_in_set [of ?ws] by (simp add: last_write_def Let_def)
  then show ?thesis
    by (simp add: diff_effect_last_write written_def node_entry_def)
qed

context bolt_laws
begin

lemma stored_nodes_Get:
  assumes "ApplyDiff B s h (map (node_entry H) ds) = (None, s')" and "inj_on H (set ds)"
    and "bkBegin B (st_db s') = None" and "d \<in> set ds"
  shows "Get B s' nsContract (H d) = Inr (Some d)"
proof -
  have "db_view B (st_db s') nsContract (H d) = Some d"
    using ApplyDiff_ok [OF assms(1)] node_entries_effect [OF assms(2,4)]
    by (simp add: with_height_def ns_defs)
  then show ?thesis using assms(3) by (simp add: Get_def db_view_def split: if_splits)
qed

end

lemma stored_trie_lookup:
  assumes "protowire_laws P" and "bolt_laws B"
    and "ApplyDiff B s h (trie_entries P H t) = (None, s')"
    and "bkBegin B (st_db s') = None"
    and "wf_ctrie t" and "inj_on H (set (trie_nodes P H [] t))"
    and "\<And>d. d \<in> set (trie_nodes P H [] t) \<Longrightarrow> length d < 2 ^ 63"
    and "root_hash P H t \<noteq> []" and "root_hash P H t \<noteq> emptyTrieRoot"
  shows "trieGet P B s' (root_hash P H t) key = Some (lookup_result (tlookup (abs_trie t) key))"
proof -
  have "represents P B s' (root_hash P H t) 0 (abs_trie t)"
    using protowire_laws.nodes_represent [OF assms(1,5), of H "[]" B s'] assms
      bolt_laws.stored_nodes_Get [OF assms(2)]
    by (auto simp: root_hash_def trie_entries_def)
  then show ?thesis using assms(8,9) by (rule trieGet_refines)
qed

end
