(* ===== verification/MemState.thy ===== *)
theory MemState
  imports EthLib StoredTrie
begin

section \<open>The in-memory state of the EVM (statedb.go)\<close>

text \<open>
  \<open>MemStateDB\<close> and every operation of the StateDB interface. The Go maps are maps; the accounts
  are pointers in Go, each held by one map entry, so an update through the pointer is an update
  of the map. Reads may fall back to the local store and cache what they find, so they return
  the state too; a read whose trie lookup never returns is \<open>None\<close>. The point cache and the
  methods that only hand it out carry no state. The environment bundles the third-party
  functions: go-ethereum's, the wire package and the database.
\<close>

record 'd env =
  ev_eth :: ethlib
  ev_pw :: protowire
  ev_bk :: "'d bolt"

record account =
  balance :: u256
  nonce :: u64
  code :: bytes
  codeHash :: hash
  suicided :: bool
  isNew :: bool

record storageChange =
  ch_address :: address
  ch_slot :: hash
  ch_oldValue :: hash
  ch_newValue :: hash

record evmLog =
  lg_Address :: address
  lg_Topics :: "hash list"
  lg_Data :: bytes
  lg_TxHash :: hash
  lg_TxIndex :: u64
  lg_Index :: u64

record snapshotEntry =
  se_accounts :: "address \<rightharpoonup> account"
  se_storage :: "address \<rightharpoonup> (hash \<rightharpoonup> hash)"
  se_changes :: "storageChange list"
  se_logs :: "evmLog list"
  se_refund :: u64
  se_accessedAddresses :: "address \<rightharpoonup> bool"
  se_accessedSlots :: "address \<rightharpoonup> (hash \<rightharpoonup> bool)"
  se_transientStorage :: "address \<rightharpoonup> (hash \<rightharpoonup> hash)"

record 'd memStateDB =
  accounts :: "address \<rightharpoonup> account"
  storage :: "address \<rightharpoonup> (hash \<rightharpoonup> hash)"
  committedStorage :: "address \<rightharpoonup> (hash \<rightharpoonup> hash)"
  logs :: "evmLog list"
  changes :: "storageChange list"
  snapshots :: "snapshotEntry list"
  txHash :: hash
  txIndex :: int
  logIndex :: u64
  refund :: u64
  accessedAddresses :: "address \<rightharpoonup> bool"
  accessedSlots :: "address \<rightharpoonup> (hash \<rightharpoonup> bool)"
  transientStorage :: "address \<rightharpoonup> (hash \<rightharpoonup> hash)"
  localStore :: "'d stateStore option"

subsection \<open>Building the state from a task\<close>

definition emptyCodeHash :: "'d env \<Rightarrow> hash" where
  "emptyCodeHash E = Keccak256Hash (ev_eth E) []"

text \<open>The balance of a snapshot: 0 when it does not parse or is negative.\<close>

definition parse_balance :: "'d env \<Rightarrow> string \<Rightarrow> u256" where
  "parse_balance E s =
     (let bal = (case set_string10 s of None \<Rightarrow> 0 | Some b \<Rightarrow> if b < 0 then 0 else b)
      in fst (U256FromBig (ev_eth E) bal))"

definition empty_db :: "'d memStateDB" where
  "empty_db =
     \<lparr>accounts = Map.empty, storage = Map.empty, committedStorage = Map.empty,
      logs = [], changes = [], snapshots = [], txHash = 0, txIndex = 0, logIndex = 0, refund = 0,
      accessedAddresses = Map.empty, accessedSlots = Map.empty,
      transientStorage = Map.empty, localStore = None\<rparr>"

definition load_sender :: "'d env \<Rightarrow> accountSnapshot option \<Rightarrow> 'd memStateDB \<Rightarrow> 'd memStateDB" where
  "load_sender E sender s =
     (case sender of
        None \<Rightarrow> s
      | Some a \<Rightarrow> s\<lparr>accounts := (accounts s)(HexToAddress (ev_eth E) (snAddress a) \<mapsto>
          \<lparr>balance = parse_balance E (snBalance a), nonce = snNonce a, code = [],
           codeHash = emptyCodeHash E, suicided = False, isNew = False\<rparr>)\<rparr>)"

definition load_receiver :: "'d env \<Rightarrow> accountSnapshot option \<Rightarrow> 'd memStateDB \<Rightarrow> 'd memStateDB" where
  "load_receiver E receiver s =
     (case receiver of
        None \<Rightarrow> s
      | Some a \<Rightarrow> s\<lparr>accounts := (accounts s)(HexToAddress (ev_eth E) (snAddress a) \<mapsto>
          \<lparr>balance = parse_balance E (snBalance a), nonce = snNonce a, code = [],
           codeHash = (if 0 < length (snCodeHash a) then BytesToHash (ev_eth E) (snCodeHash a)
                       else emptyCodeHash E),
           suicided = False, isNew = False\<rparr>)\<rparr>)"

definition load_code :: "'d env \<Rightarrow> 'd memStateDB \<Rightarrow> string \<times> bytes \<Rightarrow> 'd memStateDB" where
  "load_code E s e =
     (let addr = HexToAddress (ev_eth E) (fst e);
          c = snd e;
          h = Keccak256Hash (ev_eth E) c
      in case accounts s addr of
           Some acct \<Rightarrow> s\<lparr>accounts := (accounts s)(addr \<mapsto> acct\<lparr>code := c, codeHash := h\<rparr>)\<rparr>
         | None \<Rightarrow> s\<lparr>accounts := (accounts s)(addr \<mapsto>
             \<lparr>balance = 0, nonce = 0, code = c, codeHash = h, suicided = False, isNew = False\<rparr>)\<rparr>)"

definition ensure_inner :: "('a \<rightharpoonup> ('k \<rightharpoonup> 'v)) \<Rightarrow> 'a \<Rightarrow> ('a \<rightharpoonup> ('k \<rightharpoonup> 'v))" where
  "ensure_inner m a = (if m a = None then m(a \<mapsto> Map.empty) else m)"

definition load_slot :: "'d env \<Rightarrow> address \<Rightarrow> 'd memStateDB \<Rightarrow> string \<times> string \<Rightarrow> 'd memStateDB" where
  "load_slot E addr s e =
     (let k = HexToHash (ev_eth E) (fst e); v = HexToHash (ev_eth E) (snd e)
      in s\<lparr>storage := upd2 (storage s) addr k v,
           committedStorage := upd2 (committedStorage s) addr k v\<rparr>)"

definition load_slots :: "'d env \<Rightarrow> 'd memStateDB \<Rightarrow> string \<times> (string \<times> string) list \<Rightarrow> 'd memStateDB" where
  "load_slots E s e =
     (let addr = HexToAddress (ev_eth E) (fst e)
      in foldl (load_slot E addr)
           (s\<lparr>storage := ensure_inner (storage s) addr,
              committedStorage := ensure_inner (committedStorage s) addr\<rparr>)
           (snd e))"

definition NewMemStateDB :: "'d env \<Rightarrow> taskPackage \<Rightarrow> 'd memStateDB" where
  "NewMemStateDB E task =
     (let s = load_sender E (tpSender task) empty_db;
          s = load_receiver E (tpReceiver task) s;
          s = foldl (load_code E) s (tpContractCode task)
      in foldl (load_slots E) s (tpStorageSlots task))"

definition SetLocalStore :: "'d stateStore \<Rightarrow> 'd memStateDB \<Rightarrow> 'd memStateDB" where
  "SetLocalStore store s = s\<lparr>localStore := Some store\<rparr>"

subsection \<open>Accounts\<close>

text \<open>The account a store record describes, with the code it names.\<close>

definition account_of_store :: "'d env \<Rightarrow> 'd stateStore \<Rightarrow> iotxAccount \<Rightarrow> account" where
  "account_of_store E st io =
     (let a = \<lparr>balance = fst (U256FromBig (ev_eth E) (acBalance io)), nonce = acNonce io, code = [],
               codeHash = emptyCodeHash E, suicided = False, isNew = False\<rparr>
      in if 0 < length (acCodeHash io) then
           a\<lparr>codeHash := BytesToHash (ev_eth E) (acCodeHash io),
             code := (case GetCode (ev_bk E) st (acCodeHash io) of Inr (Some c) \<Rightarrow> c | _ \<Rightarrow> [])\<rparr>
         else a)"

definition loadAccountFromStore ::
  "'d env \<Rightarrow> address \<Rightarrow> 'd memStateDB \<Rightarrow> (account option \<times> 'd memStateDB) option" where
  "loadAccountFromStore E addr s =
     (case localStore s of
        None \<Rightarrow> Some (None, s)
      | Some st \<Rightarrow>
          (case GetAccount (ev_pw E) (ev_bk E) st (addr_bytes addr) of
             None \<Rightarrow> None
           | Some (Inl e) \<Rightarrow> Some (None, s)
           | Some (Inr None) \<Rightarrow> Some (None, s)
           | Some (Inr (Some io)) \<Rightarrow>
               (let a = account_of_store E st io
                in Some (Some a, s\<lparr>accounts := (accounts s)(addr \<mapsto> a)\<rparr>))))"

definition new_account :: "'d env \<Rightarrow> account" where
  "new_account E =
     \<lparr>balance = 0, nonce = 0, code = [], codeHash = emptyCodeHash E, suicided = False, isNew = True\<rparr>"

definition getOrCreateAccount ::
  "'d env \<Rightarrow> address \<Rightarrow> 'd memStateDB \<Rightarrow> (account \<times> 'd memStateDB) option" where
  "getOrCreateAccount E addr s =
     (case accounts s addr of
        Some acct \<Rightarrow> Some (acct, s)
      | None \<Rightarrow> do {
          (loaded, s') \<leftarrow> loadAccountFromStore E addr s;
          case loaded of
            Some acct \<Rightarrow> Some (acct, s')
          | None \<Rightarrow> Some (new_account E, s'\<lparr>accounts := (accounts s')(addr \<mapsto> new_account E)\<rparr>)
        })"

definition put_account :: "address \<Rightarrow> account \<Rightarrow> 'd memStateDB \<Rightarrow> 'd memStateDB" where
  "put_account addr a s = s\<lparr>accounts := (accounts s)(addr \<mapsto> a)\<rparr>"

text \<open>The account a read finds: in memory, or loaded and cached from the store.\<close>

definition find_account ::
  "'d env \<Rightarrow> address \<Rightarrow> 'd memStateDB \<Rightarrow> (account option \<times> 'd memStateDB) option" where
  "find_account E addr s =
     (case accounts s addr of
        Some acct \<Rightarrow> Some (Some acct, s)
      | None \<Rightarrow> loadAccountFromStore E addr s)"

definition CreateAccount :: "'d env \<Rightarrow> address \<Rightarrow> 'd memStateDB \<Rightarrow> 'd memStateDB option" where
  "CreateAccount E addr s = map_option snd (getOrCreateAccount E addr s)"

definition CreateContract :: "'d env \<Rightarrow> address \<Rightarrow> 'd memStateDB \<Rightarrow> 'd memStateDB option" where
  "CreateContract E addr s = do {
     (acct, s) \<leftarrow> getOrCreateAccount E addr s;
     Some (put_account addr (acct\<lparr>isNew := True\<rparr>) s) }"

definition IsNewAccount :: "'d env \<Rightarrow> address \<Rightarrow> 'd memStateDB \<Rightarrow> (bool \<times> 'd memStateDB) option" where
  "IsNewAccount E addr s =
     (case accounts s addr of
        None \<Rightarrow> do {
          (loaded, s) \<leftarrow> loadAccountFromStore E addr s;
          Some (loaded = None, s) }
      | Some acct \<Rightarrow> Some (isNew acct, s))"

definition SubBalance ::
  "'d env \<Rightarrow> address \<Rightarrow> u256 \<Rightarrow> 'd memStateDB \<Rightarrow> (u256 \<times> 'd memStateDB) option" where
  "SubBalance E addr amount s = do {
     (acct, s) \<leftarrow> getOrCreateAccount E addr s;
     let bal = (if balance acct < amount then 0 else balance acct - amount);
     Some (balance acct, put_account addr (acct\<lparr>balance := bal\<rparr>) s) }"

definition AddBalance ::
  "'d env \<Rightarrow> address \<Rightarrow> u256 \<Rightarrow> 'd memStateDB \<Rightarrow> (u256 \<times> 'd memStateDB) option" where
  "AddBalance E addr amount s = do {
     (acct, s) \<leftarrow> getOrCreateAccount E addr s;
     Some (balance acct, put_account addr (acct\<lparr>balance := balance acct + amount\<rparr>) s) }"

definition GetBalance :: "'d env \<Rightarrow> address \<Rightarrow> 'd memStateDB \<Rightarrow> (u256 \<times> 'd memStateDB) option" where
  "GetBalance E addr s = do {
     (found, s) \<leftarrow> find_account E addr s;
     Some (case found of Some acct \<Rightarrow> balance acct | None \<Rightarrow> 0, s) }"

definition GetNonce :: "'d env \<Rightarrow> address \<Rightarrow> 'd memStateDB \<Rightarrow> (u64 \<times> 'd memStateDB) option" where
  "GetNonce E addr s = do {
     (found, s) \<leftarrow> find_account E addr s;
     Some (case found of Some acct \<Rightarrow> nonce acct | None \<Rightarrow> 0, s) }"

definition SetNonce :: "'d env \<Rightarrow> address \<Rightarrow> u64 \<Rightarrow> 'd memStateDB \<Rightarrow> 'd memStateDB option" where
  "SetNonce E addr n s = do {
     (acct, s) \<leftarrow> getOrCreateAccount E addr s;
     Some (put_account addr (acct\<lparr>nonce := n\<rparr>) s) }"

definition GetCodeHash :: "'d env \<Rightarrow> address \<Rightarrow> 'd memStateDB \<Rightarrow> (hash \<times> 'd memStateDB) option" where
  "GetCodeHash E addr s = do {
     (found, s) \<leftarrow> find_account E addr s;
     Some (case found of Some acct \<Rightarrow> codeHash acct | None \<Rightarrow> 0, s) }"

definition MGetCode :: "'d env \<Rightarrow> address \<Rightarrow> 'd memStateDB \<Rightarrow> (bytes \<times> 'd memStateDB) option" where
  "MGetCode E addr s = do {
     (found, s) \<leftarrow> find_account E addr s;
     Some (case found of Some acct \<Rightarrow> code acct | None \<Rightarrow> [], s) }"

definition SetCode ::
  "'d env \<Rightarrow> address \<Rightarrow> bytes \<Rightarrow> 'd memStateDB \<Rightarrow> (bytes \<times> 'd memStateDB) option" where
  "SetCode E addr c s = do {
     (acct, s) \<leftarrow> getOrCreateAccount E addr s;
     let h = (if 0 < length c then Keccak256Hash (ev_eth E) c else emptyCodeHash E);
     Some (code acct, put_account addr (acct\<lparr>code := c, codeHash := h\<rparr>) s) }"

definition GetCodeSize :: "'d env \<Rightarrow> address \<Rightarrow> 'd memStateDB \<Rightarrow> (nat \<times> 'd memStateDB) option" where
  "GetCodeSize E addr s = map_option (\<lambda>(c, s). (length c, s)) (MGetCode E addr s)"

definition SelfDestruct :: "address \<Rightarrow> 'd memStateDB \<Rightarrow> u256 \<times> 'd memStateDB" where
  "SelfDestruct addr s =
     (case accounts s addr of
        Some acct \<Rightarrow> (balance acct, put_account addr (acct\<lparr>suicided := True, balance := 0\<rparr>) s)
      | None \<Rightarrow> (0, s))"

definition HasSelfDestructed :: "address \<Rightarrow> 'd memStateDB \<Rightarrow> bool" where
  "HasSelfDestructed addr s = (case accounts s addr of Some acct \<Rightarrow> suicided acct | None \<Rightarrow> False)"

definition SelfDestruct6780 :: "address \<Rightarrow> 'd memStateDB \<Rightarrow> (u256 \<times> bool) \<times> 'd memStateDB" where
  "SelfDestruct6780 addr s =
     (case accounts s addr of
        Some acct \<Rightarrow>
          if isNew acct then (case SelfDestruct addr s of (prev, s') \<Rightarrow> ((prev, True), s'))
          else ((balance acct, False), put_account addr (acct\<lparr>balance := 0\<rparr>) s)
      | None \<Rightarrow> ((0, False), s))"

definition Exist :: "'d env \<Rightarrow> address \<Rightarrow> 'd memStateDB \<Rightarrow> (bool \<times> 'd memStateDB) option" where
  "Exist E addr s = do {
     (found, s) \<leftarrow> find_account E addr s;
     Some (found \<noteq> None, s) }"

definition Empty :: "'d env \<Rightarrow> address \<Rightarrow> 'd memStateDB \<Rightarrow> (bool \<times> 'd memStateDB) option" where
  "Empty E addr s = do {
     (found, s) \<leftarrow> find_account E addr s;
     Some (case found of
             None \<Rightarrow> True
           | Some acct \<Rightarrow> nonce acct = 0 \<and> balance acct = 0 \<and> length (code acct) = 0, s) }"

subsection \<open>Refunds\<close>

definition AddRefund :: "u64 \<Rightarrow> 'd memStateDB \<Rightarrow> 'd memStateDB" where
  "AddRefund gas s = s\<lparr>refund := refund s + gas\<rparr>"

text \<open>\<open>Inl\<close> is the panic.\<close>

definition SubRefund :: "u64 \<Rightarrow> 'd memStateDB \<Rightarrow> string + 'd memStateDB" where
  "SubRefund gas s =
     (if refund s < gas then Inl ''Refund counter below zero''
      else Inr (s\<lparr>refund := refund s - gas\<rparr>))"

definition GetRefund :: "'d memStateDB \<Rightarrow> u64" where
  "GetRefund s = refund s"

subsection \<open>Storage\<close>

definition loadSlotFromStore ::
  "'d env \<Rightarrow> address \<Rightarrow> hash \<Rightarrow> 'd memStateDB \<Rightarrow> (hash option \<times> 'd memStateDB) option" where
  "loadSlotFromStore E addr slot s =
     (case localStore s of
        None \<Rightarrow> Some (None, s)
      | Some st \<Rightarrow>
          (case GetStorageSlot (ev_pw E) (ev_bk E) st (addr_bytes addr) (hash_bytes slot) of
             None \<Rightarrow> None
           | Some (Inl e) \<Rightarrow> Some (None, s)
           | Some (Inr None) \<Rightarrow> Some (None, s)
           | Some (Inr (Some val)) \<Rightarrow>
               (let v = BytesToHash (ev_eth E) val
                in Some (Some v, s\<lparr>storage := upd2 (storage s) addr slot v,
                                   committedStorage := upd2 (committedStorage s) addr slot v\<rparr>))))"

definition GetCommittedState ::
  "'d env \<Rightarrow> address \<Rightarrow> hash \<Rightarrow> 'd memStateDB \<Rightarrow> (hash \<times> 'd memStateDB) option" where
  "GetCommittedState E addr slot s =
     (case get2 (committedStorage s) addr slot of
        Some v \<Rightarrow> Some (v, s)
      | None \<Rightarrow> do {
          (loaded, s) \<leftarrow> loadSlotFromStore E addr slot s;
          Some (case loaded of Some v \<Rightarrow> v | None \<Rightarrow> 0, s) })"

definition GetState ::
  "'d env \<Rightarrow> address \<Rightarrow> hash \<Rightarrow> 'd memStateDB \<Rightarrow> (hash \<times> 'd memStateDB) option" where
  "GetState E addr slot s =
     (case get2 (storage s) addr slot of
        Some v \<Rightarrow> Some (v, s)
      | None \<Rightarrow> do {
          (loaded, s) \<leftarrow> loadSlotFromStore E addr slot s;
          Some (case loaded of Some v \<Rightarrow> v | None \<Rightarrow> 0, s) })"

definition SetState :: "address \<Rightarrow> hash \<Rightarrow> hash \<Rightarrow> 'd memStateDB \<Rightarrow> hash \<times> 'd memStateDB" where
  "SetState addr slot value s =
     (let old = (case get2 (storage s) addr slot of Some v \<Rightarrow> v | None \<Rightarrow> 0)
      in (old, s\<lparr>storage := upd2 (storage s) addr slot value,
                 changes := changes s @ [\<lparr>ch_address = addr, ch_slot = slot,
                                          ch_oldValue = old, ch_newValue = value\<rparr>]\<rparr>))"

definition GetStorageRoot :: "address \<Rightarrow> 'd memStateDB \<Rightarrow> hash" where
  "GetStorageRoot addr s = 0"

definition GetTransientState :: "address \<Rightarrow> hash \<Rightarrow> 'd memStateDB \<Rightarrow> hash" where
  "GetTransientState addr key s =
     (case get2 (transientStorage s) addr key of Some v \<Rightarrow> v | None \<Rightarrow> 0)"

definition SetTransientState :: "address \<Rightarrow> hash \<Rightarrow> hash \<Rightarrow> 'd memStateDB \<Rightarrow> 'd memStateDB" where
  "SetTransientState addr key value s =
     s\<lparr>transientStorage := upd2 (transientStorage s) addr key value\<rparr>"

subsection \<open>Access lists\<close>

definition AddressInAccessList :: "address \<Rightarrow> 'd memStateDB \<Rightarrow> bool" where
  "AddressInAccessList addr s = (accessedAddresses s addr = Some True)"

definition SlotInAccessList :: "address \<Rightarrow> hash \<Rightarrow> 'd memStateDB \<Rightarrow> bool \<times> bool" where
  "SlotInAccessList addr slot s =
     (accessedAddresses s addr = Some True, get2 (accessedSlots s) addr slot = Some True)"

definition AddAddressToAccessList :: "address \<Rightarrow> 'd memStateDB \<Rightarrow> 'd memStateDB" where
  "AddAddressToAccessList addr s = s\<lparr>accessedAddresses := (accessedAddresses s)(addr \<mapsto> True)\<rparr>"

definition AddSlotToAccessList :: "address \<Rightarrow> hash \<Rightarrow> 'd memStateDB \<Rightarrow> 'd memStateDB" where
  "AddSlotToAccessList addr slot s =
     s\<lparr>accessedAddresses := (accessedAddresses s)(addr \<mapsto> True),
       accessedSlots := upd2 (accessedSlots s) addr slot True\<rparr>"

definition add_tuple :: "address \<times> hash list \<Rightarrow> 'd memStateDB \<Rightarrow> 'd memStateDB" where
  "add_tuple e s =
     fold (AddSlotToAccessList (fst e)) (snd e) (AddAddressToAccessList (fst e) s)"

definition Prepare ::
  "address \<Rightarrow> address \<Rightarrow> address option \<Rightarrow> address list \<Rightarrow> (address \<times> hash list) list \<Rightarrow>
   'd memStateDB \<Rightarrow> 'd memStateDB" where
  "Prepare sender coinbase dest precompiles txAccesses s =
     (let s = s\<lparr>accessedAddresses := Map.empty, accessedSlots := Map.empty\<rparr>;
          s = AddAddressToAccessList sender s;
          s = AddAddressToAccessList coinbase s;
          s = (case dest of None \<Rightarrow> s | Some d \<Rightarrow> AddAddressToAccessList d s);
          s = fold AddAddressToAccessList precompiles s
      in fold add_tuple txAccesses s)"

subsection \<open>Snapshots\<close>

text \<open>The deep copy of the journalled fields.\<close>

definition capture :: "'d memStateDB \<Rightarrow> snapshotEntry" where
  "capture s =
     \<lparr>se_accounts = accounts s, se_storage = storage s, se_changes = changes s, se_logs = logs s,
      se_refund = refund s, se_accessedAddresses = accessedAddresses s,
      se_accessedSlots = accessedSlots s, se_transientStorage = transientStorage s\<rparr>"

definition Snapshot :: "'d memStateDB \<Rightarrow> int \<times> 'd memStateDB" where
  "Snapshot s = (int (length (snapshots s)), s\<lparr>snapshots := snapshots s @ [capture s]\<rparr>)"

definition RevertToSnapshot :: "int \<Rightarrow> 'd memStateDB \<Rightarrow> 'd memStateDB" where
  "RevertToSnapshot rid s =
     (if rid < 0 \<or> int (length (snapshots s)) \<le> rid then s
      else
        let snap = snapshots s ! nat rid
        in s\<lparr>accounts := se_accounts snap, storage := se_storage snap,
             changes := se_changes snap, logs := se_logs snap, refund := se_refund snap,
             accessedAddresses := se_accessedAddresses snap,
             accessedSlots := se_accessedSlots snap,
             transientStorage := se_transientStorage snap,
             snapshots := take (nat rid) (snapshots s)\<rparr>)"

subsection \<open>Logs\<close>

definition AddLog :: "evmLog \<Rightarrow> 'd memStateDB \<Rightarrow> 'd memStateDB" where
  "AddLog log s =
     s\<lparr>logs := logs s @ [log\<lparr>lg_TxHash := txHash s, lg_TxIndex := word_of_int (txIndex s),
                             lg_Index := logIndex s\<rparr>],
       logIndex := logIndex s + 1\<rparr>"

definition GetLogs :: "'d memStateDB \<Rightarrow> evmLog list" where
  "GetLogs s = logs s"

definition Finalise :: "bool \<Rightarrow> 'd memStateDB \<Rightarrow> 'd memStateDB" where
  "Finalise b s = s"

subsection \<open>State changes\<close>

definition hex_change :: "ethlib \<Rightarrow> storageChange \<Rightarrow> stateChange" where
  "hex_change L c =
     \<lparr>scAddress = AddressHex L (ch_address c), scSlot = HashHex L (ch_slot c),
      scOldValue = HashHex L (ch_oldValue c), scNewValue = HashHex L (ch_newValue c)\<rparr>"

text \<open>The loop over the changes: \<open>seen\<close> holds the index of a slot's entry in \<open>result\<close>.\<close>

fun merge_changes ::
  "ethlib \<Rightarrow> (address \<times> hash \<rightharpoonup> nat) \<Rightarrow> stateChange list \<Rightarrow> storageChange list \<Rightarrow> stateChange list" where
  "merge_changes L seen result [] = result"
| "merge_changes L seen result (c # cs) =
     (let k = (ch_address c, ch_slot c); sc = hex_change L c in
      case seen k of
        Some idx \<Rightarrow>
          merge_changes L seen (result[idx := (result ! idx)\<lparr>scNewValue := scNewValue sc\<rparr>]) cs
      | None \<Rightarrow> merge_changes L (seen(k \<mapsto> length result)) (result @ [sc]) cs)"

definition GetStateChanges :: "ethlib \<Rightarrow> 'd memStateDB \<Rightarrow> stateChange list" where
  "GetStateChanges L s =
     filter (\<lambda>sc. scOldValue sc \<noteq> scNewValue sc) (merge_changes L Map.empty [] (changes s))"

end
