(* ===== verification/Journal.thy ===== *)
theory Journal
  imports MemState
begin

section \<open>Snapshots as a journal\<close>

text \<open>
  What the EVM relies on when it nests calls: reverting to a snapshot restores what was captured
  when it was taken, whatever happened since, and drops the snapshots taken later. The contract
  of the three operations is the locale \<open>journal\<close>; the lemma about arbitrary command sequences is
  proved in it and holds for \<open>MemStateDB\<close> by interpretation.
\<close>

datatype 'o jcmd = Do 'o | Snap | Revert int

fun jrun :: "('o \<Rightarrow> 's \<Rightarrow> 's option) \<Rightarrow> ('s \<Rightarrow> int \<times> 's) \<Rightarrow> (int \<Rightarrow> 's \<Rightarrow> 's) \<Rightarrow>
    'o jcmd list \<Rightarrow> 's \<Rightarrow> 's option" where
  "jrun exec snap undo [] s = Some s"
| "jrun exec snap undo (Do o' # cs) s = (case exec o' s of None \<Rightarrow> None | Some s' \<Rightarrow> jrun exec snap undo cs s')"
| "jrun exec snap undo (Snap # cs) s = jrun exec snap undo cs (snd (snap s))"
| "jrun exec snap undo (Revert i # cs) s = jrun exec snap undo cs (undo i s)"

text \<open>No command reverts to the snapshot with index \<open>n\<close> or an older one.\<close>

definition keeps :: "nat \<Rightarrow> 'o jcmd list \<Rightarrow> bool" where
  "keeps n cs \<longleftrightarrow> (\<forall>i. Revert i \<in> set cs \<longrightarrow> i < 0 \<or> int n < i)"

lemma keeps_simps [simp]:
  "keeps n []"
  "keeps n (Do x # cs) \<longleftrightarrow> keeps n cs"
  "keeps n (Snap # cs) \<longleftrightarrow> keeps n cs"
  "keeps n (Revert i # cs) \<longleftrightarrow> (i < 0 \<or> int n < i) \<and> keeps n cs"
  by (auto simp: keeps_def)

locale journal =
  fixes exec :: "'o \<Rightarrow> 's \<Rightarrow> 's option"
    and stack :: "'s \<Rightarrow> 'c list"
    and cap :: "'s \<Rightarrow> 'c"
    and snap :: "'s \<Rightarrow> int \<times> 's"
    and undo :: "int \<Rightarrow> 's \<Rightarrow> 's"
  assumes exec_stack: "exec x s = Some s' \<Longrightarrow> stack s' = stack s"
    and snap_id: "fst (snap s) = int (length (stack s))"
    and snap_stack: "stack (snd (snap s)) = stack s @ [cap s]"
    and snap_cap: "cap (snd (snap s)) = cap s"
    and undo_bad: "i < 0 \<or> int (length (stack s)) \<le> i \<Longrightarrow> undo i s = s"
    and undo_cap: "n < length (stack s) \<Longrightarrow> cap (undo (int n) s) = stack s ! n"
    and undo_stack: "n < length (stack s) \<Longrightarrow> stack (undo (int n) s) = take n (stack s)"
begin

text \<open>The part of the stack up to \<open>n\<close> survives commands that revert only above it.\<close>

lemma jrun_stack:
  "jrun exec snap undo cs s = Some s' \<Longrightarrow> keeps n cs \<Longrightarrow> n < length (stack s) \<Longrightarrow>
   n < length (stack s') \<and> take (Suc n) (stack s') = take (Suc n) (stack s)"
proof (induction cs arbitrary: s)
  case (Cons c cs)
  show ?case
  proof (cases c)
    case (Do x)
    with Cons.prems obtain s1 where s1: "exec x s = Some s1" "jrun exec snap undo cs s1 = Some s'"
      by (auto split: option.splits)
    with Cons.IH [OF s1(2)] Cons.prems Do exec_stack [OF s1(1)] show ?thesis by simp
  next
    case Snap
    with Cons.IH [of "snd (snap s)"] Cons.prems show ?thesis by (simp add: snap_stack)
  next
    case (Revert i)
    show ?thesis
    proof (cases "i < 0 \<or> int (length (stack s)) \<le> i")
      case True
      with Cons.IH [of s] Cons.prems Revert undo_bad [OF True] show ?thesis by simp
    next
      case False
      then obtain m where m: "i = int m" "m < length (stack s)"
        by (metis int_eq_iff linorder_not_less of_nat_less_iff)
      with Cons.prems Revert have "n < m" by auto
      with Cons.IH [of "undo i s"] Cons.prems Revert m undo_stack [OF m(2)] show ?thesis
        by (simp add: min_def)
    qed
  qed
qed simp

lemma revert_captured:
  assumes "jrun exec snap undo cs (snd (snap s)) = Some s'" and "keeps (length (stack s)) cs"
  shows "cap (undo (fst (snap s)) s') = cap s" and "stack (undo (fst (snap s)) s') = stack s"
proof -
  let ?n = "length (stack s)"
  from jrun_stack [OF assms] have n: "?n < length (stack s')"
    and t: "take (Suc ?n) (stack s') = stack s @ [cap s]" by (simp_all add: snap_stack)
  have at: "stack s' ! ?n = cap s"
    using t n by (metis lessI nth_append_length nth_take)
  have below: "take ?n (stack s') = stack s"
  proof -
    have "take ?n (stack s') = take ?n (take (Suc ?n) (stack s'))" by (simp add: min_def)
    with t show ?thesis by simp
  qed
  show "cap (undo (fst (snap s)) s') = cap s"
    using undo_cap [OF n] at by (simp add: snap_id)
  show "stack (undo (fst (snap s)) s') = stack s"
    using undo_stack [OF n] below by (simp add: snap_id)
qed

end

subsection \<open>The operations of \<open>MemStateDB\<close>\<close>

text \<open>
  The calls of the StateDB interface other than the snapshots, as data. A call that does not
  return, or panics, has no next state.
\<close>

datatype db_op =
    OCreateAccount address | OCreateContract address | OIsNewAccount address
  | OSubBalance address u256 | OAddBalance address u256 | OGetBalance address
  | OGetNonce address | OSetNonce address u64
  | OGetCodeHash address | OGetCode address | OSetCode address bytes | OGetCodeSize address
  | OAddRefund u64 | OSubRefund u64
  | OGetCommittedState address hash | OGetState address hash | OSetState address hash hash
  | OSetTransientState address hash hash
  | OSelfDestruct address | OSelfDestruct6780 address | OExist address | OEmpty address
  | OAddAddress address | OAddSlot address hash
  | OPrepare address address "address option" "address list" "(address \<times> hash list) list"
  | OAddLog evmLog | OFinalise bool

fun exec :: "'d env \<Rightarrow> db_op \<Rightarrow> 'd memStateDB \<Rightarrow> 'd memStateDB option" where
  "exec E (OCreateAccount a) s = CreateAccount E a s"
| "exec E (OCreateContract a) s = CreateContract E a s"
| "exec E (OIsNewAccount a) s = map_option snd (IsNewAccount E a s)"
| "exec E (OSubBalance a v) s = map_option snd (SubBalance E a v s)"
| "exec E (OAddBalance a v) s = map_option snd (AddBalance E a v s)"
| "exec E (OGetBalance a) s = map_option snd (GetBalance E a s)"
| "exec E (OGetNonce a) s = map_option snd (GetNonce E a s)"
| "exec E (OSetNonce a n) s = SetNonce E a n s"
| "exec E (OGetCodeHash a) s = map_option snd (GetCodeHash E a s)"
| "exec E (OGetCode a) s = map_option snd (MGetCode E a s)"
| "exec E (OSetCode a c) s = map_option snd (SetCode E a c s)"
| "exec E (OGetCodeSize a) s = map_option snd (GetCodeSize E a s)"
| "exec E (OAddRefund g) s = Some (AddRefund g s)"
| "exec E (OSubRefund g) s = (case SubRefund g s of Inl e \<Rightarrow> None | Inr s' \<Rightarrow> Some s')"
| "exec E (OGetCommittedState a k) s = map_option snd (GetCommittedState E a k s)"
| "exec E (OGetState a k) s = map_option snd (GetState E a k s)"
| "exec E (OSetState a k v) s = Some (snd (SetState a k v s))"
| "exec E (OSetTransientState a k v) s = Some (SetTransientState a k v s)"
| "exec E (OSelfDestruct a) s = Some (snd (SelfDestruct a s))"
| "exec E (OSelfDestruct6780 a) s = Some (snd (SelfDestruct6780 a s))"
| "exec E (OExist a) s = map_option snd (Exist E a s)"
| "exec E (OEmpty a) s = map_option snd (Empty E a s)"
| "exec E (OAddAddress a) s = Some (AddAddressToAccessList a s)"
| "exec E (OAddSlot a k) s = Some (AddSlotToAccessList a k s)"
| "exec E (OPrepare a c d ps es) s = Some (Prepare a c d ps es s)"
| "exec E (OAddLog l) s = Some (AddLog l s)"
| "exec E (OFinalise b) s = Some (Finalise b s)"

text \<open>The pieces the operations are made of.\<close>

lemmas account_ops =
  CreateAccount_def CreateContract_def IsNewAccount_def SubBalance_def AddBalance_def
  GetBalance_def GetNonce_def SetNonce_def GetCodeHash_def MGetCode_def SetCode_def
  GetCodeSize_def Exist_def Empty_def SelfDestruct_def SelfDestruct6780_def

lemmas slot_ops = GetCommittedState_def GetState_def SetState_def SetTransientState_def

lemmas list_ops =
  AddRefund_def SubRefund_def AddAddressToAccessList_def AddSlotToAccessList_def AddLog_def
  Finalise_def

subsection \<open>What every operation keeps\<close>

text \<open>
  The snapshots, the local store and the transaction's place in the block are touched by no
  operation. Apart from \<open>SetState\<close>, an operation leaves the slots and the recorded changes alone
  or caches a slot missing in memory, with the value the local store has for it.
\<close>

definition store_slot :: "'d env \<Rightarrow> 'd memStateDB \<Rightarrow> address \<Rightarrow> hash \<Rightarrow> hash option option" where
  "store_slot E s addr slot = map_option fst (loadSlotFromStore E addr slot s)"

definition frame :: "'d memStateDB \<Rightarrow> 'd memStateDB \<Rightarrow> bool" where
  "frame s s' \<longleftrightarrow>
     snapshots s' = snapshots s \<and> localStore s' = localStore s \<and>
     txHash s' = txHash s \<and> txIndex s' = txIndex s"

inductive slot_effect :: "'d env \<Rightarrow> 'd memStateDB \<Rightarrow> 'd memStateDB \<Rightarrow> bool" for E where
  se_none: "frame s s' \<Longrightarrow> storage s' = storage s \<Longrightarrow> committedStorage s' = committedStorage s \<Longrightarrow>
    changes s' = changes s \<Longrightarrow> slot_effect E s s'"
| se_cache: "frame s s' \<Longrightarrow> storage s' = upd2 (storage s) a k v \<Longrightarrow>
    committedStorage s' = upd2 (committedStorage s) a k v \<Longrightarrow> changes s' = changes s \<Longrightarrow>
    store_slot E s a k = Some (Some v) \<Longrightarrow>
    get2 (storage s) a k = None \<or> get2 (committedStorage s) a k = None \<Longrightarrow> slot_effect E s s'"

lemma slot_effect_frame: "slot_effect E s s' \<Longrightarrow> frame s s'"
  by (erule slot_effect.cases) simp_all

text \<open>Operations on accounts touch no slot.\<close>

definition same_slots :: "'d memStateDB \<Rightarrow> 'd memStateDB \<Rightarrow> bool" where
  "same_slots s s' \<longleftrightarrow>
     frame s s' \<and> storage s' = storage s \<and> committedStorage s' = committedStorage s \<and>
     changes s' = changes s"

lemma same_slots_refl [simp, intro]: "same_slots s s"
  by (simp add: same_slots_def frame_def)

lemma same_slots_put [simp]: "same_slots s (put_account a x s') \<longleftrightarrow> same_slots s s'"
  by (simp add: same_slots_def frame_def put_account_def)

lemma same_slots_effect: "same_slots s s' \<Longrightarrow> slot_effect E s s'"
  by (simp add: same_slots_def se_none)

lemma loadAccount_slots: "loadAccountFromStore E a s = Some (r, s') \<Longrightarrow> same_slots s s'"
  by (auto simp: loadAccountFromStore_def Let_def same_slots_def frame_def
      split: option.splits sum.splits)

lemma getOrCreate_slots: "getOrCreateAccount E a s = Some (r, s') \<Longrightarrow> same_slots s s'"
  by (auto simp: getOrCreateAccount_def bind_eq_Some_conv put_account_def [symmetric]
      split: option.splits dest: loadAccount_slots)

lemma find_account_slots: "find_account E a s = Some (r, s') \<Longrightarrow> same_slots s s'"
  by (auto simp: find_account_def split: option.splits dest: loadAccount_slots)

lemma fold_same_slots:
  "(\<And>x t. same_slots s t \<Longrightarrow> same_slots s (f x t)) \<Longrightarrow> same_slots s t \<Longrightarrow> same_slots s (fold f xs t)"
  by (induction xs arbitrary: t) simp_all

lemma access_slots:
  "same_slots s t \<Longrightarrow> same_slots s (AddAddressToAccessList a t)"
  "same_slots s t \<Longrightarrow> same_slots s (AddSlotToAccessList a k t)"
  "same_slots s t \<Longrightarrow> same_slots s (add_tuple e t)"
proof -
  show "same_slots s t \<Longrightarrow> same_slots s (AddAddressToAccessList a t)" for a t
    by (simp add: AddAddressToAccessList_def same_slots_def frame_def)
  moreover show "same_slots s t \<Longrightarrow> same_slots s (AddSlotToAccessList a k t)" for a k t
    by (simp add: AddSlotToAccessList_def same_slots_def frame_def)
  ultimately show "same_slots s t \<Longrightarrow> same_slots s (add_tuple e t)" for e t
    by (simp add: add_tuple_def fold_same_slots)
qed

lemma Prepare_slots: "same_slots s (Prepare a c d ps es s)"
proof -
  let ?s = "s\<lparr>accessedAddresses := Map.empty, accessedSlots := Map.empty\<rparr>"
  have "same_slots s ?s" by (simp add: same_slots_def frame_def)
  then show ?thesis
    by (auto simp: Prepare_def Let_def intro!: fold_same_slots access_slots split: option.split)
qed

lemma loadSlotFromStore_cases:
  assumes "loadSlotFromStore E a k s = Some (r, s')"
  shows "(r = None \<and> s' = s) \<or>
    (\<exists>v. r = Some v \<and> store_slot E s a k = Some (Some v) \<and>
       s' = s\<lparr>storage := upd2 (storage s) a k v, committedStorage := upd2 (committedStorage s) a k v\<rparr>)"
  using assms
  by (auto simp: loadSlotFromStore_def store_slot_def Let_def split: option.splits sum.splits)

lemma loadSlot_effect:
  assumes "loadSlotFromStore E a k s = Some (r, s')"
    and "get2 (storage s) a k = None \<or> get2 (committedStorage s) a k = None"
  shows "slot_effect E s s'"
  using loadSlotFromStore_cases [OF assms(1)]
proof
  assume "r = None \<and> s' = s"
  then show ?thesis by (simp add: same_slots_effect)
next
  assume "\<exists>v. r = Some v \<and> store_slot E s a k = Some (Some v) \<and>
       s' = s\<lparr>storage := upd2 (storage s) a k v, committedStorage := upd2 (committedStorage s) a k v\<rparr>"
  then obtain v where "store_slot E s a k = Some (Some v)" and
    "s' = s\<lparr>storage := upd2 (storage s) a k v, committedStorage := upd2 (committedStorage s) a k v\<rparr>"
    by blast
  then show ?thesis by (intro se_cache [of _ _ a k v]) (simp_all add: frame_def assms(2))
qed

lemma GetState_effect: "GetState E a k s = Some (v, s') \<Longrightarrow> slot_effect E s s'"
  by (auto simp: GetState_def bind_eq_Some_conv split: option.splits
      intro: same_slots_effect dest: loadSlot_effect)

lemma GetCommittedState_effect: "GetCommittedState E a k s = Some (v, s') \<Longrightarrow> slot_effect E s s'"
  by (auto simp: GetCommittedState_def bind_eq_Some_conv split: option.splits
      intro: same_slots_effect dest: loadSlot_effect)

lemmas slots_dest = loadAccount_slots getOrCreate_slots find_account_slots

lemma exec_effect:
  assumes "exec E x s = Some s'" and "\<And>a k v. x \<noteq> OSetState a k v"
  shows "slot_effect E s s'"
proof (cases x)
  case (OGetState a k)
  with assms show ?thesis by (auto dest: GetState_effect)
next
  case (OGetCommittedState a k)
  with assms show ?thesis by (auto dest: GetCommittedState_effect)
next
  case (OPrepare a c d ps es)
  with assms show ?thesis by (auto intro: same_slots_effect Prepare_slots)
qed (use assms in \<open>auto simp: account_ops list_ops SetTransientState_def bind_eq_Some_conv
      access_slots same_slots_def frame_def put_account_def Let_def
      intro!: same_slots_effect split: option.splits if_splits prod.splits
      dest!: slots_dest\<close>)

lemma SetState_frame: "frame s (snd (SetState a k v s))"
  by (simp add: SetState_def Let_def frame_def)

lemma exec_frame: "exec E x s = Some s' \<Longrightarrow> frame s s'"
proof (cases "\<exists>a k v. x = OSetState a k v")
  case False
  then show "exec E x s = Some s' \<Longrightarrow> frame s s'" by (blast dest: exec_effect slot_effect_frame)
qed (auto simp: SetState_frame)

subsection \<open>\<open>MemStateDB\<close> satisfies the contract\<close>

interpretation db: journal "exec E" snapshots capture Snapshot RevertToSnapshot for E :: "'d env"
proof
  fix x and s s' :: "'d memStateDB" and i :: int and n :: nat
  show "exec E x s = Some s' \<Longrightarrow> snapshots s' = snapshots s"
    by (auto dest: exec_frame simp: frame_def)
  show "fst (Snapshot s) = int (length (snapshots s))" by (simp add: Snapshot_def)
  show "snapshots (snd (Snapshot s)) = snapshots s @ [capture s]" by (simp add: Snapshot_def)
  show "capture (snd (Snapshot s)) = capture s" by (simp add: Snapshot_def capture_def)
  show "i < 0 \<or> int (length (snapshots s)) \<le> i \<Longrightarrow> RevertToSnapshot i s = s"
    by (simp add: RevertToSnapshot_def)
  show "n < length (snapshots s) \<Longrightarrow> capture (RevertToSnapshot (int n) s) = snapshots s ! n"
    by (simp add: RevertToSnapshot_def capture_def Let_def)
  show "n < length (snapshots s) \<Longrightarrow> snapshots (RevertToSnapshot (int n) s) = take n (snapshots s)"
    by (simp add: RevertToSnapshot_def Let_def)
qed

type_synonym db_cmd = "db_op jcmd"

definition run_db :: "'d env \<Rightarrow> db_cmd list \<Rightarrow> 'd memStateDB \<Rightarrow> 'd memStateDB option" where
  "run_db E = jrun (exec E) Snapshot RevertToSnapshot"

lemma run_db_simps [simp]:
  fixes s :: "'d memStateDB"
  shows
  "run_db E [] s = Some s"
  "run_db E (Do x # cs) s = (case exec E x s of None \<Rightarrow> None | Some s' \<Rightarrow> run_db E cs s')"
  "run_db E (Snap # cs) s = run_db E cs (snd (Snapshot s))"
  "run_db E (Revert i # cs) s = run_db E cs (RevertToSnapshot i s)"
  by (simp_all add: run_db_def cong: option.case_cong)

subsection \<open>Committed values\<close>

text \<open>
  The value of a slot before the transaction (\<open>GetCommittedState\<close>) does not change while it runs.
  The invariant: a committed slot is in memory, and stays there when a snapshot is restored, or
  holds what the local store holds.
\<close>

definition committed_value :: "'d env \<Rightarrow> 'd memStateDB \<Rightarrow> address \<Rightarrow> hash \<Rightarrow> hash option" where
  "committed_value E s addr slot = map_option fst (GetCommittedState E addr slot s)"

definition committed_inv :: "'d env \<Rightarrow> 'd memStateDB \<Rightarrow> bool" where
  "committed_inv E s \<longleftrightarrow>
     (\<forall>a k v. get2 (committedStorage s) a k = Some v \<longrightarrow>
        store_slot E s a k = Some (Some v) \<or>
        (get2 (storage s) a k \<noteq> None \<and> (\<forall>c \<in> set (snapshots s). get2 (se_storage c) a k \<noteq> None)))"

lemma store_slot_eq:
  "store_slot E s a k =
     (case localStore s of
        None \<Rightarrow> Some None
      | Some st \<Rightarrow>
          (case GetStorageSlot (ev_pw E) (ev_bk E) st (addr_bytes a) (hash_bytes k) of
             None \<Rightarrow> None
           | Some (Inr (Some val)) \<Rightarrow> Some (Some (BytesToHash (ev_eth E) val))
           | Some _ \<Rightarrow> Some None))"
  by (auto simp: store_slot_def loadSlotFromStore_def Let_def split: option.split sum.split)

lemma store_slot_cong: "localStore s' = localStore s \<Longrightarrow> store_slot E s' = store_slot E s"
  by (intro ext) (simp add: store_slot_eq)

lemma committed_value_eq:
  "committed_value E s a k =
     (case get2 (committedStorage s) a k of
        Some v \<Rightarrow> Some v
      | None \<Rightarrow> map_option (case_option 0 id) (store_slot E s a k))"
  by (cases "loadSlotFromStore E a k s")
    (auto simp: committed_value_def GetCommittedState_def store_slot_def split: option.split)

lemma committed_value_cong:
  assumes "committedStorage s' = committedStorage s" and "localStore s' = localStore s"
  shows "committed_value E s' = committed_value E s"
  unfolding fun_eq_iff committed_value_eq assms(1) store_slot_cong [OF assms(2)] by simp

lemma effect_committed:
  assumes "slot_effect E s s'" and "committed_inv E s"
  shows "committed_inv E s'" and "committed_value E s' = committed_value E s"
proof -
  from slot_effect_frame [OF assms(1)] have
    st: "store_slot E s' = store_slot E s" and sn: "snapshots s' = snapshots s"
    by (auto simp: frame_def intro: store_slot_cong)
  have "committed_inv E s' \<and> (\<forall>b j. committed_value E s' b j = committed_value E s b j)"
    using assms(1)
  proof (cases rule: slot_effect.cases)
    case se_none
    with assms(2) committed_value_cong [of s' s E] show ?thesis
      by (simp add: committed_inv_def st sn frame_def)
  next
    case (se_cache a k v)
    have "committed_value E s' b j = committed_value E s b j" for b j
      using se_cache assms(2)
      by (fastforce simp: committed_value_eq st committed_inv_def split: option.split)
    moreover have "committed_inv E s'"
      using se_cache(2,3,5) assms(2) by (fastforce simp: committed_inv_def st sn)
    ultimately show ?thesis by blast
  qed
  then show "committed_inv E s'" "committed_value E s' = committed_value E s"
    by (auto simp: fun_eq_iff)
qed

lemma SetState_committed:
  assumes "committed_inv E s"
  shows "committed_inv E (snd (SetState a k v s))"
    and "committed_value E (snd (SetState a k v s)) = committed_value E s"
proof -
  let ?s = "snd (SetState a k v s)"
  have eq: "committedStorage ?s = committedStorage s" "localStore ?s = localStore s"
    "storage ?s = upd2 (storage s) a k v" "snapshots ?s = snapshots s"
    by (simp_all add: SetState_def Let_def)
  show "committed_value E ?s = committed_value E s"
    by (rule committed_value_cong) (simp_all add: eq)
  show "committed_inv E ?s"
    using assms by (fastforce simp: committed_inv_def eq store_slot_cong [OF eq(2)])
qed

lemma exec_committed:
  assumes "exec E x s = Some s'" and "committed_inv E s"
  shows "committed_inv E s' \<and> committed_value E s' = committed_value E s"
proof (cases "\<exists>a k v. x = OSetState a k v")
  case True
  with assms SetState_committed [OF assms(2)] show ?thesis by auto
next
  case False
  with exec_effect [OF assms(1)] effect_committed assms(2) show ?thesis by metis
qed

lemma Snapshot_committed:
  assumes "committed_inv E s"
  shows "committed_inv E (snd (Snapshot s))"
    and "committed_value E (snd (Snapshot s)) = committed_value E s"
proof -
  have eq: "committedStorage (snd (Snapshot s)) = committedStorage s"
    "storage (snd (Snapshot s)) = storage s" "localStore (snd (Snapshot s)) = localStore s"
    "snapshots (snd (Snapshot s)) = snapshots s @ [capture s]"
    by (simp_all add: Snapshot_def)
  show "committed_inv E (snd (Snapshot s))"
    using assms by (auto simp: committed_inv_def eq store_slot_cong [OF eq(3)] capture_def)
  show "committed_value E (snd (Snapshot s)) = committed_value E s"
    by (rule committed_value_cong) (simp_all add: eq)
qed

lemma Revert_committed:
  assumes "committed_inv E s"
  shows "committed_inv E (RevertToSnapshot i s)"
    and "committed_value E (RevertToSnapshot i s) = committed_value E s"
proof -
  let ?s = "RevertToSnapshot i s"
  have eq: "committedStorage ?s = committedStorage s" "localStore ?s = localStore s"
    by (simp_all add: RevertToSnapshot_def Let_def)
  show "committed_value E ?s = committed_value E s"
    by (rule committed_value_cong) (simp_all add: eq)
  show "committed_inv E ?s"
  proof (cases "i < 0 \<or> int (length (snapshots s)) \<le> i")
    case True
    with assms show ?thesis by (simp add: RevertToSnapshot_def)
  next
    case False
    then have n: "nat i < length (snapshots s)" by linarith
    have eq': "storage ?s = se_storage (snapshots s ! nat i)"
      "snapshots ?s = take (nat i) (snapshots s)"
      using False by (simp_all add: RevertToSnapshot_def Let_def)
    have sub: "set (snapshots ?s) \<subseteq> set (snapshots s)" by (simp add: eq' set_take_subset)
    have mem: "snapshots s ! nat i \<in> set (snapshots s)" using n by simp
    show ?thesis
      using assms sub mem unfolding committed_inv_def eq(1) eq'(1) store_slot_cong [OF eq(2)] by blast
  qed
qed

lemma run_db_committed:
  "run_db E cs s = Some s' \<Longrightarrow> committed_inv E s \<Longrightarrow>
   committed_inv E s' \<and> committed_value E s' = committed_value E s"
proof (induction cs arbitrary: s)
  case (Cons c cs)
  show ?case
  proof (cases c)
    case (Do x)
    with Cons.prems(1) obtain s1 where s1: "exec E x s = Some s1" "run_db E cs s1 = Some s'"
      by (auto split: option.splits)
    from exec_committed [OF s1(1) Cons.prems(2)] Cons.IH [OF s1(2)]
    show ?thesis by simp
  next
    case Snap
    with Cons.prems Cons.IH Snapshot_committed [OF Cons.prems(2)] show ?thesis by simp
  next
    case (Revert i)
    with Cons.prems Cons.IH [of "RevertToSnapshot i s"] Revert_committed [OF Cons.prems(2), of i]
    show ?thesis by simp
  qed
qed simp

text \<open>A new state's storage and committed storage are the task's slots.\<close>

lemma load_slots_fresh:
  "storage s = committedStorage s \<Longrightarrow> storage (load_slots E s e) = committedStorage (load_slots E s e)"
proof -
  have step: "storage (foldl (load_slot E a) t xs) = committedStorage (foldl (load_slot E a) t xs)"
    if "storage t = committedStorage t" for a t xs
    using that by (induction xs arbitrary: t) (simp_all add: load_slot_def Let_def)
  show "storage s = committedStorage s \<Longrightarrow> ?thesis" by (simp add: load_slots_def Let_def step)
qed

lemma load_slots_rest:
  "snapshots (load_slots E s e) = snapshots s \<and> changes (load_slots E s e) = changes s \<and>
   localStore (load_slots E s e) = localStore s"
proof -
  have "snapshots (foldl (load_slot E a) t xs) = snapshots t \<and>
      changes (foldl (load_slot E a) t xs) = changes t \<and>
      localStore (foldl (load_slot E a) t xs) = localStore t" for a t xs
    by (induction xs arbitrary: t) (simp_all add: load_slot_def Let_def)
  then show ?thesis by (simp add: load_slots_def Let_def)
qed

lemma load_code_rest:
  "storage (load_code E s e) = storage s \<and> committedStorage (load_code E s e) = committedStorage s \<and>
   snapshots (load_code E s e) = snapshots s \<and> changes (load_code E s e) = changes s \<and>
   localStore (load_code E s e) = localStore s"
  by (simp add: load_code_def Let_def split: option.split)

lemma NewMemStateDB_fresh:
  "storage (NewMemStateDB E task) = committedStorage (NewMemStateDB E task)"
  "snapshots (NewMemStateDB E task) = []" "changes (NewMemStateDB E task) = []"
  "localStore (NewMemStateDB E task) = None"
proof -
  define ok where "ok s \<longleftrightarrow> storage s = committedStorage s \<and> snapshots s = [] \<and> changes s = [] \<and>
      localStore s = None" for s :: "'a memStateDB"
  have slots: "ok s \<Longrightarrow> ok (load_slots E s e)" for s e
    using load_slots_fresh [of s E e] load_slots_rest [of E s e] by (simp add: ok_def)
  have code: "ok s \<Longrightarrow> ok (load_code E s e)" for s e
    using load_code_rest [of E s e] by (simp add: ok_def)
  have foldl_ok: "(\<And>s e. ok s \<Longrightarrow> ok (f s e)) \<Longrightarrow> ok s \<Longrightarrow> ok (foldl f s xs)" for f s and xs :: "'z list"
    by (induction xs arbitrary: s) simp_all
  have "ok (load_receiver E (tpReceiver task) (load_sender E (tpSender task) empty_db))"
    by (simp add: ok_def load_receiver_def load_sender_def empty_db_def split: option.split)
  then have "ok (NewMemStateDB E task)"
    unfolding NewMemStateDB_def Let_def by (intro foldl_ok slots code)
  then show "storage (NewMemStateDB E task) = committedStorage (NewMemStateDB E task)"
    "snapshots (NewMemStateDB E task) = []" "changes (NewMemStateDB E task) = []"
    "localStore (NewMemStateDB E task) = None" by (simp_all add: ok_def)
qed

text \<open>The state a transaction starts in: the task's, with the local store for L4.\<close>

definition start_db :: "'d env \<Rightarrow> 'd stateStore option \<Rightarrow> taskPackage \<Rightarrow> 'd memStateDB" where
  "start_db E store task =
     (case store of
        None \<Rightarrow> NewMemStateDB E task
      | Some st \<Rightarrow> SetLocalStore st (NewMemStateDB E task))"

lemma start_db_fresh:
  "storage (start_db E store task) = committedStorage (start_db E store task)"
  "snapshots (start_db E store task) = []" "changes (start_db E store task) = []"
  "localStore (start_db E store task) = store"
  using NewMemStateDB_fresh [of E task] by (simp_all add: start_db_def SetLocalStore_def split: option.split)

lemma start_db_committed: "committed_inv E (start_db E store task)"
  by (simp add: committed_inv_def start_db_fresh)

end
