(* ===== verification/StateDiff.thy ===== *)
theory StateDiff
  imports Journal
begin

section \<open>The reported state changes\<close>

text \<open>
  \<open>GetStateChanges\<close> merges the recorded writes into one entry per slot and drops the entries that
  change nothing. The first part shows what the merge computes; the second that, over any run of
  the StateDB operations with snapshots and reverts, the result is exactly the difference between
  the slots' values before the transaction and the values a read finds now.
\<close>

subsection \<open>The merge\<close>

definition ckey :: "storageChange \<Rightarrow> address \<times> hash" where
  "ckey c = (ch_address c, ch_slot c)"

definition slot_changes :: "address \<times> hash \<Rightarrow> storageChange list \<Rightarrow> storageChange list" where
  "slot_changes x cs = filter (\<lambda>c. ckey c = x) cs"

text \<open>The slots in the order of their first write, each with its first old and last new value.\<close>

definition first_keys :: "storageChange list \<Rightarrow> (address \<times> hash) list" where
  "first_keys cs = rev (remdups (rev (map ckey cs)))"

definition net_change :: "storageChange list \<Rightarrow> address \<times> hash \<Rightarrow> storageChange" where
  "net_change cs x =
     \<lparr>ch_address = fst x, ch_slot = snd x, ch_oldValue = ch_oldValue (hd (slot_changes x cs)),
      ch_newValue = ch_newValue (last (slot_changes x cs))\<rparr>"

definition net_changes :: "storageChange list \<Rightarrow> storageChange list" where
  "net_changes cs = map (net_change cs) (first_keys cs)"

lemma set_first_keys [simp]: "set (first_keys cs) = ckey ` set cs"
  by (simp add: first_keys_def)

lemma distinct_first_keys [simp]: "distinct (first_keys cs)"
  by (simp add: first_keys_def)

lemma first_keys_snoc:
  "first_keys (cs @ [c]) =
     (if ckey c \<in> ckey ` set cs then first_keys cs else first_keys cs @ [ckey c])"
  by (simp add: first_keys_def)

lemma slot_changes_Nil [simp]: "slot_changes x [] = []"
  by (simp add: slot_changes_def)

lemma slot_changes_snoc [simp]:
  "slot_changes x (cs @ [c]) = slot_changes x cs @ (if ckey c = x then [c] else [])"
  by (simp add: slot_changes_def)

lemma slot_changes_empty: "slot_changes x cs = [] \<longleftrightarrow> x \<notin> ckey ` set cs"
  by (auto simp: slot_changes_def filter_empty_conv)

lemma net_change_snoc_other: "ckey c \<noteq> x \<Longrightarrow> net_change (cs @ [c]) x = net_change cs x"
  by (simp add: net_change_def)

lemma net_change_snoc_same:
  "ckey c \<in> ckey ` set cs \<Longrightarrow>
   net_change (cs @ [c]) (ckey c) = (net_change cs (ckey c))\<lparr>ch_newValue := ch_newValue c\<rparr>"
  using slot_changes_empty [of "ckey c" cs] by (simp add: net_change_def)

lemma net_change_snoc_new: "ckey c \<notin> ckey ` set cs \<Longrightarrow> net_change (cs @ [c]) (ckey c) = c"
  using slot_changes_empty [of "ckey c" cs] by (cases c) (simp add: net_change_def ckey_def)

lemma net_changes_snoc:
  "net_changes (cs @ [c]) =
     (if ckey c \<in> ckey ` set cs
      then map (\<lambda>x. if x = ckey c then (net_change cs x)\<lparr>ch_newValue := ch_newValue c\<rparr>
                    else net_change cs x) (first_keys cs)
      else net_changes cs @ [c])"
proof (cases "ckey c \<in> ckey ` set cs")
  case True
  then show ?thesis
    by (auto simp: net_changes_def first_keys_snoc net_change_snoc_same net_change_snoc_other)
next
  case False
  then have "net_change (cs @ [c]) x = net_change cs x" if "x \<in> ckey ` set cs" for x
    using that by (metis net_change_snoc_other)
  with False show ?thesis
    by (simp add: net_changes_def first_keys_snoc net_change_snoc_new)
qed

lemma map_update_distinct:
  "distinct xs \<Longrightarrow> i < length xs \<Longrightarrow>
   (map f xs)[i := g (xs ! i)] = map (\<lambda>x. if x = xs ! i then g x else f x) xs"
  by (rule nth_equalityI) (auto simp: nth_list_update nth_eq_iff_index_eq)

lemma hex_change_update:
  "hex_change L (c\<lparr>ch_newValue := v\<rparr>) = (hex_change L c)\<lparr>scNewValue := HashHex L v\<rparr>"
  by (simp add: hex_change_def)

text \<open>\<open>seen\<close> maps the slots met so far to their positions.\<close>

lemma merge_changes_net:
  assumes "\<And>x i. seen x = Some i \<longleftrightarrow> i < length (first_keys ps) \<and> first_keys ps ! i = x"
  shows "merge_changes L seen (map (hex_change L) (net_changes ps)) cs =
    map (hex_change L) (net_changes (ps @ cs))"
  using assms
proof (induction cs arbitrary: seen ps)
  case (Cons c cs)
  let ?k = "ckey c"
  have k: "(ch_address c, ch_slot c) = ?k" by (simp add: ckey_def)
  show ?case
  proof (cases "seen ?k")
    case None
    have new: "?k \<notin> ckey ` set ps"
    proof
      assume "?k \<in> ckey ` set ps"
      then have "?k \<in> set (first_keys ps)" by simp
      then obtain i where "i < length (first_keys ps)" "first_keys ps ! i = ?k"
        unfolding in_set_conv_nth by blast
      with Cons.prems [of ?k i] None show False by simp
    qed
    have len: "length (net_changes ps) = length (first_keys ps)" by (simp add: net_changes_def)
    have "merge_changes L (seen(?k \<mapsto> length (first_keys ps)))
        (map (hex_change L) (net_changes (ps @ [c]))) cs = map (hex_change L) (net_changes ((ps @ [c]) @ cs))"
    proof (rule Cons.IH)
      fix x i
      show "(seen(?k \<mapsto> length (first_keys ps))) x = Some i \<longleftrightarrow>
          i < length (first_keys (ps @ [c])) \<and> first_keys (ps @ [c]) ! i = x"
      proof (cases "x = ?k")
        case True
        have "\<not> (i < length (first_keys ps) \<and> first_keys ps ! i = ?k)"
          using Cons.prems [of ?k i] None by simp
        with True new show ?thesis by (auto simp: first_keys_snoc nth_append)
      next
        case False
        with Cons.prems [of x i] new show ?thesis
          by (auto simp: first_keys_snoc nth_append)
      qed
    qed
    with None new show ?thesis by (simp add: Let_def k len net_changes_snoc)
  next
    case (Some i)
    with Cons.prems have i: "i < length (first_keys ps)" "first_keys ps ! i = ?k" by blast+
    then have old: "?k \<in> ckey ` set ps" by (metis nth_mem set_first_keys)
    have np: "net_changes ps = map (net_change ps) (first_keys ps)" by (simp add: net_changes_def)
    have nc: "net_changes (ps @ [c]) =
        map (\<lambda>x. if x = ?k then (net_change ps x)\<lparr>ch_newValue := ch_newValue c\<rparr>
                 else net_change ps x) (first_keys ps)"
      using old by (simp add: net_changes_snoc)
    have "(map (hex_change L) (net_changes ps))[i :=
        (map (hex_change L) (net_changes ps) ! i)\<lparr>scNewValue := HashHex L (ch_newValue c)\<rparr>] =
        map (hex_change L) (net_changes (ps @ [c]))"
    proof (rule nth_equalityI)
      fix j assume "j < length ((map (hex_change L) (net_changes ps))[i :=
        (map (hex_change L) (net_changes ps) ! i)\<lparr>scNewValue := HashHex L (ch_newValue c)\<rparr>])"
      then have j: "j < length (first_keys ps)" by (simp add: net_changes_def)
      then have "first_keys ps ! j = ?k \<longleftrightarrow> i = j"
        using i by (metis distinct_first_keys nth_eq_iff_index_eq)
      with i j old show "(map (hex_change L) (net_changes ps))[i :=
          (map (hex_change L) (net_changes ps) ! i)\<lparr>scNewValue := HashHex L (ch_newValue c)\<rparr>] ! j =
          map (hex_change L) (net_changes (ps @ [c])) ! j"
        by (auto simp: nc np nth_list_update hex_change_update)
    qed (simp add: nc np)
    moreover have "merge_changes L seen (map (hex_change L) (net_changes (ps @ [c]))) cs =
        map (hex_change L) (net_changes ((ps @ [c]) @ cs))"
      using Cons.prems old by (intro Cons.IH) (simp add: first_keys_snoc)
    moreover have "scNewValue (hex_change L c) = HashHex L (ch_newValue c)"
      by (simp add: hex_change_def)
    ultimately show ?thesis using Some by (simp add: Let_def k)
  qed
qed simp

lemma merge_changes_all: "merge_changes L Map.empty [] cs = map (hex_change L) (net_changes cs)"
  using merge_changes_net [of Map.empty "[]" L cs]
  by (simp add: net_changes_def first_keys_def)

definition is_change :: "storageChange \<Rightarrow> bool" where
  "is_change c \<longleftrightarrow> ch_oldValue c \<noteq> ch_newValue c"

context ethlib_laws
begin

lemma GetStateChanges_net:
  "GetStateChanges L s = map (hex_change L) (filter is_change (net_changes (changes s)))"
proof -
  have "(\<lambda>c. scOldValue (hex_change L c) \<noteq> scNewValue (hex_change L c)) = is_change"
    by (simp add: fun_eq_iff hex_change_def is_change_def)
  then show ?thesis by (simp add: GetStateChanges_def merge_changes_all filter_map comp_def)
qed

lemma GetStateChanges_distinct:
  "distinct (map (\<lambda>c. (scAddress c, scSlot c)) (GetStateChanges L s))"
proof -
  have "inj_on (\<lambda>c. (scAddress (hex_change L c), scSlot (hex_change L c))) (set (net_changes cs))" for cs
  proof (rule inj_onI)
    have net: "c = net_change cs (ckey c)" if "c \<in> set (net_changes cs)" for c
      using that by (auto simp: net_changes_def net_change_def ckey_def)
    fix c d assume "c \<in> set (net_changes cs)" "d \<in> set (net_changes cs)"
      "(scAddress (hex_change L c), scSlot (hex_change L c)) =
       (scAddress (hex_change L d), scSlot (hex_change L d))"
    then show "c = d" using net [of c] net [of d] by (simp add: hex_change_def ckey_def)
  qed
  moreover have "distinct (net_changes cs)" for cs
    unfolding net_changes_def distinct_map
  proof (intro conjI inj_onI)
    fix x y assume "net_change cs x = net_change cs y"
    then show "x = y" by (simp add: net_change_def prod_eq_iff)
  qed simp
  ultimately show ?thesis
    by (auto simp: GetStateChanges_net distinct_map comp_def intro: inj_on_subset)
qed

end

subsection \<open>The changes are exact\<close>

text \<open>
  A run reads a slot before writing it: \<open>SetState\<close> is called on a slot that is in memory or that
  the local store does not have. The EVM does so, since the price of a store depends on the
  current value; without a local store every run does.
\<close>

definition reads_first :: "'d env \<Rightarrow> 'd memStateDB \<Rightarrow> db_op \<Rightarrow> bool" where
  "reads_first E s x =
     (case x of
        OSetState a k v \<Rightarrow> get2 (storage s) a k \<noteq> None \<or> store_slot E s a k = Some None
      | _ \<Rightarrow> True)"

fun read_first_run :: "'d env \<Rightarrow> db_cmd list \<Rightarrow> 'd memStateDB \<Rightarrow> bool" where
  "read_first_run E [] s = True"
| "read_first_run E (Do x # cs) s =
     (reads_first E s x \<and> (case exec E x s of None \<Rightarrow> True | Some s' \<Rightarrow> read_first_run E cs s'))"
| "read_first_run E (Snap # cs) s = read_first_run E cs (snd (Snapshot s))"
| "read_first_run E (Revert i # cs) s = read_first_run E cs (RevertToSnapshot i s)"

definition base_value :: "'d env \<Rightarrow> 'd memStateDB \<Rightarrow> address \<Rightarrow> hash \<Rightarrow> hash" where
  "base_value E s a k = (case committed_value E s a k of Some v \<Rightarrow> v | None \<Rightarrow> 0)"

text \<open>Storage and changes fit together: the first old value is the slot's committed value, the
  last new value its current one, and an unwritten slot has its committed value.\<close>

definition slot_ok :: "hash \<Rightarrow> hash option \<Rightarrow> storageChange list \<Rightarrow> bool" where
  "slot_ok b cur ws \<longleftrightarrow>
     (if ws = [] then cur = None \<or> cur = Some b
      else ch_oldValue (hd ws) = b \<and> cur = Some (ch_newValue (last ws)))"

definition pair_ok ::
  "(address \<Rightarrow> hash \<Rightarrow> hash) \<Rightarrow> (address \<rightharpoonup> (hash \<rightharpoonup> hash)) \<Rightarrow> storageChange list \<Rightarrow> bool" where
  "pair_ok b st cs \<longleftrightarrow> (\<forall>a k. slot_ok (b a k) (get2 st a k) (slot_changes (a, k) cs))"

definition known ::
  "'d env \<Rightarrow> 'd memStateDB \<Rightarrow> (address \<rightharpoonup> (hash \<rightharpoonup> hash)) \<Rightarrow> bool" where
  "known E s st \<longleftrightarrow>
     (\<forall>a k. get2 st a k \<noteq> None \<longrightarrow>
        get2 (committedStorage s) a k \<noteq> None \<or> store_slot E s a k = Some None)"

definition diff_inv :: "'d env \<Rightarrow> (address \<Rightarrow> hash \<Rightarrow> hash) \<Rightarrow> 'd memStateDB \<Rightarrow> bool" where
  "diff_inv E b s \<longleftrightarrow>
     committed_inv E s \<and> base_value E s = b \<and>
     pair_ok b (storage s) (changes s) \<and> known E s (storage s) \<and>
     (\<forall>c \<in> set (snapshots s). pair_ok b (se_storage c) (se_changes c) \<and> known E s (se_storage c))"

lemma diff_invD:
  assumes "diff_inv E b s"
  shows "committed_inv E s" and "base_value E s = b" and "pair_ok b (storage s) (changes s)"
    and "known E s (storage s)"
    and "c \<in> set (snapshots s) \<Longrightarrow> pair_ok b (se_storage c) (se_changes c)"
    and "c \<in> set (snapshots s) \<Longrightarrow> known E s (se_storage c)"
  using assms by (auto simp: diff_inv_def)

lemma known_cong:
  "localStore s' = localStore s \<Longrightarrow> committedStorage s' = committedStorage s \<Longrightarrow>
   known E s' st = known E s st"
  using store_slot_cong [of s' s E] by (simp add: known_def)

lemma base_value_cong: "committed_value E s' = committed_value E s \<Longrightarrow> base_value E s' = base_value E s"
  by (simp add: base_value_def fun_eq_iff)

lemma committed_invD:
  "committed_inv E s \<Longrightarrow> get2 (committedStorage s) a k = Some v \<Longrightarrow> get2 (storage s) a k = None \<Longrightarrow>
   store_slot E s a k = Some (Some v)"
  unfolding committed_inv_def by metis

lemma knownD:
  "known E s st \<Longrightarrow> get2 st a k \<noteq> None \<Longrightarrow>
   get2 (committedStorage s) a k \<noteq> None \<or> store_slot E s a k = Some None"
  unfolding known_def by blast

text \<open>A slot not in memory whose value is known has its committed value in the store.\<close>

lemma missing_slot:
  assumes "committed_inv E s" and "get2 (storage s) a k = None"
  shows "committed_value E s a k = map_option (case_option 0 id) (store_slot E s a k)"
  using assms by (auto simp: committed_value_eq dest: committed_invD split: option.split)

lemma effect_diff_inv:
  assumes "slot_effect E s s'" and inv: "diff_inv E b s"
  shows "diff_inv E b s'"
proof -
  note D = diff_invD [OF inv]
  from slot_effect_frame [OF assms(1)] have
    fr: "localStore s' = localStore s" "snapshots s' = snapshots s" by (simp_all add: frame_def)
  have c: "committed_inv E s'" "base_value E s' = b"
    using effect_committed [OF assms(1) D(1)] base_value_cong D(2) by auto
  from assms(1) show ?thesis
  proof (cases rule: slot_effect.cases)
    case se_none
    with inv c fr known_cong [OF fr(1) se_none(3)] show ?thesis by (simp add: diff_inv_def)
  next
    case (se_cache a k v)
    have more: "known E s' st'" if "known E s st" "\<And>x y. get2 st' x y \<noteq> None \<Longrightarrow> (x, y) \<noteq> (a, k) \<Longrightarrow> get2 st x y \<noteq> None"
      for st st'
      using that se_cache(3) store_slot_cong [OF fr(1), of E] by (fastforce simp: known_def)
    have base: "b a k = v"
    proof -
      have "committed_value E s a k = Some v"
        using se_cache(5,6) D(1)
        by (auto simp: committed_value_eq dest: committed_invD split: option.split)
      then show ?thesis using D(2) by (auto simp: base_value_def)
    qed
    have untouched: "slot_changes (a, k) (changes s) = []"
    proof (rule ccontr)
      assume "slot_changes (a, k) (changes s) \<noteq> []"
      with D(3) have st: "get2 (storage s) a k \<noteq> None" by (auto simp: pair_ok_def slot_ok_def)
      with se_cache(6) have "get2 (committedStorage s) a k = None" by simp
      with knownD [OF D(4) st] se_cache(5) show False by simp
    qed
    have "pair_ok b (storage s') (changes s')"
      using D(3) base untouched by (auto simp: pair_ok_def se_cache(2,4) slot_ok_def)
    moreover have "known E s' (storage s')" by (rule more [OF D(4)]) (auto simp: se_cache(2))
    ultimately show ?thesis using c D(5,6) more by (simp add: diff_inv_def fr) blast
  qed
qed

lemma SetState_diff_inv:
  assumes inv: "diff_inv E b s" and rf: "get2 (storage s) a k \<noteq> None \<or> store_slot E s a k = Some None"
  shows "diff_inv E b (snd (SetState a k v s))"
proof -
  let ?s = "snd (SetState a k v s)"
  note D = diff_invD [OF inv]
  have eq: "committedStorage ?s = committedStorage s" "localStore ?s = localStore s"
    "storage ?s = upd2 (storage s) a k v" "snapshots ?s = snapshots s"
    by (simp_all add: SetState_def Let_def)
  have chs: "slot_changes x (changes ?s) = slot_changes x (changes s) @
      (if x = (a, k) then [\<lparr>ch_address = a, ch_slot = k,
         ch_oldValue = (case get2 (storage s) a k of Some v \<Rightarrow> v | None \<Rightarrow> 0), ch_newValue = v\<rparr>] else [])" for x
    by (simp add: SetState_def Let_def ckey_def)
  have base: "b a k = (case get2 (storage s) a k of Some v \<Rightarrow> v | None \<Rightarrow> 0)"
    if "slot_changes (a, k) (changes s) = []"
  proof (cases "get2 (storage s) a k")
    case None
    with rf missing_slot [OF D(1) None] have "committed_value E s a k = Some 0" by simp
    with None D(2) show ?thesis by (auto simp: base_value_def)
  next
    case (Some w)
    have "slot_ok (b a k) (get2 (storage s) a k) (slot_changes (a, k) (changes s))"
      using D(3) by (simp add: pair_ok_def)
    with that Some show ?thesis by (simp add: slot_ok_def)
  qed
  have pair: "pair_ok b (storage ?s) (changes ?s)"
    unfolding pair_ok_def
  proof (intro allI)
    fix x y
    have "slot_ok (b x y) (get2 (storage s) x y) (slot_changes (x, y) (changes s))"
      using D(3) by (simp add: pair_ok_def)
    then show "slot_ok (b x y) (get2 (storage ?s) x y) (slot_changes (x, y) (changes ?s))"
      by (cases "slot_changes (x, y) (changes s) = []")
        (use base in \<open>auto simp: chs eq slot_ok_def hd_append\<close>)
  qed
  have known: "known E ?s (storage ?s)"
    unfolding known_def eq(1) store_slot_cong [OF eq(2)]
  proof (intro allI impI)
    fix x y assume new: "get2 (storage ?s) x y \<noteq> None"
    show "get2 (committedStorage s) x y \<noteq> None \<or> store_slot E s x y = Some None"
    proof (cases "get2 (storage s) x y")
      case None
      with new have "x = a \<and> y = k" by (simp add: eq split: if_splits)
      with rf None show ?thesis by simp
    next
      case (Some w)
      with D(4) show ?thesis by (simp add: known_def)
    qed
  qed
  show ?thesis
    using SetState_committed [OF D(1), of a k v] base_value_cong D(2,5,6) pair known
      known_cong [OF eq(2,1)]
    by (auto simp: diff_inv_def eq(4))
qed

lemma Snapshot_diff_inv:
  assumes inv: "diff_inv E b s"
  shows "diff_inv E b (snd (Snapshot s))"
proof -
  note D = diff_invD [OF inv]
  have eq: "committedStorage (snd (Snapshot s)) = committedStorage s"
    "localStore (snd (Snapshot s)) = localStore s" "storage (snd (Snapshot s)) = storage s"
    "changes (snd (Snapshot s)) = changes s" "snapshots (snd (Snapshot s)) = snapshots s @ [capture s]"
    "se_storage (capture s) = storage s" "se_changes (capture s) = changes s"
    by (simp_all add: Snapshot_def capture_def)
  show ?thesis
    using Snapshot_committed [OF D(1)] base_value_cong D known_cong [OF eq(2,1)]
    by (auto simp: diff_inv_def eq)
qed

lemma Revert_diff_inv:
  assumes inv: "diff_inv E b s"
  shows "diff_inv E b (RevertToSnapshot i s)"
proof (cases "i < 0 \<or> int (length (snapshots s)) \<le> i")
  case True
  with inv show ?thesis by (simp add: RevertToSnapshot_def)
next
  case False
  let ?s = "RevertToSnapshot i s" and ?c = "snapshots s ! nat i"
  note D = diff_invD [OF inv]
  have eq: "committedStorage ?s = committedStorage s" "localStore ?s = localStore s"
    by (simp_all add: RevertToSnapshot_def Let_def)
  have eq': "storage ?s = se_storage ?c" "changes ?s = se_changes ?c"
    "snapshots ?s = take (nat i) (snapshots s)"
    using False by (simp_all add: RevertToSnapshot_def Let_def)
  from False have "nat i < length (snapshots s)" by linarith
  then have mem: "?c \<in> set (snapshots s)" and sub: "set (snapshots ?s) \<subseteq> set (snapshots s)"
    by (simp_all add: eq' set_take_subset)
  have "committed_inv E ?s" "base_value E ?s = b"
    using Revert_committed [OF D(1), of i] base_value_cong [of E ?s s] D(2) by simp_all
  moreover have "known E ?s = known E s" using known_cong [OF eq(2,1)] by (simp add: fun_eq_iff)
  ultimately show ?thesis
    using D(5,6) [OF mem] D(5,6) sub by (auto simp: diff_inv_def eq'(1,2))
qed

lemma run_db_diff_inv:
  "run_db E cs s = Some s' \<Longrightarrow> read_first_run E cs s \<Longrightarrow> diff_inv E b s \<Longrightarrow> diff_inv E b s'"
proof (induction cs arbitrary: s)
  case (Cons c cs)
  show ?case
  proof (cases c)
    case (Do x)
    with Cons.prems obtain s1 where s1: "exec E x s = Some s1" "run_db E cs s1 = Some s'"
      "reads_first E s x" "read_first_run E cs s1" by (auto split: option.splits)
    have "diff_inv E b s1"
    proof (cases "\<exists>a k v. x = OSetState a k v")
      case True
      then obtain a k v where x: "x = OSetState a k v" by blast
      with s1(3) have "get2 (storage s) a k \<noteq> None \<or> store_slot E s a k = Some None"
        by (simp add: reads_first_def)
      from SetState_diff_inv [OF Cons.prems(3) this] s1(1) x show ?thesis by auto
    next
      case False
      with exec_effect [OF s1(1)] effect_diff_inv Cons.prems(3) show ?thesis by blast
    qed
    with Cons.IH s1 show ?thesis by blast
  next
    case Snap
    with Cons.prems Cons.IH [of "snd (Snapshot s)"] show ?thesis by (simp add: Snapshot_diff_inv)
  next
    case (Revert i)
    with Cons.prems Cons.IH [of "RevertToSnapshot i s"] show ?thesis by (simp add: Revert_diff_inv)
  qed
qed simp

lemma start_db_diff_inv: "diff_inv E (base_value E (start_db E store task)) (start_db E store task)"
proof -
  let ?s = "start_db E store task"
  have "slot_ok (base_value E ?s a k) (get2 (storage ?s) a k) []" for a k
    by (auto simp: slot_ok_def base_value_def committed_value_eq start_db_fresh split: option.split)
  then show ?thesis
    by (auto simp: diff_inv_def start_db_committed start_db_fresh pair_ok_def known_def)
qed

subsection \<open>Reads and the reported changes\<close>

definition read_value :: "'d env \<Rightarrow> 'd memStateDB \<Rightarrow> address \<Rightarrow> hash \<Rightarrow> hash option" where
  "read_value E s a k = map_option fst (GetState E a k s)"

lemma read_value_eq:
  "read_value E s a k =
     (case get2 (storage s) a k of
        Some v \<Rightarrow> Some v
      | None \<Rightarrow> map_option (case_option 0 id) (store_slot E s a k))"
  by (cases "loadSlotFromStore E a k s")
    (auto simp: read_value_def GetState_def store_slot_def split: option.split)

text \<open>The change of a slot, when its value before and its value now are known and differ.\<close>

definition true_change :: "(address \<Rightarrow> hash \<Rightarrow> hash option) \<Rightarrow> (address \<Rightarrow> hash \<Rightarrow> hash option) \<Rightarrow> storageChange set" where
  "true_change before now =
     {c. \<exists>old new. before (ch_address c) (ch_slot c) = Some old \<and> now (ch_address c) (ch_slot c) = Some new \<and>
        ch_oldValue c = old \<and> ch_newValue c = new \<and> old \<noteq> new}"

lemma net_changes_exact:
  assumes inv: "diff_inv E (base_value E s) s"
  shows "{c \<in> set (net_changes (changes s)). is_change c} = true_change (committed_value E s) (read_value E s)"
proof -
  note D = diff_invD [OF inv]
  let ?ws = "\<lambda>a k. slot_changes (a, k) (changes s)"
  have ok: "slot_ok (base_value E s a k) (get2 (storage s) a k) (?ws a k)" for a k
    using D(3) by (simp add: pair_ok_def)
  have touched: "committed_value E s a k = Some (ch_oldValue (hd (?ws a k)))"
    "read_value E s a k = Some (ch_newValue (last (?ws a k)))" if "?ws a k \<noteq> []" for a k
  proof -
    from ok [of a k] that have cur: "get2 (storage s) a k = Some (ch_newValue (last (?ws a k)))"
      and old: "ch_oldValue (hd (?ws a k)) = base_value E s a k" by (simp_all add: slot_ok_def)
    from cur show "read_value E s a k = Some (ch_newValue (last (?ws a k)))"
      by (simp add: read_value_eq)
    have "committed_value E s a k \<noteq> None"
      using knownD [OF D(4), of a k] cur by (auto simp: committed_value_eq split: option.split)
    with old show "committed_value E s a k = Some (ch_oldValue (hd (?ws a k)))"
      by (auto simp: base_value_def)
  qed
  have untouched: "read_value E s a k = committed_value E s a k \<or>
      (\<exists>v. read_value E s a k = Some v \<and> committed_value E s a k = None)" if "?ws a k = []" for a k
  proof (cases "get2 (storage s) a k")
    case None
    with missing_slot [OF D(1) None] show ?thesis by (simp add: read_value_eq)
  next
    case (Some v)
    with ok [of a k] that have "base_value E s a k = v" by (simp add: slot_ok_def)
    with Some show ?thesis
      by (cases "committed_value E s a k") (simp_all add: read_value_eq base_value_def)
  qed
  have mem: "c \<in> set (net_changes (changes s)) \<longleftrightarrow>
      ?ws (ch_address c) (ch_slot c) \<noteq> [] \<and> c = net_change (changes s) (ckey c)" for c
  proof
    assume "c \<in> set (net_changes (changes s))"
    then obtain x where "x \<in> ckey ` set (changes s)" "c = net_change (changes s) x"
      by (auto simp: net_changes_def)
    then show "?ws (ch_address c) (ch_slot c) \<noteq> [] \<and> c = net_change (changes s) (ckey c)"
      by (simp add: slot_changes_empty net_change_def ckey_def)
  next
    assume "?ws (ch_address c) (ch_slot c) \<noteq> [] \<and> c = net_change (changes s) (ckey c)"
    then show "c \<in> set (net_changes (changes s))"
      unfolding net_changes_def set_map set_first_keys slot_changes_empty by (auto simp: ckey_def)
  qed
  show ?thesis
  proof (rule set_eqI)
    fix c :: storageChange
    let ?a = "ch_address c" and ?k = "ch_slot c"
    show "c \<in> {c \<in> set (net_changes (changes s)). is_change c} \<longleftrightarrow>
        c \<in> true_change (committed_value E s) (read_value E s)"
    proof (cases "?ws ?a ?k = []")
      case True
      then show ?thesis using untouched [OF True] by (auto simp: mem true_change_def)
    next
      case False
      then show ?thesis using touched [OF False]
        by (cases c) (auto simp: mem true_change_def is_change_def net_change_def ckey_def)
    qed
  qed
qed

lemma state_changes_exact:
  assumes "ethlib_laws (ev_eth E)"
    and run: "run_db E cs (start_db E store task) = Some s"
    and rf: "read_first_run E cs (start_db E store task)"
  shows "set (GetStateChanges (ev_eth E) s) =
    hex_change (ev_eth E) ` true_change (committed_value E (start_db E store task)) (read_value E s)"
proof -
  have inv: "diff_inv E (base_value E (start_db E store task)) s"
    using run_db_diff_inv [OF run rf start_db_diff_inv] .
  then have base: "base_value E (start_db E store task) = base_value E s" by (simp add: diff_inv_def)
  have com: "committed_value E s = committed_value E (start_db E store task)"
    using run_db_committed [OF run start_db_committed] by simp
  have "{c \<in> set (net_changes (changes s)). is_change c} =
      true_change (committed_value E (start_db E store task)) (read_value E s)"
    using net_changes_exact [of E s] inv base com by simp
  then show ?thesis
    unfolding ethlib_laws.GetStateChanges_net [OF assms(1)] set_map set_filter by simp
qed

text \<open>Without a local store every run reads first.\<close>

lemma read_first_no_store:
  "localStore s = None \<Longrightarrow> read_first_run E cs s"
proof (induction cs arbitrary: s)
  case (Cons c cs)
  show ?case
  proof (cases c)
    case (Do x)
    have "localStore s' = None" if "exec E x s = Some s'" for s'
      using exec_frame [OF that] Cons.prems by (simp add: frame_def)
    moreover have "store_slot E s a k = Some None" for a k
      using Cons.prems by (simp add: store_slot_eq)
    then have "reads_first E s x" by (cases x) (simp_all add: reads_first_def)
    ultimately show ?thesis using Do Cons.IH by (cases "exec E x s") simp_all
  next
    case Snap
    with Cons show ?thesis by (simp add: Snapshot_def)
  next
    case (Revert i)
    with Cons show ?thesis by (simp add: RevertToSnapshot_def Let_def)
  qed
qed simp

text \<open>
  Reads of the committed value have a side effect. When a slot was written before it was ever read
  and the local store has a value for it, \<open>GetCommittedState\<close> caches that value over the pending
  write: the next \<open>GetState\<close> returns the old stored value.
\<close>

lemma committed_read_overwrites_pending_write:
  assumes "get2 (storage s) a k = None" and "get2 (committedStorage s) a k = None"
    and "store_slot E s a k = Some (Some old)"
    and "GetCommittedState E a k (snd (SetState a k new s)) = Some (c, s2)"
  shows "map_option fst (GetState E a k (snd (SetState a k new s))) = Some new \<and>
    c = old \<and> map_option fst (GetState E a k s2) = Some old"
proof -
  let ?s1 = "snd (SetState a k new s)"
  have eq: "storage ?s1 = upd2 (storage s) a k new" "committedStorage ?s1 = committedStorage s"
    "localStore ?s1 = localStore s" by (simp_all add: SetState_def Let_def)
  have st: "store_slot E ?s1 a k = Some (Some old)" using assms(3) store_slot_cong [OF eq(3)] by simp
  from assms(2,4) eq obtain r where ld: "loadSlotFromStore E a k ?s1 = Some (r, s2)" and
    c: "c = (case r of Some v \<Rightarrow> v | None \<Rightarrow> 0)"
    by (auto simp: GetCommittedState_def bind_eq_Some_conv)
  have r: "r = Some old" using ld st by (simp add: store_slot_def)
  with loadSlotFromStore_cases [OF ld] st have "get2 (storage s2) a k = Some old" by auto
  with c r eq show ?thesis by (simp add: GetState_def)
qed

end
