(* ===== verification/Evm.thy ===== *)
theory Evm
  imports StateDiff
begin

section \<open>Executing a transaction (evm.go)\<close>

text \<open>
  \<open>executeEVM\<close> builds the state of a task, sets up the contexts, runs go-ethereum's interpreter
  and collects the result. The interpreter (\<open>vm.NewEVM\<close>, \<open>Create\<close>, \<open>Call\<close>) is the parameter
  \<open>evm\<close>: it maps the contexts, the chain configuration, the call and the state to a panic or to
  the returned data, the gas left, an error and the new state; \<open>None\<close> is a call that never
  returns. What the interpreter is relied on for is \<open>evm_contract\<close>.
\<close>

record evmResult =
  erSuccess :: bool
  erGasUsed :: u64
  erReturnData :: bytes
  erStateChanges :: "stateChange list"
  erLogs :: "logEntry list"
  erError :: exec_error

text \<open>\<open>_inContractTransfer\<close>: thirty-two zero bytes.\<close>

definition inContractTransfer :: bytes where
  "inContractTransfer = replicate 32 0"

record chainConfig =
  ccChainID :: int
  ccHomesteadBlock :: int
  ccEIP150Block :: int
  ccEIP155Block :: int
  ccEIP158Block :: int
  ccByzantiumBlock :: int
  ccConstantinopleBlock :: int
  ccPetersburgBlock :: int
  ccMuirGlacierBlock :: int
  ccIstanbulBlock :: int
  ccBerlinBlock :: int
  ccLondonBlock :: int
  ccArrowGlacierBlock :: int
  ccGrayGlacierBlock :: int
  ccMergeNetsplitBlock :: int
  ccTerminalTotalDifficulty :: int
  ccShanghaiTime :: u64
  ccCancunTime :: u64

definition iotexChainConfig :: chainConfig where
  "iotexChainConfig =
     \<lparr>ccChainID = 4689, ccHomesteadBlock = 0, ccEIP150Block = 0, ccEIP155Block = 0,
      ccEIP158Block = 0, ccByzantiumBlock = 0, ccConstantinopleBlock = 0, ccPetersburgBlock = 0,
      ccMuirGlacierBlock = 0, ccIstanbulBlock = 0, ccBerlinBlock = 0, ccLondonBlock = 0,
      ccArrowGlacierBlock = 0, ccGrayGlacierBlock = 0, ccMergeNetsplitBlock = 0,
      ccTerminalTotalDifficulty = 0, ccShanghaiTime = 0, ccCancunTime = 0\<rparr>"

subsection \<open>The hooks handed to the interpreter\<close>

definition canTransfer ::
  "'d env \<Rightarrow> address \<Rightarrow> u256 \<Rightarrow> 'd memStateDB \<Rightarrow> (bool \<times> 'd memStateDB) option" where
  "canTransfer E addr amount s = map_option (\<lambda>(b, s'). (amount \<le> b, s')) (GetBalance E addr s)"

definition transfer_log :: "'d env \<Rightarrow> address \<Rightarrow> address \<Rightarrow> u256 \<Rightarrow> evmLog" where
  "transfer_log E sender recipient amount =
     \<lparr>lg_Address = 0,
      lg_Topics = [BytesToHash (ev_eth E) inContractTransfer, BytesToHash (ev_eth E) (addr_bytes sender),
                   BytesToHash (ev_eth E) (addr_bytes recipient)],
      lg_Data = U256Bytes (ev_eth E) amount, lg_TxHash = 0, lg_TxIndex = 0, lg_Index = 0\<rparr>"

definition iotexTransfer ::
  "'d env \<Rightarrow> address \<Rightarrow> address \<Rightarrow> u256 \<Rightarrow> 'd memStateDB \<Rightarrow> 'd memStateDB option" where
  "iotexTransfer E sender recipient amount s = do {
     (_, s) \<leftarrow> SubBalance E sender amount s;
     (_, s) \<leftarrow> AddBalance E recipient amount s;
     Some (AddLog (transfer_log E sender recipient amount) s) }"

text \<open>\<open>BigToHash\<close> of a number: its bytes without leading zeros.\<close>

definition mockGetHash :: "ethlib \<Rightarrow> u64 \<Rightarrow> hash" where
  "mockGetHash L n = BytesToHash L (dropWhile (\<lambda>b. b = 0) (put_u64 n))"

record 'd vmBlockContext =
  vbCanTransfer :: "address \<Rightarrow> u256 \<Rightarrow> 'd memStateDB \<Rightarrow> (bool \<times> 'd memStateDB) option"
  vbTransfer :: "address \<Rightarrow> address \<Rightarrow> u256 \<Rightarrow> 'd memStateDB \<Rightarrow> 'd memStateDB option"
  vbGetHash :: "u64 \<Rightarrow> hash"
  vbCoinbase :: address
  vbBlockNumber :: int
  vbTime :: u64
  vbDifficulty :: int
  vbGasLimit :: u64
  vbBaseFee :: int
  vbRandom :: hash
  vbBlobBaseFee :: int

record vmTxContext =
  vtOrigin :: address
  vtGasPrice :: int

datatype evm_call =
    EvmCreate address bytes u64 u256
  | EvmCall address address bytes u64 u256

fun call_gas :: "evm_call \<Rightarrow> u64" where
  "call_gas (EvmCreate sender data gas value) = gas"
| "call_gas (EvmCall sender to data gas value) = gas"

datatype 'd evm_outcome =
    EvmPanicked string
  | EvmReturned bytes u64 "string option" "'d memStateDB"

type_synonym 'd evm =
  "'d vmBlockContext \<Rightarrow> vmTxContext \<Rightarrow> chainConfig \<Rightarrow> evm_call \<Rightarrow> 'd memStateDB \<Rightarrow> 'd evm_outcome option"

subsection \<open>Running a task\<close>

definition parse_amount :: "string \<Rightarrow> int" where
  "parse_amount s = (case set_string10 s of None \<Rightarrow> 0 | Some i \<Rightarrow> i)"

definition block_context :: "'d env \<Rightarrow> taskPackage \<Rightarrow> 'd vmBlockContext" where
  "block_context E task =
     (case tpBlockContext task of
        Some bc \<Rightarrow>
          \<lparr>vbCanTransfer = canTransfer E, vbTransfer = iotexTransfer E,
           vbGetHash = mockGetHash (ev_eth E), vbCoinbase = HexToAddress (ev_eth E) (bcCoinbase bc),
           vbBlockNumber = uint (bcNumber bc), vbTime = bcTimestamp bc, vbDifficulty = 50,
           vbGasLimit = bcGasLimit bc, vbBaseFee = parse_amount (bcBaseFee bc), vbRandom = 0,
           vbBlobBaseFee = 0\<rparr>
      | None \<Rightarrow>
          \<lparr>vbCanTransfer = canTransfer E, vbTransfer = iotexTransfer E,
           vbGetHash = mockGetHash (ev_eth E), vbCoinbase = 0,
           vbBlockNumber = uint (tpBlockHeight task), vbTime = 0, vbDifficulty = 50,
           vbGasLimit = 30000000, vbBaseFee = 0, vbRandom = 0, vbBlobBaseFee = 0\<rparr>)"

definition failed_result :: "exec_error \<Rightarrow> evmResult" where
  "failed_result e =
     \<lparr>erSuccess = False, erGasUsed = 0, erReturnData = [], erStateChanges = [], erLogs = [], erError = e\<rparr>"

definition log_entry :: "ethlib \<Rightarrow> evmLog \<Rightarrow> logEntry" where
  "log_entry L log =
     \<lparr>leAddress = AddressHex L (lg_Address log), leTopics = map (HashHex L) (lg_Topics log),
      leData = lg_Data log\<rparr>"

definition evm_call_of :: "'d env \<Rightarrow> address \<Rightarrow> evmTx \<Rightarrow> u256 \<Rightarrow> evm_call" where
  "evm_call_of E sender etx value =
     (if txTo etx = [] then EvmCreate sender (txData etx) (txGasLimit etx) value
      else EvmCall sender (HexToAddress (ev_eth E) (txTo etx)) (txData etx) (txGasLimit etx) value)"

definition collect_result ::
  "'d env \<Rightarrow> u64 \<Rightarrow> 'd evm_outcome \<Rightarrow> evmResult" where
  "collect_result E gas out =
     (case out of
        EvmPanicked p \<Rightarrow> failed_result (EvmPanic p)
      | EvmReturned ret gasLeft err s \<Rightarrow>
          \<lparr>erSuccess = (err = None), erGasUsed = gas - gasLeft, erReturnData = ret,
           erStateChanges = GetStateChanges (ev_eth E) s,
           erLogs = map (log_entry (ev_eth E)) (GetLogs s),
           erError = (case err of None \<Rightarrow> NoExecError | Some e \<Rightarrow> EvmFailed e)\<rparr>)"

definition executeEVM ::
  "'d env \<Rightarrow> 'd evm \<Rightarrow> taskPackage \<Rightarrow> 'd stateStore option \<Rightarrow> evmResult option" where
  "executeEVM E evm task store =
     (case tpEvmTx task of
        None \<Rightarrow> Some (failed_result NoEvmTxData)
      | Some etx \<Rightarrow>
          (case tpSender task of
             None \<Rightarrow> Some (failed_result NoSenderState)
           | Some sender \<Rightarrow>
               let stateDB = NewMemStateDB E task;
                   stateDB = (case store of None \<Rightarrow> stateDB | Some st \<Rightarrow> SetLocalStore st stateDB);
                   gasPrice = parse_amount (txGasPrice etx);
                   value = parse_amount (txValue etx);
                   senderAddr = HexToAddress (ev_eth E) (snAddress sender);
                   txCtx = \<lparr>vtOrigin = senderAddr, vtGasPrice = gasPrice\<rparr>;
                   (valueU256, overflow) = U256FromBig (ev_eth E) value
               in if overflow then Some (failed_result ValueOverflow)
                  else map_option (collect_result E (txGasLimit etx))
                         (evm (block_context E task) txCtx iotexChainConfig
                            (evm_call_of E senderAddr etx valueU256) stateDB)))"

text \<open>
  What the interpreter is relied on for, given the hooks above: it changes the state through the operations of the
  StateDB interface only, reads a slot before it writes it, and never returns more gas than
  it was given.
\<close>

definition evm_contract :: "'d env \<Rightarrow> 'd evm \<Rightarrow> bool" where
  "evm_contract E evm \<longleftrightarrow>
     (\<forall>bc tc cc call s ret gasLeft err s'.
        vbCanTransfer bc = canTransfer E \<longrightarrow> vbTransfer bc = iotexTransfer E \<longrightarrow>
        evm bc tc cc call s = Some (EvmReturned ret gasLeft err s') \<longrightarrow>
        gasLeft \<le> call_gas call \<and> (\<exists>cs. run_db E cs s = Some s' \<and> read_first_run E cs s))"

lemma evm_contractD:
  assumes "evm_contract E evm" and "vbCanTransfer bc = canTransfer E" and "vbTransfer bc = iotexTransfer E"
    and "evm bc tc cc call s = Some (EvmReturned ret gasLeft err s')"
  shows "gasLeft \<le> call_gas call" and "\<exists>cs. run_db E cs s = Some s' \<and> read_first_run E cs s"
  using assms unfolding evm_contract_def by blast+

lemma block_context_hooks [simp]:
  "vbCanTransfer (block_context E task) = canTransfer E"
  "vbTransfer (block_context E task) = iotexTransfer E"
  by (simp_all add: block_context_def split: option.split)

lemma call_gas_of [simp]: "call_gas (evm_call_of E sender etx value) = txGasLimit etx"
  by (simp add: evm_call_of_def)

text \<open>A result that is not a failure of the set-up comes from one run of the interpreter.\<close>

lemma executeEVM_cases:
  assumes "executeEVM E evm task store = Some r"
  shows "(\<exists>e. r = failed_result e \<and> e \<noteq> NoExecError) \<or>
    (\<exists>etx tc call ret gasLeft err s.
       tpEvmTx task = Some etx \<and> call_gas call = txGasLimit etx \<and>
       evm (block_context E task) tc iotexChainConfig call (start_db E store task) = Some (EvmReturned ret gasLeft err s) \<and>
       r = collect_result E (txGasLimit etx) (EvmReturned ret gasLeft err s))"
proof (cases "tpEvmTx task")
  case None
  with assms show ?thesis by (auto simp: executeEVM_def)
next
  case (Some etx)
  show ?thesis
  proof (cases "tpSender task")
    case None
    with Some assms show ?thesis by (auto simp: executeEVM_def)
  next
    case (Some sender)
    let ?a = "HexToAddress (ev_eth E) (snAddress sender)"
    obtain v ov where v: "U256FromBig (ev_eth E) (parse_amount (txValue etx)) = (v, ov)"
      by (cases "U256FromBig (ev_eth E) (parse_amount (txValue etx))")
    show ?thesis
    proof (cases ov)
      case True
      with assms \<open>tpEvmTx task = Some etx\<close> Some v show ?thesis by (auto simp: executeEVM_def Let_def)
    next
      case False
      with assms \<open>tpEvmTx task = Some etx\<close> Some v obtain out where
        out: "evm (block_context E task) \<lparr>vtOrigin = ?a, vtGasPrice = parse_amount (txGasPrice etx)\<rparr>
            iotexChainConfig (evm_call_of E ?a etx v) (start_db E store task) = Some out"
        and r: "r = collect_result E (txGasLimit etx) out"
        by (auto simp: executeEVM_def Let_def start_db_def)
      show ?thesis
      proof (cases out)
        case (EvmPanicked p)
        with r have "r = failed_result (EvmPanic p)" by (simp add: collect_result_def)
        then show ?thesis by blast
      next
        case (EvmReturned ret gasLeft err s)
        with out r \<open>tpEvmTx task = Some etx\<close> show ?thesis by (metis call_gas_of)
      qed
    qed
  qed
qed

subsection \<open>Balances\<close>

text \<open>The balance a read finds, cached or in the local store.\<close>

definition observed_balance :: "'d env \<Rightarrow> 'd memStateDB \<Rightarrow> address \<Rightarrow> u256 option" where
  "observed_balance E s a = map_option fst (GetBalance E a s)"

definition store_balance :: "'d env \<Rightarrow> 'd memStateDB \<Rightarrow> address \<Rightarrow> u256 option" where
  "store_balance E s a =
     (case loadAccountFromStore E a s of
        None \<Rightarrow> None
      | Some (r, s') \<Rightarrow> Some (case r of Some x \<Rightarrow> balance x | None \<Rightarrow> 0))"

lemma observed_balance_eq:
  "observed_balance E s a =
     (case accounts s a of Some x \<Rightarrow> Some (balance x) | None \<Rightarrow> store_balance E s a)"
  by (cases "loadAccountFromStore E a s")
    (auto simp: observed_balance_def GetBalance_def find_account_def store_balance_def
      split: option.split)

lemma store_balance_cong: "localStore s' = localStore s \<Longrightarrow> store_balance E s' a = store_balance E s a"
  by (auto simp: store_balance_def loadAccountFromStore_def Let_def split: option.split sum.split)

text \<open>Caching an account changes no observed balance.\<close>

lemma loadAccount_cases:
  assumes "loadAccountFromStore E a s = Some (r, s')"
  shows "localStore s' = localStore s" and "logs s' = logs s" and "logIndex s' = logIndex s"
    and "accounts s' = (case r of None \<Rightarrow> accounts s | Some x \<Rightarrow> (accounts s)(a \<mapsto> x))"
    and "store_balance E s a = Some (case r of Some x \<Rightarrow> balance x | None \<Rightarrow> 0)"
  using assms
  by (auto simp: loadAccountFromStore_def store_balance_def Let_def split: option.splits sum.splits)

lemma find_account_balance:
  assumes "find_account E a s = Some (r, s')"
  shows "observed_balance E s' c = observed_balance E s c"
    and "observed_balance E s a = Some (case r of Some x \<Rightarrow> balance x | None \<Rightarrow> 0)"
proof -
  show "observed_balance E s' c = observed_balance E s c"
  proof (cases "accounts s a")
    case None
    with assms have ld: "loadAccountFromStore E a s = Some (r, s')" by (simp add: find_account_def)
    note L = loadAccount_cases [OF ld]
    show ?thesis
      unfolding observed_balance_eq L(4) store_balance_cong [OF L(1)]
      using None L(5) by (cases r) auto
  next
    case (Some x)
    with assms show ?thesis by (simp add: find_account_def)
  qed
  show "observed_balance E s a = Some (case r of Some x \<Rightarrow> balance x | None \<Rightarrow> 0)"
    using assms loadAccount_cases(5) [of E a s r s']
    by (auto simp: find_account_def observed_balance_eq split: option.splits)
qed

lemma getOrCreate_spec:
  assumes "getOrCreateAccount E a s = Some (x, s')"
  shows "localStore s' = localStore s" and "logs s' = logs s" and "logIndex s' = logIndex s"
    and "accounts s' = (accounts s)(a \<mapsto> x)" and "observed_balance E s a = Some (balance x)"
proof -
  have "localStore s' = localStore s \<and> logs s' = logs s \<and> logIndex s' = logIndex s \<and>
      accounts s' = (accounts s)(a \<mapsto> x) \<and> observed_balance E s a = Some (balance x)"
  proof (cases "accounts s a")
    case (Some y)
    with assms show ?thesis
      by (auto simp: getOrCreateAccount_def observed_balance_eq fun_upd_idem)
  next
    case None
    with assms obtain r s1 where ld: "loadAccountFromStore E a s = Some (r, s1)" and
      x: "(case r of Some acct \<Rightarrow> Some (acct, s1)
           | None \<Rightarrow> Some (new_account E, s1\<lparr>accounts := (accounts s1)(a \<mapsto> new_account E)\<rparr>)) = Some (x, s')"
      by (auto simp: getOrCreateAccount_def bind_eq_Some_conv)
    note L = loadAccount_cases [OF ld]
    from x L None show ?thesis
      by (cases r) (auto simp: observed_balance_eq new_account_def)
  qed
  then show "localStore s' = localStore s" "logs s' = logs s" "logIndex s' = logIndex s"
    "accounts s' = (accounts s)(a \<mapsto> x)" "observed_balance E s a = Some (balance x)" by auto
qed

lemma put_balance:
  assumes "getOrCreateAccount E a s = Some (x, s')"
  shows "observed_balance E (put_account a (x\<lparr>balance := v\<rparr>) s') c =
    (if c = a then Some v else observed_balance E s c)"
proof -
  note G = getOrCreate_spec [OF assms]
  have "localStore (put_account a (x\<lparr>balance := v\<rparr>) s') = localStore s"
    using G(1) by (simp add: put_account_def)
  from store_balance_cong [OF this, of E c] G(4) show ?thesis
    by (auto simp: observed_balance_eq put_account_def split: option.split)
qed

lemma SubBalance_balance:
  assumes "SubBalance E a v s = Some (p, s')"
  shows "observed_balance E s a = Some p"
    and "observed_balance E s' c = (if c = a then Some (if p < v then 0 else p - v) else observed_balance E s c)"
    and "logs s' = logs s" and "logIndex s' = logIndex s" and "frame s s'"
proof -
  from assms obtain x s1 where g: "getOrCreateAccount E a s = Some (x, s1)"
    and s': "p = balance x" "s' = put_account a (x\<lparr>balance := (if balance x < v then 0 else balance x - v)\<rparr>) s1"
    by (auto simp: SubBalance_def bind_eq_Some_conv Let_def)
  note G = getOrCreate_spec [OF g]
  show "observed_balance E s a = Some p" using G(5) s' by simp
  show "observed_balance E s' c = (if c = a then Some (if p < v then 0 else p - v) else observed_balance E s c)"
    using put_balance [OF g] s' by simp
  show "logs s' = logs s" "logIndex s' = logIndex s" using G s' by (simp_all add: put_account_def)
  show "frame s s'" using getOrCreate_slots [OF g] s' by (simp add: same_slots_def frame_def put_account_def)
qed

lemma AddBalance_balance:
  assumes "AddBalance E a v s = Some (p, s')"
  shows "observed_balance E s a = Some p"
    and "observed_balance E s' c = (if c = a then Some (p + v) else observed_balance E s c)"
    and "logs s' = logs s" and "logIndex s' = logIndex s" and "frame s s'"
proof -
  from assms obtain x s1 where g: "getOrCreateAccount E a s = Some (x, s1)"
    and s': "p = balance x" "s' = put_account a (x\<lparr>balance := balance x + v\<rparr>) s1"
    by (auto simp: AddBalance_def bind_eq_Some_conv)
  note G = getOrCreate_spec [OF g]
  show "observed_balance E s a = Some p" using G(5) s' by simp
  show "observed_balance E s' c = (if c = a then Some (p + v) else observed_balance E s c)"
    using put_balance [OF g] s' by simp
  show "logs s' = logs s" "logIndex s' = logIndex s" using G s' by (simp_all add: put_account_def)
  show "frame s s'" using getOrCreate_slots [OF g] s' by (simp add: same_slots_def frame_def put_account_def)
qed

lemma canTransfer_balance:
  assumes "canTransfer E a v s = Some (ok, s')"
  shows "\<exists>x. observed_balance E s a = Some x \<and> ok = (v \<le> x)"
    and "observed_balance E s' c = observed_balance E s c"
proof -
  from assms obtain r where f: "find_account E a s = Some (r, s')"
    and ok: "ok = (v \<le> (case r of Some x \<Rightarrow> balance x | None \<Rightarrow> 0))"
    by (auto simp: canTransfer_def GetBalance_def bind_eq_Some_conv split: prod.splits)
  show "\<exists>x. observed_balance E s a = Some x \<and> ok = (v \<le> x)"
    using find_account_balance(2) [OF f] ok by simp
  show "observed_balance E s' c = observed_balance E s c"
    by (rule find_account_balance(1) [OF f])
qed

text \<open>A checked transfer moves the amount: what the sender loses the recipient gains, also when
  they are the same account.\<close>

lemma transfer_moves:
  assumes can: "canTransfer E a v s = Some (True, s1)" and tr: "iotexTransfer E a b v s1 = Some s2"
    and old: "observed_balance E s c = Some x"
    and room: "\<And>y. a \<noteq> b \<Longrightarrow> observed_balance E s b = Some y \<Longrightarrow> uint y + uint v < 2 ^ 256"
  shows "\<exists>x'. observed_balance E s2 c = Some x' \<and>
    uint x' = uint x - (if c = a then uint v else 0) + (if c = b then uint v else 0)"
proof -
  from tr obtain p s' q s'' where
    sub: "SubBalance E a v s1 = Some (p, s')" and add: "AddBalance E b v s' = Some (q, s'')" and
    s2: "s2 = AddLog (transfer_log E a b v) s''"
    by (auto simp: iotexTransfer_def bind_eq_Some_conv)
  note S = SubBalance_balance [OF sub] and A = AddBalance_balance [OF add]
  have same: "observed_balance E s2 c = observed_balance E s'' c" for c
    using store_balance_cong [of s2 s'' E c]
    by (simp add: observed_balance_eq s2 AddLog_def split: option.split)
  from canTransfer_balance [OF can] S(1) have v: "v \<le> p" and pa: "observed_balance E s a = Some p"
    by auto
  have sub_p: "uint (p - v) = uint p - uint v" using v by (simp add: uint_sub_if' word_le_def)
  have s'_c: "observed_balance E s' c = (if c = a then Some (p - v) else observed_balance E s c)" for c
    using S(2) [of c] v canTransfer_balance(2) [OF can] by (simp add: not_less [symmetric])
  have fin: "observed_balance E s2 c = (if c = b then Some (q + v) else observed_balance E s' c)"
    using A(2) same by simp
  show ?thesis
  proof (cases "c = b")
    case False
    with fin s'_c [of c] old pa sub_p show ?thesis by auto
  next
    case True
    show ?thesis
    proof (cases "a = b")
      case True
      with A(1) s'_c have "q = p - v" by simp
      with True \<open>c = b\<close> fin old pa show ?thesis by simp
    next
      case False
      with True s'_c [of b] A(1) old have "q = x" by simp
      moreover have "uint (x + v) = uint x + uint v"
        using room [OF False] True old by (simp add: uint_word_ariths mod_pos_pos_trivial)
      ultimately show ?thesis using False True fin by simp
    qed
  qed
qed

lemma transfer_logs:
  assumes "iotexTransfer E a b v s = Some s'"
  shows "logs s' = logs s @ [(transfer_log E a b v)\<lparr>lg_TxHash := txHash s,
      lg_TxIndex := word_of_int (txIndex s), lg_Index := logIndex s\<rparr>]"
proof -
  from assms obtain p s1 q s2 where
    sub: "SubBalance E a v s = Some (p, s1)" and add: "AddBalance E b v s1 = Some (q, s2)" and
    s': "s' = AddLog (transfer_log E a b v) s2"
    by (auto simp: iotexTransfer_def bind_eq_Some_conv)
  from SubBalance_balance(3-5) [OF sub] AddBalance_balance(3-5) [OF add] show ?thesis
    by (simp add: s' AddLog_def frame_def)
qed

subsection \<open>An interpreter that keeps the contract\<close>

text \<open>
  Plain calls: the value is checked and moved, then the length of the call data is stored in
  slot 0 of the callee, read before it is written. Creations fail.
\<close>

definition plain_evm :: "'d env \<Rightarrow> 'd evm" where
  "plain_evm E bc tc cc call s =
     (case call of
        EvmCreate sender data gas value \<Rightarrow> Some (EvmReturned [] gas (Some ''not supported'') s)
      | EvmCall sender to data gas value \<Rightarrow> do {
          (ok, s) \<leftarrow> vbCanTransfer bc sender value s;
          if \<not> ok then Some (EvmReturned [] gas (Some ''insufficient balance for transfer'') s)
          else do {
            s \<leftarrow> vbTransfer bc sender to value s;
            (_, s) \<leftarrow> GetState E to 0 s;
            Some (EvmReturned [] (gas - min gas 100) None
                    (snd (SetState to 0 (word_of_nat (length data)) s)))
          }
        })"

lemma GetState_known:
  assumes "GetState E a k s = Some (v, s')"
  shows "get2 (storage s') a k \<noteq> None \<or> store_slot E s' a k = Some None"
proof (cases "get2 (storage s) a k")
  case None
  with assms obtain r where ld: "loadSlotFromStore E a k s = Some (r, s')"
    by (auto simp: GetState_def bind_eq_Some_conv)
  from loadSlotFromStore_cases [OF ld] show ?thesis
    using ld by (auto simp: store_slot_def)
next
  case (Some w)
  with assms show ?thesis by (simp add: GetState_def)
qed

lemma canTransfer_run: "canTransfer E a v s = Some (ok, s') \<Longrightarrow> exec E (OGetBalance a) s = Some s'"
  by (auto simp: canTransfer_def)

lemma iotexTransfer_run:
  assumes "iotexTransfer E a b v s = Some s'"
  shows "run_db E [Do (OSubBalance a v), Do (OAddBalance b v), Do (OAddLog (transfer_log E a b v))] s = Some s'"
  using assms by (auto simp: iotexTransfer_def bind_eq_Some_conv split: option.split)

lemma plain_evm_contract: "evm_contract E (plain_evm E)"
  unfolding evm_contract_def
proof (intro allI impI)
  fix bc tc cc call s ret gasLeft err s'
  assume hooks: "vbCanTransfer bc = canTransfer E" "vbTransfer bc = iotexTransfer E"
    and run: "plain_evm E bc tc cc call s = Some (EvmReturned ret gasLeft err s')"
  show "gasLeft \<le> call_gas call \<and> (\<exists>cs. run_db E cs s = Some s' \<and> read_first_run E cs s)"
  proof (cases call)
    case (EvmCreate a data gas v)
    with run show ?thesis by (auto simp: plain_evm_def intro: exI [of _ "[]"])
  next
    case (EvmCall a b data gas v)
    with run hooks obtain ok s1 where can: "canTransfer E a v s = Some (ok, s1)"
      by (auto simp: plain_evm_def bind_eq_Some_conv)
    note get = canTransfer_run [OF can]
    show ?thesis
    proof (cases ok)
      case False
      with run hooks EvmCall can have "s' = s1" "gasLeft = gas" by (simp_all add: plain_evm_def)
      with EvmCall get show ?thesis
        by (auto simp: reads_first_def intro!: exI [of _ "[Do (OGetBalance a)]"])
    next
      case True
      with run hooks EvmCall can obtain s2 w s3 where
        tr: "iotexTransfer E a b v s1 = Some s2" and gs: "GetState E b 0 s2 = Some (w, s3)" and
        s': "s' = snd (SetState b 0 (word_of_nat (length data)) s3)" and gl: "gasLeft = gas - min gas 100"
        by (auto simp: plain_evm_def bind_eq_Some_conv)
      let ?cs = "[Do (OGetBalance a), Do (OSubBalance a v), Do (OAddBalance b v),
        Do (OAddLog (transfer_log E a b v)), Do (OGetState b 0),
        Do (OSetState b 0 (word_of_nat (length data)))]"
      have "run_db E ?cs s = Some s' \<and> read_first_run E ?cs s"
        using get iotexTransfer_run [OF tr] gs s' GetState_known [OF gs]
        by (auto simp: reads_first_def split: option.splits)
      moreover have "gas - min gas 100 \<le> gas" by (simp add: min_def word_sub_le)
      ultimately show ?thesis unfolding EvmCall gl call_gas.simps by blast
    qed
  qed
qed

end
