(* ===== verification/Validator.thy ===== *)
theory Validator
  imports Evm
begin

section \<open>Validating a task (validator.go)\<close>

text \<open>
  The four levels. The global \<open>activeStateStore\<close> is the argument \<open>active\<close>, the time a validation
  took is an argument, and the reject reasons and notes are the constructors of \<open>Types\<close>. A
  validation whose state lookups or interpreter never return is \<open>None\<close>.
\<close>

definition secp256k1N :: nat where
  "secp256k1N = 0xFFFFFFFFFFFFFFFFFFFFFFFFFFFFFFFEBAAEDCE6AF48A03BBFD25E8CD0364141"

record validationResult =
  vrValid :: bool
  vrRejectReason :: reason
  vrGasEstimate :: u64
  vrNote :: result_note
  vrLatencyUs :: u64
  vrEvmResult :: "evmResult option"

definition rejected :: "reason \<Rightarrow> validationResult" where
  "rejected r =
     \<lparr>vrValid = False, vrRejectReason = r, vrGasEstimate = 0, vrNote = NoNote, vrLatencyUs = 0,
      vrEvmResult = None\<rparr>"

definition accepted :: "u64 \<Rightarrow> validationResult" where
  "accepted gas =
     \<lparr>vrValid = True, vrRejectReason = NoReason, vrGasEstimate = gas, vrNote = NoNote,
      vrLatencyUs = 0, vrEvmResult = None\<rparr>"

definition validateL1 :: "taskPackage \<Rightarrow> validationResult" where
  "validateL1 task =
     (let raw = tpTxRaw task in
      if length raw < 65 then rejected TxTooShort
      else
        let sigStart = length raw - 65;
            r = be_nat (take 32 (drop sigStart raw));
            s = be_nat (take 32 (drop (sigStart + 32) raw))
        in if r = 0 then rejected SigRZero
           else if s = 0 then rejected SigSZero
           else if secp256k1N \<le> r then rejected SigRTooBig
           else if secp256k1N \<le> s then rejected SigSTooBig
           else accepted 21000)"

definition extractTxNonce :: "bytes \<Rightarrow> u64" where
  "extractTxNonce raw = (if length raw < 8 then 0 else be_u64 (take 8 raw))"

definition gas_estimate :: "taskPackage \<Rightarrow> u64" where
  "gas_estimate task =
     (case tpReceiver task of
        Some a \<Rightarrow> if 0 < length (snCodeHash a) then 100000 else 21000
      | None \<Rightarrow> 21000)"

definition validateL2 :: "taskPackage \<Rightarrow> validationResult" where
  "validateL2 task =
     (let l1 = validateL1 task in
      if \<not> vrValid l1 then l1
      else (case tpSender task of
              None \<Rightarrow> rejected MissingSender
            | Some sender \<Rightarrow>
                (case set_string10 (snBalance sender) of
                   None \<Rightarrow> rejected (InvalidSenderBalance (snBalance sender))
                 | Some bal \<Rightarrow>
                     if bal \<le> 0 then rejected ZeroBalance
                     else
                       let txNonce = extractTxNonce (tpTxRaw task) in
                       if txNonce < snNonce sender then rejected (NonceTooLow txNonce (snNonce sender))
                       else accepted (gas_estimate task))))"

text \<open>The result an execution gives, for both L3 and L4.\<close>

definition exec_verdict :: "result_note \<Rightarrow> evmResult \<Rightarrow> validationResult" where
  "exec_verdict n r =
     \<lparr>vrValid = erSuccess r, vrRejectReason = (if erSuccess r then NoReason else ExecReason (erError r)),
      vrGasEstimate = erGasUsed r, vrNote = n, vrLatencyUs = 0, vrEvmResult = Some r\<rparr>"

definition validateL3 :: "'d env \<Rightarrow> 'd evm \<Rightarrow> taskPackage \<Rightarrow> validationResult option" where
  "validateL3 E evm task =
     (let l2 = validateL2 task in
      if \<not> vrValid l2 then Some l2
      else if tpEvmTx task = None then Some (l2\<lparr>vrNote := L2Only\<rparr>)
      else map_option (exec_verdict NoNote) (executeEVM E evm task None))"

text \<open>
  The local L2 check: \<open>Some (Inl r)\<close> is a rejection, \<open>Some (Inr b)\<close> says whether the local
  account was used.
\<close>

definition local_check ::
  "'d env \<Rightarrow> 'd stateStore \<Rightarrow> taskPackage \<Rightarrow> (validationResult + bool) option" where
  "local_check E store task =
     (case tpSender task of
        None \<Rightarrow> Some (Inr False)
      | Some sender \<Rightarrow>
          if snAddress sender = [] then Some (Inr False)
          else (case addressToHash160 (snAddress sender) of
                  Inl e \<Rightarrow> Some (Inr False)
                | Inr addrHash \<Rightarrow>
                    (case GetAccount (ev_pw E) (ev_bk E) store addrHash of
                       None \<Rightarrow> None
                     | Some (Inl e) \<Rightarrow> Some (Inr False)
                     | Some (Inr None) \<Rightarrow> Some (Inr False)
                     | Some (Inr (Some acct)) \<Rightarrow>
                         if acBalance acct \<le> 0 then
                           Some (Inl ((rejected ZeroBalanceLocal)\<lparr>vrNote := L4Local (Height store)\<rparr>))
                         else
                           let txNonce = extractTxNonce (tpTxRaw task) in
                           if txNonce < acNonce acct then
                             Some (Inl ((rejected (NonceTooLowLocal txNonce (acNonce acct)))
                                         \<lparr>vrNote := L4Local (Height store)\<rparr>))
                           else Some (Inr True))))"

definition validateL4 ::
  "'d env \<Rightarrow> 'd evm \<Rightarrow> 'd stateStore option \<Rightarrow> taskPackage \<Rightarrow> validationResult option" where
  "validateL4 E evm active task =
     (case active of
        None \<Rightarrow> Some (rejected StoreNotInitialized)
      | Some store \<Rightarrow>
          let localHeight = Height store;
              l1 = validateL1 task
          in if \<not> vrValid l1 then Some l1
             else (case local_check E store task of
                     None \<Rightarrow> None
                   | Some (Inl r) \<Rightarrow> Some r
                   | Some (Inr localUsed) \<Rightarrow>
                       if \<not> localUsed \<and> \<not> vrValid (validateL2 task) then Some (validateL2 task)
                       else
                         let src = (if localUsed then Local else Coord) in
                         if tpEvmTx task = None then
                           Some ((accepted (gas_estimate task))\<lparr>vrNote := L4NoEvm localHeight src\<rparr>)
                         else map_option (exec_verdict (L4Evm localHeight src))
                                (executeEVM E evm task (Some store))))"

definition task_result :: "taskPackage \<Rightarrow> u64 \<Rightarrow> validationResult \<Rightarrow> taskResult" where
  "task_result task latency res =
     (let r = \<lparr>trTaskID = tpTaskID task, trValid = vrValid res, trRejectReason = vrRejectReason res,
               trNote = vrNote res, trGasEstimate = vrGasEstimate res, trLatencyUs = latency,
               trGasUsed = 0, trReturnData = [], trStateChanges = [], trLogs = [],
               trExecError = NoExecError\<rparr>
      in case vrEvmResult res of
           None \<Rightarrow> r
         | Some e \<Rightarrow> r\<lparr>trGasUsed := erGasUsed e, trReturnData := erReturnData e,
                        trStateChanges := erStateChanges e, trLogs := erLogs e,
                        trExecError := erError e\<rparr>)"

definition validateTask ::
  "'d env \<Rightarrow> 'd evm \<Rightarrow> 'd stateStore option \<Rightarrow> u64 \<Rightarrow> taskPackage \<Rightarrow> string \<Rightarrow> taskResult option" where
  "validateTask E evm active latency task level =
     map_option (task_result task latency)
       (if level = ''L1'' then Some (validateL1 task)
        else if level = ''L3'' then validateL3 E evm task
        else if level = ''L4'' then validateL4 E evm active task
        else Some (validateL2 task))"

subsection \<open>Signatures\<close>

text \<open>The signature a raw transaction ends with: 32 bytes of r, 32 of s, one of v.\<close>

definition signed_tx :: "bytes \<Rightarrow> nat \<Rightarrow> nat \<Rightarrow> byte \<Rightarrow> bytes" where
  "signed_tx body r s v = body @ be_bytes 32 r @ be_bytes 32 s @ [v]"

lemma validateL1_valid:
  "vrValid (validateL1 task) \<longleftrightarrow>
   (\<exists>body r s v. tpTxRaw task = signed_tx body r s v \<and>
      0 < r \<and> r < secp256k1N \<and> 0 < s \<and> s < secp256k1N)"
  (is "?l \<longleftrightarrow> ?r")
proof
  assume ?l
  let ?raw = "tpTxRaw task"
  let ?n = "length ?raw - 65"
  let ?R = "take 32 (drop ?n ?raw)" and ?S = "take 32 (drop (?n + 32) ?raw)"
  from \<open>?l\<close> have len: "65 \<le> length ?raw" and
    rs: "0 < be_nat ?R" "be_nat ?R < secp256k1N" "0 < be_nat ?S" "be_nat ?S < secp256k1N"
    by (auto simp: validateL1_def rejected_def Let_def split: if_splits)
  have lens: "length ?R = 32" "length ?S = 32" using len by simp_all
  obtain v where v: "drop (?n + 64) ?raw = [v]"
  proof -
    have "length (drop (?n + 64) ?raw) = 1" using len by simp
    then show thesis using that by (cases "drop (?n + 64) ?raw") auto
  qed
  have "?raw = take ?n ?raw @ ?R @ ?S @ drop (?n + 64) ?raw"
  proof -
    have "drop 32 (drop (?n + 32) ?raw) = drop (?n + 64) ?raw" by (simp add: add.commute)
    then have "?S @ drop (?n + 64) ?raw = drop (?n + 32) ?raw" by (metis append_take_drop_id)
    moreover have "drop 32 (drop ?n ?raw) = drop (?n + 32) ?raw" by (simp add: add.commute)
    then have "?R @ drop (?n + 32) ?raw = drop ?n ?raw" by (metis append_take_drop_id)
    ultimately show ?thesis by simp
  qed
  with v have "?raw = signed_tx (take ?n ?raw) (be_nat ?R) (be_nat ?S) v"
    using lens by (simp add: signed_tx_def be_bytes_be_nat [of ?R, unfolded lens] be_bytes_be_nat [of ?S, unfolded lens])
  with rs show ?r by blast
next
  assume ?r
  then obtain body r s v where raw: "tpTxRaw task = signed_tx body r s v" and
    rs: "0 < r" "r < secp256k1N" "0 < s" "s < secp256k1N" by blast
  have "secp256k1N < 256 ^ 32" by (simp add: secp256k1N_def)
  with rs have "be_nat (be_bytes 32 r) = r" "be_nat (be_bytes 32 s) = s"
    by (simp_all add: be_nat_be_bytes)
  with rs raw show ?l
    by (simp add: validateL1_def signed_tx_def Let_def accepted_def)
qed

lemma extractTxNonce_signed:
  "length body = 8 \<Longrightarrow> extractTxNonce (signed_tx body r s v) = be_u64 body"
  by (simp add: extractTxNonce_def signed_tx_def)

subsection \<open>Levels build on each other\<close>

lemmas verdict_defs = rejected_def accepted_def exec_verdict_def

lemma rejected_simps [simp]:
  "\<not> vrValid (rejected r)" "vrRejectReason (rejected r) = r" "vrEvmResult (rejected r) = None"
  by (simp_all add: rejected_def)

lemma accepted_simps [simp]:
  "vrValid (accepted g)" "vrRejectReason (accepted g) = NoReason" "vrEvmResult (accepted g) = None"
  "vrGasEstimate (accepted g) = g"
  by (simp_all add: accepted_def)

lemma validateL2_valid:
  "vrValid (validateL2 task) \<longleftrightarrow>
   vrValid (validateL1 task) \<and>
   (\<exists>sender bal. tpSender task = Some sender \<and> set_string10 (snBalance sender) = Some bal \<and> 0 < bal \<and>
      snNonce sender \<le> extractTxNonce (tpTxRaw task))"
  by (auto simp: validateL2_def Let_def not_less not_le split: option.splits)

lemma validateL3_valid:
  "validateL3 E evm task = Some r \<Longrightarrow> vrValid r \<Longrightarrow> vrValid (validateL2 task)"
  by (auto simp: validateL3_def Let_def split: if_splits)

lemma validateL4_valid:
  assumes "validateL4 E evm active task = Some r" and "vrValid r"
  shows "vrValid (validateL1 task)" and "\<exists>store. active = Some store"
  using assms by (auto simp: validateL4_def Let_def split: option.splits if_splits)

text \<open>What L4 knows about the sender when it accepts.\<close>

lemma local_check_Inr:
  assumes "local_check E store task = Some (Inr used)"
  shows "if used then \<exists>sender h acct. tpSender task = Some sender \<and>
      addressToHash160 (snAddress sender) = Inr h \<and>
      GetAccount (ev_pw E) (ev_bk E) store h = Some (Inr (Some acct)) \<and>
      0 < acBalance acct \<and> acNonce acct \<le> extractTxNonce (tpTxRaw task)
    else True"
  using assms
  by (auto simp: local_check_def Let_def not_less not_le
      split: option.splits sum.splits if_splits)

lemma validateL4_sender:
  assumes "validateL4 E evm (Some store) task = Some r" and "vrValid r"
  shows "(\<exists>sender h acct. tpSender task = Some sender \<and> addressToHash160 (snAddress sender) = Inr h \<and>
      GetAccount (ev_pw E) (ev_bk E) store h = Some (Inr (Some acct)) \<and>
      0 < acBalance acct \<and> acNonce acct \<le> extractTxNonce (tpTxRaw task)) \<or>
    vrValid (validateL2 task)"
proof -
  from assms obtain used where lc: "local_check E store task = Some (Inr used)" and
    u: "used \<or> vrValid (validateL2 task)"
    by (auto simp: validateL4_def Let_def local_check_def split: option.splits if_splits sum.splits)
  then show ?thesis using local_check_Inr [OF lc] by (cases used) auto
qed

text \<open>With a local account, the coordinator's balance and nonce of the sender do not count.\<close>

lemma local_check_snapshot:
  assumes "tpSender task = Some sender" and "addressToHash160 (snAddress sender) = Inr h"
    and "GetAccount (ev_pw E) (ev_bk E) store h = Some (Inr (Some acct))"
  shows "local_check E store task =
    Some (if acBalance acct \<le> 0 then Inl ((rejected ZeroBalanceLocal)\<lparr>vrNote := L4Local (Height store)\<rparr>)
          else if extractTxNonce (tpTxRaw task) < acNonce acct then
            Inl ((rejected (NonceTooLowLocal (extractTxNonce (tpTxRaw task)) (acNonce acct)))
                  \<lparr>vrNote := L4Local (Height store)\<rparr>)
          else Inr True)"
proof -
  have "snAddress sender \<noteq> []" using assms(2) by (auto simp: addressToHash160_def)
  with assms show ?thesis by (simp add: local_check_def Let_def)
qed

lemma validateL4_local:
  assumes "tpSender task = Some sender" and "addressToHash160 (snAddress sender) = Inr h"
    and "GetAccount (ev_pw E) (ev_bk E) store h = Some (Inr (Some acct))"
    and "tpEvmTx task = None"
  shows "validateL4 E evm (Some store) (task\<lparr>tpSender := Some (sender\<lparr>snBalance := b, snNonce := n\<rparr>)\<rparr>) =
    validateL4 E evm (Some store) task"
proof -
  let ?task = "task\<lparr>tpSender := Some (sender\<lparr>snBalance := b, snNonce := n\<rparr>)\<rparr>"
  have "local_check E store ?task = local_check E store task"
    using local_check_snapshot [of ?task "sender\<lparr>snBalance := b, snNonce := n\<rparr>" h E store acct]
      local_check_snapshot [OF assms(1-3)] assms(2,3) by simp
  moreover have "validateL1 ?task = validateL1 task" by (simp add: validateL1_def)
  moreover have "gas_estimate ?task = gas_estimate task" by (simp add: gas_estimate_def)
  moreover have "local_check E store task \<noteq> Some (Inr False)"
    using local_check_snapshot [OF assms(1-3)] by simp
  ultimately show ?thesis using assms(4)
    by (auto simp: validateL4_def Let_def split: option.split sum.split)
qed

subsection \<open>Results\<close>

text \<open>A verdict is valid exactly when it has no reason to reject.\<close>

definition verdict_ok :: "validationResult \<Rightarrow> bool" where
  "verdict_ok r \<longleftrightarrow>
     (vrValid r \<longleftrightarrow> vrRejectReason r = NoReason) \<and>
     (case vrEvmResult r of
        None \<Rightarrow> True
      | Some e \<Rightarrow> vrValid r = erSuccess e \<and> (erSuccess e \<longleftrightarrow> erError e = NoExecError))"

lemma verdict_ok_simps [simp]: "verdict_ok (rejected r) \<longleftrightarrow> r \<noteq> NoReason" "verdict_ok (accepted g)"
  by (simp_all add: verdict_ok_def)

lemma verdict_ok_note [simp]: "verdict_ok (r\<lparr>vrNote := n\<rparr>) = verdict_ok r"
  by (simp add: verdict_ok_def split: option.split)

lemma validateL1_ok [simp]: "verdict_ok (validateL1 task)"
  by (simp add: validateL1_def Let_def)

lemma validateL2_ok [simp]: "verdict_ok (validateL2 task)"
  by (simp add: validateL2_def Let_def split: option.split)

lemma executeEVM_success:
  assumes "executeEVM E evm task store = Some r"
  shows "erSuccess r \<longleftrightarrow> erError r = NoExecError"
  using executeEVM_cases [OF assms]
  by (auto simp: failed_result_def collect_result_def split: option.splits)

lemma exec_verdict_ok:
  "executeEVM E evm task store = Some r \<Longrightarrow> verdict_ok (exec_verdict n r)"
  using executeEVM_success [of E evm task store r] by (auto simp: verdict_ok_def exec_verdict_def)

lemma validateL3_ok: "validateL3 E evm task = Some r \<Longrightarrow> verdict_ok r"
  by (auto simp: validateL3_def Let_def exec_verdict_ok split: if_splits)

lemma local_check_ok: "local_check E store task = Some (Inl r) \<Longrightarrow> verdict_ok r"
  by (auto simp: local_check_def Let_def split: option.splits sum.splits if_splits)

lemma validateL4_ok: "validateL4 E evm active task = Some r \<Longrightarrow> verdict_ok r"
  by (auto simp: validateL4_def Let_def exec_verdict_ok local_check_ok
      split: option.splits sum.splits if_splits)

lemma validateTask_result:
  assumes "validateTask E evm active latency task level = Some r"
  shows "\<exists>res. verdict_ok res \<and> r = task_result task latency res"
proof -
  from assms obtain v where r: "r = task_result task latency v" and
    "v = validateL1 task \<or> validateL3 E evm task = Some v \<or> validateL4 E evm active task = Some v \<or>
     v = validateL2 task"
    by (auto simp: validateTask_def split: if_splits)
  then have "verdict_ok v" by (auto dest: validateL3_ok validateL4_ok)
  with r show ?thesis by blast
qed

lemma task_result_consistent:
  assumes "verdict_ok res" and "r = task_result task latency res"
  shows "trTaskID r = tpTaskID task" and "trLatencyUs r = latency"
    and "trValid r \<longleftrightarrow> trRejectReason r = NoReason"
    and "trValid r \<Longrightarrow> trExecError r = NoExecError"
  using assms by (auto simp: task_result_def verdict_ok_def Let_def split: option.splits)

text \<open>Gas never exceeds the limit, and the reported changes are those of a run of the interface.\<close>

lemma executeEVM_gas:
  assumes "evm_contract E evm" and "tpEvmTx task = Some etx" and "executeEVM E evm task store = Some r"
  shows "erGasUsed r \<le> txGasLimit etx"
  using executeEVM_cases [OF assms(3)]
proof (elim disjE exE conjE)
  fix e assume "r = failed_result e"
  then show ?thesis by (simp add: failed_result_def)
next
  fix etx' tc call ret gasLeft err s
  assume "tpEvmTx task = Some etx'" "call_gas call = txGasLimit etx'"
    and run: "evm (block_context E task) tc iotexChainConfig call (start_db E store task) =
      Some (EvmReturned ret gasLeft err s)"
    and r: "r = collect_result E (txGasLimit etx') (EvmReturned ret gasLeft err s)"
  with evm_contractD(1) [OF assms(1) _ _ run] assms(2) show ?thesis
    by (simp add: collect_result_def word_sub_le)
qed

lemma executeEVM_changes:
  assumes "ethlib_laws (ev_eth E)" and "evm_contract E evm" and "executeEVM E evm task store = Some r"
    and "erStateChanges r \<noteq> []"
  shows "\<exists>cs s. run_db E cs (start_db E store task) = Some s \<and>
    set (erStateChanges r) =
      hex_change (ev_eth E) ` true_change (committed_value E (start_db E store task)) (read_value E s)"
  using executeEVM_cases [OF assms(3)]
proof (elim disjE exE conjE)
  fix e assume "r = failed_result e"
  with assms(4) show ?thesis by (simp add: failed_result_def)
next
  fix etx' tc call ret gasLeft err s
  assume run: "evm (block_context E task) tc iotexChainConfig call (start_db E store task) =
      Some (EvmReturned ret gasLeft err s)"
    and r: "r = collect_result E (txGasLimit etx') (EvmReturned ret gasLeft err s)"
  from evm_contractD(2) [OF assms(2) _ _ run] obtain cs where
    "run_db E cs (start_db E store task) = Some s" "read_first_run E cs (start_db E store task)" by auto
  with state_changes_exact [OF assms(1) this] r show ?thesis
    by (auto simp: collect_result_def)
qed

text \<open>Unless the sender's local account was read from the store, the store is one of a run.\<close>

definition level_store :: "string \<Rightarrow> 'd stateStore option \<Rightarrow> 'd stateStore option" where
  "level_store level active = (if level = ''L4'' then active else None)"

lemma validateTask_evm:
  assumes "validateTask E evm active latency task level = Some r"
  shows "(trStateChanges r = [] \<and> trGasUsed r = 0) \<or>
    (\<exists>e. executeEVM E evm task (level_store level active) = Some e \<and> tpEvmTx task \<noteq> None \<and>
       trStateChanges r = erStateChanges e \<and> trGasUsed r = erGasUsed e)"
proof -
  have plain: "trStateChanges (task_result task latency v) = [] \<and> trGasUsed (task_result task latency v) = 0"
    if "vrEvmResult v = None" for v
    using that by (simp add: task_result_def)
  have l1: "vrEvmResult (validateL1 task) = None" by (simp add: validateL1_def Let_def)
  have l2: "vrEvmResult (validateL2 task) = None"
    by (simp add: validateL2_def Let_def l1 split: option.split)
  have lc: "vrEvmResult v = None" if "local_check E store task = Some (Inl v)" for store v
    using that by (auto simp: local_check_def Let_def split: option.splits sum.splits if_splits)
  from assms obtain v where r: "r = task_result task latency v" and
    v: "(if level = ''L1'' then Some (validateL1 task)
        else if level = ''L3'' then validateL3 E evm task
        else if level = ''L4'' then validateL4 E evm active task
        else Some (validateL2 task)) = Some v"
    by (auto simp: validateTask_def)
  have "vrEvmResult v = None \<or>
      (\<exists>e n. executeEVM E evm task (level_store level active) = Some e \<and> tpEvmTx task \<noteq> None \<and>
         v = exec_verdict n e)"
    using v l1 l2
    by (auto simp: validateL3_def validateL4_def level_store_def Let_def lc
        split: if_splits option.splits sum.splits)
  then show ?thesis
    using plain by (auto simp: r task_result_def exec_verdict_def)
qed

lemma executeEVM_distinct:
  assumes "ethlib_laws (ev_eth E)" and "executeEVM E evm task store = Some r"
  shows "distinct (map (\<lambda>c. (scAddress c, scSlot c)) (erStateChanges r))"
  using executeEVM_cases [OF assms(2)] ethlib_laws.GetStateChanges_distinct [OF assms(1)]
  by (auto simp: failed_result_def collect_result_def)

end
