(* ===== verification/Sync.thy ===== *)
theory Sync
  imports StoreSpec
begin

section \<open>State diff synchronisation (statesync.go)\<close>

text \<open>
  \<open>syncLoop\<close> and \<open>streamDiffs\<close> as a labelled step relation. The phases are the points where the
  goroutine waits for its environment: the top of the reconnect loop, waiting for a message, and
  after \<open>streamDiffs\<close> has returned. The coordinator's messages, the failures of the stream and
  the cancellation of the context are the choices of the relation. A label records a request
  sent or a diff applied. \<open>sy_closed\<close> says that \<open>readyCh\<close> has been closed; closing it
  again panics. The three-second sleep and the logs have no effect on the state.
\<close>

datatype sync_phase = Top | Receiving | Returned | Stopped | Panicked

record 'd stateSync =
  sy_store :: "'d stateStore"
  sy_agentID :: string
  sy_ready :: bool
  sy_closed :: bool
  sy_cancel :: bool
  sy_ctxDone :: bool
  sy_phase :: sync_phase

datatype sync_label =
    Silent
  | Request streamStateDiffsRequest
  | Applied u64 "stateDiffEntry list"

definition NewStateSync :: "'d stateStore \<Rightarrow> string \<Rightarrow> 'd stateSync" where
  "NewStateSync store agentID =
     \<lparr>sy_store = store, sy_agentID = agentID, sy_ready = False, sy_closed = False,
      sy_cancel = False, sy_ctxDone = False, sy_phase = Stopped\<rparr>"

definition Start :: "'d stateSync \<Rightarrow> 'd stateSync" where
  "Start ss = ss\<lparr>sy_cancel := True, sy_phase := Top\<rparr>"

definition Stop :: "'d stateSync \<Rightarrow> 'd stateSync" where
  "Stop ss = (if sy_cancel ss then ss\<lparr>sy_ctxDone := True\<rparr> else ss)"

definition Ready :: "'d stateSync \<Rightarrow> bool" where
  "Ready ss = sy_ready ss"

text \<open>What \<open>WaitReady\<close> may return: no error, or the error of its own context.\<close>

inductive wait_ready :: "'d stateSync \<Rightarrow> bool \<Rightarrow> string option \<Rightarrow> bool" where
  wait_ok: "sy_closed ss \<Longrightarrow> wait_ready ss done None"
| wait_cancelled: "done \<Longrightarrow> wait_ready ss done (Some ''context done'')"

text \<open>The height the stream is opened from.\<close>

definition resume_height :: "'d stateStore \<Rightarrow> u64" where
  "resume_height store =
     (let fromHeight = Height store in if fromHeight > 0 then fromHeight + 1 else fromHeight)"

definition stream_request :: "'d stateSync \<Rightarrow> streamStateDiffsRequest" where
  "stream_request ss = \<lparr>sdAgentID = sy_agentID ss, sdFromHeight = resume_height (sy_store ss)\<rparr>"

text \<open>The body of the receive loop for one message: apply the diff, then publish readiness.\<close>

definition publish_ready :: "'d stateSync \<Rightarrow> 'd stateSync" where
  "publish_ready ss =
     (if \<not> sy_ready ss then
        (if sy_closed ss then ss\<lparr>sy_ready := True, sy_phase := Panicked\<rparr>
         else ss\<lparr>sy_ready := True, sy_closed := True\<rparr>)
      else ss)"

definition on_diff :: "'d bolt \<Rightarrow> 'd stateSync \<Rightarrow> stateDiffResponse \<Rightarrow> sync_label \<times> 'd stateSync" where
  "on_diff B ss resp =
     (case ApplyDiff B (sy_store ss) (srHeight resp) (srEntries resp) of
        (Some e, store') \<Rightarrow> (Silent, ss\<lparr>sy_store := store', sy_phase := Returned\<rparr>)
      | (None, store') \<Rightarrow>
          (Applied (srHeight resp) (srEntries resp), publish_ready (ss\<lparr>sy_store := store'\<rparr>)))"

inductive sync_step :: "'d bolt \<Rightarrow> 'd stateSync \<Rightarrow> sync_label \<Rightarrow> 'd stateSync \<Rightarrow> bool" for B where
  top_stop: "sy_phase ss = Top \<Longrightarrow> sy_ctxDone ss \<Longrightarrow> sync_step B ss Silent (ss\<lparr>sy_phase := Stopped\<rparr>)"
| open_fail: "sy_phase ss = Top \<Longrightarrow> \<not> sy_ctxDone ss \<Longrightarrow>
    sync_step B ss Silent (ss\<lparr>sy_phase := Returned\<rparr>)"
| open_ok: "sy_phase ss = Top \<Longrightarrow> \<not> sy_ctxDone ss \<Longrightarrow>
    sync_step B ss (Request (stream_request ss)) (ss\<lparr>sy_phase := Receiving\<rparr>)"
| recv_err: "sy_phase ss = Receiving \<Longrightarrow> sync_step B ss Silent (ss\<lparr>sy_phase := Returned\<rparr>)"
| recv: "sy_phase ss = Receiving \<Longrightarrow> on_diff B ss resp = (l, ss') \<Longrightarrow> sync_step B ss l ss'"
| ret_stop: "sy_phase ss = Returned \<Longrightarrow> sy_ctxDone ss \<Longrightarrow>
    sync_step B ss Silent (ss\<lparr>sy_phase := Stopped\<rparr>)"
| ret_retry: "sy_phase ss = Returned \<Longrightarrow> \<not> sy_ctxDone ss \<Longrightarrow>
    sync_step B ss Silent (ss\<lparr>sy_phase := Top\<rparr>)"
| cancelled: "sync_step B ss Silent (ss\<lparr>sy_ctxDone := True\<rparr>)"

inductive_cases step_applied: "sync_step B ss (Applied h es) ss'"
inductive_cases step_request: "sync_step B ss (Request r) ss'"
inductive_simps wait_ready_ok: "wait_ready ss done None"

inductive sync_run :: "'d bolt \<Rightarrow> 'd stateSync \<Rightarrow> sync_label list \<Rightarrow> 'd stateSync \<Rightarrow> bool" for B where
  run_nil: "sync_run B ss [] ss"
| run_cons: "sync_step B ss l ss1 \<Longrightarrow> sync_run B ss1 tr ss2 \<Longrightarrow> sync_run B ss (l # tr) ss2"

fun applied :: "sync_label list \<Rightarrow> (u64 \<times> stateDiffEntry list) list" where
  "applied [] = []"
| "applied (Applied h es # tr) = (h, es) # applied tr"
| "applied (l # tr) = applied tr"

subsection \<open>One step\<close>

lemma publish_ready_store [simp]: "sy_store (publish_ready ss) = sy_store ss"
  by (simp add: publish_ready_def)

lemma on_diff_cases:
  assumes "on_diff B ss resp = (l, ss')"
  shows "(\<exists>e. ApplyDiff B (sy_store ss) (srHeight resp) (srEntries resp) = (Some e, sy_store ss') \<and>
        l = Silent \<and> ss' = ss\<lparr>sy_store := sy_store ss', sy_phase := Returned\<rparr>) \<or>
      (ApplyDiff B (sy_store ss) (srHeight resp) (srEntries resp) = (None, sy_store ss') \<and>
        l = Applied (srHeight resp) (srEntries resp) \<and>
        ss' = publish_ready (ss\<lparr>sy_store := sy_store ss'\<rparr>))"
  using assms by (auto simp: on_diff_def split: prod.splits option.splits)

text \<open>A step that applies nothing leaves the store alone.\<close>

lemma step_store:
  assumes "sync_step B ss l ss'"
  shows "(\<exists>h es. l = Applied h es \<and> sy_phase ss = Receiving \<and>
        ApplyDiff B (sy_store ss) h es = (None, sy_store ss') \<and>
        ss' = publish_ready (ss\<lparr>sy_store := sy_store ss'\<rparr>)) \<or>
      ((\<forall>h es. l \<noteq> Applied h es) \<and> sy_store ss' = sy_store ss \<and>
        sy_ready ss' = sy_ready ss \<and> sy_closed ss' = sy_closed ss)"
  using assms
proof (cases rule: sync_step.cases)
  case (recv resp)
  from on_diff_cases [OF recv(2)] show ?thesis
  proof
    assume "\<exists>e. ApplyDiff B (sy_store ss) (srHeight resp) (srEntries resp) = (Some e, sy_store ss') \<and>
        l = Silent \<and> ss' = ss\<lparr>sy_store := sy_store ss', sy_phase := Returned\<rparr>"
    then obtain e where *: "ApplyDiff B (sy_store ss) (srHeight resp) (srEntries resp) = (Some e, sy_store ss')"
      "l = Silent" "ss' = ss\<lparr>sy_store := sy_store ss', sy_phase := Returned\<rparr>" by blast
    from *(1) have "sy_store ss' = sy_store ss" by (auto simp: ApplyDiff_def split: sum.splits)
    with * show ?thesis
      by (metis (no_types, lifting) stateSync.select_convs(3,4) stateSync.surjective stateSync.update_convs(1,7) sync_label.distinct(3))
  next
    assume "ApplyDiff B (sy_store ss) (srHeight resp) (srEntries resp) = (None, sy_store ss') \<and>
        l = Applied (srHeight resp) (srEntries resp) \<and> ss' = publish_ready (ss\<lparr>sy_store := sy_store ss'\<rparr>)"
    with recv(1) show ?thesis by blast
  qed
qed auto

subsection \<open>The channel is closed once\<close>

text \<open>\<open>readyCh\<close> is closed exactly when \<open>ready\<close> is set, so closing it never panics.\<close>

definition sync_inv :: "'d stateSync \<Rightarrow> bool" where
  "sync_inv ss \<longleftrightarrow> (sy_closed ss \<longleftrightarrow> sy_ready ss) \<and> sy_phase ss \<noteq> Panicked"

lemma sync_inv_new: "sync_inv (NewStateSync store agentID)"
  by (simp add: sync_inv_def NewStateSync_def)

lemma sync_inv_start: "sync_inv ss \<Longrightarrow> sync_inv (Start ss)"
  by (simp add: sync_inv_def Start_def)

lemma sync_inv_stop: "sync_inv ss \<Longrightarrow> sync_inv (Stop ss)"
  by (simp add: sync_inv_def Stop_def)

lemma sync_step_inv:
  assumes "sync_step B ss l ss'" and "sync_inv ss"
  shows "sync_inv ss'"
  using assms
proof (cases rule: sync_step.cases)
  case (recv resp)
  from assms(2) recv show ?thesis
    by (auto simp: on_diff_def sync_inv_def publish_ready_def split: prod.splits option.splits if_splits)
qed (auto simp: sync_inv_def)

lemma sync_run_inv: "sync_run B ss tr ss' \<Longrightarrow> sync_inv ss \<Longrightarrow> sync_inv ss'"
  by (induction rule: sync_run.induct) (auto dest: sync_step_inv)

lemma sync_run_ready:
  "sync_run B ss tr ss' \<Longrightarrow> sy_ready ss' \<longleftrightarrow> sy_ready ss \<or> applied tr \<noteq> []"
proof (induction rule: sync_run.induct)
  case (run_cons ss l ss1 tr ss2)
  from step_store [OF run_cons.hyps(1)] show ?case
  proof
    assume "\<exists>h es. l = Applied h es \<and> sy_phase ss = Receiving \<and>
        ApplyDiff B (sy_store ss) h es = (None, sy_store ss1) \<and>
        ss1 = publish_ready (ss\<lparr>sy_store := sy_store ss1\<rparr>)"
    then obtain h es where l: "l = Applied h es" and
      s1: "ss1 = publish_ready (ss\<lparr>sy_store := sy_store ss1\<rparr>)" by blast
    have "sy_ready (publish_ready u)" for u :: "'a stateSync" by (simp add: publish_ready_def)
    with s1 have "sy_ready ss1" by metis
    with run_cons.IH l show ?thesis by simp
  next
    assume "(\<forall>h es. l \<noteq> Applied h es) \<and> sy_store ss1 = sy_store ss \<and>
        sy_ready ss1 = sy_ready ss \<and> sy_closed ss1 = sy_closed ss"
    then show ?thesis using run_cons.IH by (cases l) auto
  qed
qed simp

subsection \<open>The store follows the applied diffs\<close>

lemma sync_run_blocks:
  "sync_run B ss tr ss' \<Longrightarrow> run_blocks (ApplyDiff B) (sy_store ss) (applied tr) = (None, sy_store ss')"
proof (induction rule: sync_run.induct)
  case (run_cons ss l ss1 tr ss2)
  from step_store [OF run_cons.hyps(1)] run_cons.IH show ?case
    by (cases l) auto
qed simp

subsection \<open>Reconnecting leaves no gap\<close>

text \<open>A coordinator that serves consecutive blocks from the requested height on.\<close>

fun serves :: "u64 \<Rightarrow> sync_label list \<Rightarrow> bool" where
  "serves nxt [] = True"
| "serves nxt (Request r # tr) = serves (sdFromHeight r) tr"
| "serves nxt (Applied h es # tr) = (h = nxt \<and> serves (nxt + 1) tr)"
| "serves nxt (Silent # tr) = serves nxt tr"

fun consecutive :: "u64 \<Rightarrow> u64 list \<Rightarrow> bool" where
  "consecutive h [] = True"
| "consecutive h (x # xs) = (x = h + 1 \<and> consecutive x xs)"

lemma publish_ready_phase:
  "sync_inv ss \<Longrightarrow> sy_phase (publish_ready ss) = sy_phase ss"
  by (simp add: publish_ready_def sync_inv_def)

lemma resume_height_next: "st_height store \<noteq> 0 \<Longrightarrow> resume_height store = st_height store + 1"
  by (simp add: resume_height_def Height_def word_gt_0)

lemma u64_succ_nonzero: "unat (h :: u64) + n < 2 ^ 64 \<Longrightarrow> 0 < n \<Longrightarrow> h + 1 \<noteq> 0 \<and> unat (h + 1) = unat h + 1"
  using unat_word_ariths(1) [of h 1] by (auto simp: word_unat_eq_iff)

lemma ApplyDiff_ok_height: "ApplyDiff B s h es = (None, s') \<Longrightarrow> st_height s' = h"
  by (auto simp: ApplyDiff_def split: sum.splits)

lemma sync_run_consecutive:
  assumes "sync_run B ss tr ss'" and "sync_inv ss"
    and "sy_phase ss = Receiving \<longrightarrow> nxt = st_height (sy_store ss) + 1"
    and "serves nxt tr" and "st_height (sy_store ss) \<noteq> 0"
    and "unat (st_height (sy_store ss)) + length (applied tr) < 2 ^ 64"
  shows "consecutive (st_height (sy_store ss)) (map fst (applied tr))"
  using assms
proof (induction arbitrary: nxt rule: sync_run.induct)
  case (run_nil ss)
  then show ?case by simp
next
  case (run_cons ss l ss1 tr ss2)
  have inv1: "sync_inv ss1" using run_cons.hyps(1) run_cons.prems(1) by (rule sync_step_inv)
  show ?case
  proof (cases l)
    case (Applied h es)
    from step_store [OF run_cons.hyps(1)] Applied have
      ph: "sy_phase ss = Receiving" and
      ap: "ApplyDiff B (sy_store ss) h es = (None, sy_store ss1)" by auto
    from ap have h1: "st_height (sy_store ss1) = h" by (rule ApplyDiff_ok_height)
    from run_cons.prems ph Applied have h: "h = st_height (sy_store ss) + 1" by simp
    from run_cons.prems(5) Applied
    have "unat (st_height (sy_store ss)) + Suc (length (applied tr)) < 2 ^ 64" by simp
    from u64_succ_nonzero [OF this] have
      nz: "h \<noteq> 0" "unat h = unat (st_height (sy_store ss)) + 1" using h by simp_all
    have "consecutive (st_height (sy_store ss1)) (map fst (applied tr))"
      using run_cons.prems Applied h1 nz h ph
      by (intro run_cons.IH [where nxt = "h + 1"] inv1) auto
    with Applied h h1 show ?thesis by simp
  next
    case (Request r)
    with run_cons.hyps(1) have r: "r = stream_request ss" "ss1 = ss\<lparr>sy_phase := Receiving\<rparr>"
      by (auto elim!: step_request simp: on_diff_def split: prod.splits option.splits)
    with run_cons.prems Request show ?thesis
      using run_cons.IH [where nxt = "sdFromHeight r"] inv1
      by (simp add: stream_request_def resume_height_next)
  next
    case Silent
    from step_store [OF run_cons.hyps(1)] Silent have st: "sy_store ss1 = sy_store ss" by auto
    have "sy_phase ss1 = Receiving \<Longrightarrow> sy_phase ss = Receiving"
      using run_cons.hyps(1) Silent
      by (cases rule: sync_step.cases) (auto simp: on_diff_def split: prod.splits option.splits)
    with run_cons.prems Silent st show ?thesis
      using run_cons.IH [where nxt = nxt] inv1 by simp
  qed
qed

end
