(* ===== verification/Snapshot.thy ===== *)
theory Snapshot
  imports StoreSpec GoLib
begin

section \<open>Bootstrap snapshots (snapshot.go)\<close>

text \<open>
  \<open>LoadSnapshot\<close> reads the uncompressed stream of an IOSWSNAP file. \<open>opened\<close> stands for
  \<open>os.Open\<close> and \<open>gzip.NewReader\<close>: the error of either, or the bytes the gzip reader yields;
  a read past them fails, whatever error the reader ends with. The header and the entries are
  read through a \<open>TeeReader\<close>: the reader state is the pair of what the hasher has got and what is
  left. \<open>sha\<close> is SHA-256.
\<close>

datatype snapshot_error =
    OpenSnapshot string
  | GzipReader string
  | ReadMagic
  | InvalidMagic bytes
  | ReadVersion
  | UnsupportedVersion u32
  | ReadHeight
  | ReadMarker
  | UnexpectedMarker byte
  | ReadNsLen
  | ReadNamespace
  | ReadKeyLen
  | ReadKey
  | ReadValLen
  | ReadValue
  | ReadTrailerCount
  | CountMismatch u64 nat
  | ReadDigest
  | ReadEndMagic
  | InvalidEndMagic bytes
  | DigestMismatch
  | ApplySnapshot store_error

definition snapshotMagic :: bytes where "snapshotMagic = bytes_of_string ''IOSWSNAP''"
definition snapshotEnd :: bytes where "snapshotEnd = bytes_of_string ''SNAPEND'' @ [0]"
definition snapshotVersion :: u32 where "snapshotVersion = 1"
definition entryMarker :: byte where "entryMarker = 1"
definition endMarker :: byte where "endMarker = 0"

lemma length_snapshotMagic [simp]: "length snapshotMagic = 8"
  by (simp add: snapshotMagic_def)

lemma length_snapshotEnd [simp]: "length snapshotEnd = 8"
  by (simp add: snapshotEnd_def)

type_synonym tee = "bytes \<times> bytes"

definition tee_full :: "nat \<Rightarrow> tee \<Rightarrow> (bytes \<times> tee) option" where
  "tee_full n t =
     (case t of (w, r) \<Rightarrow>
       (case read_full n r of None \<Rightarrow> None | Some (x, r') \<Rightarrow> Some (x, (w @ x, r'))))"

definition read_header :: "tee \<Rightarrow> snapshot_error + u64 \<times> tee" where
  "read_header t =
     (case tee_full 8 t of
        None \<Rightarrow> Inl ReadMagic
      | Some (magic, t) \<Rightarrow>
          if magic \<noteq> snapshotMagic then Inl (InvalidMagic magic)
          else (case tee_full 4 t of
                  None \<Rightarrow> Inl ReadVersion
                | Some (v, t) \<Rightarrow>
                    if be_u32 v \<noteq> snapshotVersion then Inl (UnsupportedVersion (be_u32 v))
                    else (case tee_full 8 t of
                            None \<Rightarrow> Inl ReadHeight
                          | Some (h, t) \<Rightarrow> Inr (be_u64 h, t))))"

text \<open>One iteration of the entry loop: an entry, or the end marker.\<close>

definition read_entry :: "tee \<Rightarrow> snapshot_error + stateDiffEntry option \<times> tee" where
  "read_entry t =
     (case tee_full 1 t of
        None \<Rightarrow> Inl ReadMarker
      | Some (marker, t) \<Rightarrow>
          if hd marker = endMarker then Inr (None, t)
          else if hd marker \<noteq> entryMarker then Inl (UnexpectedMarker (hd marker))
          else (case tee_full 1 t of None \<Rightarrow> Inl ReadNsLen | Some (nsLen, t) \<Rightarrow>
               (case tee_full (be_nat nsLen) t of None \<Rightarrow> Inl ReadNamespace | Some (ns, t) \<Rightarrow>
               (case tee_full 4 t of None \<Rightarrow> Inl ReadKeyLen | Some (keyLen, t) \<Rightarrow>
               (case tee_full (be_nat keyLen) t of None \<Rightarrow> Inl ReadKey | Some (key, t) \<Rightarrow>
               (case tee_full 4 t of None \<Rightarrow> Inl ReadValLen | Some (valLen, t) \<Rightarrow>
               (case tee_full (be_nat valLen) t of None \<Rightarrow> Inl ReadValue | Some (val, t) \<Rightarrow>
                 Inr (Some \<lparr>deWriteType = WriteTypePut, deNamespace = string_of_bytes ns,
                            deKey = key, deValue = val\<rparr>, t))))))))"

lemma tee_full_length: "tee_full n t = Some (x, t') \<Longrightarrow> length (snd t) = n + length (snd t')"
  by (cases t) (auto simp: tee_full_def read_full_def split: if_splits)

lemma read_entry_shrinks: "read_entry t = Inr (x, t') \<Longrightarrow> length (snd t') < length (snd t)"
  by (auto simp: read_entry_def split: option.splits prod.splits if_splits dest!: tee_full_length)

function read_entries :: "tee \<Rightarrow> stateDiffEntry list \<Rightarrow> snapshot_error + stateDiffEntry list \<times> tee" where
  "read_entries t diffs =
     (case read_entry t of
        Inl e \<Rightarrow> Inl e
      | Inr (None, t') \<Rightarrow> Inr (diffs, t')
      | Inr (Some d, t') \<Rightarrow> read_entries t' (diffs @ [d]))"
  by pat_completeness auto
termination
  by (relation "measure (\<lambda>(t, diffs). length (snd t))") (auto dest: read_entry_shrinks)

declare read_entries.simps [simp del]

fun bytesEqual :: "bytes \<Rightarrow> bytes \<Rightarrow> bool" where
  "bytesEqual [] [] = True"
| "bytesEqual (a # as) (b # bs) = (if a \<noteq> b then False else bytesEqual as bs)"
| "bytesEqual as bs = False"

text \<open>The trailer is read past the hasher: \<open>r\<close> is the rest of the gzip stream.\<close>

definition read_trailer :: "(bytes \<Rightarrow> bytes) \<Rightarrow> nat \<Rightarrow> tee \<Rightarrow> snapshot_error + bytes" where
  "read_trailer sha entries t =
     (let digestWant = sha (fst t) in
      case read_u64 (snd t) of
        None \<Rightarrow> Inl ReadTrailerCount
      | Some (count, r) \<Rightarrow>
          if sint count \<noteq> int entries then Inl (CountMismatch count entries)
          else (case read_full 32 r of
                  None \<Rightarrow> Inl ReadDigest
                | Some (digestGot, r) \<Rightarrow>
                    (case read_full 8 r of
                       None \<Rightarrow> Inl ReadEndMagic
                     | Some (endMagic, r) \<Rightarrow>
                         if endMagic \<noteq> snapshotEnd then Inl (InvalidEndMagic endMagic)
                         else if \<not> bytesEqual digestWant digestGot then Inl DigestMismatch
                         else Inr r)))"

definition LoadSnapshot ::
  "(bytes \<Rightarrow> bytes) \<Rightarrow> 'd bolt \<Rightarrow> snapshot_error + bytes \<Rightarrow> 'd stateStore \<Rightarrow>
   (snapshot_error + u64 \<times> nat) \<times> 'd stateStore" where
  "LoadSnapshot sha B opened store =
     (case opened of
        Inl e \<Rightarrow> (Inl e, store)
      | Inr stream \<Rightarrow>
          (case read_header ([], stream) of
             Inl e \<Rightarrow> (Inl e, store)
           | Inr (height, t) \<Rightarrow>
               if height \<le> Height store then (Inr (height, 0), store)
               else (case read_entries t [] of
                       Inl e \<Rightarrow> (Inl e, store)
                     | Inr (diffs, t) \<Rightarrow>
                         (case read_trailer sha (length diffs) t of
                            Inl e \<Rightarrow> (Inl e, store)
                          | Inr _ \<Rightarrow>
                              (case ApplyDiff B store height diffs of
                                 (Some e, store') \<Rightarrow> (Inl (ApplySnapshot e), store')
                               | (None, store') \<Rightarrow> (Inr (height, length diffs), store'))))))"

subsection \<open>The writer of the tests\<close>

text \<open>\<open>writeTestSnapshot\<close> of snapshot_test.go, before compression.\<close>

record snapEntry =
  se_ns :: string
  se_key :: bytes
  se_val :: bytes

definition write_entry :: "snapEntry \<Rightarrow> bytes" where
  "write_entry e =
     [entryMarker] @ [byte_of (length (se_ns e))] @ bytes_of_string (se_ns e)
     @ be_bytes 4 (length (se_key e)) @ se_key e
     @ be_bytes 4 (length (se_val e)) @ se_val e"

definition snapshot_body :: "u64 \<Rightarrow> snapEntry list \<Rightarrow> bytes" where
  "snapshot_body height es =
     snapshotMagic @ put_u32 snapshotVersion @ put_u64 height
     @ concat (map write_entry es) @ [endMarker]"

definition writeSnapshot :: "(bytes \<Rightarrow> bytes) \<Rightarrow> u64 \<Rightarrow> snapEntry list \<Rightarrow> bytes" where
  "writeSnapshot sha height es =
     snapshot_body height es @ be_bytes 8 (length es) @ sha (snapshot_body height es) @ snapshotEnd"

definition wf_snapEntry :: "snapEntry \<Rightarrow> bool" where
  "wf_snapEntry e \<longleftrightarrow>
     length (se_ns e) < 256 \<and> length (se_key e) < 2 ^ 32 \<and> length (se_val e) < 2 ^ 32"

definition put_of :: "snapEntry \<Rightarrow> stateDiffEntry" where
  "put_of e = \<lparr>deWriteType = WriteTypePut, deNamespace = se_ns e, deKey = se_key e, deValue = se_val e\<rparr>"

subsection \<open>Reading back what was written\<close>

lemma tee_full_append [simp]: "n = length x \<Longrightarrow> tee_full n (w, x @ r) = Some (x, (w @ x, r))"
  by (simp add: tee_full_def)

lemma tee_full_Cons [simp]: "tee_full (Suc 0) (w, b # r) = Some ([b], (w @ [b], r))"
  using tee_full_append [of 1 "[b]" w r] by simp

lemma be_nat_single [simp]: "be_nat [b] = unat b"
  by (simp add: be_nat_def)

lemma be_nat_be_bytes4: "n < 2 ^ 32 \<Longrightarrow> be_nat (be_bytes 4 n) = n"
  by (simp add: be_nat_be_bytes)

lemma bytesEqual_iff: "bytesEqual a b \<longleftrightarrow> a = b"
  by (induction a b rule: bytesEqual.induct) auto

lemma read_header_write:
  "read_header (w, snapshotMagic @ put_u32 snapshotVersion @ put_u64 h @ r) =
   Inr (h, (w @ snapshotMagic @ put_u32 snapshotVersion @ put_u64 h, r))"
  by (simp add: read_header_def)

lemma read_entry_write:
  assumes "wf_snapEntry e"
  shows "read_entry (w, write_entry e @ r) = Inr (Some (put_of e), (w @ write_entry e, r))"
  using assms
  by (simp add: read_entry_def write_entry_def wf_snapEntry_def put_of_def be_nat_be_bytes4
      entryMarker_def endMarker_def)

lemma read_entries_write:
  "\<forall>e \<in> set es. wf_snapEntry e \<Longrightarrow>
   read_entries (w, concat (map write_entry es) @ [endMarker] @ r) diffs =
   Inr (diffs @ map put_of es, (w @ concat (map write_entry es) @ [endMarker], r))"
proof (induction es arbitrary: w diffs)
  case Nil
  then show ?case by (subst read_entries.simps) (simp add: read_entry_def)
next
  case (Cons e es)
  then show ?case by (subst read_entries.simps) (simp add: read_entry_write)
qed

lemma read_trailer_write:
  assumes "length (sha w) = 32" and "n < 2 ^ 63"
  shows "read_trailer sha n (w, be_bytes 8 n @ sha w @ snapshotEnd @ r) = Inr r"
proof -
  have u: "be_nat (be_bytes 8 n) = n" using assms(2) by (simp add: be_nat_be_bytes)
  have "read_u64 (be_bytes 8 n @ sha w @ snapshotEnd @ r) = Some (word_of_nat n, sha w @ snapshotEnd @ r)"
    by (simp add: read_u64_def be_u64_def u)
  moreover have "sint (word_of_nat n :: u64) = int n"
    using assms(2) by (simp add: sint_uint unsigned_of_nat signed_take_bit_int_eq_self take_bit_nat_eq_self)
  ultimately show ?thesis using assms(1)
    by (simp add: read_trailer_def Let_def bytesEqual_iff)
qed

lemma LoadSnapshot_write:
  assumes "Height store < height" and "\<forall>e \<in> set es. wf_snapEntry e"
    and "length es < 2 ^ 63" and "length (sha (snapshot_body height es)) = 32"
  shows "LoadSnapshot sha B (Inr (writeSnapshot sha height es @ junk)) store =
    (case ApplyDiff B store height (map put_of es) of
       (Some e, store') \<Rightarrow> (Inl (ApplySnapshot e), store')
     | (None, store') \<Rightarrow> (Inr (height, length es), store'))"
proof -
  let ?hd = "snapshotMagic @ put_u32 snapshotVersion @ put_u64 height"
  let ?es = "concat (map write_entry es) @ [endMarker]"
  let ?tr = "be_bytes 8 (length es) @ sha (?hd @ ?es) @ snapshotEnd @ junk"
  have body: "snapshot_body height es = ?hd @ ?es" by (simp add: snapshot_body_def)
  have "writeSnapshot sha height es @ junk = ?hd @ ?es @ ?tr"
    by (simp add: writeSnapshot_def body)
  moreover have "read_header ([], ?hd @ ?es @ ?tr) = Inr (height, (?hd, ?es @ ?tr))"
    using read_header_write [of "[]" height "?es @ ?tr"] by simp
  moreover have "read_entries (?hd, ?es @ ?tr) [] = Inr (map put_of es, (?hd @ ?es, ?tr))"
    using read_entries_write [OF assms(2), of ?hd ?tr "[]"] by simp
  moreover have "read_trailer sha (length es) (?hd @ ?es, ?tr) = Inr junk"
    using read_trailer_write [of sha "?hd @ ?es" "length es" junk] assms(3,4) by (simp add: body)
  ultimately show ?thesis
    using assms(1) by (simp add: LoadSnapshot_def not_le [symmetric] split: option.split prod.split)
qed

subsection \<open>Accepting exactly the well-formed snapshots\<close>

lemma tee_full_SomeD:
  "tee_full n (w, r) = Some (x, t') \<Longrightarrow> \<exists>r'. t' = (w @ x, r') \<and> r = x @ r' \<and> length x = n"
  by (auto simp: tee_full_def dest: read_full_SomeD split: option.splits)

lemma put_be_u32: "length b = 4 \<Longrightarrow> put_u32 (be_u32 b) = b"
  using read_u32_SomeD [of b "be_u32 b" "[]"] by (simp add: read_u32_def read_full_def)

lemma put_be_u64: "length b = 8 \<Longrightarrow> put_u64 (be_u64 b) = b"
  using read_u64_SomeD [of b "be_u64 b" "[]"] by (simp add: read_u64_def read_full_def)

lemma read_header_inv:
  assumes "read_header (w, r) = Inr (h, t')"
  shows "\<exists>r'. t' = (w @ snapshotMagic @ put_u32 snapshotVersion @ put_u64 h, r') \<and>
    r = snapshotMagic @ put_u32 snapshotVersion @ put_u64 h @ r'"
proof -
  from assms obtain m t1 v t2 b where
    1: "tee_full 8 (w, r) = Some (m, t1)" and m: "m = snapshotMagic" and
    2: "tee_full 4 t1 = Some (v, t2)" and v: "be_u32 v = snapshotVersion" and
    3: "tee_full 8 t2 = Some (b, t')" and h: "h = be_u64 b"
    by (auto simp: read_header_def split: option.splits prod.splits if_splits)
  from tee_full_SomeD [OF 1] obtain r1 where t1: "t1 = (w @ m, r1)" "r = m @ r1" by blast
  from tee_full_SomeD [OF 2 [unfolded t1(1)]] obtain r2 where
    t2: "t2 = ((w @ m) @ v, r2)" "r1 = v @ r2" "length v = 4" by blast
  from tee_full_SomeD [OF 3 [unfolded t2(1)]] obtain r3 where
    t3: "t' = (((w @ m) @ v) @ b, r3)" "r2 = b @ r3" "length b = 8" by blast
  have "put_u32 snapshotVersion = v" using put_be_u32 [OF t2(3)] v by simp
  moreover have "put_u64 h = b" using put_be_u64 [OF t3(3)] h by simp
  ultimately show ?thesis using t1 t2 t3 m by simp
qed

lemma byte_list_1: "length x = Suc 0 \<Longrightarrow> x = [hd x]"
  by (cases x) auto

lemma read_entry_end_inv:
  assumes "read_entry (w, r) = Inr (None, t')"
  shows "\<exists>r'. t' = (w @ [endMarker], r') \<and> r = endMarker # r'"
proof -
  from assms obtain m where 1: "tee_full 1 (w, r) = Some (m, t')" and m: "hd m = endMarker"
    by (auto simp: read_entry_def split: option.splits prod.splits if_splits)
  from tee_full_SomeD [OF 1] obtain r' where
    "t' = (w @ m, r')" "r = m @ r'" "length m = 1" by blast
  with m byte_list_1 [of m] show ?thesis by simp
qed

lemma read_entry_some_inv:
  assumes "read_entry (w, r) = Inr (Some d, t')"
  shows "\<exists>e r'. wf_snapEntry e \<and> d = put_of e \<and> t' = (w @ write_entry e, r') \<and> r = write_entry e @ r'"
proof -
  from assms obtain m t1 n t2 ns t3 kl t4 k t5 vl t6 v where
    1: "tee_full 1 (w, r) = Some (m, t1)" and m: "hd m = entryMarker" and
    2: "tee_full 1 t1 = Some (n, t2)" and
    3: "tee_full (be_nat n) t2 = Some (ns, t3)" and
    4: "tee_full 4 t3 = Some (kl, t4)" and
    5: "tee_full (be_nat kl) t4 = Some (k, t5)" and
    6: "tee_full 4 t5 = Some (vl, t6)" and
    7: "tee_full (be_nat vl) t6 = Some (v, t')" and
    d: "d = \<lparr>deWriteType = WriteTypePut, deNamespace = string_of_bytes ns, deKey = k, deValue = v\<rparr>"
    by (auto simp: read_entry_def split: option.splits prod.splits if_splits)
  from tee_full_SomeD [OF 1] obtain r1 where
    t1: "t1 = (w @ m, r1)" and r1: "r = m @ r1" and lm: "length m = 1" by blast
  from tee_full_SomeD [OF 2 [unfolded t1]] obtain r2 where
    t2: "t2 = ((w @ m) @ n, r2)" and r2: "r1 = n @ r2" and ln: "length n = 1" by blast
  from tee_full_SomeD [OF 3 [unfolded t2]] obtain r3 where
    t3: "t3 = (((w @ m) @ n) @ ns, r3)" and r3: "r2 = ns @ r3" and lns: "length ns = be_nat n" by blast
  from tee_full_SomeD [OF 4 [unfolded t3]] obtain r4 where
    t4: "t4 = ((((w @ m) @ n) @ ns) @ kl, r4)" and r4: "r3 = kl @ r4" and lkl: "length kl = 4" by blast
  from tee_full_SomeD [OF 5 [unfolded t4]] obtain r5 where
    t5: "t5 = (((((w @ m) @ n) @ ns) @ kl) @ k, r5)" and r5: "r4 = k @ r5" and lk: "length k = be_nat kl" by blast
  from tee_full_SomeD [OF 6 [unfolded t5]] obtain r6 where
    t6: "t6 = ((((((w @ m) @ n) @ ns) @ kl) @ k) @ vl, r6)" and r6: "r5 = vl @ r6" and lvl: "length vl = 4" by blast
  from tee_full_SomeD [OF 7 [unfolded t6]] obtain r7 where
    t7: "t' = (((((((w @ m) @ n) @ ns) @ kl) @ k) @ vl) @ v, r7)" and r7: "r6 = v @ r7" and
    lv: "length v = be_nat vl" by blast
  let ?e = "\<lparr>se_ns = string_of_bytes ns, se_key = k, se_val = v\<rparr>"
  have mm: "m = [entryMarker]" using byte_list_1 [of m] lm m by simp
  have nn: "n = [byte_of (length ns)]"
    using byte_list_1 [of n] ln lns by (metis be_nat_single byte_of_unat One_nat_def)
  have kk: "kl = be_bytes 4 (length k)" and vv: "vl = be_bytes 4 (length v)"
    using be_bytes_be_nat [of kl] be_bytes_be_nat [of vl] lkl lk lvl lv by simp_all
  have "wf_snapEntry ?e"
    using be_nat_bound [of n] be_nat_bound [of kl] be_nat_bound [of vl] lns lk lv ln lkl lvl
    by (simp add: wf_snapEntry_def)
  moreover have "d = put_of ?e" by (simp add: d put_of_def)
  moreover have "write_entry ?e = m @ n @ ns @ kl @ k @ vl @ v"
    by (simp add: write_entry_def mm nn [symmetric] kk [symmetric] vv [symmetric])
  ultimately show ?thesis
    using t7 r1 r2 r3 r4 r5 r6 r7 by (intro exI [of _ ?e] exI [of _ r7]) simp
qed

lemma read_entries_inv:
  "read_entries (w, r) diffs = Inr (diffs', t') \<Longrightarrow>
   \<exists>es r'. (\<forall>e \<in> set es. wf_snapEntry e) \<and> diffs' = diffs @ map put_of es \<and>
     t' = (w @ concat (map write_entry es) @ [endMarker], r') \<and>
     r = concat (map write_entry es) @ [endMarker] @ r'"
proof (induction "length r" arbitrary: w r diffs rule: less_induct)
  case less
  show ?case
  proof (cases "read_entry (w, r)")
    case (Inl e)
    with less.prems show ?thesis by (simp add: read_entries.simps [of "(w, r)"])
  next
    case (Inr p)
    obtain x t1 where p: "p = (x, t1)" by (cases p)
    show ?thesis
    proof (cases x)
      case None
      with less.prems Inr p have eq: "diffs' = diffs" "t' = t1"
        by (simp_all add: read_entries.simps [of "(w, r)"])
      from read_entry_end_inv Inr p None obtain r' where
        "t1 = (w @ [endMarker], r')" "r = endMarker # r'" by blast
      with eq show ?thesis by (intro exI [of _ "[]"] exI [of _ r']) simp
    next
      case (Some d)
      with less.prems Inr p have rest: "read_entries t1 (diffs @ [d]) = Inr (diffs', t')"
        by (simp add: read_entries.simps [of "(w, r)"])
      from read_entry_some_inv Inr p Some obtain e r1 where e: "wf_snapEntry e" "d = put_of e"
        "t1 = (w @ write_entry e, r1)" "r = write_entry e @ r1" by blast
      have "length r1 < length r" using e(4) by (simp add: write_entry_def)
      from less.hyps [OF this rest [unfolded e(3)]] obtain es r' where
        "\<forall>e \<in> set es. wf_snapEntry e" "diffs' = (diffs @ [d]) @ map put_of es"
        "t' = ((w @ write_entry e) @ concat (map write_entry es) @ [endMarker], r')"
        "r1 = concat (map write_entry es) @ [endMarker] @ r'" by blast
      with e show ?thesis by (intro exI [of _ "e # es"] exI [of _ r']) simp
    qed
  qed
qed

lemma read_trailer_inv:
  assumes "read_trailer sha n (w, r) = Inr r'"
  shows "r = be_bytes 8 n @ sha w @ snapshotEnd @ r' \<and> length (sha w) = 32 \<and> n < 2 ^ 63"
proof -
  from assms obtain c r1 dg r2 em where
    1: "read_u64 r = Some (c, r1)" and c: "sint c = int n" and
    2: "read_full 32 r1 = Some (dg, r2)" and
    3: "read_full 8 r2 = Some (em, r')" and em: "em = snapshotEnd" and dg: "sha w = dg"
    by (auto simp: read_trailer_def Let_def bytesEqual_iff split: option.splits prod.splits if_splits)
  have n: "n < 2 ^ 63" using sint_lt [of c] c by simp
  have "c = word_of_int (int n)" using c [symmetric] by simp
  then have "unat c = n" using n by (simp add: unat_of_nat)
  then have "put_u64 c = be_bytes 8 n" by (simp add: put_u64_def)
  with read_u64_SomeD [OF 1] read_full_SomeD [OF 2] read_full_SomeD [OF 3] em dg n
  show ?thesis by simp
qed

lemma LoadSnapshot_accepts:
  assumes "LoadSnapshot sha B (Inr stream) store = (Inr (height, n), store')"
    and "Height store < height"
  shows "\<exists>es junk. stream = writeSnapshot sha height es @ junk \<and> n = length es \<and>
    (\<forall>e \<in> set es. wf_snapEntry e) \<and> length (sha (snapshot_body height es)) = 32 \<and> n < 2 ^ 63 \<and>
    ApplyDiff B store height (map put_of es) = (None, store')"
proof -
  from assms obtain h t diffs t1 junk where
    1: "read_header ([], stream) = Inr (h, t)" and
    2: "read_entries t [] = Inr (diffs, t1)" and
    3: "read_trailer sha (length diffs) t1 = Inr junk" and
    4: "ApplyDiff B store h diffs = (None, store')" and
    5: "h = height" "n = length diffs"
    by (auto simp: LoadSnapshot_def split: sum.splits prod.splits if_splits option.splits)
  from read_header_inv [OF 1] 5 obtain r where
    t: "t = (snapshotMagic @ put_u32 snapshotVersion @ put_u64 height, r)" and
    s: "stream = snapshotMagic @ put_u32 snapshotVersion @ put_u64 height @ r" by auto
  from read_entries_inv [OF 2 [unfolded t]] obtain es r1 where
    es: "\<forall>e \<in> set es. wf_snapEntry e" "diffs = map put_of es" and
    t1: "t1 = (snapshot_body height es, r1)" and
    r: "r = concat (map write_entry es) @ [endMarker] @ r1"
    by (auto simp: snapshot_body_def)
  from read_trailer_inv [OF 3 [unfolded t1]] es(2) show ?thesis
    using s r es 4 5 by (intro exI [of _ es] exI [of _ junk]) (simp add: writeSnapshot_def snapshot_body_def)
qed

text \<open>The format is prefix-free: two snapshots that start a common stream are the same one.\<close>

lemma writeSnapshot_prefix_free:
  assumes "writeSnapshot sha h es @ x = writeSnapshot sha h' es' @ y"
    and "\<forall>e \<in> set es. wf_snapEntry e" and "\<forall>e \<in> set es'. wf_snapEntry e"
    and "length es < 2 ^ 63" and "\<And>b. length (sha b) = 32"
  shows "x = y"
proof -
  let ?hd = "\<lambda>h. snapshotMagic @ put_u32 snapshotVersion @ put_u64 h"
  let ?tr = "\<lambda>h es x. be_bytes 8 (length es) @ sha (snapshot_body h es) @ snapshotEnd @ x"
  let ?body = "\<lambda>es x. concat (map write_entry es) @ [endMarker] @ x"
  have stream: "writeSnapshot sha h es @ x = ?hd h @ ?body es (?tr h es x)" for h es x
    by (simp add: writeSnapshot_def snapshot_body_def)
  have "read_header ([], ?hd h @ ?body es (?tr h es x)) = read_header ([], ?hd h' @ ?body es' (?tr h' es' y))"
    using assms(1) by (simp only: stream)
  then have h: "h = h'" and b: "?body es (?tr h es x) = ?body es' (?tr h' es' y)"
    unfolding append_assoc read_header_write [of "[]"] by auto
  have "read_entries (?hd h, ?body es (?tr h es x)) [] = read_entries (?hd h, ?body es' (?tr h' es' y)) []"
    by (simp only: b)
  then have "(map put_of es, (?hd h @ concat (map write_entry es) @ [endMarker], ?tr h es x)) =
      (map put_of es', (?hd h @ concat (map write_entry es') @ [endMarker], ?tr h' es' y))"
    using read_entries_write [OF assms(2), of "?hd h" "?tr h es x" "[]"]
      read_entries_write [OF assms(3), of "?hd h" "?tr h' es' y" "[]"] by simp
  then have "length es = length es'" and tr: "?tr h es x = ?tr h' es' y"
    by (auto dest: arg_cong [of "map put_of es" _ length])
  then show ?thesis using assms(5) by simp
qed

text \<open>A load that fails leaves the store as it was.\<close>

lemma LoadSnapshot_error: "LoadSnapshot sha B opened store = (Inl e, store') \<Longrightarrow> store' = store"
  by (auto simp: LoadSnapshot_def ApplyDiff_def
      split: sum.splits prod.splits if_splits option.splits)

lemma LoadSnapshot_height:
  "LoadSnapshot sha B (Inr stream) store = (Inr (h, n), store') \<Longrightarrow>
   \<exists>r. stream = snapshotMagic @ put_u32 snapshotVersion @ put_u64 h @ r"
  by (auto simp: LoadSnapshot_def dest!: read_header_inv
      split: sum.splits prod.splits if_splits option.splits)

lemma LoadSnapshot_truncated:
  assumes "Height store < height" and "\<forall>e \<in> set es. wf_snapEntry e" and "length es < 2 ^ 63"
    and sha: "\<And>b. length (sha b) = 32"
    and cut: "stream @ missing = writeSnapshot sha height es" and "missing \<noteq> []"
  shows "\<exists>e. LoadSnapshot sha B (Inr stream) store = (Inl e, store)"
proof -
  obtain r store' where load: "LoadSnapshot sha B (Inr stream) store = (r, store')"
    by (cases "LoadSnapshot sha B (Inr stream) store")
  show ?thesis
  proof (cases r)
    case (Inl e)
    with load LoadSnapshot_error show ?thesis by blast
  next
    case (Inr p)
    obtain h n where p: "p = (h, n)" by (cases p)
    note load = load [unfolded Inr p]
    from LoadSnapshot_height [OF load] cut have "put_u64 h = put_u64 height"
      by (auto simp: writeSnapshot_def snapshot_body_def)
    then have h: "h = height" by (simp add: put_u64_inject)
    from LoadSnapshot_accepts [OF load] assms(1) h obtain es' junk where
      es': "stream = writeSnapshot sha height es' @ junk" "\<forall>e \<in> set es'. wf_snapEntry e" by auto
    with cut have "writeSnapshot sha height es @ [] = writeSnapshot sha height es' @ (junk @ missing)"
      by simp
    from writeSnapshot_prefix_free [OF this assms(2) es'(2) assms(3) sha] assms(6)
    show ?thesis by simp
  qed
qed

end
