(* ===== verification/Agent.thy ===== *)
theory Agent
  imports Validator Sync Snapshot
begin

section \<open>The agent (main.go, worker.go, client.go)\<close>

text \<open>
  Registration, the task stream, the heartbeat and a worker's start-up. RPCs are choices of the
  step relation, or arguments carrying the coordinator's answer; timeouts, sleeps and logs have
  no effect on the state. \<open>tasksProcessed\<close> is the counter shared by the workers.
\<close>

subsection \<open>Levels and batches\<close>

definition parseLevel :: "string \<Rightarrow> int" where
  "parseLevel s =
     (let u = to_upper s in
      if u = ''L1'' then 0 else if u = ''L3'' then 2 else if u = ''L4'' then 3 else 1)"

definition short :: "string \<Rightarrow> string" where
  "short s = (if 12 < length s then take 6 s @ ''..'' @ drop (length s - 4) s else s)"

text \<open>The line printed for a task, with the two addresses the code shortens.\<close>

definition task_parties :: "taskPackage \<Rightarrow> string \<times> string" where
  "task_parties task =
     ((case tpSender task of Some a \<Rightarrow> short (snAddress a) | None \<Rightarrow> []),
      (case tpReceiver task of Some a \<Rightarrow> short (snAddress a) | None \<Rightarrow> []))"

text \<open>The loop over a batch; \<open>latency\<close> gives each validation's time.\<close>

fun validate_all ::
  "'d env \<Rightarrow> 'd evm \<Rightarrow> 'd stateStore option \<Rightarrow> (nat \<Rightarrow> u64) \<Rightarrow> nat \<Rightarrow> taskPackage list \<Rightarrow> string \<Rightarrow>
   taskResult list option" where
  "validate_all E evm active latency i [] level = Some []"
| "validate_all E evm active latency i (t # ts) level = do {
     r \<leftarrow> validateTask E evm active (latency i) t level;
     rs \<leftarrow> validate_all E evm active latency (Suc i) ts level;
     Some (r # rs) }"

text \<open>The results and the counter after the call.\<close>

definition processBatch ::
  "'d env \<Rightarrow> 'd evm \<Rightarrow> 'd stateStore option \<Rightarrow> (nat \<Rightarrow> u64) \<Rightarrow> u32 \<Rightarrow> taskBatch \<Rightarrow> string \<Rightarrow>
   (taskResult list \<times> u32) option" where
  "processBatch E evm active latency processed batch level =
     map_option (\<lambda>results. (results, processed + word_of_nat (length results)))
       (validate_all E evm active latency 0 (tbTasks batch) level)"

lemma validate_all_results:
  "validate_all E evm active latency i ts level = Some rs \<Longrightarrow>
   list_all2 (\<lambda>t r. \<exists>l. validateTask E evm active l t level = Some r) ts rs"
  by (induction ts arbitrary: i rs) (auto simp: bind_eq_Some_conv)

subsection \<open>Registering\<close>

datatype 'a rpc = RpcError string | RpcOk 'a

datatype register_error = RegisterRPC string | RegisterRejected string

definition register_request :: "string \<Rightarrow> string \<Rightarrow> string \<Rightarrow> string \<Rightarrow> string \<Rightarrow> registerRequest" where
  "register_request version agentID level region wallet =
     \<lparr>rqAgentID = agentID, rqCapability = parseLevel level, rqRegion = region, rqVersion = version,
      rqWalletAddress = wallet\<rparr>"

definition register :: "registerResponse rpc \<Rightarrow> register_error + registerResponse" where
  "register answer =
     (case answer of
        RpcError e \<Rightarrow> Inl (RegisterRPC e)
      | RpcOk resp \<Rightarrow> if \<not> rsAccepted resp then Inl (RegisterRejected (rsReason resp)) else Inr resp)"

subsection \<open>Heartbeats\<close>

datatype heartbeat_event = HbFailed string | HbNotAlive string | HbPayout u64 float64 | HbQuiet

definition heartbeat_request :: "string \<Rightarrow> u32 \<Rightarrow> heartbeatRequest" where
  "heartbeat_request agentID processed =
     \<lparr>hbAgentID = agentID, hbTasksProcessed = processed, hbTasksPending = 0, hbCPUUsage = 0,
      hbMemUsage = 0\<rparr>"

definition sendHeartbeat :: "heartbeatResponse rpc \<Rightarrow> heartbeat_event" where
  "sendHeartbeat answer =
     (case answer of
        RpcError e \<Rightarrow> HbFailed e
      | RpcOk resp \<Rightarrow>
          if \<not> hrAlive resp then HbNotAlive (hrDirective resp)
          else (case hrPayout resp of
                  Some p \<Rightarrow> HbPayout (poEpoch p) (poAmountIOTX p)
                | None \<Rightarrow> HbQuiet))"

text \<open>
  The heartbeat's loop: one heartbeat per tick, with the counter's value at that time, until the
  context is cancelled.
\<close>

datatype hb_tick = Tick u32 "heartbeatResponse rpc" | HbCancelled

fun heartbeatLoop :: "string \<Rightarrow> hb_tick list \<Rightarrow> (heartbeatRequest \<times> heartbeat_event) list" where
  "heartbeatLoop agentID [] = []"
| "heartbeatLoop agentID (Tick n answer # ticks) =
     (heartbeat_request agentID n, sendHeartbeat answer) # heartbeatLoop agentID ticks"
| "heartbeatLoop agentID (HbCancelled # ticks) = []"

text \<open>The interval in seconds: 10 when the coordinator sends none.\<close>

definition hb_interval :: "registerResponse \<Rightarrow> nat" where
  "hb_interval resp =
     (let s = unat (rsHeartbeatIntervalSec resp) in if s < 1 then 10 else s)"

subsection \<open>The task stream\<close>

text \<open>
  \<open>streamTasks\<close> as a step relation. A phase is the point the goroutine is at: the top of the
  loop, opening the stream, receiving, processing a batch it received, and stopped. The labels
  are the messages sent: a registration accepted, the stream request, a submitted batch.
\<close>

datatype stream_phase = STop | SOpen | SReceive | SSubmit taskBatch | SStopped

datatype stream_label =
    SNone
  | SRegister registerRequest
  | SRequest getTasksRequest
  | SBatch taskBatch
  | SResults batchResult

record streamState =
  ss_firstRun :: bool
  ss_ctxDone :: bool
  ss_phase :: stream_phase
  ss_processed :: u32

record agentConfig =
  ag_version :: string
  ag_agentID :: string
  ag_level :: string
  ag_region :: string
  ag_wallet :: string

definition stream_start :: "u32 \<Rightarrow> streamState" where
  "stream_start processed =
     \<lparr>ss_firstRun = True, ss_ctxDone = False, ss_phase = STop, ss_processed = processed\<rparr>"

definition tasks_request :: "agentConfig \<Rightarrow> getTasksRequest" where
  "tasks_request c =
     \<lparr>gtAgentID = ag_agentID c, gtMaxLevel = parseLevel (ag_level c), gtMaxBatchSize = 10\<rparr>"

definition batch_result :: "agentConfig \<Rightarrow> taskBatch \<Rightarrow> taskResult list \<Rightarrow> u64 \<Rightarrow> batchResult" where
  "batch_result c batch results now =
     \<lparr>brAgentID = ag_agentID c, brBatchID = tbBatchID batch, brResults = results, brTimestamp = now\<rparr>"

definition config_request :: "agentConfig \<Rightarrow> registerRequest" where
  "config_request c =
     register_request (ag_version c) (ag_agentID c) (ag_level c) (ag_region c) (ag_wallet c)"

inductive stream_step ::
  "'d env \<Rightarrow> 'd evm \<Rightarrow> 'd stateStore option \<Rightarrow> agentConfig \<Rightarrow> streamState \<Rightarrow> stream_label \<Rightarrow> streamState \<Rightarrow> bool"
  for E evm active c where
  st_stop: "ss_phase s = STop \<Longrightarrow> ss_ctxDone s \<Longrightarrow>
    stream_step E evm active c s SNone (s\<lparr>ss_phase := SStopped\<rparr>)"
| st_first: "ss_phase s = STop \<Longrightarrow> \<not> ss_ctxDone s \<Longrightarrow> ss_firstRun s \<Longrightarrow>
    stream_step E evm active c s SNone (s\<lparr>ss_firstRun := False, ss_phase := SOpen\<rparr>)"
| st_register: "ss_phase s = STop \<Longrightarrow> \<not> ss_ctxDone s \<Longrightarrow> \<not> ss_firstRun s \<Longrightarrow>
    register (RpcOk resp) = Inr resp \<Longrightarrow>
    stream_step E evm active c s (SRegister (config_request c)) (s\<lparr>ss_firstRun := False, ss_phase := SOpen\<rparr>)"
| st_register_fail: "ss_phase s = STop \<Longrightarrow> \<not> ss_ctxDone s \<Longrightarrow> \<not> ss_firstRun s \<Longrightarrow>
    register answer = Inl e \<Longrightarrow> stream_step E evm active c s SNone s"
| st_open_fail: "ss_phase s = SOpen \<Longrightarrow> stream_step E evm active c s SNone (s\<lparr>ss_phase := STop\<rparr>)"
| st_open: "ss_phase s = SOpen \<Longrightarrow>
    stream_step E evm active c s (SRequest (tasks_request c)) (s\<lparr>ss_phase := SReceive\<rparr>)"
| st_end: "ss_phase s = SReceive \<Longrightarrow> stream_step E evm active c s SNone (s\<lparr>ss_phase := STop\<rparr>)"
| st_recv: "ss_phase s = SReceive \<Longrightarrow>
    stream_step E evm active c s (SBatch batch) (s\<lparr>ss_phase := SSubmit batch\<rparr>)"
| st_submit: "ss_phase s = SSubmit batch \<Longrightarrow>
    processBatch E evm active latency (ss_processed s) batch (ag_level c) = Some (results, n) \<Longrightarrow>
    stream_step E evm active c s (SResults (batch_result c batch results now))
      (s\<lparr>ss_phase := SReceive, ss_processed := n\<rparr>)"
| st_cancel: "stream_step E evm active c s SNone (s\<lparr>ss_ctxDone := True\<rparr>)"

inductive stream_run ::
  "'d env \<Rightarrow> 'd evm \<Rightarrow> 'd stateStore option \<Rightarrow> agentConfig \<Rightarrow> streamState \<Rightarrow> stream_label list \<Rightarrow> streamState \<Rightarrow> bool"
  for E evm active c where
  sr_nil: "stream_run E evm active c s [] s"
| sr_cons: "stream_step E evm active c s l s1 \<Longrightarrow> stream_run E evm active c s1 tr s2 \<Longrightarrow>
    stream_run E evm active c s (l # tr) s2"

inductive_cases stream_step_results: "stream_step E evm active c s (SResults b) s'"
inductive_cases stream_step_request: "stream_step E evm active c s (SRequest r) s'"

text \<open>Every batch is answered once and in order, task by task.\<close>

definition answers :: "'d env \<Rightarrow> 'd evm \<Rightarrow> 'd stateStore option \<Rightarrow> agentConfig \<Rightarrow> taskBatch \<Rightarrow> batchResult \<Rightarrow> bool" where
  "answers E evm active c batch b \<longleftrightarrow>
     brAgentID b = ag_agentID c \<and> brBatchID b = tbBatchID batch \<and>
     list_all2 (\<lambda>t r. \<exists>l. validateTask E evm active l t (ag_level c) = Some r) (tbTasks batch) (brResults b)"

fun answered ::
  "'d env \<Rightarrow> 'd evm \<Rightarrow> 'd stateStore option \<Rightarrow> agentConfig \<Rightarrow> taskBatch option \<Rightarrow> stream_label list \<Rightarrow> bool" where
  "answered E evm active c pending [] = True"
| "answered E evm active c pending (SBatch b # tr) = (pending = None \<and> answered E evm active c (Some b) tr)"
| "answered E evm active c pending (SResults r # tr) =
     ((\<exists>b. pending = Some b \<and> answers E evm active c b r) \<and> answered E evm active c None tr)"
| "answered E evm active c pending (SRegister q # tr) = (pending = None \<and> answered E evm active c pending tr)"
| "answered E evm active c pending (SRequest q # tr) = (pending = None \<and> answered E evm active c pending tr)"
| "answered E evm active c pending (SNone # tr) = answered E evm active c pending tr"

definition pending_of :: "stream_phase \<Rightarrow> taskBatch option" where
  "pending_of p = (case p of SSubmit b \<Rightarrow> Some b | _ \<Rightarrow> None)"

lemma processBatch_answers:
  "processBatch E evm active latency n batch (ag_level c) = Some (results, m) \<Longrightarrow>
   answers E evm active c batch (batch_result c batch results now) \<and> m = n + word_of_nat (length (tbTasks batch))"
  using list_all2_lengthD [OF validate_all_results]
  by (fastforce simp: processBatch_def answers_def batch_result_def dest: validate_all_results)

lemma stream_run_answered:
  "stream_run E evm active c s tr s' \<Longrightarrow> answered E evm active c (pending_of (ss_phase s)) tr"
proof (induction rule: stream_run.induct)
  case (sr_cons s l s1 tr s2)
  from sr_cons.hyps(1) sr_cons.IH show ?case
    by (cases rule: stream_step.cases)
      (auto simp: pending_of_def dest: processBatch_answers split: stream_phase.splits)
qed simp

text \<open>The counter is the number of the tasks answered, modulo \<open>2 ^ 32\<close>.\<close>

fun tasks_answered :: "stream_label list \<Rightarrow> nat" where
  "tasks_answered [] = 0"
| "tasks_answered (SResults b # tr) = length (brResults b) + tasks_answered tr"
| "tasks_answered (l # tr) = tasks_answered tr"

lemma stream_run_counter:
  "stream_run E evm active c s tr s' \<Longrightarrow>
   ss_processed s' = ss_processed s + word_of_nat (tasks_answered tr)"
proof (induction rule: stream_run.induct)
  case (sr_cons s l s1 tr s2)
  from sr_cons.hyps(1) sr_cons.IH show ?case
    by (cases rule: stream_step.cases) (auto simp: processBatch_def batch_result_def)
qed simp

text \<open>Between two stream requests the agent registers again.\<close>

fun registers_between :: "bool \<Rightarrow> stream_label list \<Rightarrow> bool" where
  "registers_between ok [] = True"
| "registers_between ok (SRegister q # tr) = registers_between True tr"
| "registers_between ok (SRequest q # tr) = (ok \<and> registers_between False tr)"
| "registers_between ok (l # tr) = registers_between ok tr"

text \<open>Registered for the next request: before the first one, or past the registration.\<close>

definition registered :: "bool \<Rightarrow> streamState \<Rightarrow> bool" where
  "registered ok s \<longleftrightarrow> (case ss_phase s of STop \<Rightarrow> ss_firstRun s \<longrightarrow> ok | SOpen \<Rightarrow> ok | _ \<Rightarrow> True)"

lemma stream_run_registers:
  "stream_run E evm active c s tr s' \<Longrightarrow> registered ok s \<Longrightarrow>
   (ss_phase s \<notin> {STop, SStopped} \<longrightarrow> \<not> ss_firstRun s) \<Longrightarrow> registers_between ok tr"
proof (induction arbitrary: ok rule: stream_run.induct)
  case (sr_cons s l s1 tr s2)
  from sr_cons.hyps(1) show ?case
  proof (cases rule: stream_step.cases)
    case st_open
    then show ?thesis
      using sr_cons.IH [of False] sr_cons.prems by (simp add: registered_def)
  next
    case (st_register resp)
    then show ?thesis using sr_cons.IH [of True] by (simp add: registered_def)
  next
    case (st_submit batch latency results n now)
    then show ?thesis using sr_cons.IH [of ok] sr_cons.prems by (simp add: registered_def)
  next
    case (st_recv batch)
    then show ?thesis using sr_cons.IH [of ok] sr_cons.prems by (simp add: registered_def)
  qed (use sr_cons.IH [of ok] sr_cons.prems in \<open>auto simp: registered_def split: stream_phase.splits\<close>)
qed simp

subsection \<open>Connections (client.go)\<close>

datatype transport = TransportCert string | TransportSystemTLS | TransportInsecure

record agentCred =
  cr_agentID :: string
  cr_token :: string
  cr_requireTLS :: bool

record dialOptions =
  do_transport :: transport
  do_cred :: "agentCred option"
  do_maxRecv :: nat
  do_maxSend :: nat

definition GetRequestMetadata :: "agentCred \<Rightarrow> (string \<times> string) list" where
  "GetRequestMetadata c = [(''x-ioswarm-agent-id'', cr_agentID c), (''x-ioswarm-token'', cr_token c)]"

definition RequireTransportSecurity :: "agentCred \<Rightarrow> bool" where
  "RequireTransportSecurity c = cr_requireTLS c"

text \<open>The options of the connection; \<open>cert\<close> says whether the certificate file loads.\<close>

definition dialCoordinator ::
  "(string \<Rightarrow> string option) \<Rightarrow> string \<Rightarrow> string \<Rightarrow> string \<Rightarrow> bool \<Rightarrow> string + dialOptions" where
  "dialCoordinator cert agentID apiKey tlsCert useTLS =
     (let opts = \<lambda>tr. \<lparr>do_transport = tr,
          do_cred = (if apiKey \<noteq> [] \<and> agentID \<noteq> [] then
             Some \<lparr>cr_agentID = agentID, cr_token = apiKey, cr_requireTLS = (useTLS \<or> tlsCert \<noteq> [])\<rparr> else None),
          do_maxRecv = 32 * 1024 * 1024, do_maxSend = 32 * 1024 * 1024\<rparr>
      in if tlsCert \<noteq> [] then
           (case cert tlsCert of Some e \<Rightarrow> Inl e | None \<Rightarrow> Inr (opts (TransportCert tlsCert)))
         else if useTLS then Inr (opts TransportSystemTLS)
         else Inr (opts TransportInsecure))"

subsection \<open>A worker (worker.go)\<close>

text \<open>
  What a worker finds when it starts: the certificate, the coordinator's answer, the database,
  the snapshot stream, and how the wait for the synchroniser ends, which sees the store the
  worker opened.
\<close>

record 'd workerEnv =
  we_cert :: "string \<Rightarrow> string option"
  we_register :: "registerResponse rpc"
  we_opened :: "string \<Rightarrow> bolt_error + 'd"
  we_snapshot :: "string \<Rightarrow> snapshot_error + bytes"
  we_synced :: "'d stateStore \<Rightarrow> string + 'd stateStore"

datatype worker_error =
    WDial string
  | WRegister register_error
  | WStore store_error
  | WSnapshot snapshot_error
  | WSync string

record 'd worker =
  wk_opts :: dialOptions
  wk_hbInterval :: nat
  wk_active :: "'d stateStore option"

definition worker_tls :: "string \<Rightarrow> string \<Rightarrow> bool \<Rightarrow> bool" where
  "worker_tls coordinator tlsCert useTLS =
     (useTLS \<or> (tlsCert = [] \<and> has_suffix coordinator '':443''))"

text \<open>The worker's database: the data directory itself for the first worker.\<close>

definition worker_dir :: "string \<Rightarrow> nat \<Rightarrow> string" where
  "worker_dir dataDir idx =
     (if 0 < idx then dataDir @ ''/worker-'' @ dec_string idx else dataDir)"

definition start_store ::
  "(bytes \<Rightarrow> bytes) \<Rightarrow> 'd bolt \<Rightarrow> 'd workerEnv \<Rightarrow> string \<Rightarrow> string \<Rightarrow> worker_error + 'd stateStore" where
  "start_store sha B we dir snapshot =
     (case OpenStateStore B (we_opened we (dir @ ''/state.db'')) of
        Inl e \<Rightarrow> Inl (WStore e)
      | Inr store \<Rightarrow>
          (case (if snapshot \<noteq> [] \<and> Height store = 0
                 then LoadSnapshot sha B (we_snapshot we snapshot) store else (Inr (0, 0), store)) of
             (Inl e, _) \<Rightarrow> Inl (WSnapshot e)
           | (Inr _, store') \<Rightarrow>
               (case we_synced we store' of
                  Inl e \<Rightarrow> Inl (WSync e)
                | Inr store'' \<Rightarrow> Inr store'')))"

text \<open>
  The worker up to \<open>streamTasks\<close>. \<open>active\<close> is the global store before and the result holds it
  after.
\<close>

definition runWorker ::
  "(bytes \<Rightarrow> bytes) \<Rightarrow> 'd bolt \<Rightarrow> 'd workerEnv \<Rightarrow> 'd stateStore option \<Rightarrow> string \<Rightarrow> string \<Rightarrow> string \<Rightarrow> string \<Rightarrow>
   string \<Rightarrow> bool \<Rightarrow> string \<Rightarrow> string \<Rightarrow> nat \<Rightarrow> worker_error + 'd worker" where
  "runWorker sha B we active coordinator agentID apiKey level tlsCert useTLS dataDir snapshot workerIdx =
     (let useTLS = worker_tls coordinator tlsCert useTLS in
      case dialCoordinator (we_cert we) agentID apiKey tlsCert useTLS of
        Inl e \<Rightarrow> Inl (WDial e)
      | Inr conn \<Rightarrow>
          (case register (we_register we) of
             Inl e \<Rightarrow> Inl (WRegister e)
           | Inr resp \<Rightarrow>
               if to_upper level = ''L4'' \<and> dataDir \<noteq> [] \<and> workerIdx = 0 then
                 (case start_store sha B we (worker_dir dataDir workerIdx) snapshot of
                    Inl e \<Rightarrow> Inl e
                  | Inr store \<Rightarrow>
                      Inr \<lparr>wk_opts = conn, wk_hbInterval = hb_interval resp, wk_active = Some store\<rparr>)
               else Inr \<lparr>wk_opts = conn, wk_hbInterval = hb_interval resp, wk_active = active\<rparr>))"

lemma runWorker_other_idx:
  assumes "runWorker sha B we active coordinator agentID apiKey level tlsCert useTLS dataDir snapshot idx = Inr w"
    and "idx \<noteq> 0"
  shows "wk_active w = active"
  using assms by (auto simp: runWorker_def Let_def split: sum.splits)

lemma start_store_inv:
  assumes "bolt_laws B" and "start_store sha B we dir snapshot = Inr store"
    and synced: "\<And>st st'. store_inv B st \<Longrightarrow> we_synced we st = Inr st' \<Longrightarrow> store_inv B st'"
  shows "store_inv B store"
proof -
  from assms(2) obtain st0 r st1 where
    op: "OpenStateStore B (we_opened we (dir @ ''/state.db'')) = Inr st0" and
    ld: "(if snapshot \<noteq> [] \<and> Height st0 = 0
          then LoadSnapshot sha B (we_snapshot we snapshot) st0 else (Inr (0, 0), st0)) = (Inr r, st1)" and
    sy: "we_synced we st1 = Inr store"
    by (auto simp: start_store_def split: sum.splits prod.splits)
  obtain d where "we_opened we (dir @ ''/state.db'') = Inr d"
    using op by (auto simp: OpenStateStore_def split: sum.splits)
  with op bolt_laws.OpenStateStore_ok(1) [OF assms(1)] have inv0: "store_inv B st0" by auto
  have "store_inv B st1"
  proof (cases "snapshot \<noteq> [] \<and> Height st0 = 0")
    case True
    with ld show ?thesis
      using bolt_laws.ApplyDiff_inv [OF assms(1) inv0] inv0
      by (auto simp: LoadSnapshot_def split: sum.splits prod.splits if_splits option.splits)
  next
    case False
    with ld inv0 show ?thesis by auto
  qed
  with synced sy show ?thesis by blast
qed

text \<open>
  The heartbeat's counter is exact modulo \<open>2 ^ 32\<close>: in every run it is the value it had plus the
  number of results submitted, wrapping as the atomic counter does.
\<close>

lemma counter_counts_answered_tasks:
  assumes "stream_run E evm active c (stream_start n) tr s"
  shows "unat (ss_processed s) = (unat n + tasks_answered tr) mod 2 ^ 32"
  using stream_run_counter [OF assms]
  by (simp add: stream_start_def unat_word_ariths(1) unat_of_nat mod_simps)

text \<open>
  The level is compared without regard to case when registering and exactly when validating: with a
  level like \<open>l3\<close> or \<open>l4\<close> the agent registers and asks for tasks with the higher capability and
  validates every task at L2 only.
\<close>

lemma lower_case_level_is_downgraded:
  assumes "to_upper level \<in> {''L3'', ''L4''}" and "level \<noteq> to_upper level"
  shows "parseLevel level \<in> {2, 3} \<and>
    validateTask E evm active latency task level = Some (task_result task latency (validateL2 task))"
proof -
  have up: "to_upper ''L1'' = ''L1''" "to_upper ''L3'' = ''L3''" "to_upper ''L4'' = ''L4''" by code_simp+
  with assms have "level \<noteq> ''L1''" "level \<noteq> ''L3''" "level \<noteq> ''L4''" by auto
  with assms(1) show ?thesis by (auto simp: parseLevel_def validateTask_def)
qed

text \<open>
  Without an active store an L4 agent rejects every task, even one that L3 would accept. A worker
  other than the first never makes a store active, so such a worker rejects all its tasks until
  the first worker's store is ready.
\<close>

lemma l4_rejects_until_store_ready:
  assumes "runWorker sha B we None coordinator agentID apiKey ''L4'' tlsCert useTLS dataDir snapshot idx = Inr w"
    and "idx \<noteq> 0" and "validateTask E evm (wk_active w) latency task ''L4'' = Some r"
  shows "\<not> trValid r \<and> trRejectReason r = StoreNotInitialized"
  using runWorker_other_idx [OF assms(1,2)] assms(3)
  by (auto simp: validateTask_def validateL4_def task_result_def)

end
