(* ===== verification/Flags.thy ===== *)
theory Flags
  imports GoLib
begin

section \<open>Command lines\<close>

text \<open>
  Go's \<open>flag\<close> package: which arguments are flags, where a flag's value is, and where parsing
  stops. \<open>kind\<close> says which names are defined, and which of them are boolean and so need no value.
  The result is the assignments in their order and the arguments that are left.
\<close>

text \<open>A string, a boolean, and a value that is parsed: the check says which texts are accepted.\<close>

datatype flag_kind = ValueFlag | BoolFlag | CheckedFlag "string \<Rightarrow> bool"

datatype flag_error =
    BadFlagSyntax string
  | FlagNotDefined string
  | FlagNeedsArgument string
  | InvalidFlagValue string string

text \<open>The name and the value of an argument: the first equals sign that is not first.\<close>

definition flag_parts :: "string \<Rightarrow> string \<times> string option" where
  "flag_parts s = (case s of [] \<Rightarrow> ([], None) | c # cs \<Rightarrow> (case cut_on (CHR ''='') cs of (p, r) \<Rightarrow> (c # p, r)))"

definition flag_name :: "string \<Rightarrow> string" where
  "flag_name s = (if take 2 s = ''--'' then drop 2 s else drop 1 s)"

definition is_flag :: "string \<Rightarrow> bool" where
  "is_flag s \<longleftrightarrow> 2 \<le> length s \<and> hd s = CHR ''-''"

text \<open>\<open>strconv.ParseBool\<close>.\<close>

definition parse_bool :: "string \<Rightarrow> bool option" where
  "parse_bool s =
     (if s \<in> {''1'', ''t'', ''T'', ''true'', ''TRUE'', ''True''} then Some True
      else if s \<in> {''0'', ''f'', ''F'', ''false'', ''FALSE'', ''False''} then Some False
      else None)"

definition check_value :: "flag_kind \<Rightarrow> string \<Rightarrow> string \<Rightarrow> flag_error option" where
  "check_value k name v =
     (case k of
        ValueFlag \<Rightarrow> None
      | BoolFlag \<Rightarrow> if parse_bool v = None then Some (InvalidFlagValue name v) else None
      | CheckedFlag ok \<Rightarrow> if ok v then None else Some (InvalidFlagValue name v))"

fun parse_flags ::
  "(string \<Rightarrow> flag_kind option) \<Rightarrow> string list \<Rightarrow> flag_error + (string \<times> string) list \<times> string list" where
  "parse_flags kind [] = Inr ([], [])"
| "parse_flags kind (s # args) =
     (if \<not> is_flag s then Inr ([], s # args)
      else if s = ''--'' then Inr ([], args)
      else
        let rest = flag_name s in
        if rest = [] \<or> hd rest = CHR ''-'' \<or> hd rest = CHR ''='' then Inl (BadFlagSyntax s)
        else
          (case flag_parts rest of
             (name, given) \<Rightarrow>
               (case kind name of
                  None \<Rightarrow> Inl (FlagNotDefined name)
                | Some k \<Rightarrow>
                    (case (given, k, args) of
                       (Some v, _, _) \<Rightarrow>
                         (case check_value k name v of
                            Some e \<Rightarrow> Inl e
                          | None \<Rightarrow>
                              map_sum id (\<lambda>(as, left). ((name, v) # as, left)) (parse_flags kind args))
                     | (None, BoolFlag, _) \<Rightarrow>
                         map_sum id (\<lambda>(as, left). ((name, ''true'') # as, left)) (parse_flags kind args)
                     | (None, _, v # args') \<Rightarrow>
                         (case check_value k name v of
                            Some e \<Rightarrow> Inl e
                          | None \<Rightarrow>
                              map_sum id (\<lambda>(as, left). ((name, v) # as, left)) (parse_flags kind args'))
                     | (None, _, []) \<Rightarrow> Inl (FlagNeedsArgument name)))))"

text \<open>The value of a flag: the last assignment, or the default.\<close>

definition flag_value :: "(string \<times> string) list \<Rightarrow> string \<Rightarrow> string \<Rightarrow> string" where
  "flag_value as name d = (case map_of (rev as) name of Some v \<Rightarrow> v | None \<Rightarrow> d)"

subsection \<open>Integers: strconv.ParseInt(s, 0, 64)\<close>

text \<open>The digits of a base from 2 to 16; underscores are skipped, any other character is refused.\<close>

definition base_digit :: "nat \<Rightarrow> char \<Rightarrow> nat option" where
  "base_digit base c =
     (let n = of_char c :: nat; l = of_char (to_lower_char c) :: nat;
          d = (if 48 \<le> n \<and> n \<le> 57 then Some (n - 48)
               else if 97 \<le> l \<and> l \<le> 122 then Some (l - 97 + 10) else None)
      in case d of Some d \<Rightarrow> if d < base then Some d else None | None \<Rightarrow> None)"

fun base_digits :: "nat \<Rightarrow> nat \<Rightarrow> string \<Rightarrow> nat option" where
  "base_digits base a [] = Some a"
| "base_digits base a (c # cs) =
     (if c = CHR ''_'' then base_digits base a cs
      else (case base_digit base c of None \<Rightarrow> None | Some d \<Rightarrow> base_digits base (a * base + d) cs))"

text \<open>The prefix of a number without its sign: the base and the rest.\<close>

definition base_prefix :: "string \<Rightarrow> nat \<times> string" where
  "base_prefix s =
     (if s = [] \<or> hd s \<noteq> CHR ''0'' then (10, s)
      else if 3 \<le> length s \<and> to_lower_char (s ! 1) = CHR ''b'' then (2, drop 2 s)
      else if 3 \<le> length s \<and> to_lower_char (s ! 1) = CHR ''o'' then (8, drop 2 s)
      else if 3 \<le> length s \<and> to_lower_char (s ! 1) = CHR ''x'' then (16, drop 2 s)
      else (8, drop 1 s))"

text \<open>
  \<open>underscoreOK\<close>: an underscore stands between digits, the prefix of a base counting as one. The
  state is the kind of the character before: a digit, an underscore, or something else.
\<close>

datatype prev_char = AfterDigit | AfterUnderscore | AfterOther

fun underscores_ok :: "bool \<Rightarrow> prev_char \<Rightarrow> string \<Rightarrow> bool" where
  "underscores_ok hex p [] \<longleftrightarrow> p \<noteq> AfterUnderscore"
| "underscores_ok hex p (c # cs) \<longleftrightarrow>
     (if base_digit 10 c \<noteq> None \<or> (hex \<and> base_digit 16 c \<noteq> None) then underscores_ok hex AfterDigit cs
      else if c = CHR ''_'' then p = AfterDigit \<and> underscores_ok hex AfterUnderscore cs
      else p \<noteq> AfterUnderscore \<and> underscores_ok hex AfterOther cs)"

definition underscoreOK :: "string \<Rightarrow> bool" where
  "underscoreOK s =
     (if 2 \<le> length s \<and> hd s = CHR ''0'' \<and> to_lower_char (s ! 1) \<in> {CHR ''b'', CHR ''o'', CHR ''x''}
      then underscores_ok (to_lower_char (s ! 1) = CHR ''x'') AfterDigit (drop 2 s)
      else underscores_ok False AfterOther s)"

definition parse_uint0 :: "string \<Rightarrow> nat option" where
  "parse_uint0 s =
     (if s = [] then None
      else (case base_prefix s of
              (base, r) \<Rightarrow>
                if CHR ''_'' \<in> set r \<and> \<not> underscoreOK s then None else base_digits base 0 r))"

definition parse_int0 :: "string \<Rightarrow> int option" where
  "parse_int0 s =
     (let neg = (s \<noteq> [] \<and> hd s = CHR ''-'');
          r = (if s \<noteq> [] \<and> hd s \<in> {CHR ''-'', CHR ''+''} then drop 1 s else s)
      in case parse_uint0 r of
           None \<Rightarrow> None
         | Some n \<Rightarrow> if (if neg then n \<le> 2 ^ 63 else n < 2 ^ 63)
                     then Some (if neg then - int n else int n) else None)"

definition IntFlag :: flag_kind where
  "IntFlag = CheckedFlag (\<lambda>v. parse_int0 v \<noteq> None)"

text \<open>The value of an integer flag; \<open>parse_flags\<close> has checked that it is one.\<close>

definition int_value :: "(string \<times> string) list \<Rightarrow> string \<Rightarrow> int \<Rightarrow> int" where
  "int_value as name d =
     (case map_of (rev as) name of None \<Rightarrow> d | Some v \<Rightarrow> (case parse_int0 v of None \<Rightarrow> d | Some i \<Rightarrow> i))"

definition bool_value :: "(string \<times> string) list \<Rightarrow> string \<Rightarrow> bool \<Rightarrow> bool" where
  "bool_value as name d =
     (case map_of (rev as) name of None \<Rightarrow> d | Some v \<Rightarrow> (case parse_bool v of None \<Rightarrow> d | Some b \<Rightarrow> b))"

subsection \<open>Arguments of the form --name=value\<close>

definition long_flag :: "string \<times> string \<Rightarrow> string" where
  "long_flag = (\<lambda>(name, v). ''--'' @ name @ ''='' @ v)"

definition flag_word :: "string \<Rightarrow> bool" where
  "flag_word name \<longleftrightarrow> name \<noteq> [] \<and> hd name \<noteq> CHR ''-'' \<and> CHR ''='' \<notin> set name"

lemma flag_parts_long: "flag_word name \<Longrightarrow> flag_parts (name @ ''='' @ v) = (name, Some v)"
  by (cases name) (auto simp: flag_word_def flag_parts_def cut_on_append)

lemma parse_long_flags:
  "\<forall>(name, v) \<in> set kvs. flag_word name \<and> kind name = Some ValueFlag \<Longrightarrow>
   parse_flags kind (map long_flag kvs) = Inr (kvs, [])"
proof (induction kvs)
  case (Cons kv kvs)
  obtain name v where kv: "kv = (name, v)" by (cases kv)
  with Cons.prems have name: "flag_word name" "kind name = Some ValueFlag" by auto
  then have "name \<noteq> []" "hd name \<noteq> CHR ''-''" "hd name \<noteq> CHR ''=''"
    by (auto simp: flag_word_def dest: list.set_sel(1))
  with name Cons flag_parts_long [OF name(1), of v] show ?case
    by (simp add: kv long_flag_def is_flag_def flag_name_def Let_def check_value_def)
qed simp

end
