(* ===== verification/Startup.thy ===== *)
theory Startup
  imports Agent Flags
begin

section \<open>Starting the program (main.go)\<close>

text \<open>
  The subcommands, the flags and their environment variables, and the workers \<open>main\<close> starts.
  The LLM port is kept as the text of its flag.
\<close>

subsection \<open>Subcommands\<close>

datatype command =
    CmdClaim "string list"
  | CmdDeploy "string list"
  | CmdFund "string list"
  | CmdKeygen "string list"
  | CmdAddr "string list"
  | CmdStatus "string list"
  | CmdService "string list"
  | CmdRewards "string list"
  | CmdLLMSetup
  | CmdLLM "string list"
  | CmdAgent "string list"

text \<open>\<open>os.Args\<close> is the program's name and its arguments.\<close>

definition dispatch :: "string list \<Rightarrow> command" where
  "dispatch osArgs =
     (case osArgs of
        prog # cmd # args \<Rightarrow>
          if cmd = ''claim'' then CmdClaim args
          else if cmd = ''deploy'' then CmdDeploy args
          else if cmd = ''fund'' then CmdFund args
          else if cmd = ''keygen'' then CmdKeygen args
          else if cmd = ''addr'' then CmdAddr args
          else if cmd = ''status'' then CmdStatus args
          else if cmd = ''service'' then CmdService args
          else if cmd = ''rewards'' then CmdRewards args
          else if cmd = ''llm'' then
            (if args \<noteq> [] \<and> hd args = ''setup'' then CmdLLMSetup else CmdLLM args)
          else CmdAgent (cmd # args)
      | _ \<Rightarrow> CmdAgent [])"

subsection \<open>Flags\<close>

record flags =
  fl_coordinator :: string
  fl_apiKey :: string
  fl_agentID :: string
  fl_level :: string
  fl_wallet :: string
  fl_dataDir :: string
  fl_mode :: string
  fl_region :: string
  fl_tlsCert :: string
  fl_useTLS :: bool
  fl_snapshot :: string
  fl_llmPort :: int

definition default_flags :: flags where
  "default_flags =
     \<lparr>fl_coordinator = ''127.0.0.1:14689'', fl_apiKey = [], fl_agentID = [], fl_level = ''L3'',
      fl_wallet = [], fl_dataDir = [], fl_mode = ''validator'', fl_region = ''default'', fl_tlsCert = [],
      fl_useTLS = True, fl_snapshot = [], fl_llmPort = 8082\<rparr>"

definition main_flag_kind :: "string \<Rightarrow> flag_kind option" where
  "main_flag_kind name =
     (if name = ''tls'' then Some BoolFlag
      else if name = ''llm-port'' then Some IntFlag
      else if name \<in> {''coordinator'', ''api-key'', ''agent-id'', ''level'', ''region'', ''wallet'', ''tls-cert'',
                       ''datadir'', ''snapshot'', ''mode''} then Some ValueFlag
      else None)"

definition flags_of :: "(string \<times> string) list \<Rightarrow> flags" where
  "flags_of as =
     \<lparr>fl_coordinator = flag_value as ''coordinator'' (fl_coordinator default_flags),
      fl_apiKey = flag_value as ''api-key'' (fl_apiKey default_flags),
      fl_agentID = flag_value as ''agent-id'' (fl_agentID default_flags),
      fl_level = flag_value as ''level'' (fl_level default_flags),
      fl_wallet = flag_value as ''wallet'' (fl_wallet default_flags),
      fl_dataDir = flag_value as ''datadir'' (fl_dataDir default_flags),
      fl_mode = flag_value as ''mode'' (fl_mode default_flags),
      fl_region = flag_value as ''region'' (fl_region default_flags),
      fl_tlsCert = flag_value as ''tls-cert'' (fl_tlsCert default_flags),
      fl_useTLS = bool_value as ''tls'' (fl_useTLS default_flags),
      fl_snapshot = flag_value as ''snapshot'' (fl_snapshot default_flags),
      fl_llmPort = int_value as ''llm-port'' (fl_llmPort default_flags)\<rparr>"

definition parse_main :: "string list \<Rightarrow> flag_error + flags" where
  "parse_main args = map_sum id (\<lambda>(as, left). flags_of as) (parse_flags main_flag_kind args)"

text \<open>The environment variables fill in the flags left at their defaults.\<close>

definition env_fallback :: "(string \<Rightarrow> string) \<Rightarrow> flags \<Rightarrow> flags" where
  "env_fallback getenv f =
     f\<lparr>fl_apiKey := (if fl_apiKey f = [] then getenv ''IOSWARM_API_KEY'' else fl_apiKey f),
       fl_agentID := (if fl_agentID f = [] then getenv ''IOSWARM_AGENT_ID'' else fl_agentID f),
       fl_wallet := (if fl_wallet f = [] then getenv ''IOSWARM_WALLET'' else fl_wallet f),
       fl_coordinator :=
         (if fl_coordinator f = ''127.0.0.1:14689'' \<and> getenv ''IOSWARM_COORDINATOR'' \<noteq> []
          then getenv ''IOSWARM_COORDINATOR'' else fl_coordinator f),
       fl_dataDir := (if fl_dataDir f = [] then getenv ''IOSWARM_DATADIR'' else fl_dataDir f)\<rparr>"

definition comma :: char where "comma = CHR '',''"

definition split_list :: "string \<Rightarrow> string list" where
  "split_list s = map trim_space (split_on comma s)"

definition worker_key :: "string \<Rightarrow> nat \<Rightarrow> string" where
  "worker_key apiKey idx =
     (let apiKeys = split_list apiKey in
      if idx < length apiKeys \<and> 1 < length apiKeys then apiKeys ! idx else apiKey)"

datatype start_plan =
    LlmOnly int
  | ExitWith string
  | StartWorkers "int option" "(string \<times> string \<times> nat) list"

text \<open>What \<open>main\<close> starts: the LLM proxy on its port, an error, or the workers and
  the port of the proxy that runs beside them, if any.\<close>

definition main_plan :: "(string \<Rightarrow> string) \<Rightarrow> flags \<Rightarrow> start_plan" where
  "main_plan getenv f0 =
     (let f = env_fallback getenv f0;
          runMode = to_lower (fl_mode f)
      in if runMode = ''llm'' then LlmOnly (fl_llmPort f)
         else if fl_agentID f = [] then ExitWith ''error: --agent-id is required''
         else if to_upper (fl_level f) = ''L4'' \<and> fl_dataDir f = [] then
           ExitWith ''error: --datadir is required for L4 mode''
         else
           let coordinators = split_list (fl_coordinator f) in
           StartWorkers (if runMode = ''both'' then Some (fl_llmPort f) else None)
             (map (\<lambda>idx. (coordinators ! idx, worker_key (fl_apiKey f) idx, idx)) [0..<length coordinators]))"

text \<open>
  Keys and coordinators are paired by position: when several keys are given, the worker at a position
  that has a key gets that key, trimmed; a worker beyond the last key gets the whole comma-separated
  list as its key.
\<close>

lemma worker_gets_own_key:
  assumes "main_plan getenv f = StartWorkers llm ws" and "(coord, key, idx) \<in> set ws"
    and "1 < length (split_list (fl_apiKey (env_fallback getenv f)))"
  shows "coord = split_list (fl_coordinator (env_fallback getenv f)) ! idx \<and>
    key = (if idx < length (split_list (fl_apiKey (env_fallback getenv f)))
           then split_list (fl_apiKey (env_fallback getenv f)) ! idx
           else fl_apiKey (env_fallback getenv f))"
  using assms by (auto simp: main_plan_def Let_def worker_key_def split: if_splits)

end
