(* ===== verification/Config.thy ===== *)
theory Config
  imports GoLib
begin

section \<open>Versions and configuration files (upgrade.go, status.go, service.go)\<close>

text \<open>
  The comparison of release versions, with the type of versions an instance of \<open>linorder\<close>; the
  configuration file \<open>status\<close> and \<open>service\<close> read; the status of an installed agent. Files are
  a function from paths to their contents.
\<close>

subsection \<open>Versions\<close>

datatype semver = Semver int int int

text \<open>The array of three: missing parts are 0, and what does not parse is 0.\<close>

definition parseSemver :: "string \<Rightarrow> semver" where
  "parseSemver v =
     (let parts = map atoi (split_n 3 (CHR ''.'') v);
          at = \<lambda>i. if i < length parts then parts ! i else 0
      in Semver (at 0) (at 1) (at 2))"

fun parts_less :: "int list \<Rightarrow> int list \<Rightarrow> bool" where
  "parts_less (a # as) (b # bs) = (if a < b then True else if a > b then False else parts_less as bs)"
| "parts_less as bs = False"

fun semver_parts :: "semver \<Rightarrow> int list" where
  "semver_parts (Semver a b c) = [a, b, c]"

definition semverLessThan :: "string \<Rightarrow> string \<Rightarrow> bool" where
  "semverLessThan a b = parts_less (semver_parts (parseSemver a)) (semver_parts (parseSemver b))"

instantiation semver :: linorder
begin

definition less_semver :: "semver \<Rightarrow> semver \<Rightarrow> bool" where
  "less_semver a b = parts_less (semver_parts a) (semver_parts b)"

definition less_eq_semver :: "semver \<Rightarrow> semver \<Rightarrow> bool" where
  "less_eq_semver a b = (a = b \<or> a < b)"

instance
proof
  fix x y z :: semver
  obtain a b c where x: "x = Semver a b c" by (cases x)
  obtain d e f where y: "y = Semver d e f" by (cases y)
  obtain g h i where z: "z = Semver g h i" by (cases z)
  show "x < y \<longleftrightarrow> x \<le> y \<and> \<not> y \<le> x"
    by (auto simp: x y less_semver_def less_eq_semver_def split: if_splits)
  show "x \<le> x" by (simp add: less_eq_semver_def)
  show "x \<le> y \<Longrightarrow> y \<le> z \<Longrightarrow> x \<le> z"
    by (auto simp: x y z less_semver_def less_eq_semver_def split: if_splits)
  show "x \<le> y \<Longrightarrow> y \<le> x \<Longrightarrow> x = y"
    by (auto simp: x y less_semver_def less_eq_semver_def split: if_splits)
  show "x \<le> y \<or> y \<le> x"
    by (auto simp: x y less_semver_def less_eq_semver_def)
qed

end

lemma semverLessThan_less: "semverLessThan a b \<longleftrightarrow> parseSemver a < parseSemver b"
  by (simp add: semverLessThan_def less_semver_def)

text \<open>Printing a version and reading it back.\<close>

definition show_version :: "nat \<Rightarrow> nat \<Rightarrow> nat \<Rightarrow> string" where
  "show_version a b c = dec_string a @ ''.'' @ dec_string b @ ''.'' @ dec_string c"

lemma dot_notin_dec_string: "CHR ''.'' \<notin> set (dec_string n)"
  using dec_string_digits [of n] by (auto simp: digit_of_def)

lemma parseSemver_show:
  assumes "a < 2 ^ 63" and "b < 2 ^ 63" and "c < 2 ^ 63"
  shows "parseSemver (show_version a b c) = Semver (int a) (int b) (int c)"
proof -
  have "split_n 3 (CHR ''.'') (show_version a b c) = [dec_string a, dec_string b, dec_string c]"
    by (simp add: numeral_3_eq_3 show_version_def cut_on_append dot_notin_dec_string)
  moreover have "atoi (dec_string n) = int n" if "n < 2 ^ 63" for n
    using that by (simp add: atoi_def set_string10_dec_string clamp_int_def)
  ultimately show ?thesis using assms by (simp add: parseSemver_def Let_def)
qed

text \<open>
  \<open>checkForUpdate\<close> after the request: \<open>tag\<close> is the latest release's tag name, when the request
  succeeded. The result is the pair of versions printed.
\<close>

definition checkForUpdate :: "string \<Rightarrow> string option \<Rightarrow> (string \<times> string) option" where
  "checkForUpdate currentVersion tag =
     (if currentVersion = ''dev'' \<or> currentVersion = [] then None
      else (case tag of
              None \<Rightarrow> None
            | Some t \<Rightarrow>
                let latest = trim_prefix t ''v''; current = trim_prefix currentVersion ''v'' in
                if semverLessThan current latest then Some (current, latest) else None))"

subsection \<open>The configuration file\<close>

definition newline :: char where "newline = CHR 0x0A"

record serviceConfig =
  sv_AgentBin :: string
  sv_Coordinator :: string
  sv_AgentID :: string
  sv_Level :: string
  sv_Region :: string
  sv_Wallet :: string
  sv_APIKey :: string
  sv_LogFile :: string

definition config_line :: "string \<Rightarrow> (string \<times> string) option" where
  "config_line line = (case split_n 2 (CHR ''='') line of [k, v] \<Rightarrow> Some (k, v) | _ \<Rightarrow> None)"

definition service_setting :: "serviceConfig \<Rightarrow> string \<Rightarrow> serviceConfig" where
  "service_setting cfg line =
     (case config_line line of
        None \<Rightarrow> cfg
      | Some (k, v) \<Rightarrow>
          if k = ''IOSWARM_COORDINATOR'' then cfg\<lparr>sv_Coordinator := v\<rparr>
          else if k = ''IOSWARM_AGENT_ID'' then cfg\<lparr>sv_AgentID := v\<rparr>
          else if k = ''IOSWARM_LEVEL'' then cfg\<lparr>sv_Level := v\<rparr>
          else if k = ''IOSWARM_REGION'' then cfg\<lparr>sv_Region := v\<rparr>
          else if k = ''IOSWARM_WALLET'' then cfg\<lparr>sv_Wallet := v\<rparr>
          else if k = ''IOSWARM_API_KEY'' then cfg\<lparr>sv_APIKey := v\<rparr>
          else cfg)"

definition loadServiceConfig :: "(string \<Rightarrow> string option) \<Rightarrow> string \<Rightarrow> serviceConfig" where
  "loadServiceConfig files dir =
     (let cfg = \<lparr>sv_AgentBin = dir @ ''/ioswarm-agent'', sv_Coordinator = [], sv_AgentID = [],
                 sv_Level = ''L2'', sv_Region = ''default'', sv_Wallet = [], sv_APIKey = [],
                 sv_LogFile = dir @ ''/agent.log''\<rparr>
      in case files (dir @ ''/config.env'') of
           None \<Rightarrow> cfg
         | Some b \<Rightarrow> foldl service_setting cfg (split_on newline b))"

text \<open>A file of assignments, one per line, and its reading.\<close>

definition config_file :: "(string \<times> string) list \<Rightarrow> string" where
  "config_file kvs = concat (map (\<lambda>(k, v). k @ ''='' @ v @ [newline]) kvs)"

definition wf_setting :: "string \<times> string \<Rightarrow> bool" where
  "wf_setting kv \<longleftrightarrow> CHR ''='' \<notin> set (fst kv) \<and> newline \<notin> set (fst kv) \<and> newline \<notin> set (snd kv)"

lemma split_config_file:
  "\<forall>kv \<in> set kvs. wf_setting kv \<Longrightarrow>
   split_on newline (config_file kvs) = map (\<lambda>(k, v). k @ ''='' @ v) kvs @ [[]]"
proof (induction kvs)
  case Nil
  then show ?case by (simp add: config_file_def)
next
  case (Cons kv kvs)
  obtain k v where kv: "kv = (k, v)" by (cases kv)
  from Cons.prems kv have "newline \<notin> set (k @ ''='' @ v)"
    by (auto simp: wf_setting_def newline_def)
  from split_on_append [OF this, of "config_file kvs"] Cons kv show ?case
    by (simp add: config_file_def)
qed

lemma config_line_setting: "CHR ''='' \<notin> set k \<Longrightarrow> config_line (k @ ''='' @ v) = Some (k, v)"
  by (simp add: config_line_def numeral_2_eq_2 cut_on_append)

lemma config_line_empty: "config_line [] = None"
  by (simp add: config_line_def numeral_2_eq_2)

text \<open>The last assignment of each known key, or the default.\<close>

definition last_setting :: "string \<Rightarrow> string \<Rightarrow> (string \<times> string) list \<Rightarrow> string" where
  "last_setting k d kvs = (case map_of (rev kvs) k of Some v \<Rightarrow> v | None \<Rightarrow> d)"

lemma last_setting_snoc:
  "last_setting k d (kvs @ [(k', v)]) = (if k = k' then v else last_setting k d kvs)"
  by (simp add: last_setting_def)

lemma foldl_settings:
  assumes "\<forall>kv \<in> set kvs. wf_setting kv"
  shows "foldl service_setting cfg (map (\<lambda>(k, v). k @ ''='' @ v) kvs) =
    cfg\<lparr>sv_Coordinator := last_setting ''IOSWARM_COORDINATOR'' (sv_Coordinator cfg) kvs,
        sv_AgentID := last_setting ''IOSWARM_AGENT_ID'' (sv_AgentID cfg) kvs,
        sv_Level := last_setting ''IOSWARM_LEVEL'' (sv_Level cfg) kvs,
        sv_Region := last_setting ''IOSWARM_REGION'' (sv_Region cfg) kvs,
        sv_Wallet := last_setting ''IOSWARM_WALLET'' (sv_Wallet cfg) kvs,
        sv_APIKey := last_setting ''IOSWARM_API_KEY'' (sv_APIKey cfg) kvs\<rparr>"
  using assms
proof (induction kvs rule: rev_induct)
  case (snoc kv kvs)
  obtain k v where kv: "kv = (k, v)" by (cases kv)
  from snoc.prems kv have k: "CHR ''='' \<notin> set k" by (simp add: wf_setting_def)
  from snoc show ?case
    by (simp add: kv last_setting_snoc service_setting_def config_line_setting [OF k, simplified])
qed (simp add: last_setting_def)

subsection \<open>The status of an agent\<close>

record agentStatus =
  as_Running :: bool
  as_PID :: int
  as_AgentID :: string
  as_Wallet :: string
  as_Coordinator :: string
  as_Level :: string
  as_Region :: string
  as_UptimeSeconds :: int
  as_TasksProcessed :: nat
  as_LogFile :: string

definition status_setting :: "agentStatus \<Rightarrow> string \<Rightarrow> agentStatus" where
  "status_setting st line =
     (case config_line line of
        None \<Rightarrow> st
      | Some (k, v) \<Rightarrow>
          if k = ''IOSWARM_COORDINATOR'' then st\<lparr>as_Coordinator := v\<rparr>
          else if k = ''IOSWARM_LEVEL'' then st\<lparr>as_Level := v\<rparr>
          else if k = ''IOSWARM_REGION'' then st\<lparr>as_Region := v\<rparr>
          else st)"

text \<open>\<open>strconv.Atoi\<close> with its error: out of range is an error too.\<close>

definition atoi_ok :: "string \<Rightarrow> int option" where
  "atoi_ok s = (case set_string10 s of
     None \<Rightarrow> None | Some i \<Rightarrow> if clamp_int i = i then Some i else None)"

text \<open>\<open>strings.Count\<close> of a non-empty substring: non-overlapping occurrences from the left.\<close>

function count_sub :: "string \<Rightarrow> string \<Rightarrow> nat" where
  "count_sub [] p = 0"
| "count_sub (c # cs) p =
     (if p \<noteq> [] \<and> has_prefix (c # cs) p then Suc (count_sub (drop (length p) (c # cs)) p)
      else count_sub cs p)"
  by pat_completeness auto
termination
  by (relation "measure (\<lambda>(s, p). length s)") auto

text \<open>\<open>alive\<close> answers the signal sent to the process and \<open>uptime\<close> the age of the PID file.\<close>

definition runStatus ::
  "(string \<Rightarrow> string option) \<Rightarrow> (int \<Rightarrow> bool) \<Rightarrow> int option \<Rightarrow> string \<Rightarrow> agentStatus" where
  "runStatus files alive uptime dir =
     (let st = \<lparr>as_Running = False, as_PID = 0, as_AgentID = [], as_Wallet = [], as_Coordinator = [],
                as_Level = [], as_Region = [], as_UptimeSeconds = 0, as_TasksProcessed = 0,
                as_LogFile = dir @ ''/agent.log''\<rparr>;
          st = (case files (dir @ ''/agent.id'') of None \<Rightarrow> st | Some b \<Rightarrow> st\<lparr>as_AgentID := trim_space b\<rparr>);
          st = (case files (dir @ ''/wallet.addr'') of None \<Rightarrow> st | Some b \<Rightarrow> st\<lparr>as_Wallet := trim_space b\<rparr>);
          st = (case files (dir @ ''/config.env'') of
                  None \<Rightarrow> st | Some b \<Rightarrow> foldl status_setting st (split_on newline b));
          st = (case files (dir @ ''/agent.pid'') of
                  None \<Rightarrow> st
                | Some b \<Rightarrow>
                    (case atoi_ok (trim_space b) of
                       None \<Rightarrow> st
                     | Some pid \<Rightarrow>
                         if alive pid then
                           st\<lparr>as_Running := True, as_PID := pid,
                              as_UptimeSeconds := (case uptime of Some u \<Rightarrow> u | None \<Rightarrow> 0)\<rparr>
                         else st))
      in case files (dir @ ''/agent.log'') of
           None \<Rightarrow> st
         | Some b \<Rightarrow> st\<lparr>as_TasksProcessed := count_sub b ''received batch''\<rparr>)"

text \<open>
  Reading the service configuration: a file of assignments, one per line, gives every known key the
  value of its last assignment, values may contain an equals sign, unknown keys are skipped, and
  keys not assigned keep their defaults.
\<close>

lemma config_last_assignment_wins:
  assumes "files (dir @ ''/config.env'') = Some (config_file kvs)" and "\<forall>kv \<in> set kvs. wf_setting kv"
  shows "loadServiceConfig files dir =
    \<lparr>sv_AgentBin = dir @ ''/ioswarm-agent'',
     sv_Coordinator = last_setting ''IOSWARM_COORDINATOR'' [] kvs,
     sv_AgentID = last_setting ''IOSWARM_AGENT_ID'' [] kvs,
     sv_Level = last_setting ''IOSWARM_LEVEL'' ''L2'' kvs,
     sv_Region = last_setting ''IOSWARM_REGION'' ''default'' kvs,
     sv_Wallet = last_setting ''IOSWARM_WALLET'' [] kvs,
     sv_APIKey = last_setting ''IOSWARM_API_KEY'' [] kvs,
     sv_LogFile = dir @ ''/agent.log''\<rparr>"
  using assms foldl_settings [OF assms(2)]
  by (simp add: loadServiceConfig_def Let_def split_config_file service_setting_def config_line_empty)

text \<open>
  The update check compares versions as numbers: for versions of three decimal numbers,
  \<open>semverLessThan\<close> is the lexicographic order of the triples, whatever the number of digits.
\<close>

lemma versions_compare_numerically:
  assumes "a < 2 ^ 63" and "b < 2 ^ 63" and "c < 2 ^ 63" and "d < 2 ^ 63" and "e < 2 ^ 63" and "f < 2 ^ 63"
  shows "semverLessThan (show_version a b c) (show_version d e f) \<longleftrightarrow>
    a < d \<or> (a = d \<and> (b < e \<or> (b = e \<and> c < f)))"
  using assms by (auto simp: semverLessThan_def parseSemver_show)

end
