(* ===== verification/Samples.thy ===== *)
theory Samples
  imports Startup Config StoredTrie
begin

section \<open>Concrete inputs\<close>

text \<open>
  The inputs the witnesses of the properties evaluate: the environment with the real wire format
  and the in-memory database, a store holding one account with one storage slot, and a task
  calling a contract.
\<close>

subsection \<open>Hexadecimal strings\<close>

lemma from_hex_0x: "from_hex (''0x'' @ hex_of b) = b"
  by (simp add: from_hex_def hex_pairs_hex_of)

lemma addr_bytes_nat: "be_nat (addr_bytes a) = unat a"
  using unat_bound [of a] by (simp add: addr_bytes_def be_nat_be_bytes)

lemma HexToAddress_hex [simp]: "HexToAddress eth_instance (''0x'' @ hex_of (addr_bytes a)) = a"
  by (simp add: eth_instance_def from_hex_0x [simplified] crop_left_def addr_bytes_nat)

lemma HexToHash_hex [simp]: "HexToHash eth_instance (''0x'' @ hex_of (hash_bytes h)) = h"
  by (simp add: eth_instance_def from_hex_0x [simplified] crop_left_def hash_bytes_nat)

definition addr_hex :: "address \<Rightarrow> string" where "addr_hex a = ''0x'' @ hex_of (addr_bytes a)"
definition hash_hex :: "hash \<Rightarrow> string" where "hash_hex h = ''0x'' @ hex_of (hash_bytes h)"

lemma hex_simps [simp]:
  "HexToAddress eth_instance (addr_hex a) = a" "HexToHash eth_instance (hash_hex h) = h"
  "AddressHex eth_instance a = addr_hex a" "HashHex eth_instance h = hash_hex h"
  "U256FromBig eth_instance i = (word_of_int i, 2 ^ 256 \<le> \<bar>i\<bar>)"
  "BytesToHash eth_instance (hash_bytes h) = h"
  using eth.bytes_to_hash
  by (simp_all only: addr_hex_def hash_hex_def HexToAddress_hex HexToHash_hex)
    (simp_all add: eth_instance_def)

lemma addressToHash160_addr_hex [simp]: "addressToHash160 (addr_hex a) = Inr (addr_bytes a)"
  unfolding addr_hex_def by (rule addressToHash160_hex_of) simp

lemma addr_hex_nonempty [simp]: "addr_hex a \<noteq> []"
  by (simp add: addr_hex_def)

subsection \<open>The environment and a store\<close>

definition demo_env :: "mem_db env" where
  "demo_env = \<lparr>ev_eth = eth_instance, ev_pw = wire_format, ev_bk = mem_bolt\<rparr>"

lemma demo_env_simps [simp]:
  "ev_eth demo_env = eth_instance" "ev_pw demo_env = wire_format" "ev_bk demo_env = mem_bolt"
  by (simp_all add: demo_env_def)

text \<open>The account at address 7 has nonce 3 and balance 1000; its slot 5 holds 9.\<close>

definition demo_leaf :: bytes where
  "demo_leaf = encodeLeafNode wire_format (hash_bytes 5) (hash_bytes 9)"

definition demo_account :: bytes where
  "demo_account = encodeTestAccount wire_format 3 (dec_string 1000) [1] []"

definition demo_db :: mem_db where
  "demo_db =
     [(nsAccount, [(addr_bytes 7, demo_account)]), (nsCode, []),
      (nsContract, [([1], demo_leaf)]), (nsMeta, [(metaHeight, put_u64 12)])]"

definition demo_store :: "mem_db stateStore" where
  "demo_store = \<lparr>st_db = demo_db, st_height = 12\<rparr>"

lemma demo_leaf_length: "length demo_leaf < 2 ^ 63"
  by (simp add: demo_leaf_def encodeLeafNode_def Let_def uvarint.simps BytesType_def)

lemma demo_leaf_decode:
  "decodeNodePb wire_format demo_leaf = Some (Inr (NodeL \<lparr>lf_key = hash_bytes 5, lf_value = Some (hash_bytes 9)\<rparr>))"
  using wire.decode_encodeLeafNode [of "hash_bytes 5" "hash_bytes 9"] demo_leaf_length
  by (simp add: demo_leaf_def)

lemma demo_account_decode:
  "DecodeAccount wire_format demo_account =
   Some (Inr \<lparr>acNonce = 3, acBalance = 1000, acRoot = [1], acCodeHash = []\<rparr>)"
  unfolding demo_account_def
  by (rule protowire_laws.DecodeAccount_round [OF wire.protowire_laws_axioms])
    (simp, simp add: dec_string.simps, simp_all)

lemma demo_Get:
  "Get mem_bolt demo_store nsAccount (addr_bytes 7) = Inr (Some demo_account)"
  "Get mem_bolt demo_store nsContract [1] = Inr (Some demo_leaf)"
  by (simp_all add: Get_def demo_store_def demo_db_def mem_bucket_def ns_defs)

lemma demo_GetAccount:
  "GetAccount wire_format mem_bolt demo_store (addr_bytes 7) =
   Some (Inr (Some \<lparr>acNonce = 3, acBalance = 1000, acRoot = [1], acCodeHash = []\<rparr>))"
  by (simp add: GetAccount_def demo_Get demo_account_decode)

lemma demo_slot_value:
  "GetStorageSlot wire_format mem_bolt demo_store (addr_bytes 7) (hash_bytes 5) =
   Some (Inr (Some (hash_bytes 9)))"
  by (simp add: GetStorageSlot_def demo_GetAccount trieGet_def emptyTrieRoot_def
      trie_loop_leaf [OF demo_Get(2) demo_leaf_decode])

subsection \<open>A task\<close>

definition demo_sender :: accountSnapshot where
  "demo_sender =
     \<lparr>snAddress = addr_hex 7, snBalance = dec_string 500, snNonce = 1, snCodeHash = []\<rparr>"

definition demo_tx :: evmTx where
  "demo_tx =
     \<lparr>txTo = addr_hex 8, txValue = dec_string 20, txData = [1, 2, 3], txGasLimit = 50000,
      txGasPrice = dec_string 1\<rparr>"

definition demo_raw :: bytes where
  "demo_raw = signed_tx (put_u64 4) 1 2 27"

definition demo_task :: taskPackage where
  "demo_task =
     \<lparr>tpTaskID = 1, tpTxRaw = demo_raw, tpLevel = 2, tpSender = Some demo_sender, tpReceiver = None,
      tpBlockHeight = 12, tpBlockContext = None, tpContractCode = [],
      tpStorageSlots = [(addr_hex 8, [(hash_hex 0, hash_hex 4)])], tpEvmTx = Some demo_tx\<rparr>"

lemma demo_L1: "vrValid (validateL1 demo_task)"
  unfolding validateL1_valid
  by (intro exI [of _ "put_u64 4"] exI [of _ 1] exI [of _ 2] exI [of _ 27])
    (simp add: demo_task_def demo_raw_def secp256k1N_def)

lemma demo_nonce: "extractTxNonce demo_raw = 4"
  by (simp add: demo_raw_def extractTxNonce_signed)

lemma demo_L2: "vrValid (validateL2 demo_task)"
  unfolding validateL2_valid using demo_L1 demo_nonce
  by (simp add: demo_task_def demo_sender_def)

lemma demo_parts [simp]:
  "tpSender demo_task = Some demo_sender" "tpReceiver demo_task = None"
  "tpContractCode demo_task = []" "tpEvmTx demo_task = Some demo_tx"
  "tpStorageSlots demo_task = [(addr_hex 8, [(hash_hex 0, hash_hex 4)])]"
  "tpBlockContext demo_task = None" "tpTxRaw demo_task = demo_raw" "tpTaskID demo_task = 1"
  "snAddress demo_sender = addr_hex 7" "snBalance demo_sender = dec_string 500"
  "snNonce demo_sender = 1" "snCodeHash demo_sender = []"
  "txTo demo_tx = addr_hex 8" "txValue demo_tx = dec_string 20" "txData demo_tx = [1, 2, 3]"
  "txGasLimit demo_tx = 50000" "txGasPrice demo_tx = dec_string 1"
  by (simp_all add: demo_task_def demo_sender_def demo_tx_def)

definition demo_new :: "mem_db memStateDB" where
  "demo_new = empty_db\<lparr>
     accounts := [7 \<mapsto> \<lparr>balance = 500, nonce = 1, code = [], codeHash = emptyCodeHash demo_env,
                       suicided = False, isNew = False\<rparr>],
     storage := [8 \<mapsto> [0 \<mapsto> 4]], committedStorage := [8 \<mapsto> [0 \<mapsto> 4]]\<rparr>"

lemma demo_NewMemStateDB: "NewMemStateDB demo_env demo_task = demo_new"
  by (simp add: NewMemStateDB_def demo_new_def load_sender_def load_receiver_def load_slots_def
      load_slot_def ensure_inner_def upd2_def empty_db_def parse_balance_def Let_def)

lemma demo_can: "canTransfer demo_env 7 20 demo_new = Some (True, demo_new)"
  by (simp add: canTransfer_def GetBalance_def find_account_def demo_new_def)

definition demo_moved :: "mem_db memStateDB" where
  "demo_moved = the (iotexTransfer demo_env 7 8 20 demo_new)"

lemma demo_transfer: "iotexTransfer demo_env 7 8 20 demo_new = Some demo_moved"
  by (simp add: demo_moved_def iotexTransfer_def SubBalance_def AddBalance_def getOrCreateAccount_def
      loadAccountFromStore_def demo_new_def empty_db_def put_account_def)

lemma demo_moved_fields [simp]:
  "storage demo_moved = [8 \<mapsto> [0 \<mapsto> 4]]" "changes demo_moved = []" "localStore demo_moved = None"
  "committedStorage demo_moved = [8 \<mapsto> [0 \<mapsto> 4]]"
  by (simp_all add: demo_moved_def iotexTransfer_def SubBalance_def AddBalance_def
      getOrCreateAccount_def loadAccountFromStore_def demo_new_def empty_db_def put_account_def AddLog_def)

lemma demo_run:
  "plain_evm demo_env (block_context demo_env task) tc cc (EvmCall 7 8 [1, 2, 3] 50000 20) demo_new =
   Some (EvmReturned [] 49900 None (snd (SetState 8 0 3 demo_moved)))"
  by (simp add: plain_evm_def demo_can demo_transfer GetState_def get2_def min_def)

lemma demo_exec:
  "\<exists>r. executeEVM demo_env (plain_evm demo_env) demo_task None = Some r \<and> erSuccess r \<and>
     erGasUsed r = 100 \<and>
     erStateChanges r = [\<lparr>scAddress = addr_hex 8, scSlot = hash_hex 0,
       scOldValue = hash_hex 4, scNewValue = hash_hex 3\<rparr>]"
proof -
  have "hash_hex 4 \<noteq> hash_hex 3"
    using eth.hash_hex_eq [of 4 3] by simp
  then have "GetStateChanges eth_instance (snd (SetState 8 0 3 demo_moved)) =
      [\<lparr>scAddress = addr_hex 8, scSlot = hash_hex 0, scOldValue = hash_hex 4, scNewValue = hash_hex 3\<rparr>]"
    by (simp add: GetStateChanges_def SetState_def Let_def get2_def hex_change_def)
  then show ?thesis
    by (simp add: executeEVM_def demo_NewMemStateDB Let_def evm_call_of_def parse_amount_def
        demo_run collect_result_def)
qed

lemma demo_L3:
  "\<exists>r. validateTask demo_env (plain_evm demo_env) active 0 demo_task ''L3'' = Some r \<and>
     trStateChanges r \<noteq> [] \<and> trValid r \<and> trGasUsed r = 100"
proof -
  from demo_exec obtain r where r: "executeEVM demo_env (plain_evm demo_env) demo_task None = Some r"
    "erSuccess r" "erStateChanges r \<noteq> []" "erGasUsed r = 100" by auto
  then show ?thesis
    using demo_L2 by (simp add: validateTask_def validateL3_def task_result_def exec_verdict_def)
qed

subsection \<open>Diffs the in-memory database accepts\<close>

definition mem_entry_ok :: "stateDiffEntry \<Rightarrow> bool" where
  "mem_entry_ok e \<longleftrightarrow> deNamespace e \<noteq> [] \<and> deKey e \<noteq> [] \<and> length (deKey e) \<le> 32768"

lemma mem_apply_entry:
  assumes "mem_entry_ok e"
  shows "\<exists>d'. apply_entry mem_bolt e d = Inr d' \<and> (\<forall>ns. map_of d ns \<noteq> None \<longrightarrow> map_of d' ns \<noteq> None)"
  using assms
  by (auto simp: mem_entry_ok_def apply_entry_def ensure_bucket_def mem_create_def mem_put_def
      mem_delete_def update_conv')

lemma mem_apply_entries:
  "\<forall>e \<in> set es. mem_entry_ok e \<Longrightarrow>
   \<exists>d'. apply_entries mem_bolt es d = Inr d' \<and> (\<forall>ns. map_of d ns \<noteq> None \<longrightarrow> map_of d' ns \<noteq> None)"
proof (induction es arbitrary: d)
  case (Cons e es)
  then obtain d1 where d1: "apply_entry mem_bolt e d = Inr d1"
    "\<forall>ns. map_of d ns \<noteq> None \<longrightarrow> map_of d1 ns \<noteq> None"
    using mem_apply_entry [of e d] by auto
  from Cons.prems have "\<forall>e \<in> set es. mem_entry_ok e" by simp
  from Cons.IH [OF this, of d1] obtain d2 where "apply_entries mem_bolt es d1 = Inr d2"
    "\<forall>ns. map_of d1 ns \<noteq> None \<longrightarrow> map_of d2 ns \<noteq> None" by blast
  with d1 show ?case by simp
qed simp

lemma mem_ApplyDiff:
  assumes "\<forall>e \<in> set es. mem_entry_ok e" and "map_of (st_db s) nsMeta \<noteq> None"
  shows "\<exists>s'. ApplyDiff mem_bolt s h es = (None, s')"
proof -
  from mem_apply_entries [OF assms(1), of "st_db s"] obtain d' where
    d': "apply_entries mem_bolt es (st_db s) = Inr d'" "map_of d' nsMeta \<noteq> None"
    using assms(2) by blast
  then have "\<exists>d''. put_height mem_bolt h d' = Inr d''"
    by (auto simp: put_height_def mem_put_def metaHeight_def bytes_of_string_def)
  with d' show ?thesis
    by (auto simp: ApplyDiff_def bolt_update_def diff_tx_def)
qed

lemma demo_meta: "map_of (st_db demo_store) nsMeta \<noteq> None"
  by (simp add: demo_store_def demo_db_def ns_defs)

definition demo_diff :: "stateDiffEntry list" where
  "demo_diff =
     [\<lparr>deWriteType = 0, deNamespace = nsCode, deKey = [1], deValue = [2]\<rparr>,
      \<lparr>deWriteType = 1, deNamespace = nsCode, deKey = [1], deValue = []\<rparr>,
      \<lparr>deWriteType = 0, deNamespace = nsCode, deKey = [1], deValue = [3]\<rparr>]"

lemma demo_diff_applies: "\<exists>s'. ApplyDiff mem_bolt demo_store 13 demo_diff = (None, s')"
  by (rule mem_ApplyDiff [OF _ demo_meta]) (simp_all add: demo_diff_def mem_entry_ok_def ns_defs)

text \<open>A trie with a branch, an extension and two leaves.\<close>

definition demo_trie :: ctrie where
  "demo_trie = CBranch [(1, CLeaf [2] [5]), (3, CExt [4] (CLeaf [] [6]))]"

lemmas encode_defs = encodeLeafNode_def encodeExtensionNode_def encodeBranchNode_def uvarint.simps
  wire_type_defs Let_def

lemma demo_trie_ok:
  "wf_ctrie demo_trie" "inj_on (Cons 1) (set ds)"
  "d \<in> set (trie_nodes wire_format (Cons 1) [] demo_trie) \<Longrightarrow> length d < 32768"
  by (auto simp: demo_trie_def encode_defs)

lemma demo_trie_stored:
  "\<exists>s'. ApplyDiff mem_bolt demo_store 13 (trie_entries wire_format (Cons 1) demo_trie) = (None, s')"
  using demo_trie_ok(3)
  by (intro mem_ApplyDiff [OF _ demo_meta])
    (auto simp: trie_entries_def node_entry_def mem_entry_ok_def ns_defs Suc_le_eq)

lemma demo_trie_lookup: "tlookup (abs_trie demo_trie) [3, 4] = Some (Some [6])"
  by (simp add: demo_trie_def)

text \<open>A diff the database refuses: its key is empty.\<close>

definition bad_diff :: "stateDiffEntry list" where
  "bad_diff = [\<lparr>deWriteType = 0, deNamespace = nsCode, deKey = [], deValue = [2]\<rparr>]"

lemma demo_bad_run:
  "\<exists>e s'. run_blocks (ApplyDiff mem_bolt) demo_store [(13, demo_diff), (14, bad_diff)] = (Some e, s') \<and>
     Height s' \<noteq> 12"
proof -
  from demo_diff_applies obtain s1 where s1: "ApplyDiff mem_bolt demo_store 13 demo_diff = (None, s1)" by blast
  then have h: "Height s1 = 13" by (simp add: Height_def ApplyDiff_ok_height)
  have "\<exists>x. apply_entries mem_bolt bad_diff d = Inl x" for d
    by (simp add: bad_diff_def apply_entry_def ensure_bucket_def mem_create_def mem_put_def
        WriteTypePut_def ns_defs)
  then obtain x where "apply_entries mem_bolt bad_diff (st_db s1) = Inl x" by blast
  then have "ApplyDiff mem_bolt s1 14 bad_diff = (Some x, s1)"
    by (simp add: ApplyDiff_def bolt_update_def diff_tx_def)
  with s1 h show ?thesis by auto
qed

lemma demo_open: "\<exists>s. OpenStateStore mem_bolt (Inr d) = Inr s"
  by (auto simp: OpenStateStore_def bolt_update_def mem_create_def ns_defs)

lemma demo_diff_again:
  assumes "ApplyDiff mem_bolt demo_store 13 demo_diff = (None, s1)"
  shows "\<exists>s2. ApplyDiff mem_bolt s1 13 demo_diff = (None, s2)"
proof -
  have "store_inv mem_bolt demo_store"
    by (simp add: store_inv_def demo_store_def demo_db_def persisted_height_def mem_bucket_def ns_defs)
  from mem.ApplyDiff_inv [OF this assms] have "map_of (st_db s1) nsMeta \<noteq> None"
    by (simp add: store_inv_def)
  then show ?thesis
    by (intro mem_ApplyDiff) (simp_all add: demo_diff_def mem_entry_ok_def ns_defs)
qed

text \<open>A run of the synchroniser that applies one diff and is then cancelled.\<close>

lemma demo_sync:
  "\<exists>tr ss. sync_run mem_bolt (Start (NewStateSync demo_store ''a'')) tr ss \<and>
     applied tr = [(13, demo_diff)] \<and> serves 0 tr"
proof -
  let ?s0 = "Start (NewStateSync demo_store ''a'')"
  let ?s1 = "?s0\<lparr>sy_phase := Receiving\<rparr>"
  let ?resp = "\<lparr>srHeight = 13, srEntries = demo_diff, srDigestBytes = []\<rparr>"
  obtain l s2 where s2: "on_diff mem_bolt ?s1 ?resp = (l, s2)" by (cases "on_diff mem_bolt ?s1 ?resp")
  have l: "l = Applied 13 demo_diff"
    using s2 demo_diff_applies
    by (auto simp: on_diff_def Start_def NewStateSync_def split: prod.splits option.splits)
  have "sync_step mem_bolt ?s0 (Request (stream_request ?s0)) ?s1"
    by (rule open_ok) (simp_all add: Start_def NewStateSync_def)
  moreover have "sync_step mem_bolt ?s1 l s2" by (rule recv [OF _ s2]) simp
  ultimately have "sync_run mem_bolt ?s0 [Request (stream_request ?s0), l] s2"
    by (blast intro: sync_run.intros)
  moreover have "serves 0 [Request (stream_request ?s0), l]"
    by (simp add: l stream_request_def resume_height_def Start_def NewStateSync_def Height_def demo_store_def)
  ultimately show ?thesis using l by (metis applied.simps(1,2,4))
qed

definition demo_entries :: "snapEntry list" where
  "demo_entries = [\<lparr>se_ns = ''Code'', se_key = [1], se_val = [2]\<rparr>]"

definition demo_snapshot :: bytes where
  "demo_snapshot = writeSnapshot (\<lambda>b. replicate 32 0) 13 demo_entries"

lemma demo_snapshot_nonempty: "demo_snapshot \<noteq> []"
  by (simp add: demo_snapshot_def writeSnapshot_def)

lemma demo_load:
  "\<exists>store'. LoadSnapshot (\<lambda>b. replicate 32 0) mem_bolt (Inr demo_snapshot) demo_store = (Inr (13, 1), store')"
proof -
  have "\<exists>s'. ApplyDiff mem_bolt demo_store 13 (map put_of demo_entries) = (None, s')"
    by (rule mem_ApplyDiff [OF _ demo_meta]) (simp add: demo_entries_def put_of_def mem_entry_ok_def)
  moreover have "LoadSnapshot (\<lambda>b. replicate 32 0) mem_bolt (Inr (demo_snapshot @ [])) demo_store =
    (case ApplyDiff mem_bolt demo_store 13 (map put_of demo_entries) of
       (Some e, store') \<Rightarrow> (Inl (ApplySnapshot e), store')
     | (None, store') \<Rightarrow> (Inr (13, length demo_entries), store'))"
    unfolding demo_snapshot_def
    by (rule LoadSnapshot_write) (simp_all add: Height_def demo_store_def demo_entries_def wf_snapEntry_def)
  ultimately show ?thesis by (auto simp: demo_entries_def)
qed


subsection \<open>L4 and the stream\<close>

definition demo_plain_task :: taskPackage where
  "demo_plain_task = demo_task\<lparr>tpEvmTx := None\<rparr>"

lemma demo_plain_simps [simp]:
  "tpSender demo_plain_task = Some demo_sender" "tpEvmTx demo_plain_task = None"
  "tpTxRaw demo_plain_task = demo_raw"
  by (simp_all add: demo_plain_task_def)

lemma demo_L4:
  "\<exists>r. validateL4 demo_env (plain_evm demo_env) (Some demo_store) demo_plain_task = Some r \<and> vrValid r"
proof -
  have "validateL1 demo_plain_task = validateL1 demo_task" by (simp add: validateL1_def)
  then have l1: "vrValid (validateL1 demo_plain_task)" using demo_L1 by simp
  have "local_check demo_env demo_store demo_plain_task = Some (Inr True)"
    by (simp add: local_check_def demo_GetAccount demo_nonce Let_def)
  with l1 show ?thesis by (simp add: validateL4_def)
qed

definition demo_config :: agentConfig where
  "demo_config =
     \<lparr>ag_version = ''1.0.0'', ag_agentID = ''a'', ag_level = ''L2'', ag_region = ''default'', ag_wallet = []\<rparr>"

definition demo_batch :: taskBatch where
  "demo_batch = \<lparr>tbBatchID = ''b'', tbTasks = [demo_task], tbTimestamp = 0\<rparr>"

lemma demo_stream:
  "\<exists>tr s. stream_run demo_env (plain_evm demo_env) None demo_config (stream_start 4) tr s \<and> tasks_answered tr = 1"
proof -
  let ?step = "stream_step demo_env (plain_evm demo_env) None demo_config"
  let ?s0 = "stream_start 4"
  let ?s1 = "?s0\<lparr>ss_firstRun := False, ss_phase := SOpen\<rparr>"
  let ?s2 = "?s1\<lparr>ss_phase := SReceive\<rparr>"
  let ?s3 = "?s2\<lparr>ss_phase := SSubmit demo_batch\<rparr>"
  obtain results n where pb: "processBatch demo_env (plain_evm demo_env) None (\<lambda>i. 0) (ss_processed ?s3) demo_batch
      (ag_level demo_config) = Some (results, n)" and len: "length results = 1"
    by (simp add: processBatch_def demo_batch_def demo_config_def validateTask_def)
  let ?s4 = "?s3\<lparr>ss_phase := SReceive, ss_processed := n\<rparr>"
  let ?tr = "[SNone, SRequest (tasks_request demo_config), SBatch demo_batch,
    SResults (batch_result demo_config demo_batch results 0)]"
  have "?step ?s0 SNone ?s1" by (rule st_first) (simp_all add: stream_start_def)
  moreover have "?step ?s1 (SRequest (tasks_request demo_config)) ?s2" by (rule st_open) simp
  moreover have "?step ?s2 (SBatch demo_batch) ?s3" by (rule st_recv) simp
  moreover have "?step ?s3 (SResults (batch_result demo_config demo_batch results 0)) ?s4"
    by (rule st_submit [OF _ pb]) simp
  ultimately have "stream_run demo_env (plain_evm demo_env) None demo_config ?s0 ?tr ?s4"
    by (blast intro: stream_run.intros)
  moreover have "tasks_answered ?tr = 1" using len by (simp add: batch_result_def)
  ultimately show ?thesis by blast
qed

subsection \<open>Nodes\<close>

lemma demo_contract_Get:
  "Get mem_bolt demo_store nsContract h = Inr (if h = [1] then Some demo_leaf else None)"
  by (simp add: Get_def demo_store_def demo_db_def mem_bucket_def ns_defs)

lemma demo_no_empty_ext: "no_empty_ext wire_format mem_bolt demo_store"
  by (auto simp: no_empty_ext_def demo_contract_Get demo_leaf_decode split: if_splits)

text \<open>A store with an extension node that is its own child.\<close>

definition cycle_node :: bytes where
  "cycle_node = encodeExtensionNode wire_format [] [1]"

definition cycle_store :: "mem_db stateStore" where
  "cycle_store = \<lparr>st_db = [(nsContract, [([1], cycle_node)])], st_height = 1\<rparr>"

lemma cycle_Get: "Get mem_bolt cycle_store nsContract [1] = Inr (Some cycle_node)"
  by (simp add: Get_def cycle_store_def mem_bucket_def)

lemma cycle_decode:
  "decodeNodePb wire_format cycle_node = Some (Inr (NodeE \<lparr>ex_path = [], childHash = [1]\<rparr>))"
  unfolding cycle_node_def
  by (rule protowire_laws.decode_encodeExtensionNode [OF wire.protowire_laws_axioms]) (simp add: encode_defs)

lemma demo_committed_read:
  "\<exists>c s2. GetCommittedState demo_env 7 5 (snd (SetState 7 5 1 (SetLocalStore demo_store demo_new))) = Some (c, s2)"
  by (simp add: GetCommittedState_def loadSlotFromStore_def SetState_def SetLocalStore_def demo_new_def
      get2_def demo_slot_value Let_def)

subsection \<open>Workers\<close>

definition demo_worker_env :: "mem_db workerEnv" where
  "demo_worker_env =
     \<lparr>we_cert = (\<lambda>p. None),
      we_register = RpcOk \<lparr>rsAccepted = True, rsReason = [], rsHeartbeatIntervalSec = 5\<rparr>,
      we_opened = (\<lambda>p. Inr []), we_snapshot = (\<lambda>p. Inr []), we_synced = (\<lambda>s. Inr s)\<rparr>"

lemma demo_worker:
  "\<exists>w. runWorker id mem_bolt demo_worker_env None ''h:443'' ''a'' ''k'' ''L4'' [] True ''/d'' [] 1 = Inr w \<and>
     wk_active w = None"
  by (simp add: runWorker_def worker_tls_def dialCoordinator_def demo_worker_env_def register_def Let_def)

text \<open>Three coordinators and two keys.\<close>

definition demo_flags :: flags where
  "demo_flags = default_flags\<lparr>fl_coordinator := ''a:1, b:2,c:3'', fl_apiKey := ''k1,k2'', fl_agentID := ''x''\<rparr>"

lemma demo_keys:
  "split_list (fl_apiKey (env_fallback (\<lambda>v. []) demo_flags)) = [''k1'', ''k2'']"
  "fl_apiKey (env_fallback (\<lambda>v. []) demo_flags) = ''k1,k2''"
  by (simp_all add: demo_flags_def default_flags_def env_fallback_def split_list_def comma_def
      trim_space_def is_space_def)

lemma demo_plan: "\<exists>ws. main_plan (\<lambda>v. []) demo_flags = StartWorkers None ws \<and> length ws = 3"
  by (simp add: main_plan_def demo_flags_def default_flags_def env_fallback_def split_list_def comma_def
      to_lower_def to_lower_char_def to_upper_def to_upper_char_def Let_def)

end
