(* ===== verification/OsFiles.thy ===== *)
theory OsFiles
  imports GoLib
begin

section \<open>Files\<close>

text \<open>
  The file system the commands use: a map from paths to contents. \<open>deny\<close> is the error an
  operation on a path fails with, if it does.
\<close>

type_synonym files = "string \<rightharpoonup> string"

definition write_file :: "(string \<Rightarrow> string option) \<Rightarrow> files \<Rightarrow> string \<Rightarrow> string \<Rightarrow> string + files" where
  "write_file deny fs path content =
     (case deny path of Some e \<Rightarrow> Inl e | None \<Rightarrow> Inr (fs(path \<mapsto> content)))"

text \<open>The data directory of the status and service commands: the flag, the variable, the default.\<close>

definition data_dir :: "(string \<Rightarrow> string) \<Rightarrow> string \<Rightarrow> string \<Rightarrow> string" where
  "data_dir getenv home flag_dir =
     (let dir = (if flag_dir = [] then getenv ''IOSWARM_DATADIR'' else flag_dir)
      in if dir = [] then home @ ''/.ioswarm/agent'' else dir)"

text \<open>Lines of text.\<close>

definition newline_str :: string where "newline_str = [CHR 0x0A]"

definition text_of_lines :: "string list \<Rightarrow> string" where
  "text_of_lines ls = concat (map (\<lambda>l. l @ newline_str) ls)"

lemma split_on_no_sep: "p \<in> set (split_on c s) \<Longrightarrow> c \<notin> set p"
  by (induction s arbitrary: p) (auto split: list.splits if_splits)

lemma split_text_of_lines:
  "\<forall>l \<in> set ls. CHR 0x0A \<notin> set l \<Longrightarrow> split_on (CHR 0x0A) (text_of_lines ls) = ls @ [[]]"
  by (induction ls) (simp_all add: text_of_lines_def newline_str_def split_on_append)

end
