(* ===== verification/Service.thy ===== *)
theory Service
  imports Config Startup OsFiles
begin

section \<open>The installed service (service.go)\<close>

text \<open>
  \<open>installService\<close> renders the configuration into a launchd property list or a systemd unit. The
  two templates are written out as the lines they render to; the flags of the command they start
  are the same five. Creating the file and writing it are one step.
\<close>

subsection \<open>The templates\<close>

definition service_flags :: "serviceConfig \<Rightarrow> (string \<times> string) list" where
  "service_flags cfg =
     [(''coordinator'', sv_Coordinator cfg), (''agent-id'', sv_AgentID cfg), (''level'', sv_Level cfg),
      (''region'', sv_Region cfg), (''wallet'', sv_Wallet cfg)]"

definition xml_string :: "string \<Rightarrow> string" where
  "xml_string s = ''<string>'' @ s @ ''</string>''"

definition indent :: "nat \<Rightarrow> string \<Rightarrow> string" where
  "indent n s = replicate n (CHR '' '') @ s"

definition launchdPlist :: "serviceConfig \<Rightarrow> string list" where
  "launchdPlist cfg =
     [''<?xml version=\"1.0\" encoding=\"UTF-8\"?>'',
      ''<!DOCTYPE plist PUBLIC \"-//Apple//DTD PLIST 1.0//EN\" \"http://www.apple.com/DTDs/PropertyList-1.0.dtd\">'',
      ''<plist version=\"1.0\">'', ''<dict>'',
      ''  <key>Label</key>'', ''  <string>io.iotex.ioswarm</string>'',
      ''  <key>ProgramArguments</key>'', ''  <array>'', indent 4 (xml_string (sv_AgentBin cfg))] @
     map (\<lambda>kv. indent 4 (xml_string (long_flag kv))) (service_flags cfg) @
     [''  </array>'', ''  <key>EnvironmentVariables</key>'', ''  <dict>''] @
     (if sv_APIKey cfg \<noteq> []
      then [''    <key>IOSWARM_API_KEY</key>'', indent 4 (xml_string (sv_APIKey cfg))] else []) @
     [''  </dict>'', ''  <key>RunAtLoad</key>'', ''  <true/>'', ''  <key>KeepAlive</key>'', ''  <dict>'',
      ''    <key>SuccessfulExit</key>'', ''    <false/>'', ''  </dict>'',
      ''  <key>StandardOutPath</key>'', indent 2 (xml_string (sv_LogFile cfg)),
      ''  <key>StandardErrorPath</key>'', indent 2 (xml_string (sv_LogFile cfg)),
      ''  <key>ThrottleInterval</key>'', ''  <integer>10</integer>'', ''</dict>'', ''</plist>'']"

text \<open>A line continued on the next, and the dash of the description, in UTF-8.\<close>

definition continued :: "string \<Rightarrow> string" where
  "continued l = l @ [CHR 0x20, CHR 0x5C]"

definition em_dash :: string where "em_dash = [CHR 0xE2, CHR 0x80, CHR 0x94]"

definition exec_lines :: "string \<Rightarrow> (string \<times> string) list \<Rightarrow> string list" where
  "exec_lines bin kvs =
     (let ls = (''ExecStart='' @ bin) # map (\<lambda>kv. indent 2 (long_flag kv)) kvs
      in map continued (butlast ls) @ [last ls])"

definition systemdUnit :: "serviceConfig \<Rightarrow> string list" where
  "systemdUnit cfg =
     [''[Unit]'', ''Description=ioSwarm Agent '' @ em_dash @ '' IoTeX transaction validator'',
      ''After=network-online.target'', ''Wants=network-online.target'', [],
      ''[Service]'', ''Type=simple''] @
     exec_lines (sv_AgentBin cfg) (service_flags cfg) @
     (if sv_APIKey cfg \<noteq> [] then [''Environment=IOSWARM_API_KEY='' @ sv_APIKey cfg] else []) @
     [''Restart=on-failure'', ''RestartSec=10'', ''StandardOutput=append:'' @ sv_LogFile cfg,
      ''StandardError=append:'' @ sv_LogFile cfg, [], ''[Install]'', ''WantedBy=default.target'']"

subsection \<open>Installing and removing\<close>

datatype install_exit =
    NoConfig
  | UnsupportedOS string
  | MkdirFailed string
  | CreateFailed string

definition plist_dir :: "string \<Rightarrow> string" where "plist_dir home = home @ ''/Library/LaunchAgents''"
definition plist_path :: "string \<Rightarrow> string" where "plist_path home = plist_dir home @ ''/io.iotex.ioswarm.plist''"
definition unit_dir :: "string \<Rightarrow> string" where "unit_dir home = home @ ''/.config/systemd/user''"
definition unit_path :: "string \<Rightarrow> string" where "unit_path home = unit_dir home @ ''/ioswarm.service''"

text \<open>The directory is made, the file created and the rendered text written.\<close>

definition install_file ::
  "(string \<Rightarrow> string option) \<Rightarrow> files \<Rightarrow> string \<Rightarrow> string \<Rightarrow> string \<Rightarrow> (install_exit + string) \<times> files" where
  "install_file deny fs dir path content =
     (case deny dir of
        Some e \<Rightarrow> (Inl (MkdirFailed e), fs)
      | None \<Rightarrow>
          (case write_file deny fs path content of
             Inl e \<Rightarrow> (Inl (CreateFailed e), fs)
           | Inr fs' \<Rightarrow> (Inr path, fs')))"

definition installLaunchd ::
  "(string \<Rightarrow> string option) \<Rightarrow> string \<Rightarrow> files \<Rightarrow> serviceConfig \<Rightarrow> (install_exit + string) \<times> files" where
  "installLaunchd deny home fs cfg =
     install_file deny fs (plist_dir home) (plist_path home) (text_of_lines (launchdPlist cfg))"

definition installSystemd ::
  "(string \<Rightarrow> string option) \<Rightarrow> string \<Rightarrow> files \<Rightarrow> serviceConfig \<Rightarrow> (install_exit + string) \<times> files" where
  "installSystemd deny home fs cfg =
     install_file deny fs (unit_dir home) (unit_path home) (text_of_lines (systemdUnit cfg))"

definition installService ::
  "(string \<Rightarrow> string option) \<Rightarrow> string \<Rightarrow> string \<Rightarrow> string \<Rightarrow> files \<Rightarrow> (install_exit + string) \<times> files" where
  "installService deny goos home dir fs =
     (let cfg = loadServiceConfig fs dir in
      if sv_AgentID cfg = [] then (Inl NoConfig, fs)
      else if goos = ''darwin'' then installLaunchd deny home fs cfg
      else if goos = ''linux'' then installSystemd deny home fs cfg
      else (Inl (UnsupportedOS goos), fs))"

datatype uninstall_result = NotInstalled | RemoveFailed string | Removed string | NothingDone

definition remove_service :: "(string \<Rightarrow> string option) \<Rightarrow> files \<Rightarrow> string \<Rightarrow> uninstall_result \<times> files" where
  "remove_service deny fs path =
     (case fs path of
        None \<Rightarrow> (NotInstalled, fs)
      | Some _ \<Rightarrow>
          (case deny path of Some e \<Rightarrow> (RemoveFailed e, fs) | None \<Rightarrow> (Removed path, fs(path := None))))"

definition uninstallService ::
  "(string \<Rightarrow> string option) \<Rightarrow> string \<Rightarrow> string \<Rightarrow> files \<Rightarrow> uninstall_result \<times> files" where
  "uninstallService deny goos home fs =
     (if goos = ''darwin'' then remove_service deny fs (plist_path home)
      else if goos = ''linux'' then remove_service deny fs (unit_path home)
      else (NothingDone, fs))"

datatype service_result =
    Install "install_exit + string"
  | Uninstall uninstall_result
  | UnknownAction string

definition runService ::
  "(string \<Rightarrow> string option) \<Rightarrow> string \<Rightarrow> string \<Rightarrow> (string \<Rightarrow> string) \<Rightarrow> string \<Rightarrow> string \<Rightarrow> files \<Rightarrow>
   service_result \<times> files" where
  "runService deny goos home getenv action flag_dir fs =
     (let dir = data_dir getenv home flag_dir in
      if action = ''install'' then map_prod Install id (installService deny goos home dir fs)
      else if action = ''uninstall'' then map_prod Uninstall id (uninstallService deny goos home fs)
      else (UnknownAction action, fs))"

subsection \<open>What the configuration becomes\<close>

text \<open>No value read from a configuration file holds a newline, so each is on one line.\<close>

definition one_line :: "string \<Rightarrow> bool" where "one_line s \<longleftrightarrow> CHR 0x0A \<notin> set s"

definition one_line_config :: "serviceConfig \<Rightarrow> bool" where
  "one_line_config cfg \<longleftrightarrow>
     one_line (sv_AgentBin cfg) \<and> one_line (sv_Coordinator cfg) \<and> one_line (sv_AgentID cfg) \<and>
     one_line (sv_Level cfg) \<and> one_line (sv_Region cfg) \<and> one_line (sv_Wallet cfg) \<and>
     one_line (sv_APIKey cfg) \<and> one_line (sv_LogFile cfg)"

lemma cut_on_set: "cut_on c s = (p, Some r) \<Longrightarrow> set r \<subseteq> set s"
  by (induction s arbitrary: p r) (auto split: if_splits prod.splits)

lemma config_line_set: "config_line l = Some (k, v) \<Longrightarrow> set v \<subseteq> set l"
  by (auto simp: config_line_def numeral_2_eq_2 split: list.splits prod.splits option.splits
      dest!: cut_on_set)

lemma service_setting_one_line:
  "one_line_config cfg \<Longrightarrow> one_line l \<Longrightarrow> one_line_config (service_setting cfg l)"
proof -
  assume cfg: "one_line_config cfg" and l: "one_line l"
  show ?thesis
  proof (cases "config_line l")
    case None
    with cfg show ?thesis by (simp add: service_setting_def)
  next
    case (Some kv)
    obtain k v where kv: "kv = (k, v)" by (cases kv)
    then have "one_line v" using config_line_set [of l k v] Some l by (auto simp: one_line_def)
    with cfg show ?thesis unfolding one_line_config_def by (simp add: service_setting_def Some kv)
  qed
qed

lemma foldl_service_one_line:
  "one_line_config cfg \<Longrightarrow> \<forall>l \<in> set ls. one_line l \<Longrightarrow> one_line_config (foldl service_setting cfg ls)"
  by (induction ls arbitrary: cfg) (simp_all add: service_setting_one_line)

lemma loadServiceConfig_one_line: "one_line dir \<Longrightarrow> one_line_config (loadServiceConfig fs dir)"
proof -
  assume dir: "one_line dir"
  define cfg where "cfg = \<lparr>sv_AgentBin = dir @ ''/ioswarm-agent'', sv_Coordinator = [], sv_AgentID = [],
    sv_Level = ''L2'', sv_Region = ''default'', sv_Wallet = [], sv_APIKey = [],
    sv_LogFile = dir @ ''/agent.log''\<rparr>"
  have cfg: "one_line_config cfg" using dir by (simp add: cfg_def one_line_config_def one_line_def)
  have "\<forall>l \<in> set (split_on newline b). one_line l" for b
    using split_on_no_sep by (auto simp: one_line_def newline_def)
  from foldl_service_one_line [OF cfg this] cfg show ?thesis
    by (simp add: loadServiceConfig_def Let_def cfg_def split: option.splits)
qed

lemma long_flag_one_line: "one_line (long_flag (name, v)) \<longleftrightarrow> one_line name \<and> one_line v"
  by (auto simp: long_flag_def one_line_def)

lemma systemdUnit_one_line: "one_line_config cfg \<Longrightarrow> \<forall>l \<in> set (systemdUnit cfg). one_line l"
  by (auto simp: systemdUnit_def exec_lines_def service_flags_def Let_def continued_def indent_def
      long_flag_def em_dash_def one_line_config_def one_line_def)

lemma launchdPlist_one_line: "one_line_config cfg \<Longrightarrow> \<forall>l \<in> set (launchdPlist cfg). one_line l"
  by (auto simp: launchdPlist_def service_flags_def indent_def xml_string_def
      long_flag_def one_line_config_def one_line_def)

text \<open>The command a service runs, as its flags are read again by \<open>main\<close>.\<close>

definition service_start :: "serviceConfig \<Rightarrow> flags" where
  "service_start cfg = default_flags\<lparr>fl_coordinator := sv_Coordinator cfg, fl_agentID := sv_AgentID cfg,
     fl_level := sv_Level cfg, fl_region := sv_Region cfg, fl_wallet := sv_Wallet cfg\<rparr>"

lemma parse_service_flags: "parse_main (map long_flag (service_flags cfg)) = Inr (service_start cfg)"
proof -
  have "parse_flags main_flag_kind (map long_flag (service_flags cfg)) = Inr (service_flags cfg, [])"
    by (rule parse_long_flags) (simp add: service_flags_def flag_word_def main_flag_kind_def)
  then show ?thesis
    by (simp add: parse_main_def flags_of_def service_flags_def flag_value_def int_value_def
        bool_value_def service_start_def default_flags_def)
qed

lemma service_start_L4:
  assumes "sv_AgentID cfg \<noteq> []" and "to_upper (sv_Level cfg) = ''L4''" and "getenv ''IOSWARM_DATADIR'' = []"
  shows "main_plan getenv (service_start cfg) = ExitWith ''error: --datadir is required for L4 mode''"
  using assms
  by (simp add: main_plan_def service_start_def default_flags_def env_fallback_def to_lower_def
      to_lower_char_def Let_def)

lemma service_start_workers:
  assumes "sv_AgentID cfg \<noteq> []" and "to_upper (sv_Level cfg) \<noteq> ''L4''"
    and "sv_Coordinator cfg \<noteq> fl_coordinator default_flags" and "getenv ''IOSWARM_API_KEY'' = sv_APIKey cfg"
  shows "main_plan getenv (service_start cfg) =
    StartWorkers None (map (\<lambda>i. (split_list (sv_Coordinator cfg) ! i, worker_key (sv_APIKey cfg) i, i))
      [0..<length (split_list (sv_Coordinator cfg))])"
  using assms
  by (simp add: main_plan_def service_start_def default_flags_def env_fallback_def to_lower_def
      to_lower_char_def Let_def)

lemma installService_done:
  assumes "installService deny goos home dir fs = (Inr path, fs')" and "cfg = loadServiceConfig fs dir"
  shows "sv_AgentID cfg \<noteq> []"
    and "goos = ''linux'' \<Longrightarrow> path = unit_path home \<and> fs' = fs(path \<mapsto> text_of_lines (systemdUnit cfg))"
    and "goos = ''darwin'' \<Longrightarrow> path = plist_path home \<and> fs' = fs(path \<mapsto> text_of_lines (launchdPlist cfg))"
  using assms
  by (auto simp: installService_def installSystemd_def installLaunchd_def install_file_def write_file_def
      Let_def split: if_splits option.splits sum.splits)

lemma uninstall_install:
  assumes "installService deny goos home dir fs = (Inr path, fs')" and "deny path = None"
  shows "uninstallService deny goos home fs' = (Removed path, fs'(path := None))"
  using assms
  by (auto simp: installService_def installSystemd_def installLaunchd_def install_file_def write_file_def
      uninstallService_def remove_service_def Let_def split: if_splits option.splits sum.splits)

end
