(* ===== verification/Amount.thy ===== *)
theory Amount
  imports Types GoLib
begin

section \<open>Amounts of IOTX (fund.go: iotxToWei, claim.go: weiToIOTX)\<close>

text \<open>
  The two conversions go through \<open>big.Float\<close>, which rounds every product and quotient to its
  precision, to the nearest even. A finite \<open>float64\<close> is its sign and its value in units of
  \<open>2 ^ -1074\<close>, the smallest it can hold, so that every intermediate value is a natural number.
\<close>

subsection \<open>Rounding\<close>

fun bit_len :: "nat \<Rightarrow> nat" where
  "bit_len n = (if n = 0 then 0 else Suc (bit_len (n div 2)))"

declare bit_len.simps [simp del]

text \<open>\<open>n\<close> divided by \<open>d\<close>, to the nearest integer, ties to even.\<close>

definition round_div :: "nat \<Rightarrow> nat \<Rightarrow> nat" where
  "round_div n d =
     (let q = n div d; r = n mod d
      in if 2 * r < d \<or> (2 * r = d \<and> even q) then q else q + 1)"

text \<open>\<open>n\<close> rounded to \<open>p\<close> significant bits.\<close>

definition round_bits :: "nat \<Rightarrow> nat \<Rightarrow> nat" where
  "round_bits p n = (let d = 2 ^ (bit_len n - p) in round_div n d * d)"

lemma bit_len_lower: "n \<noteq> 0 \<Longrightarrow> 2 ^ bit_len n \<le> 2 * n"
proof (induction n rule: bit_len.induct)
  case (1 n)
  show ?case
  proof (cases "n div 2 = 0")
    case True
    then have "n = 1" using 1 by auto
    then show ?thesis by (simp add: bit_len.simps)
  next
    case False
    then have "2 ^ bit_len (n div 2) \<le> 2 * (n div 2)" using 1 by simp
    moreover have "2 * (n div 2) \<le> n" by simp
    ultimately have "2 ^ bit_len (n div 2) \<le> n" by linarith
    then show ?thesis using 1(2) by (subst bit_len.simps) simp
  qed
qed

lemma bit_len_upper: "n < 2 ^ bit_len n"
proof (induction n rule: bit_len.induct)
  case (1 n)
  show ?case
  proof (cases "n = 0")
    case True
    then show ?thesis by simp
  next
    case False
    then have "n div 2 < 2 ^ bit_len (n div 2)" using 1 by simp
    then have "n < 2 * 2 ^ bit_len (n div 2)" by linarith
    then show ?thesis using False by (subst bit_len.simps) simp
  qed
qed

lemma round_div_error: "0 < d \<Longrightarrow> 2 * \<bar>int (round_div n d) * int d - int n\<bar> \<le> int d"
proof -
  assume d: "0 < d"
  have n: "int n = int d * int (n div d) + int (n mod d)"
    by (metis mult.commute of_nat_add of_nat_mult div_mult_mod_eq)
  have r: "n mod d < d" using d by simp
  show ?thesis
  proof (cases "2 * (n mod d) < d \<or> (2 * (n mod d) = d \<and> even (n div d))")
    case True
    then have "round_div n d = n div d" by (simp add: round_div_def Let_def)
    then show ?thesis using n True by (auto simp: algebra_simps)
  next
    case False
    then have "round_div n d = n div d + 1" by (auto simp: round_div_def Let_def)
    then have "int (round_div n d) * int d - int n = int d - int (n mod d)"
      using n by (simp add: algebra_simps)
    then show ?thesis using False r by auto
  qed
qed

lemma round_bits_error: "2 ^ p * \<bar>int (round_bits p n) - int n\<bar> \<le> int n"
proof (cases "bit_len n \<le> p")
  case True
  then have "round_bits p n = n" by (simp add: round_bits_def round_div_def)
  then show ?thesis by simp
next
  case False
  define k where "k = bit_len n - p"
  have n0: "n \<noteq> 0" using False by (metis bit_len.simps le0)
  have "2 * (2 ^ p * \<bar>int (round_bits p n) - int n\<bar>) \<le> 2 ^ p * int (2 ^ k)"
    using round_div_error [of "2 ^ k" n] by (simp add: round_bits_def Let_def k_def)
  also have "\<dots> = int (2 ^ bit_len n)" using False by (simp add: k_def flip: power_add)
  also have "\<dots> \<le> int (2 * n)" using bit_len_lower [OF n0] by (simp only: of_nat_le_iff)
  finally show ?thesis by simp
qed

lemma bit_len_le: "n < 2 ^ q \<Longrightarrow> bit_len n \<le> q"
proof (cases "n = 0")
  case False
  assume "n < 2 ^ q"
  then have "2 ^ bit_len n < (2 :: nat) ^ Suc q" using bit_len_lower [OF False] by simp
  then have "bit_len n < Suc q" by (rule power_less_imp_less_exp [rotated]) simp
  then show ?thesis by simp
qed (simp add: bit_len.simps)

lemma round_div_dvd: "d dvd n \<Longrightarrow> round_div n d = n div d"
  by (cases "d = 0") (simp_all add: round_div_def)

text \<open>A number of at most \<open>p\<close> bits, shifted, is not rounded.\<close>

lemma round_bits_exact:
  assumes "m < 2 ^ p"
  shows "round_bits p (m * 2 ^ k) = m * 2 ^ k"
proof -
  define e where "e = bit_len (m * 2 ^ k) - p"
  have "m * 2 ^ k < 2 ^ (p + k)" using assms by (simp add: power_add)
  then have "e \<le> k" using bit_len_le [of "m * 2 ^ k" "p + k"] by (simp add: e_def)
  then have "2 ^ e dvd m * 2 ^ k" by (simp add: le_imp_power_dvd)
  then show ?thesis
    by (simp only: round_bits_def Let_def e_def [symmetric] round_div_dvd dvd_div_mult_self)
qed

text \<open>Rounding a number of enough bits commutes with shifting it.\<close>

lemma round_div_scale:
  assumes "0 < c"
  shows "round_div (n * c) (d * c) = round_div n d"
proof -
  have q: "(n * c) div (d * c) = n div d" using assms by simp
  have r: "(n * c) mod (d * c) = n mod d * c" by (simp add: mod_mult_mult2)
  have "2 * (n mod d * c) < d * c \<longleftrightarrow> 2 * (n mod d) < d"
    and "2 * (n mod d * c) = d * c \<longleftrightarrow> 2 * (n mod d) = d"
    using assms mult_less_cancel2 [of "2 * (n mod d)" c d] mult_cancel2 [of "2 * (n mod d)" c d]
    by (simp_all only: mult.assoc) auto
  then show ?thesis by (simp only: round_div_def Let_def q r)
qed

lemma bit_len_shift:
  assumes "n \<noteq> 0"
  shows "bit_len (n * 2 ^ k) = bit_len n + k"
proof (rule antisym)
  have "n * 2 ^ k < 2 ^ (bit_len n + k)" using bit_len_upper [of n] by (simp add: power_add)
  then show "bit_len (n * 2 ^ k) \<le> bit_len n + k" by (rule bit_len_le)
  have "2 ^ (bit_len n + k) \<le> 2 * (n * 2 ^ k)"
    using bit_len_lower [OF assms] by (simp add: power_add)
  also have "\<dots> < 2 ^ Suc (bit_len (n * 2 ^ k))" using bit_len_upper [of "n * 2 ^ k"] by simp
  finally have "bit_len n + k < Suc (bit_len (n * 2 ^ k))" by (rule power_less_imp_less_exp [rotated]) simp
  then show "bit_len n + k \<le> bit_len (n * 2 ^ k)" by simp
qed

lemma round_bits_shift:
  assumes "n \<noteq> 0" and "p \<le> bit_len n"
  shows "round_bits p (n * 2 ^ k) = round_bits p n * 2 ^ k"
proof -
  have "bit_len (n * 2 ^ k) - p = (bit_len n - p) + k" using assms by (simp add: bit_len_shift)
  then have "round_bits p (n * 2 ^ k) =
      round_div (n * 2 ^ k) (2 ^ (bit_len n - p) * 2 ^ k) * (2 ^ (bit_len n - p) * 2 ^ k)"
    by (simp only: round_bits_def Let_def power_add)
  then show ?thesis by (simp add: round_div_scale round_bits_def Let_def)
qed

subsection \<open>iotxToWei\<close>

text \<open>The finite value of a \<open>float64\<close>: negative or not, and its units.\<close>

definition float_sign :: "float64 \<Rightarrow> bool" where
  "float_sign x = (2 ^ 63 \<le> unat x)"

definition float_exponent :: "float64 \<Rightarrow> nat" where
  "float_exponent x = unat x div 2 ^ 52 mod 2 ^ 11"

definition float_fraction :: "float64 \<Rightarrow> nat" where
  "float_fraction x = unat x mod 2 ^ 52"

definition float_units :: "float64 \<Rightarrow> nat" where
  "float_units x =
     (if float_exponent x = 0 then float_fraction x
      else (2 ^ 52 + float_fraction x) * 2 ^ (float_exponent x - 1))"

text \<open>One, in units.\<close>

definition float_one :: nat where "float_one = 2 ^ 1074"

datatype wei_result =
    NaNPanic
  | NilWei
  | Wei int

text \<open>
  \<open>SetFloat64\<close> panics on a NaN and takes an infinity, whose \<open>Int\<close> is nil. The product has the
  precision of its receiver, 53 bits; \<open>Int\<close> truncates towards zero.
\<close>

definition iotxToWei :: "float64 \<Rightarrow> wei_result" where
  "iotxToWei iotx =
     (if float_exponent iotx = 2047 then (if float_fraction iotx \<noteq> 0 then NaNPanic else NilWei)
      else
        let f = round_bits 53 (float_units iotx * 10 ^ 18);
            wei = int (f div float_one)
        in Wei (if float_sign iotx then - wei else wei))"

lemma iotxToWei_finite: "iotxToWei x = Wei w \<longleftrightarrow>
    float_exponent x \<noteq> 2047 \<and>
    w = (if float_sign x then - 1 else 1) * int (round_bits 53 (float_units x * 10 ^ 18) div float_one)"
  by (auto simp: iotxToWei_def Let_def)

text \<open>The result is within one wei of the exact product, up to a relative error of \<open>2 ^ -53\<close>.\<close>

lemma iotxToWei_error:
  assumes "iotxToWei x = Wei w"
  shows "2 ^ 53 * \<bar>\<bar>w\<bar> * int float_one - int (float_units x) * 10 ^ 18\<bar>
    \<le> int (float_units x) * 10 ^ 18 + 2 ^ 53 * int float_one"
proof -
  define n where "n = float_units x * 10 ^ 18"
  define r where "r = round_bits 53 n"
  define D where "D = int float_one"
  have D: "0 < D" by (simp add: D_def float_one_def)
  have w: "\<bar>w\<bar> = int r div D"
    using assms by (auto simp: iotxToWei_finite n_def r_def D_def simp flip: zdiv_int split: if_splits)
  have "\<bar>w\<bar> * D + int r mod D = int r" by (simp add: w)
  moreover have "0 \<le> int r mod D" "int r mod D < D" using D by simp_all
  ultimately have "\<bar>\<bar>w\<bar> * D - int n\<bar> \<le> \<bar>int r - int n\<bar> + D" by linarith
  then have "2 ^ 53 * \<bar>\<bar>w\<bar> * D - int n\<bar> \<le> 2 ^ 53 * \<bar>int r - int n\<bar> + 2 ^ 53 * D" by simp
  moreover have "2 ^ 53 * \<bar>int r - int n\<bar> \<le> int n"
    using round_bits_error [of 53 n] by (simp add: r_def)
  ultimately have "2 ^ 53 * \<bar>\<bar>w\<bar> * D - int n\<bar> \<le> int n + 2 ^ 53 * D" by linarith
  then show ?thesis by (simp add: n_def D_def)
qed

text \<open>A whole number of IOTX that a \<open>float64\<close> holds with 42 bits to spare is converted exactly.\<close>

lemma iotxToWei_whole:
  assumes "float_units x = j * float_one" and "j * 5 ^ 18 < 2 ^ 53" and "float_exponent x \<noteq> 2047"
    and "\<not> float_sign x"
  shows "iotxToWei x = Wei (int j * 10 ^ 18)"
proof -
  define D where "D = float_one"
  have D: "D = 2 ^ 1074" "0 < D" by (simp_all only: D_def float_one_def) simp
  have "(10 :: nat) ^ 18 = 5 ^ 18 * 2 ^ 18" by simp
  then have n: "float_units x * 10 ^ 18 = (j * 5 ^ 18) * 2 ^ (1074 + 18)"
    by (simp only: assms(1) D_def [symmetric] D(1) power_add mult_ac)
  have "round_bits 53 (float_units x * 10 ^ 18) = float_units x * 10 ^ 18"
    unfolding n by (rule round_bits_exact [OF assms(2)])
  also have "\<dots> = (j * 10 ^ 18) * D" by (simp only: assms(1) D_def mult_ac)
  finally have "round_bits 53 (float_units x * 10 ^ 18) div float_one = j * 10 ^ 18"
    using D(2) by (simp only: D_def [symmetric]) simp
  then show ?thesis using assms(3,4) by (simp only: iotxToWei_def Let_def) simp
qed

subsection \<open>weiToIOTX\<close>

text \<open>
  \<open>Quo\<close> rounds the quotient to the precision of its receiver: the division is carried out with
  more bits than that and a last bit that says whether there was a remainder. The result is in
  units of \<open>2 ^ -(s + 1)\<close>.
\<close>

definition quo_shift :: "nat \<Rightarrow> nat \<Rightarrow> nat" where
  "quo_shift p b = p + 2 + bit_len b"

definition quo_bits :: "nat \<Rightarrow> nat \<Rightarrow> nat \<Rightarrow> nat" where
  "quo_bits p a b =
     (let n = a * 2 ^ quo_shift p b
      in round_bits p (2 * (n div b) + (if n mod b = 0 then 0 else 1)))"

text \<open>\<open>Text('f', 6)\<close>: six decimals, to the nearest even.\<close>

definition decimals6 :: "nat \<Rightarrow> string" where
  "decimals6 n =
     (let d = dec_string (n mod 10 ^ 6)
      in dec_string (n div 10 ^ 6) @ ''.'' @ replicate (6 - length d) (CHR ''0'') @ d)"

definition micro_iotx :: "nat \<Rightarrow> nat" where
  "micro_iotx w =
     (let p = max 64 (bit_len w)
      in round_div (quo_bits p w (10 ^ 18) * 10 ^ 6) (2 ^ (quo_shift p (10 ^ 18) + 1)))"

definition weiToIOTX :: "int \<Rightarrow> string" where
  "weiToIOTX wei =
     (if wei = 0 then ''0''
      else (if wei < 0 then ''-'' else []) @ decimals6 (micro_iotx (nat \<bar>wei\<bar>)))"


text \<open>The printed number of millionths is the amount, to within half a millionth and one wei.\<close>

lemma quo_bits_error:
  assumes "0 < b"
  shows "\<exists>Q. quo_bits p a b = round_bits p Q \<and>
    \<bar>int Q * int b - int a * 2 ^ (quo_shift p b + 1)\<bar> \<le> int b"
proof -
  define n where "n = a * 2 ^ quo_shift p b"
  define Q where "Q = 2 * (n div b) + (if n mod b = 0 then 0 else 1)"
  have n: "int n = int b * int (n div b) + int (n mod b)"
    by (metis mult.commute of_nat_add of_nat_mult div_mult_mod_eq)
  have r: "n mod b < b" using assms by simp
  have "int Q * int b = 2 * (int b * int (n div b)) + (if n mod b = 0 then 0 else int b)"
    by (simp add: Q_def algebra_simps)
  then have "\<bar>int Q * int b - 2 * int n\<bar> \<le> int b" using n r by auto
  then show ?thesis
    by (intro exI [of _ Q]) (simp add: quo_bits_def Let_def Q_def n_def mult.assoc)
qed

lemma micro_scale:
  "2 * \<bar>x - y * 10 ^ 6\<bar> \<le> t \<Longrightarrow> \<bar>x * 10 ^ 12 - y * 10 ^ 18\<bar> \<le> t * (5 * 10 ^ 11)" for x y t :: int
proof -
  assume a: "2 * \<bar>x - y * 10 ^ 6\<bar> \<le> t"
  define z where "z = x - y * 10 ^ 6"
  have "x * 10 ^ 12 - y * 10 ^ 18 = z * 10 ^ 12" by (simp add: z_def)
  then have "\<bar>x * 10 ^ 12 - y * 10 ^ 18\<bar> = \<bar>z\<bar> * 10 ^ 12" by (simp add: abs_mult)
  with a show ?thesis by (simp add: z_def)
qed

lemma micro_iotx_error: "\<bar>int (micro_iotx w) * 10 ^ 12 - int w\<bar> \<le> 5 * 10 ^ 11 + 1"
proof -
  define p where "p = max 64 (bit_len w)"
  define S where "S = quo_shift p (10 ^ 18) + 1"
  define T :: int where "T = 2 ^ S"
  obtain Q where Q: "quo_bits p w (10 ^ 18) = round_bits p Q"
    and Qb: "\<bar>int Q * 10 ^ 18 - int w * T\<bar> \<le> 10 ^ 18"
    using quo_bits_error [of "10 ^ 18" p w] by (auto simp: S_def T_def)
  define R where "R = round_bits p Q"
  define N where "N = round_div (R * 10 ^ 6) (2 ^ S)"
  have N: "micro_iotx w = N"
    by (simp only: micro_iotx_def Let_def N_def R_def S_def Q flip: p_def)
  have RQ: "2 ^ p * \<bar>int R - int Q\<bar> \<le> int Q" by (simp add: R_def round_bits_error)
  have NR: "2 * \<bar>int N * T - int R * 10 ^ 6\<bar> \<le> T"
    using round_div_error [of "2 ^ S" "R * 10 ^ 6"] by (simp add: N_def T_def)
  have wp: "int w < 2 ^ p"
  proof -
    have "w < 2 ^ bit_len w" by (rule bit_len_upper)
    also have "(2::nat) ^ bit_len w \<le> 2 ^ p" by (rule power_increasing) (simp_all add: p_def)
    finally show ?thesis by (metis of_nat_less_iff of_nat_numeral of_nat_power)
  qed
  have big: "10 ^ 18 * 4 \<le> T"
  proof -
    have "(10 ^ 18 * 4 :: int) \<le> 2 ^ 66" by simp
    also have "(2::int) ^ 66 \<le> 2 ^ S"
      by (rule power_increasing) (simp_all add: S_def quo_shift_def p_def)
    finally show ?thesis by (simp add: T_def)
  qed
  have QT: "int Q * 10 ^ 18 \<le> 2 ^ p * T"
  proof -
    have "int Q * 10 ^ 18 \<le> int w * T + 10 ^ 18" using Qb by linarith
    also have "\<dots> \<le> (int w + 1) * T" using big by (simp add: algebra_simps)
    also have "\<dots> \<le> 2 ^ p * T"
    proof (rule mult_right_mono)
      show "int w + 1 \<le> 2 ^ p" using wp by linarith
      show "0 \<le> T" by (simp add: T_def)
    qed
    finally show ?thesis .
  qed
  have R18: "\<bar>int R - int Q\<bar> * 10 ^ 18 \<le> T"
  proof -
    have "2 ^ p * (\<bar>int R - int Q\<bar> * 10 ^ 18) = (2 ^ p * \<bar>int R - int Q\<bar>) * 10 ^ 18" by simp
    also have "\<dots> \<le> int Q * 10 ^ 18" by (rule mult_right_mono [OF RQ]) simp
    also have "\<dots> \<le> 2 ^ p * T" by (rule QT)
    finally show ?thesis by simp
  qed
  have a: "\<bar>int N * T * 10 ^ 12 - int R * 10 ^ 18\<bar> \<le> T * (5 * 10 ^ 11)"
    using NR by (rule micro_scale)
  have b: "\<bar>int R * 10 ^ 18 - int Q * 10 ^ 18\<bar> \<le> T"
  proof -
    have "int R * 10 ^ 18 - int Q * 10 ^ 18 = (int R - int Q) * 10 ^ 18" by simp
    with R18 show ?thesis by (simp only: abs_mult) simp
  qed
  have "\<bar>int N * T * 10 ^ 12 - int w * T\<bar> \<le> T * (5 * 10 ^ 11) + T + 10 ^ 18"
    using a b Qb by linarith
  also have "\<dots> < T * (5 * 10 ^ 11 + 2)" using big by simp
  finally have lt: "\<bar>int N * T * 10 ^ 12 - int w * T\<bar> < T * (5 * 10 ^ 11 + 2)" .
  have "0 < T" by (simp add: T_def)
  have "int N * T * 10 ^ 12 - int w * T = T * (int N * 10 ^ 12 - int w)"
    by (simp add: algebra_simps)
  then have "T * \<bar>int N * 10 ^ 12 - int w\<bar> < T * (5 * 10 ^ 11 + 2)"
    using lt \<open>0 < T\<close> by (simp only: abs_mult abs_of_pos)
  then have "\<bar>int N * 10 ^ 12 - int w\<bar> < 5 * 10 ^ 11 + 2"
    using \<open>0 < T\<close> by (simp only: mult_less_cancel_left_pos)
  then show ?thesis by (simp add: N)
qed

lemma micro_iotx_exact: "micro_iotx (k * 10 ^ 12) = k"
  using micro_iotx_error [of "k * 10 ^ 12"] by simp

end
