(* ===== verification/Chain.thy ===== *)
theory Chain
  imports EthLib Amount
begin

section \<open>The chain the commands talk to\<close>

text \<open>
  The commands fund, claim and deploy use go-ethereum's \<open>ethclient\<close> and its keys and
  transactions, none of them under src/. A node is a state \<open>'c\<close> and a record of the calls the
  source makes, each of which may fail and may find the state changed; \<open>'k\<close> is the type of
  private keys and \<open>'s\<close> that of signed transactions. The locales \<open>key_laws\<close> and \<open>node_laws\<close> state
  what the properties rely on. \<open>logged\<close> is a node that also records what is sent to it, and
  \<open>ledger\<close> a node that carries transactions out.
\<close>

subsection \<open>Keys and transactions\<close>

record legacyTx =
  ltNonce :: u64
  ltTo :: "address option"
  ltValue :: int
  ltGas :: u64
  ltGasPrice :: int
  ltData :: bytes

record receipt =
  rcStatus :: u64
  rcContractAddress :: address
  rcBlockNumber :: nat
  rcGasUsed :: u64

record ('k, 's) keylib =
  kHexToECDSA :: "string \<Rightarrow> string + 'k"
  kFromECDSA :: "'k \<Rightarrow> bytes"
  kAddress :: "'k \<Rightarrow> address"
  kSign :: "legacyTx \<Rightarrow> int \<Rightarrow> 'k \<Rightarrow> string + 's"
  kHash :: "'s \<Rightarrow> hash"
  kTx :: "'s \<Rightarrow> legacyTx"
  kSender :: "'s \<Rightarrow> address"

text \<open>
  A key survives its encoding in hexadecimal; a signed transaction is the transaction that was
  signed, and its sender is the owner of the key.
\<close>

locale key_laws =
  fixes K :: "('k, 's) keylib" and valid_key :: "'k \<Rightarrow> bool"
  assumes key_round_trip: "valid_key k \<Longrightarrow> kHexToECDSA K (hex_of (kFromECDSA K k)) = Inr k"
    and key_length: "valid_key k \<Longrightarrow> length (kFromECDSA K k) = 32"
    and signed_tx: "kSign K tx chain k = Inr s \<Longrightarrow> kTx K s = tx"
    and signed_by: "kSign K tx chain k = Inr s \<Longrightarrow> kSender K s = kAddress K k"

subsection \<open>Nodes\<close>

record ('c, 's) node =
  ndDial :: "'c \<Rightarrow> (string + unit) \<times> 'c"
  ndBalance :: "address \<Rightarrow> 'c \<Rightarrow> (string + int) \<times> 'c"
  ndNonce :: "address \<Rightarrow> 'c \<Rightarrow> (string + u64) \<times> 'c"
  ndGasPrice :: "'c \<Rightarrow> (string + int) \<times> 'c"
  ndEstimate :: "address \<Rightarrow> bytes \<Rightarrow> 'c \<Rightarrow> (string + u64) \<times> 'c"
  ndCall :: "address \<Rightarrow> bytes \<Rightarrow> 'c \<Rightarrow> (string + bytes) \<times> 'c"
  ndSend :: "'s \<Rightarrow> 'c \<Rightarrow> (string + unit) \<times> 'c"
  ndReceipt :: "hash \<Rightarrow> 'c \<Rightarrow> (string + receipt) \<times> 'c"
  ndSleep :: "'c \<Rightarrow> 'c"

text \<open>A call whose error ends the command: \<open>if err != nil\<close> and \<open>os.Exit(1)\<close>.\<close>

definition attempt ::
  "('c \<Rightarrow> (string + 'a) \<times> 'c) \<Rightarrow> (string \<Rightarrow> 'r) \<Rightarrow> ('a \<Rightarrow> 'c \<Rightarrow> 'r \<times> 'c) \<Rightarrow> 'c \<Rightarrow> 'r \<times> 'c" where
  "attempt call bad good c =
     (case call c of (Inl e, c') \<Rightarrow> (bad e, c') | (Inr a, c') \<Rightarrow> good a c')"

text \<open>The polling loop: \<open>n\<close> calls at most, with a pause after each one that fails.\<close>

fun poll_receipt :: "('c, 's) node \<Rightarrow> hash \<Rightarrow> nat \<Rightarrow> 'c \<Rightarrow> receipt option \<times> 'c" where
  "poll_receipt N h 0 c = (None, c)"
| "poll_receipt N h (Suc n) c =
     (case ndReceipt N h c of
        (Inl e, c') \<Rightarrow> poll_receipt N h n (ndSleep N c')
      | (Inr r, c') \<Rightarrow> (Some r, c'))"

text \<open>The state before the \<open>i\<close>-th poll, when the polls before it fail.\<close>

fun polled :: "('c, 's) node \<Rightarrow> hash \<Rightarrow> nat \<Rightarrow> 'c \<Rightarrow> 'c" where
  "polled N h 0 c = c"
| "polled N h (Suc n) c = polled N h n (ndSleep N (snd (ndReceipt N h c)))"

definition no_receipt :: "('c, 's) node \<Rightarrow> hash \<Rightarrow> 'c \<Rightarrow> nat \<Rightarrow> bool" where
  "no_receipt N h c j \<longleftrightarrow> (\<exists>e. fst (ndReceipt N h (polled N h j c)) = Inl e)"

lemma no_receipt_0: "no_receipt N h c 0 \<longleftrightarrow> (\<exists>e. fst (ndReceipt N h c) = Inl e)"
  by (simp add: no_receipt_def)

lemma no_receipt_Suc: "no_receipt N h c (Suc j) \<longleftrightarrow> no_receipt N h (ndSleep N (snd (ndReceipt N h c))) j"
  by (simp add: no_receipt_def)

lemma poll_receipt_first:
  assumes "k < n" and "\<And>j. j < k \<Longrightarrow> no_receipt N h c j"
    and "fst (ndReceipt N h (polled N h k c)) = Inr r"
  shows "\<exists>c'. poll_receipt N h n c = (Some r, c')"
  using assms
proof (induction n arbitrary: k c)
  case (Suc n)
  show ?case
  proof (cases k)
    case 0
    with Suc.prems show ?thesis by (cases "ndReceipt N h c") auto
  next
    case (Suc j)
    with Suc.prems(2) [of 0] obtain e c' where c': "ndReceipt N h c = (Inl e, c')"
      by (cases "ndReceipt N h c") (auto simp: no_receipt_0)
    have "\<exists>d. poll_receipt N h n (ndSleep N c') = (Some r, d)"
    proof (rule Suc.IH)
      show "j < n" using Suc.prems(1) \<open>k = Suc j\<close> by simp
      show "no_receipt N h (ndSleep N c') i" if "i < j" for i
        using Suc.prems(2) [of "Suc i"] that \<open>k = Suc j\<close> c' by (simp add: no_receipt_Suc)
      show "fst (ndReceipt N h (polled N h j (ndSleep N c'))) = Inr r"
        using Suc.prems(3) \<open>k = Suc j\<close> c' by simp
    qed
    then show ?thesis by (simp add: c')
  qed
qed simp

lemma poll_receipt_none:
  "poll_receipt N h n c = (None, c') \<Longrightarrow> \<forall>j < n. no_receipt N h c j"
proof (induction n arbitrary: c)
  case (Suc n)
  then obtain e c1 where c1: "ndReceipt N h c = (Inl e, c1)"
    "poll_receipt N h n (ndSleep N c1) = (None, c')"
    by (auto split: prod.splits sum.splits)
  from Suc.IH [OF c1(2)] show ?case
    by (auto simp: less_Suc_eq_0_disj no_receipt_0 no_receipt_Suc c1(1))
qed simp

subsection \<open>A node that records what is sent\<close>

definition lift_call :: "('c \<Rightarrow> 'a \<times> 'c) \<Rightarrow> 'c \<times> 's list \<Rightarrow> 'a \<times> 'c \<times> 's list" where
  "lift_call f = (\<lambda>(c, l). case f c of (a, c') \<Rightarrow> (a, c', l))"

definition logged :: "('c, 's) node \<Rightarrow> ('c \<times> 's list, 's) node" where
  "logged N =
     \<lparr>ndDial = lift_call (ndDial N), ndBalance = (\<lambda>a. lift_call (ndBalance N a)),
      ndNonce = (\<lambda>a. lift_call (ndNonce N a)), ndGasPrice = lift_call (ndGasPrice N),
      ndEstimate = (\<lambda>a d. lift_call (ndEstimate N a d)), ndCall = (\<lambda>a d. lift_call (ndCall N a d)),
      ndSend = (\<lambda>s (c, l). case ndSend N s c of (a, c') \<Rightarrow> (a, c', l @ [s])),
      ndReceipt = (\<lambda>h. lift_call (ndReceipt N h)), ndSleep = (\<lambda>(c, l). (ndSleep N c, l))\<rparr>"

lemma logged_simps [simp]:
  "ndDial (logged N) = lift_call (ndDial N)"
  "ndBalance (logged N) a = lift_call (ndBalance N a)"
  "ndNonce (logged N) a = lift_call (ndNonce N a)"
  "ndGasPrice (logged N) = lift_call (ndGasPrice N)"
  "ndEstimate (logged N) a d = lift_call (ndEstimate N a d)"
  "ndCall (logged N) a d = lift_call (ndCall N a d)"
  "ndReceipt (logged N) h = lift_call (ndReceipt N h)"
  "ndSleep (logged N) (c, l) = (ndSleep N c, l)"
  "ndSend (logged N) s (c, l) = (case ndSend N s c of (a, c') \<Rightarrow> (a, c', l @ [s]))"
  by (simp_all add: logged_def)

lemma lift_call_log: "snd (snd (lift_call f c)) = snd c"
  by (auto simp: lift_call_def split: prod.splits)

lemma lift_call_eq: "lift_call f (c, l) = (a, c', l') \<longleftrightarrow> f c = (a, c') \<and> l' = l"
  by (auto simp: lift_call_def split: prod.splits)

lemma attempt_lift:
  "attempt (lift_call f) bad good (c, l) =
     (case f c of (Inl e, c') \<Rightarrow> (bad e, c', l) | (Inr a, c') \<Rightarrow> good a (c', l))"
  by (auto simp: attempt_def lift_call_def split: prod.splits sum.splits)

lemma poll_receipt_log: "snd (snd (poll_receipt (logged N) h n c)) = snd c"
proof (induction n arbitrary: c)
  case (Suc n)
  obtain d l where c: "c = (d, l)" by (cases c)
  show ?case using Suc.IH by (auto simp: c lift_call_def split: prod.splits sum.splits)
qed simp

subsection \<open>A node that carries transactions out\<close>

definition tx_cost :: "legacyTx \<Rightarrow> int" where
  "tx_cost tx = ltValue tx + int (unat (ltGas tx)) * ltGasPrice tx"

text \<open>
  The laws of a node that answers and that no other transaction of the account reaches:
  \<open>pending\<close> is the next nonce of an account and \<open>funds\<close> what it can spend. Questions change
  neither; a transaction with the next nonce, whose cost the funds cover, is taken.
\<close>

locale node_laws = key_laws K valid_key
  for K :: "('k, 's) keylib" and valid_key +
  fixes N :: "('c, 's) node" and pending :: "'c \<Rightarrow> address \<Rightarrow> u64" and funds :: "'c \<Rightarrow> address \<Rightarrow> int"
    and price :: int
  assumes dial: "\<exists>c'. ndDial N c = (Inr (), c') \<and> pending c' = pending c \<and> funds c' = funds c"
    and balance_at: "\<exists>c'. ndBalance N a c = (Inr (funds c a), c') \<and> pending c' = pending c \<and> funds c' = funds c"
    and nonce_at: "\<exists>c'. ndNonce N a c = (Inr (pending c a), c') \<and> pending c' = pending c \<and> funds c' = funds c"
    and gas_price: "\<exists>c'. ndGasPrice N c = (Inr price, c') \<and> pending c' = pending c \<and> funds c' = funds c"
    and price_nonneg: "0 \<le> price"
    and send: "ltNonce (kTx K s) = pending c (kSender K s) \<Longrightarrow> 0 \<le> ltValue (kTx K s) \<Longrightarrow>
      tx_cost (kTx K s) \<le> funds c (kSender K s) \<Longrightarrow>
      \<exists>c'. ndSend N s c = (Inr (), c') \<and> pending c' (kSender K s) = pending c (kSender K s) + 1 \<and>
        funds c (kSender K s) - tx_cost (kTx K s) \<le> funds c' (kSender K s)"

context node_laws
begin

text \<open>Recording what is sent changes none of the laws.\<close>

lemma logged_laws: "node_laws K valid_key (logged N) (\<lambda>c. pending (fst c)) (\<lambda>c. funds (fst c)) price"
proof (intro node_laws.intro node_laws_axioms.intro key_laws_axioms price_nonneg)
  fix c :: "'c \<times> 's list" and a
  obtain d l where c: "c = (d, l)" by (cases c)
  show "\<exists>c'. ndDial (logged N) c = (Inr (), c') \<and> (\<lambda>c. pending (fst c)) c' = (\<lambda>c. pending (fst c)) c \<and>
      (\<lambda>c. funds (fst c)) c' = (\<lambda>c. funds (fst c)) c"
    using dial [of d] by (auto simp: c lift_call_def)
  show "\<exists>c'. ndBalance (logged N) a c = (Inr (funds (fst c) a), c') \<and> pending (fst c') = pending (fst c) \<and>
      funds (fst c') = funds (fst c)"
    using balance_at [of a d] by (auto simp: c lift_call_def)
  show "\<exists>c'. ndNonce (logged N) a c = (Inr (pending (fst c) a), c') \<and> pending (fst c') = pending (fst c) \<and>
      funds (fst c') = funds (fst c)"
    using nonce_at [of a d] by (auto simp: c lift_call_def)
  show "\<exists>c'. ndGasPrice (logged N) c = (Inr price, c') \<and> pending (fst c') = pending (fst c) \<and>
      funds (fst c') = funds (fst c)"
    using gas_price [of d] by (auto simp: c lift_call_def)
next
  fix c :: "'c \<times> 's list" and s
  obtain d l where c: "c = (d, l)" by (cases c)
  assume "ltNonce (kTx K s) = pending (fst c) (kSender K s)" "0 \<le> ltValue (kTx K s)"
    "tx_cost (kTx K s) \<le> funds (fst c) (kSender K s)"
  with send [of s d] show "\<exists>c'. ndSend (logged N) s c = (Inr (), c') \<and>
      pending (fst c') (kSender K s) = pending (fst c) (kSender K s) + 1 \<and>
      funds (fst c) (kSender K s) - tx_cost (kTx K s) \<le> funds (fst c') (kSender K s)"
    by (auto simp: c)
qed

end

text \<open>The ledger: balances, nonces and the receipts of the transactions carried out.\<close>

record ledger =
  lg_balance :: "address \<Rightarrow> int"
  lg_nonce :: "address \<Rightarrow> u64"
  lg_mined :: "(hash \<times> receipt) list"

definition move :: "address \<Rightarrow> address option \<Rightarrow> int \<Rightarrow> int \<Rightarrow> (address \<Rightarrow> int) \<Rightarrow> address \<Rightarrow> int" where
  "move from to v fee b =
     (let b1 = b(from := b from - v - fee)
      in case to of None \<Rightarrow> b1 | Some t \<Rightarrow> b1(t := b1 t + v))"

definition ledger_send :: "('k, 's) keylib \<Rightarrow> 's \<Rightarrow> ledger \<Rightarrow> (string + unit) \<times> ledger" where
  "ledger_send K s c =
     (let tx = kTx K s; from = kSender K s; fee = int (unat (ltGas tx)) * ltGasPrice tx in
      if ltNonce tx \<noteq> lg_nonce c from then (Inl ''invalid nonce'', c)
      else if ltValue tx < 0 then (Inl ''negative value'', c)
      else if lg_balance c from < tx_cost tx then (Inl ''insufficient funds'', c)
      else (Inr (),
        c\<lparr>lg_balance := move from (ltTo tx) (ltValue tx) fee (lg_balance c),
          lg_nonce := (lg_nonce c)(from := lg_nonce c from + 1),
          lg_mined := (kHash K s, \<lparr>rcStatus = 1, rcContractAddress = 0,
                         rcBlockNumber = length (lg_mined c), rcGasUsed = ltGas tx\<rparr>) # lg_mined c\<rparr>))"

definition ledger_node :: "('k, 's) keylib \<Rightarrow> int \<Rightarrow> (ledger, 's) node" where
  "ledger_node K price =
     \<lparr>ndDial = (\<lambda>c. (Inr (), c)), ndBalance = (\<lambda>a c. (Inr (lg_balance c a), c)),
      ndNonce = (\<lambda>a c. (Inr (lg_nonce c a), c)), ndGasPrice = (\<lambda>c. (Inr price, c)),
      ndEstimate = (\<lambda>a d c. (Inr 21000, c)), ndCall = (\<lambda>a d c. (Inr [], c)),
      ndSend = ledger_send K,
      ndReceipt = (\<lambda>h c. (case map_of (lg_mined c) h of None \<Rightarrow> Inl ''not found'' | Some r \<Rightarrow> Inr r, c)),
      ndSleep = (\<lambda>c. c)\<rparr>"

lemma ledger_node_simps [simp]:
  "ndDial (ledger_node K price) c = (Inr (), c)"
  "ndBalance (ledger_node K price) a c = (Inr (lg_balance c a), c)"
  "ndNonce (ledger_node K price) a c = (Inr (lg_nonce c a), c)"
  "ndGasPrice (ledger_node K price) c = (Inr price, c)"
  "ndEstimate (ledger_node K price) a d c = (Inr 21000, c)"
  "ndCall (ledger_node K price) a d c = (Inr [], c)"
  "ndSend (ledger_node K price) = ledger_send K"
  "ndReceipt (ledger_node K price) h c =
     (case map_of (lg_mined c) h of None \<Rightarrow> Inl ''not found'' | Some r \<Rightarrow> Inr r, c)"
  "ndSleep (ledger_node K price) c = c"
  by (simp_all add: ledger_node_def)

lemma ledger_laws:
  assumes "key_laws K V" and "0 \<le> price"
  shows "node_laws K V (ledger_node K price) lg_nonce lg_balance price"
  by (intro node_laws.intro node_laws_axioms.intro assms)
    (auto simp: ledger_send_def Let_def tx_cost_def move_def split: option.splits)

text \<open>
  An instance of the keys: a private key is a 32-byte number, read from its 64 hexadecimal
  digits, and its public key stands for the address; a signed transaction carries the sender.
\<close>

definition plain_keys :: "(hash, legacyTx \<times> int \<times> hash) keylib" where
  "plain_keys =
     \<lparr>kHexToECDSA = (\<lambda>s. if length s = 64 \<and> list_all is_hex s then Inr (word_of_nat (be_nat (hex_decode s)))
                         else Inl ''invalid hex data for private key''),
      kFromECDSA = hash_bytes, kAddress = (\<lambda>k. ucast k), kSign = (\<lambda>tx chain k. Inr (tx, chain, k)),
      kHash = (\<lambda>(tx, chain, k). ucast (ltNonce tx)), kTx = (\<lambda>(tx, chain, k). tx),
      kSender = (\<lambda>(tx, chain, k). ucast k)\<rparr>"

interpretation plain: key_laws plain_keys "\<lambda>k. True"
proof
  fix k s :: hash and tx chain and st :: "legacyTx \<times> int \<times> hash"
  have "list_all is_hex (hex_of (hash_bytes k))"
    using hex_pairs_ok [of "hex_of (hash_bytes k)"] by (simp add: hex_pairs_hex_of)
  moreover have "hex_decode (hex_of (hash_bytes k)) = hash_bytes k" by (simp add: hex_pairs_hex_of)
  ultimately show "kHexToECDSA plain_keys (hex_of (kFromECDSA plain_keys k)) = Inr k"
    by (simp add: plain_keys_def hash_bytes_nat del: hex_decode.simps)
  show "length (kFromECDSA plain_keys k) = 32" by (simp add: plain_keys_def)
  show "kSign plain_keys tx chain k = Inr st \<Longrightarrow> kTx plain_keys st = tx"
    by (auto simp: plain_keys_def)
  show "kSign plain_keys tx chain k = Inr st \<Longrightarrow> kSender plain_keys st = kAddress plain_keys k"
    by (auto simp: plain_keys_def)
qed

interpretation led: node_laws plain_keys "\<lambda>k. True" "ledger_node plain_keys (int p)" lg_nonce lg_balance "int p"
  for p :: nat
  by (rule ledger_laws [OF plain.key_laws_axioms]) simp

end
