(* ===== verification/Fund.thy ===== *)
theory Fund
  imports Chain
begin

section \<open>Funding wallets (fund.go)\<close>

text \<open>
  \<open>runFund\<close> sends the same amount from one wallet to several, one transaction per wallet, all
  with the gas price asked for once and with the nonces counted locally. The result lists what
  happened to each wallet's transaction; an \<open>os.Exit\<close> is a constructor of \<open>fund_exit\<close>.
\<close>

datatype fund_exit =
    FundNoKey
  | FundNoWallets
  | FundBadKey string
  | FundConnect string
  | FundBalance string
  | FundInsufficient string string
  | FundNonce string
  | FundGasPrice string

datatype 's fund_attempt =
    SignFailed string
  | SendFailed 's string
  | Sent 's

datatype 's fund_result =
    FundExit fund_exit
  | FundPanic
  | FundDryRun "(nat \<times> string \<times> string) list" string
  | FundDone "'s fund_attempt list" nat nat

record fundFlags =
  ff_privateKey :: string
  ff_chainID :: int
  ff_amount :: float64
  ff_dryRun :: bool

definition transfer_tx :: "u64 \<Rightarrow> address \<Rightarrow> int \<Rightarrow> int \<Rightarrow> legacyTx" where
  "transfer_tx nonce to amountWei gasPrice =
     \<lparr>ltNonce = nonce, ltTo = Some to, ltValue = amountWei, ltGas = 21000, ltGasPrice = gasPrice,
      ltData = []\<rparr>"

text \<open>After the loop, one pause when anything was sent.\<close>

definition waitForConfirmation :: "('c, 's) node \<Rightarrow> 'c \<Rightarrow> 'c" where
  "waitForConfirmation N c = ndSleep N c"

text \<open>The loop: the attempts so far, the next nonce and the two counters.\<close>

fun fund_loop ::
  "ethlib \<Rightarrow> ('k, 's) keylib \<Rightarrow> ('c, 's) node \<Rightarrow> 'k \<Rightarrow> int \<Rightarrow> int \<Rightarrow> int \<Rightarrow> string list \<Rightarrow>
   's fund_attempt list \<Rightarrow> u64 \<Rightarrow> nat \<Rightarrow> nat \<Rightarrow> 'c \<Rightarrow> 's fund_result \<times> 'c" where
  "fund_loop L K N key chainID amountWei gasPrice [] done nonce sent failed c =
     (FundDone done sent failed, if 0 < sent then waitForConfirmation N c else c)"
| "fund_loop L K N key chainID amountWei gasPrice (w # ws) done nonce sent failed c =
     (let tx = transfer_tx nonce (HexToAddress L w) amountWei gasPrice in
      case kSign K tx chainID key of
        Inl e \<Rightarrow>
          fund_loop L K N key chainID amountWei gasPrice ws (done @ [SignFailed e]) nonce sent (failed + 1) c
      | Inr signedTx \<Rightarrow>
          (case ndSend N signedTx c of
             (Inl e, c') \<Rightarrow>
               fund_loop L K N key chainID amountWei gasPrice ws (done @ [SendFailed signedTx e]) nonce
                 sent (failed + 1) c'
           | (Inr _, c') \<Rightarrow>
               fund_loop L K N key chainID amountWei gasPrice ws (done @ [Sent signedTx]) (nonce + 1)
                 (sent + 1) failed c'))"

text \<open>The lines of a dry run.\<close>

definition dry_run_lines :: "string list \<Rightarrow> int \<Rightarrow> (nat \<times> string \<times> string) list" where
  "dry_run_lines wallets amountWei = map (\<lambda>i. (i + 1, wallets ! i, weiToIOTX amountWei)) [0..<length wallets]"

definition fund_with_key ::
  "ethlib \<Rightarrow> ('k, 's) keylib \<Rightarrow> ('c, 's) node \<Rightarrow> fundFlags \<Rightarrow> string list \<Rightarrow> 'k \<Rightarrow> 'c \<Rightarrow> 's fund_result \<times> 'c" where
  "fund_with_key L K N f wallets key =
     attempt (ndDial N) (\<lambda>e. FundExit (FundConnect e)) (\<lambda>_.
     attempt (ndBalance N (kAddress K key)) (\<lambda>e. FundExit (FundBalance e)) (\<lambda>bal c.
       case iotxToWei (ff_amount f) of
         NaNPanic \<Rightarrow> (FundPanic, c)
       | NilWei \<Rightarrow> (FundPanic, c)
       | Wei amountWei \<Rightarrow>
           let totalNeeded = amountWei * int (length wallets) in
           if bal < totalNeeded then
             (FundExit (FundInsufficient (weiToIOTX bal) (weiToIOTX totalNeeded)), c)
           else if ff_dryRun f then
             (FundDryRun (dry_run_lines wallets amountWei) (weiToIOTX totalNeeded), c)
           else
             attempt (ndNonce N (kAddress K key)) (\<lambda>e. FundExit (FundNonce e)) (\<lambda>nonce.
             attempt (ndGasPrice N) (\<lambda>e. FundExit (FundGasPrice e)) (\<lambda>gasPrice.
               fund_loop L K N key (ff_chainID f) amountWei gasPrice wallets [] nonce 0 0)) c))"

definition runFund ::
  "ethlib \<Rightarrow> ('k, 's) keylib \<Rightarrow> ('c, 's) node \<Rightarrow> (string \<Rightarrow> string) \<Rightarrow> fundFlags \<Rightarrow> string list \<Rightarrow> 'c \<Rightarrow>
   's fund_result \<times> 'c" where
  "runFund L K N getenv f wallets c =
     (let privateKey = (if ff_privateKey f = [] then getenv ''IOSWARM_PRIVATE_KEY'' else ff_privateKey f)
      in if privateKey = [] then (FundExit FundNoKey, c)
         else if length wallets = 0 then (FundExit FundNoWallets, c)
         else (case kHexToECDSA K (trim_prefix privateKey ''0x'') of
                 Inl e \<Rightarrow> (FundExit (FundBadKey e), c)
               | Inr key \<Rightarrow> fund_with_key L K N f wallets key c))"

subsection \<open>What is sent\<close>

definition is_sent :: "'s fund_attempt \<Rightarrow> bool" where
  "is_sent a = (case a of Sent s \<Rightarrow> True | _ \<Rightarrow> False)"

lemma is_sent_simps [simp]: "is_sent (Sent s)" "\<not> is_sent (SendFailed s e)" "\<not> is_sent (SignFailed e)"
  by (simp_all add: is_sent_def)

text \<open>The transaction an attempt is about, when it was signed.\<close>

fun attempt_tx :: "'s fund_attempt \<Rightarrow> 's option" where
  "attempt_tx (SignFailed e) = None"
| "attempt_tx (SendFailed s e) = Some s"
| "attempt_tx (Sent s) = Some s"

text \<open>
  The attempts a run makes for the wallets \<open>ws\<close> from a nonce on: every wallet has one, and its
  transaction carries the nonce advanced by the number of the transactions accepted before it.
\<close>

fun fund_attempts ::
  "ethlib \<Rightarrow> ('k, 's) keylib \<Rightarrow> 'k \<Rightarrow> int \<Rightarrow> int \<Rightarrow> int \<Rightarrow> u64 \<Rightarrow> string list \<Rightarrow> 's fund_attempt list \<Rightarrow> bool" where
  "fund_attempts L K key chainID amountWei gasPrice nonce [] as = (as = [])"
| "fund_attempts L K key chainID amountWei gasPrice nonce (w # ws) as =
     (\<exists>a as'. as = a # as' \<and>
        (let signed = kSign K (transfer_tx nonce (HexToAddress L w) amountWei gasPrice) chainID key in
         case attempt_tx a of Some s \<Rightarrow> signed = Inr s | None \<Rightarrow> (\<exists>e. signed = Inl e)) \<and>
        fund_attempts L K key chainID amountWei gasPrice (if is_sent a then nonce + 1 else nonce) ws as')"

lemma fund_loop_attempts:
  "fund_loop L K N key chainID amountWei gasPrice ws done nonce sent failed c = (r, c') \<Longrightarrow>
   \<exists>as. r = FundDone (done @ as) (sent + length (filter is_sent as))
          (failed + length (filter (\<lambda>a. \<not> is_sent a) as)) \<and>
        fund_attempts L K key chainID amountWei gasPrice nonce ws as"
proof (induction ws arbitrary: "done" nonce sent failed c)
  case (Cons w ws)
  let ?s = "kSign K (transfer_tx nonce (HexToAddress L w) amountWei gasPrice) chainID key"
  show ?case
  proof (cases ?s)
    case (Inl e)
    with Cons.prems Cons.IH obtain as where
      "r = FundDone ((done @ [SignFailed e]) @ as) (sent + length (filter is_sent as))
          (failed + 1 + length (filter (\<lambda>a. \<not> is_sent a) as))"
      "fund_attempts L K key chainID amountWei gasPrice nonce ws as"
      by (fastforce simp: Let_def)
    then show ?thesis using Inl by (intro exI [of _ "SignFailed e # as"]) (simp add: Let_def)
  next
    case (Inr s)
    obtain a c1 where send: "ndSend N s c = (a, c1)" by (cases "ndSend N s c")
    show ?thesis
    proof (cases a)
      case (Inl e)
      with Cons.prems Cons.IH Inr send obtain as where
        "r = FundDone ((done @ [SendFailed s e]) @ as) (sent + length (filter is_sent as))
            (failed + 1 + length (filter (\<lambda>a. \<not> is_sent a) as))"
        "fund_attempts L K key chainID amountWei gasPrice nonce ws as"
        by (fastforce simp: Let_def)
      then show ?thesis using Inr by (intro exI [of _ "SendFailed s e # as"]) (simp add: Let_def)
    next
      case Ok: (Inr u)
      with Cons.prems Cons.IH Inr send obtain as where
        "r = FundDone ((done @ [Sent s]) @ as) (sent + 1 + length (filter is_sent as))
            (failed + length (filter (\<lambda>a. \<not> is_sent a) as))"
        "fund_attempts L K key chainID amountWei gasPrice (nonce + 1) ws as"
        by (fastforce simp: Let_def)
      then show ?thesis using Inr by (intro exI [of _ "Sent s # as"]) (simp add: Let_def)
    qed
  qed
qed simp

lemma fund_attempts_length:
  "fund_attempts L K key chainID amountWei gasPrice nonce ws as \<Longrightarrow> length as = length ws"
  by (induction ws arbitrary: nonce as) auto

text \<open>The transaction of the \<open>i\<close>-th wallet.\<close>

lemma fund_attempts_nth:
  assumes "fund_attempts L K key chainID amountWei gasPrice nonce ws as"
    and "i < length ws" and "attempt_tx (as ! i) = Some s"
  shows "kSign K (transfer_tx (nonce + word_of_nat (length (filter is_sent (take i as))))
    (HexToAddress L (ws ! i)) amountWei gasPrice) chainID key = Inr s"
  using assms
proof (induction ws arbitrary: nonce as i)
  case (Cons w ws)
  from Cons.prems(1) obtain a as' where as: "as = a # as'"
    and now: "attempt_tx a = Some s' \<Longrightarrow>
      kSign K (transfer_tx nonce (HexToAddress L w) amountWei gasPrice) chainID key = Inr s'"
    and rest: "fund_attempts L K key chainID amountWei gasPrice (if is_sent a then nonce + 1 else nonce) ws as'"
    for s' by (auto simp: Let_def split: option.splits)
  show ?case
  proof (cases i)
    case 0
    with Cons.prems as now show ?thesis by simp
  next
    case (Suc j)
    with Cons.prems as have "j < length ws" "attempt_tx (as' ! j) = Some s" by simp_all
    from Cons.IH [OF rest this] show ?thesis by (cases "is_sent a") (simp_all add: Suc as ac_simps)
  qed
qed simp

lemma fund_loop_log:
  "fund_loop L K (logged N) key chainID amountWei gasPrice ws done nonce sent failed (c, l) = (r, c', l') \<Longrightarrow>
   \<exists>as sent' failed'. r = FundDone (done @ as) sent' failed' \<and> l' = l @ List.map_filter attempt_tx as"
proof (induction ws arbitrary: "done" nonce sent failed c l)
  case Nil
  then show ?case
    by (intro exI [of _ "[]"]) (auto simp: map_filter_simps waitForConfirmation_def split: if_splits)
next
  case (Cons w ws)
  have add: "\<exists>as sent' failed'. r = FundDone (done @ as) sent' failed' \<and>
      l' = l @ List.map_filter attempt_tx as"
    if "fund_loop L K (logged N) key chainID amountWei gasPrice ws (done @ [a]) n' s' f' (c1, l @ l1) =
        (r, c', l')" and "l1 = List.map_filter attempt_tx [a]" for a n' s' f' c1 l1
  proof -
    from Cons.IH [OF that(1)] obtain as sent' failed' where
      "r = FundDone ((done @ [a]) @ as) sent' failed'" "l' = (l @ l1) @ List.map_filter attempt_tx as"
      by blast
    with that(2) show ?thesis
      by (intro exI [of _ "a # as"]) (auto simp: map_filter_simps split: option.splits)
  qed
  let ?s = "kSign K (transfer_tx nonce (HexToAddress L w) amountWei gasPrice) chainID key"
  show ?case
  proof (cases ?s)
    case (Inl e)
    with Cons.prems show ?thesis
      by (intro add [of "SignFailed e" nonce sent "failed + 1" c "[]"]) (simp_all add: Let_def map_filter_simps)
  next
    case (Inr s)
    obtain a c1 where send: "ndSend N s c = (a, c1)" by (cases "ndSend N s c")
    show ?thesis
    proof (cases a)
      case (Inl e)
      with Cons.prems Inr send show ?thesis
        by (intro add [of "SendFailed s e" nonce sent "failed + 1" c1 "[s]"]) (simp_all add: Let_def map_filter_simps)
    next
      case Ok: (Inr u)
      with Cons.prems Inr send show ?thesis
        by (intro add [of "Sent s" "nonce + 1" "sent + 1" failed c1 "[s]"]) (simp_all add: Let_def map_filter_simps)
    qed
  qed
qed

text \<open>A completed command went through every check.\<close>

lemma runFund_done:
  assumes "runFund L K N getenv f wallets c = (FundDone as sent failed, c')"
  obtains key amountWei gasPrice nonce bal c0 c1 c2 where
    "iotxToWei (ff_amount f) = Wei amountWei"
    "ndBalance N (kAddress K key) c0 = (Inr bal, c1)" "amountWei * int (length wallets) \<le> bal"
    "\<not> ff_dryRun f"
    "fund_loop L K N key (ff_chainID f) amountWei gasPrice wallets [] nonce 0 0 c2 =
      (FundDone as sent failed, c')"
  using assms
  by (auto simp: runFund_def fund_with_key_def attempt_def Let_def not_less
      split: if_splits sum.splits prod.splits wei_result.splits)

lemma runFund_logged:
  assumes "runFund L K (logged N) getenv f wallets (c, []) = (FundDone as sent failed, c', l)"
  obtains key amountWei gasPrice nonce d where
    "iotxToWei (ff_amount f) = Wei amountWei"
    "fund_loop L K (logged N) key (ff_chainID f) amountWei gasPrice wallets [] nonce 0 0 (d, []) =
      (FundDone as sent failed, c', l)"
  using assms
  by (auto simp: runFund_def fund_with_key_def attempt_lift Let_def lift_call_eq not_less
      split: if_splits sum.splits prod.splits wei_result.splits)

subsection \<open>Every wallet is funded\<close>

text \<open>With a lawful node and enough for the gas too, no transaction fails.\<close>

context node_laws
begin

lemma fund_loop_completes:
  assumes "\<And>tx. \<exists>s. kSign K tx chainID key = Inr s" and "0 \<le> amountWei"
    and "pending c (kAddress K key) = nonce"
    and "int (length ws) * (amountWei + 21000 * price) \<le> funds c (kAddress K key)"
  shows "\<exists>as c'. fund_loop L K N key chainID amountWei price ws done nonce sent failed c =
    (FundDone (done @ as) (sent + length ws) failed, c')"
  using assms(3,4)
proof (induction ws arbitrary: "done" nonce sent c)
  case (Cons w ws)
  let ?tx = "transfer_tx nonce (HexToAddress L w) amountWei price"
  obtain s where s: "kSign K ?tx chainID key = Inr s" using assms(1) by blast
  have tx: "kTx K s = ?tx" "kSender K s = kAddress K key" using signed_tx [OF s] signed_by [OF s] by auto
  have cost: "tx_cost ?tx = amountWei + 21000 * price" by (simp add: tx_cost_def transfer_tx_def)
  have all: "int (length ws) * (amountWei + 21000 * price) + (amountWei + 21000 * price)
      \<le> funds c (kAddress K key)"
    using Cons.prems(2) by (simp add: algebra_simps)
  moreover have "0 \<le> int (length ws) * (amountWei + 21000 * price)"
    using assms(2) price_nonneg by simp
  ultimately have "tx_cost (kTx K s) \<le> funds c (kSender K s)" using cost tx by simp
  moreover have "ltNonce (kTx K s) = pending c (kSender K s)" "0 \<le> ltValue (kTx K s)"
    using tx Cons.prems(1) assms(2) by (simp_all add: transfer_tx_def)
  ultimately obtain c1 where c1: "ndSend N s c = (Inr (), c1)"
    "pending c1 (kAddress K key) = nonce + 1"
    "funds c (kAddress K key) - (amountWei + 21000 * price) \<le> funds c1 (kAddress K key)"
    using send [of s c] tx cost Cons.prems(1) by auto
  have "int (length ws) * (amountWei + 21000 * price) \<le> funds c1 (kAddress K key)"
    using all c1(3) by linarith
  from Cons.IH [OF c1(2) this, of "done @ [Sent s]" "sent + 1"] show ?case
    by (auto simp: Let_def s c1(1))
qed simp

lemma runFund_completes:
  assumes "\<And>tx. \<exists>s. kSign K tx (ff_chainID f) key = Inr s"
    and "ff_privateKey f \<noteq> []" and "kHexToECDSA K (trim_prefix (ff_privateKey f) ''0x'') = Inr key"
    and "wallets \<noteq> []" and "\<not> ff_dryRun f"
    and "iotxToWei (ff_amount f) = Wei amountWei" and "0 \<le> amountWei"
    and enough: "int (length wallets) * (amountWei + 21000 * price) \<le> funds c (kAddress K key)"
  shows "\<exists>as c'. runFund L K N getenv f wallets c = (FundDone as (length wallets) 0, c')"
proof -
  let ?a = "kAddress K key"
  from dial obtain c1 where c1: "ndDial N c = (Inr (), c1)" "pending c1 = pending c" "funds c1 = funds c"
    by blast
  from balance_at obtain c2 where c2: "ndBalance N ?a c1 = (Inr (funds c ?a), c2)"
    "pending c2 = pending c" "funds c2 = funds c" using c1 by metis
  from nonce_at obtain c3 where c3: "ndNonce N ?a c2 = (Inr (pending c ?a), c3)"
    "pending c3 = pending c" "funds c3 = funds c" using c2 by metis
  from gas_price obtain c4 where c4: "ndGasPrice N c3 = (Inr price, c4)"
    "pending c4 = pending c" "funds c4 = funds c" using c3 by metis
  have "0 \<le> int (length wallets) * (21000 * price)" using price_nonneg by simp
  then have "amountWei * int (length wallets) \<le> funds c ?a"
    using enough by (simp add: algebra_simps)
  then have ok: "\<not> funds c ?a < amountWei * int (length wallets)" by simp
  from fund_loop_completes [OF assms(1,7), of c4 "pending c ?a" wallets L "[]" 0 0] enough c4
  obtain as c' where "fund_loop L K N key (ff_chainID f) amountWei price wallets [] (pending c ?a) 0 0 c4 =
    (FundDone as (length wallets) 0, c')" by auto
  then show ?thesis
    using assms ok c1 c2 c3 c4 by (simp add: runFund_def fund_with_key_def attempt_def Let_def)
qed

end

end
