(* ===== verification/Claim.thy ===== *)
theory Claim
  imports Chain
begin

section \<open>Claiming rewards (claim.go)\<close>

text \<open>
  \<open>runClaim\<close> asks the reward contract how much the wallet can claim and, unless that is nothing
  or the run is dry, sends one \<open>claim()\<close> transaction and polls for its receipt. The contract's
  ABI (go-ethereum's \<open>abi\<close> package) is a record: packing the two calls and unpacking the answer.
\<close>

definition iotexMainnetRPC :: string where "iotexMainnetRPC = ''https://babel-api.mainnet.iotex.io''"

definition iotexMainnetChainID :: int where "iotexMainnetChainID = 4689"
definition iotexTestnetChainID :: int where "iotexTestnetChainID = 4690"

record pool_abi =
  abPackClaimable :: "address \<Rightarrow> string + bytes"
  abUnpackClaimable :: "bytes \<Rightarrow> string + int"
  abPackClaim :: "string + bytes"

datatype claim_exit =
    ClaimNoContract
  | ClaimNoKey
  | ClaimNoKeyDryRun
  | ClaimBadKey string
  | ClaimConnect string
  | ClaimPack string
  | ClaimCall string
  | ClaimUnpack string
  | ClaimPackClaim string
  | ClaimNonce string
  | ClaimGasPrice string
  | ClaimSign string
  | ClaimSend string
  | ClaimReverted nat

datatype claim_result =
    ClaimExit claim_exit
  | NothingToClaim
  | ClaimDry string
  | Claimed string nat nat
  | ClaimUnconfirmed hash

record claimFlags =
  cf_contract :: string
  cf_privateKey :: string
  cf_chainID :: int
  cf_dryRun :: bool

definition default_claim_flags :: claimFlags where
  "default_claim_flags =
     \<lparr>cf_contract = [], cf_privateKey = [], cf_chainID = iotexMainnetChainID, cf_dryRun = False\<rparr>"

definition claim_env :: "(string \<Rightarrow> string) \<Rightarrow> claimFlags \<Rightarrow> claimFlags" where
  "claim_env getenv f =
     f\<lparr>cf_privateKey := (if cf_privateKey f = [] then getenv ''IOSWARM_PRIVATE_KEY'' else cf_privateKey f),
       cf_contract := (if cf_contract f = [] then getenv ''IOSWARM_REWARD_CONTRACT'' else cf_contract f)\<rparr>"

definition claim_tx :: "u64 \<Rightarrow> address \<Rightarrow> int \<Rightarrow> bytes \<Rightarrow> legacyTx" where
  "claim_tx nonce contract gasPrice calldata =
     \<lparr>ltNonce = nonce, ltTo = Some contract, ltValue = 0, ltGas = 200000, ltGasPrice = gasPrice,
      ltData = calldata\<rparr>"

text \<open>Waiting for the receipt: thirty polls, two seconds apart.\<close>

definition claim_wait :: "('c, 's) node \<Rightarrow> hash \<Rightarrow> int \<Rightarrow> 'c \<Rightarrow> claim_result \<times> 'c" where
  "claim_wait N txHash claimable c =
     (case poll_receipt N txHash 30 c of
        (None, c') \<Rightarrow> (ClaimUnconfirmed txHash, c')
      | (Some r, c') \<Rightarrow>
          (if rcStatus r = 1 then Claimed (weiToIOTX claimable) (rcBlockNumber r) (unat (rcGasUsed r))
           else ClaimExit (ClaimReverted (unat (rcGasUsed r))), c'))"

text \<open>Sending the transaction, once the amount is known.\<close>

definition send_claim ::
  "('k, 's) keylib \<Rightarrow> ('c, 's) node \<Rightarrow> pool_abi \<Rightarrow> claimFlags \<Rightarrow> address \<Rightarrow> 'k \<Rightarrow> int \<Rightarrow> 'c \<Rightarrow> claim_result \<times> 'c" where
  "send_claim K N A f contract key claimable c =
     (case abPackClaim A of
        Inl e \<Rightarrow> (ClaimExit (ClaimPackClaim e), c)
      | Inr calldata \<Rightarrow>
          attempt (ndNonce N (kAddress K key)) (\<lambda>e. ClaimExit (ClaimNonce e)) (\<lambda>nonce.
          attempt (ndGasPrice N) (\<lambda>e. ClaimExit (ClaimGasPrice e)) (\<lambda>gasPrice c.
            case kSign K (claim_tx nonce contract gasPrice calldata) (cf_chainID f) key of
              Inl e \<Rightarrow> (ClaimExit (ClaimSign e), c)
            | Inr signedTx \<Rightarrow>
                attempt (ndSend N signedTx) (\<lambda>e. ClaimExit (ClaimSend e)) (\<lambda>_.
                  claim_wait N (kHash K signedTx) claimable) c)) c)"

text \<open>Asking for the amount, and the two reasons to stop after it.\<close>

definition claim_with_key ::
  "('k, 's) keylib \<Rightarrow> ('c, 's) node \<Rightarrow> pool_abi \<Rightarrow> claimFlags \<Rightarrow> address \<Rightarrow> 'k \<Rightarrow> 'c \<Rightarrow> claim_result \<times> 'c" where
  "claim_with_key K N A f contract key c =
     (case abPackClaimable A (kAddress K key) of
        Inl e \<Rightarrow> (ClaimExit (ClaimPack e), c)
      | Inr claimableData \<Rightarrow>
          attempt (ndCall N contract claimableData) (\<lambda>e. ClaimExit (ClaimCall e)) (\<lambda>answer c.
            case abUnpackClaimable A answer of
              Inl e \<Rightarrow> (ClaimExit (ClaimUnpack e), c)
            | Inr claimable \<Rightarrow>
                if claimable = 0 then (NothingToClaim, c)
                else if cf_dryRun f then (ClaimDry (weiToIOTX claimable), c)
                else send_claim K N A f contract key claimable c) c)"

definition runClaim ::
  "ethlib \<Rightarrow> ('k, 's) keylib \<Rightarrow> ('c, 's) node \<Rightarrow> pool_abi \<Rightarrow> (string \<Rightarrow> string) \<Rightarrow> claimFlags \<Rightarrow> 'c \<Rightarrow>
   claim_result \<times> 'c" where
  "runClaim L K N A getenv f0 c =
     (let f = claim_env getenv f0 in
      if cf_contract f = [] then (ClaimExit ClaimNoContract, c)
      else if cf_privateKey f = [] \<and> \<not> cf_dryRun f then (ClaimExit ClaimNoKey, c)
      else
        attempt (ndDial N) (\<lambda>e. ClaimExit (ClaimConnect e)) (\<lambda>_ c.
          if cf_privateKey f \<noteq> [] then
            (case kHexToECDSA K (trim_prefix (cf_privateKey f) ''0x'') of
               Inl e \<Rightarrow> (ClaimExit (ClaimBadKey e), c)
             | Inr key \<Rightarrow> claim_with_key K N A f (HexToAddress L (cf_contract f)) key c)
          else (ClaimExit ClaimNoKeyDryRun, c)) c)"

subsection \<open>At most one transaction\<close>

lemma claim_wait_log: "snd (snd (claim_wait (logged N) h v c)) = snd c"
  using poll_receipt_log [of N h 30 c] by (auto simp: claim_wait_def split: prod.splits option.splits)

text \<open>The one transaction a run may send, with the node's answers it is made of.\<close>

definition claim_sent ::
  "('k, 's) keylib \<Rightarrow> ('c, 's) node \<Rightarrow> pool_abi \<Rightarrow> claimFlags \<Rightarrow> address \<Rightarrow> 'k \<Rightarrow> 's \<Rightarrow> bool" where
  "claim_sent K N A f contract key s \<longleftrightarrow>
     (\<exists>nonce gasPrice calldata c1 c2 c3 c4. abPackClaim A = Inr calldata \<and>
        ndNonce N (kAddress K key) c1 = (Inr nonce, c2) \<and> ndGasPrice N c3 = (Inr gasPrice, c4) \<and>
        kSign K (claim_tx nonce contract gasPrice calldata) (cf_chainID f) key = Inr s)"

lemma send_claim_log:
  assumes "send_claim K (logged N) A f contract key claimable (c, []) = (r, c', l)"
  shows "l = [] \<or> (\<exists>s. l = [s] \<and> claim_sent K N A f contract key s)"
proof -
  have wait: "claim_wait (logged N) h v (d, l1) = (r, c', l) \<Longrightarrow> l = l1" for h v d l1
    using claim_wait_log [of N h v "(d, l1)"] by simp
  from assms show ?thesis
    by (auto simp: send_claim_def claim_sent_def attempt_lift attempt_def lift_call_eq dest!: wait
        split: sum.splits prod.splits) blast+
qed

lemma claim_with_key_log:
  assumes "claim_with_key K (logged N) A f contract key (c, []) = (r, c', l)"
  shows "l = [] \<or> (\<exists>s answer v c1 c2 d. l = [s] \<and> claim_sent K N A f contract key s \<and> \<not> cf_dryRun f \<and>
    abPackClaimable A (kAddress K key) = Inr d \<and> ndCall N contract d c1 = (Inr answer, c2) \<and>
    abUnpackClaimable A answer = Inr v \<and> v \<noteq> 0)"
  using assms
  by (auto simp: claim_with_key_def attempt_lift lift_call_eq dest!: send_claim_log
      split: sum.splits prod.splits if_splits)

lemma runClaim_log:
  assumes "runClaim L K (logged N) A getenv f0 (c, []) = (r, c', l)"
    and "f = claim_env getenv f0"
  shows "l = [] \<or> (\<exists>s key answer v c1 c2 d. l = [s] \<and> \<not> cf_dryRun f0 \<and>
    kHexToECDSA K (trim_prefix (cf_privateKey f) ''0x'') = Inr key \<and>
    claim_sent K N A f (HexToAddress L (cf_contract f)) key s \<and>
    abPackClaimable A (kAddress K key) = Inr d \<and>
    ndCall N (HexToAddress L (cf_contract f)) d c1 = (Inr answer, c2) \<and>
    abUnpackClaimable A answer = Inr v \<and> v \<noteq> 0)"
proof -
  have env: "cf_dryRun (claim_env getenv f0) = cf_dryRun f0" by (simp add: claim_env_def)
  from assms show ?thesis
    by (auto simp: runClaim_def attempt_lift Let_def env lift_call_eq dest!: claim_with_key_log
        split: sum.splits prod.splits if_splits) blast+
qed

text \<open>The command that ends with nothing to claim or a dry run has sent nothing.\<close>

lemma claim_dry_log:
  assumes "runClaim L K (logged N) A getenv f (c, []) = (r, c', l)"
    and "r = NothingToClaim \<or> (\<exists>v. r = ClaimDry v)"
  shows "l = []"
proof -
  have wait: "claim_wait (logged N) h v d = (r, c', l) \<Longrightarrow> False" for h v d
    using assms(2) by (auto simp: claim_wait_def split: prod.splits option.splits if_splits)
  from assms show ?thesis
    by (auto simp: runClaim_def claim_with_key_def send_claim_def attempt_lift attempt_def Let_def lift_call_eq
        dest!: wait split: sum.splits prod.splits if_splits)
qed

subsection \<open>The receipt\<close>

text \<open>
  Once the transaction is sent, the command reports the first receipt it finds, and it reports
  none only when all thirty polls failed.
\<close>

lemma claim_wait_receipt:
  assumes "k < 30" and "\<And>j. j < k \<Longrightarrow> no_receipt N h c j"
    and "fst (ndReceipt N h (polled N h k c)) = Inr r"
  shows "fst (claim_wait N h v c) =
    (if rcStatus r = 1 then Claimed (weiToIOTX v) (rcBlockNumber r) (unat (rcGasUsed r))
     else ClaimExit (ClaimReverted (unat (rcGasUsed r))))"
  using poll_receipt_first [OF assms] by (auto simp: claim_wait_def)

lemma runClaim_unconfirmed:
  assumes "runClaim L K N A getenv f c = (ClaimUnconfirmed h, c')"
  shows "\<exists>c1. \<forall>j < 30. no_receipt N h c1 j"
proof -
  have wait: "claim_wait N h' v d = (ClaimUnconfirmed h, c') \<Longrightarrow> \<exists>c1. \<forall>j < 30. no_receipt N h c1 j" for h' v d
    using poll_receipt_none [of N h' 30 d] by (auto simp: claim_wait_def split: prod.splits option.splits if_splits)
  from assms show ?thesis
    by (auto simp: runClaim_def claim_with_key_def send_claim_def attempt_def Let_def
        dest!: wait split: sum.splits prod.splits if_splits)
qed

end
