(* ===== verification/Deploy.thy ===== *)
theory Deploy
  imports Chain
begin

section \<open>Deploying the reward contract (deploy.go)\<close>

text \<open>
  \<open>runDeploy\<close> sends one contract creation: the contract's bytecode followed by the coordinator's
  address, padded to 32 bytes, as its constructor argument.
\<close>

definition rewardPoolBytecode :: string where
  "rewardPoolBytecode = concat
    [''6080604052348015600e575f5ffd5b5060405161108b38038061108b833981016040819052602b91609a565b60'',
     ''01600160a01b03811660775760405162461bcd60e51b815260206004820152601060248201526f3d32b9379031'',
     ''b7b7b93234b730ba37b960811b604482015260640160405180910390fd5b5f80546001600160a01b0319166001'',
     ''600160a01b039290921691909117905560c5565b5f6020828403121560a9575f5ffd5b81516001600160a01b03'',
     ''8116811460be575f5ffd5b9392505050565b610fb9806100d25f395ff3fe60806040526004361061009d575f35'',
     ''60e01c80634e71d92d116100625780634e71d92d146101595780638ea981171461016d57806396c82e57146101'',
     ''8c578063ddeae033146101a1578063e030639e146101c0578063fd66091e146101d3575f5ffd5b806303107da7'',
     ''146100a85780630a009097146100c9578063228451d6146101045780632ecbfbc914610117578063402914f514'',
     ''61013a575f5ffd5b366100a457005b5f5ffd5b3480156100b3575f5ffd5b506100c76100c2366004610d60565b'',
     ''610228565b005b3480156100d4575f5ffd5b505f546100e7906001600160a01b031681565b6040516001600160'',
     ''a01b0390911681526020015b60405180910390f35b6100c7610112366004610d9f565b6103f1565b3480156101'',
     ''22575f5ffd5b5061012c60015481565b6040519081526020016100fb565b348015610145575f5ffd5b5061012c'',
     ''610154366004610e3e565b610824565b348015610164575f5ffd5b506100c761088e565b348015610178575f5f'',
     ''fd5b506100c7610187366004610e3e565b610899565b348015610197575f5ffd5b5061012c60025481565b3480'',
     ''156101ac575f5ffd5b506100c76101bb366004610e3e565b610928565b6100c76101ce366004610e64565b6109'',
     ''34565b3480156101de575f5ffd5b5061020d6101ed366004610e3e565b60036020525f90815260409020805460'',
     ''0182015460029092015490919083565b604080519384526020840192909252908201526060016100fb565b5f5b'',
     ''818110156103ec575f60035f85858581811061024857610248610ed0565b905060200201602081019061025d91'',
     ''90610e3e565b6001600160a01b0316815260208101919091526040015f208054909150156102d257670de0b6b3'',
     ''a7640000815f0154826001015460015461029e9190610ef8565b6102a89190610f11565b6102b29190610f2856'',
     ''5b816002015f8282546102c49190610f47565b909155505060018054908201555b80600201545f036102e35750'',
     ''6103e4565b6002810180545f918290559085858581811061030157610301610ed0565b90506020020160208101'',
     ''906103169190610e3e565b6001600160a01b0316826040515f6040518083038185875af1925050503d805f8114'',
     ''61035d576040519150601f19603f3d011682016040523d82523d5f602084013e610362565b606091505b505090'',
     ''508061037757506002909101556103e4565b85858581811061038957610389610ed0565b905060200201602081'',
     ''019061039e9190610e3e565b6001600160a01b03167fd8138f8a3f377c5259ca548e70e4c2de94f129f5a11036'',
     ''a15b69513cba2b426a836040516103d891815260200190565b60405180910390a25050505b60010161022a565b'',
     ''505050565b5f546001600160a01b031633146104235760405162461bcd60e51b815260040161041a90610f5a56'',
     ''5b60405180910390fd5b8483146104645760405162461bcd60e51b815260206004820152600f60248201526e0d'',
     ''8cadccee8d040dad2e6dac2e8c6d608b1b604482015260640161041a565b5f60025411801561047457505f3411'',
     ''5b156104ae5760025461048e34670de0b6b3a7640000610f11565b6104989190610f28565b60015f8282546104'',
     ''a89190610f47565b90915550505b5f5b85811015610609575f60035f8989858181106104ce576104ce610ed056'',
     ''5b90506020020160208101906104e39190610e3e565b6001600160a01b0316815260208101919091526040015f'',
     ''2080549091501561055057670de0b6b3a7640000815f015482600101546001546105249190610ef8565b61052e'',
     ''9190610f11565b6105389190610f28565b816002015f82825461054a9190610f47565b90915550505b60018054'',
     ''9082015580545f87878581811061056d5761056d610ed0565b9050602002013590508082600254610585919061'',
     ''0ef8565b61058f9190610f47565b6002558083558989858181106105a7576105a7610ed0565b90506020020160'',
     ''208101906105bc9190610e3e565b6001600160a01b03167fbaef45cead810df032ca6f6dc22d0fa78f7bc08a3e'',
     ''2f3177cfe2f37f4b08071a826040516105f691815260200190565b60405180910390a25050506001016104b056'',
     ''5b5060408051348152602081018790527ff5b268a3ff315cc44ccceeef86259c9e8eef81ceecb1400154380911'',
     ''5380dd62910160405180910390a15f5b8181101561081b575f60035f85858581811061066357610663610ed056'',
     ''5b90506020020160208101906106789190610e3e565b6001600160a01b0316815260208101919091526040015f'',
     ''208054909150158015906106a95750600154816001015414155b1561070157670de0b6b3a7640000815f015482'',
     ''600101546001546106cd9190610ef8565b6106d79190610f11565b6106e19190610f28565b816002015f828254'',
     ''6106f39190610f47565b909155505060018054908201555b80600201545f036107125750610813565b60028101'',
     ''80545f918290559085858581811061073057610730610ed0565b90506020020160208101906107459190610e3e'',
     ''565b6001600160a01b0316826040515f6040518083038185875af1925050503d805f811461078c576040519150'',
     ''601f19603f3d011682016040523d82523d5f602084013e610791565b606091505b50509050806107a657506002'',
     ''90910155610813565b8585858181106107b8576107b8610ed0565b90506020020160208101906107cd9190610e'',
     ''3e565b6001600160a01b03167fd8138f8a3f377c5259ca548e70e4c2de94f129f5a11036a15b69513cba2b426a'',
     ''8360405161080791815260200190565b60405180910390a25050505b600101610645565b50505050505050565b'',
     ''6001600160a01b0381165f908152600360205260408120600281015481541561088757670de0b6b3a764000082'',
     ''5f015483600101546001546108669190610ef8565b6108709190610f11565b61087a9190610f28565b61088490'',
     ''82610f47565b90505b9392505050565b61089733610b83565b565b5f546001600160a01b031633146108c25760'',
     ''405162461bcd60e51b815260040161041a90610f5a565b6001600160a01b0381166109075760405162461bcd60'',
     ''e51b815260206004820152600c60248201526b7a65726f206164647265737360a01b604482015260640161041a'',
     ''565b5f80546001600160a01b0319166001600160a01b0392909216919091179055565b61093181610b83565b50'',
     ''565b5f546001600160a01b0316331461095d5760405162461bcd60e51b815260040161041a90610f5a565b8281'',
     ''1461099e5760405162461bcd60e51b815260206004820152600f60248201526e0d8cadccee8d040dad2e6dac2e'',
     ''8c6d608b1b604482015260640161041a565b5f6002541180156109ae57505f34115b156109e8576002546109c8'',
     ''34670de0b6b3a7640000610f11565b6109d29190610f28565b60015f8282546109e29190610f47565b90915550'',
     ''505b5f5b83811015610b43575f60035f878785818110610a0857610a08610ed0565b9050602002016020810190'',
     ''610a1d9190610e3e565b6001600160a01b0316815260208101919091526040015f20805490915015610a8a5767'',
     ''0de0b6b3a7640000815f01548260010154600154610a5e9190610ef8565b610a689190610f11565b610a729190'',
     ''610f28565b816002015f828254610a849190610f47565b90915550505b600180549082015580545f8585858181'',
     ''10610aa757610aa7610ed0565b9050602002013590508082600254610abf9190610ef8565b610ac99190610f47'',
     ''565b600255808355878785818110610ae157610ae1610ed0565b9050602002016020810190610af69190610e3e'',
     ''565b6001600160a01b03167fbaef45cead810df032ca6f6dc22d0fa78f7bc08a3e2f3177cfe2f37f4b08071a82'',
     ''604051610b3091815260200190565b60405180910390a25050506001016109ea565b5060408051348152602081'',
     ''018590527ff5b268a3ff315cc44ccceeef86259c9e8eef81ceecb14001543809115380dd629101604051809103'',
     ''90a150505050565b6001600160a01b0381165f908152600360205260409020805415610bf457670de0b6b3a764'',
     ''0000815f015482600101546001546108669190610ef8565b610bca9190610f11565b610bd49190610f28565b81'',
     ''6002015f828254610be69190610f47565b909155505060018054908201555b600281015480610c395760405162'',
     ''461bcd60e51b815260206004820152601060248201526f6e6f7468696e6720746f20636c61696d60801b604482'',
     ''015260640161041a565b5f600283018190556040516001600160a01b0385169083908381818185875af1925050'',
     ''503d805f8114610c87576040519150601f19603f3d011682016040523d82523d5f602084013e610c8c565b6060'',
     ''91505b5050905080610ccf5760405162461bcd60e51b815260206004820152600f60248201526e1d1c985b9cd9'',
     ''995c8819985a5b1959608a1b604482015260640161041a565b836001600160a01b03167fd8138f8a3f377c5259'',
     ''ca548e70e4c2de94f129f5a11036a15b69513cba2b426a83604051610d0a91815260200190565b604051809103'',
     ''90a250505050565b5f5f83601f840112610d28575f5ffd5b50813567ffffffffffffffff811115610d3f575f5f'',
     ''fd5b6020830191508360208260051b8501011115610d59575f5ffd5b9250929050565b5f5f6020838503121561'',
     ''0d71575f5ffd5b823567ffffffffffffffff811115610d87575f5ffd5b610d9385828601610d18565b90969095'',
     ''509350505050565b5f5f5f5f5f5f60608789031215610db4575f5ffd5b863567ffffffffffffffff811115610d'',
     ''ca575f5ffd5b610dd689828a01610d18565b909750955050602087013567ffffffffffffffff811115610df557'',
     ''5f5ffd5b610e0189828a01610d18565b909550935050604087013567ffffffffffffffff811115610e20575f5f'',
     ''fd5b610e2c89828a01610d18565b979a9699509497509295939492505050565b5f60208284031215610e4e575f'',
     ''5ffd5b81356001600160a01b0381168114610887575f5ffd5b5f5f5f5f60408587031215610e77575f5ffd5b84'',
     ''3567ffffffffffffffff811115610e8d575f5ffd5b610e9987828801610d18565b909550935050602085013567'',
     ''ffffffffffffffff811115610eb8575f5ffd5b610ec487828801610d18565b95989497509550505050565b634e'',
     ''487b7160e01b5f52603260045260245ffd5b634e487b7160e01b5f52601160045260245ffd5b81810381811115'',
     ''610f0b57610f0b610ee4565b92915050565b8082028115828204841417610f0b57610f0b610ee4565b5f82610f'',
     ''4257634e487b7160e01b5f52601260045260245ffd5b500490565b80820180821115610f0b57610f0b610ee456'',
     ''5b6020808252600f908201526e3737ba1031b7b7b93234b730ba37b960891b60408201526060019056fea26469'',
     ''706673582212202a8ae5c6e8b518515efcd0fac7b81be62480af330a3206e03e7f30b4df84a08664736f6c6343'',
     ''0008220033'']"

text \<open>\<open>hex.DecodeString\<close> with its error dropped: the bytes before the first bad pair.\<close>

fun hex_decode_prefix :: "string \<Rightarrow> bytes" where
  "hex_decode_prefix (h # l # cs) =
     (case hexVal h of Inl e \<Rightarrow> [] | Inr hi \<Rightarrow>
      (case hexVal l of Inl e \<Rightarrow> [] | Inr lo \<Rightarrow> or (push_bit 4 hi) lo # hex_decode_prefix cs))"
| "hex_decode_prefix cs = []"

datatype deploy_exit =
    DeployNoKey
  | DeployNoCoordinator
  | DeployBadKey string
  | DeployConnect string
  | DeployBalance string
  | DeployZeroBalance
  | DeployNonce string
  | DeployGasPrice string
  | DeploySign string
  | DeploySend string
  | DeployReverted u64

datatype deploy_result =
    DeployExit deploy_exit
  | Deployed address address nat u64 hash
  | DeployUnconfirmed hash

record deployFlags =
  df_privateKey :: string
  df_coordinator :: string
  df_chainID :: int

definition deploy_data :: "ethlib \<Rightarrow> address \<Rightarrow> bytes" where
  "deploy_data L coordinator =
     hex_decode_prefix rewardPoolBytecode @ LeftPadBytes L (addr_bytes coordinator) 32"

text \<open>The estimate plus a buffer of 30 percent, in 64 bits; 1500000 without an estimate.\<close>

definition deploy_gas :: "string + u64 \<Rightarrow> u64" where
  "deploy_gas estimate = (case estimate of Inl e \<Rightarrow> 1500000 | Inr g \<Rightarrow> g * 130 div 100)"

definition deploy_tx :: "u64 \<Rightarrow> u64 \<Rightarrow> int \<Rightarrow> bytes \<Rightarrow> legacyTx" where
  "deploy_tx nonce gasLimit gasPrice deployData =
     \<lparr>ltNonce = nonce, ltTo = None, ltValue = 0, ltGas = gasLimit, ltGasPrice = gasPrice,
      ltData = deployData\<rparr>"

definition deploy_wait :: "('c, 's) node \<Rightarrow> hash \<Rightarrow> address \<Rightarrow> 'c \<Rightarrow> deploy_result \<times> 'c" where
  "deploy_wait N txHash coordinator c =
     (case poll_receipt N txHash 60 c of
        (None, c') \<Rightarrow> (DeployUnconfirmed txHash, c')
      | (Some r, c') \<Rightarrow>
          (if rcStatus r = 0 then DeployExit (DeployReverted (rcGasUsed r))
           else Deployed (rcContractAddress r) coordinator (rcBlockNumber r) (rcGasUsed r) txHash, c'))"

definition deploy_with_key ::
  "ethlib \<Rightarrow> ('k, 's) keylib \<Rightarrow> ('c, 's) node \<Rightarrow> deployFlags \<Rightarrow> 'k \<Rightarrow> 'c \<Rightarrow> deploy_result \<times> 'c" where
  "deploy_with_key L K N f key =
     (let fromAddress = kAddress K key;
          coordinator = HexToAddress L (df_coordinator f);
          deployData = deploy_data L coordinator in
      attempt (ndDial N) (\<lambda>e. DeployExit (DeployConnect e)) (\<lambda>_.
      attempt (ndBalance N fromAddress) (\<lambda>e. DeployExit (DeployBalance e)) (\<lambda>bal c.
        if bal = 0 then (DeployExit DeployZeroBalance, c)
        else
          attempt (ndNonce N fromAddress) (\<lambda>e. DeployExit (DeployNonce e)) (\<lambda>nonce.
          attempt (ndGasPrice N) (\<lambda>e. DeployExit (DeployGasPrice e)) (\<lambda>gasPrice c.
            case ndEstimate N fromAddress deployData c of
              (estimate, c) \<Rightarrow>
                (case kSign K (deploy_tx nonce (deploy_gas estimate) gasPrice deployData) (df_chainID f) key of
                   Inl e \<Rightarrow> (DeployExit (DeploySign e), c)
                 | Inr signedTx \<Rightarrow>
                     attempt (ndSend N signedTx) (\<lambda>e. DeployExit (DeploySend e)) (\<lambda>_.
                       deploy_wait N (kHash K signedTx) coordinator) c))) c)))"

definition runDeploy ::
  "ethlib \<Rightarrow> ('k, 's) keylib \<Rightarrow> ('c, 's) node \<Rightarrow> (string \<Rightarrow> string) \<Rightarrow> deployFlags \<Rightarrow> 'c \<Rightarrow> deploy_result \<times> 'c" where
  "runDeploy L K N getenv f c =
     (let privateKey = (if df_privateKey f = [] then getenv ''IOSWARM_PRIVATE_KEY'' else df_privateKey f)
      in if privateKey = [] then (DeployExit DeployNoKey, c)
         else if df_coordinator f = [] then (DeployExit DeployNoCoordinator, c)
         else (case kHexToECDSA K (trim_prefix privateKey ''0x'') of
                 Inl e \<Rightarrow> (DeployExit (DeployBadKey e), c)
               | Inr key \<Rightarrow> deploy_with_key L K N f key c))"

subsection \<open>What is sent\<close>

text \<open>The constructor's argument is the last word of the data, and holds the coordinator.\<close>

context ethlib_laws
begin

lemma deploy_data_argument:
  "drop (length (hex_decode_prefix rewardPoolBytecode)) (deploy_data L a) = replicate 12 0 @ addr_bytes a"
  by (simp add: deploy_data_def left_pad)

end

text \<open>Below \<open>2 ^ 64 / 130\<close> the buffer does not wrap, and the limit is not below the estimate.\<close>

lemma deploy_gas_bounds:
  assumes "130 * unat g < 2 ^ 64"
  shows "unat (deploy_gas (Inr g)) = unat g * 130 div 100" and "g \<le> deploy_gas (Inr g)"
proof -
  have "unat (g * 130) = unat g * 130" using assms by (simp add: unat_word_ariths)
  then show *: "unat (deploy_gas (Inr g)) = unat g * 130 div 100"
    by (simp add: deploy_gas_def unat_div)
  have "unat g \<le> unat g * 130 div 100" by linarith
  with * show "g \<le> deploy_gas (Inr g)" by (simp add: word_le_nat_alt)
qed

lemma deploy_wait_log: "snd (snd (deploy_wait (logged N) h a c)) = snd c"
  using poll_receipt_log [of N h 60 c] by (auto simp: deploy_wait_def split: prod.splits option.splits)

definition deploy_sent :: "ethlib \<Rightarrow> ('k, 's) keylib \<Rightarrow> ('c, 's) node \<Rightarrow> deployFlags \<Rightarrow> 'k \<Rightarrow> 's \<Rightarrow> bool" where
  "deploy_sent L K N f key s \<longleftrightarrow>
     (\<exists>nonce gasPrice estimate c1 c2 c3 c4 c5 c6.
        ndNonce N (kAddress K key) c1 = (Inr nonce, c2) \<and> ndGasPrice N c3 = (Inr gasPrice, c4) \<and>
        ndEstimate N (kAddress K key) (deploy_data L (HexToAddress L (df_coordinator f))) c5 = (estimate, c6) \<and>
        kSign K (deploy_tx nonce (deploy_gas estimate) gasPrice
          (deploy_data L (HexToAddress L (df_coordinator f)))) (df_chainID f) key = Inr s)"

lemma deploy_with_key_log:
  assumes "deploy_with_key L K (logged N) f key (c, []) = (r, c', l)"
  shows "l = [] \<or> (\<exists>s. l = [s] \<and> deploy_sent L K N f key s)"
proof -
  have wait: "deploy_wait (logged N) h v (d, l1) = (r, c', l) \<Longrightarrow> l = l1" for h v d l1
    using deploy_wait_log [of N h v "(d, l1)"] by simp
  from assms show ?thesis
    by (auto simp: deploy_with_key_def deploy_sent_def Let_def attempt_lift attempt_def lift_call_eq
        dest!: wait split: sum.splits prod.splits if_splits) blast+
qed

lemma runDeploy_log:
  assumes "runDeploy L K (logged N) getenv f (c, []) = (r, c', l)"
  shows "l = [] \<or> (\<exists>s key. l = [s] \<and> deploy_sent L K N f key s)"
  using assms by (auto simp: runDeploy_def Let_def dest!: deploy_with_key_log split: if_splits sum.splits)

end
