(* ===== verification/Keys.thy ===== *)
theory Keys
  imports Chain OsFiles
begin

section \<open>Wallet keys (keygen.go)\<close>

text \<open>
  \<open>runKeygen\<close> writes a new key and its address to files or prints the key; \<open>runAddr\<close> reads a key
  file and prints its address.
\<close>

datatype keygen_exit = KeyGenerate string | KeyWrite string | KeyWriteAddr string

text \<open>What is printed on the standard output, the address printed on the error output, the files.\<close>

definition runKeygen ::
  "ethlib \<Rightarrow> ('k, 's) keylib \<Rightarrow> (string \<Rightarrow> string option) \<Rightarrow> string + 'k \<Rightarrow> string \<Rightarrow> string \<Rightarrow> files \<Rightarrow>
   (keygen_exit + string \<times> string) \<times> files" where
  "runKeygen L K deny generated outKey outAddr fs =
     (case generated of
        Inl e \<Rightarrow> (Inl (KeyGenerate e), fs)
      | Inr key \<Rightarrow>
          let privHex = hex_of (kFromECDSA K key);
              addr = AddressHex L (kAddress K key)
          in (case (if outKey \<noteq> [] then write_file deny fs outKey (privHex @ newline_str) else Inr fs) of
                Inl e \<Rightarrow> (Inl (KeyWrite e), fs)
              | Inr fs \<Rightarrow>
                  (case (if outAddr \<noteq> [] then write_file deny fs outAddr (addr @ newline_str) else Inr fs) of
                     Inl e \<Rightarrow> (Inl (KeyWriteAddr e), fs)
                   | Inr fs \<Rightarrow> (Inr (if outKey = [] then privHex @ newline_str else [], addr), fs))))"

datatype addr_exit = AddrNoKey | AddrRead | AddrBadKey string

definition runAddr :: "ethlib \<Rightarrow> ('k, 's) keylib \<Rightarrow> files \<Rightarrow> string \<Rightarrow> addr_exit + string" where
  "runAddr L K fs keyFile =
     (if keyFile = [] then Inl AddrNoKey
      else (case fs keyFile of
              None \<Rightarrow> Inl AddrRead
            | Some data \<Rightarrow>
                let hexKey = trim_prefix (trim_space data) ''0x'' in
                (case kHexToECDSA K hexKey of
                   Inl e \<Rightarrow> Inl (AddrBadKey e)
                 | Inr key \<Rightarrow> Inr (AddressHex L (kAddress K key)))))"

subsection \<open>Reading a generated key back\<close>

lemma hex_digit_char: "c \<in> set (hex_of b) \<Longrightarrow> is_hex c"
proof -
  have "is_ok (hex_pairs (hex_of b))" by (simp add: hex_pairs_hex_of)
  moreover have "even (length (hex_of b))" by simp
  ultimately have "list_all is_hex (hex_of b)" using hex_pairs_ok by blast
  then show "c \<in> set (hex_of b) \<Longrightarrow> is_hex c" by (simp add: list_all_iff)
qed

lemma is_hex_not: "is_hex c \<Longrightarrow> \<not> is_space c \<and> c \<noteq> CHR ''x''"
  by (auto simp: is_hex_def hexVal_def is_space_def Let_def split: if_splits)

lemma trim_space_line: "(\<And>c. c \<in> set s \<Longrightarrow> \<not> is_space c) \<Longrightarrow> trim_space (s @ newline_str) = s"
proof -
  assume s: "\<And>c. c \<in> set s \<Longrightarrow> \<not> is_space c"
  have keep: "dropWhile is_space t = t" if "\<And>c. c \<in> set t \<Longrightarrow> \<not> is_space c" for t
    using that by (cases t) auto
  have nl: "is_space (CHR 0x0A)" by (simp add: is_space_def)
  show ?thesis
  proof (cases s)
    case Nil
    then show ?thesis by (simp add: trim_space_def newline_str_def nl)
  next
    case (Cons x xs)
    then have "dropWhile is_space (s @ newline_str) = s @ newline_str" using s by simp
    moreover have "dropWhile is_space (rev (s @ newline_str)) = rev s"
      using keep [of "rev s"] s by (simp add: newline_str_def nl)
    ultimately show ?thesis by (simp add: trim_space_def)
  qed
qed

lemma trim_prefix_hex: "trim_prefix (hex_of b) ''0x'' = hex_of b"
proof -
  have "\<not> has_prefix (hex_of b) ''0x''"
  proof
    assume "has_prefix (hex_of b) ''0x''"
    then have "CHR ''x'' \<in> set (hex_of b)" by (auto simp: has_prefix_iff)
    then show False using hex_digit_char is_hex_not by blast
  qed
  then show ?thesis by (simp add: trim_prefix_def)
qed

context key_laws
begin

lemma runAddr_hex:
  assumes "valid_key k" and "fs p = Some (hex_of (kFromECDSA K k) @ newline_str)" and "p \<noteq> []"
  shows "runAddr L K fs p = Inr (AddressHex L (kAddress K k))"
proof -
  have "trim_space (hex_of (kFromECDSA K k) @ newline_str) = hex_of (kFromECDSA K k)"
    by (rule trim_space_line) (use hex_digit_char is_hex_not in blast)
  then show ?thesis
    using assms by (simp add: runAddr_def Let_def trim_prefix_hex key_round_trip)
qed

lemma runKeygen_addr:
  assumes "valid_key k" and "runKeygen L K deny (Inr k) outKey outAddr fs = (Inr (out, addr), fs')"
    and "outKey \<noteq> []" and "outKey \<noteq> outAddr"
  shows "runAddr L K fs' outKey = Inr addr" and "outAddr \<noteq> [] \<Longrightarrow> fs' outAddr = Some (addr @ newline_str)"
    and "out = []" and "\<And>p. p \<notin> {outKey, outAddr} \<Longrightarrow> fs' p = fs p"
proof -
  have fs': "fs' outKey = Some (hex_of (kFromECDSA K k) @ newline_str)"
    and addr: "addr = AddressHex L (kAddress K k)" "out = []"
    using assms(2-4)
    by (auto simp: runKeygen_def write_file_def Let_def split: if_splits option.splits sum.splits)
  show "runAddr L K fs' outKey = Inr addr"
    using runAddr_hex [of k fs' outKey L] assms(1,3) fs' addr by simp
  show "outAddr \<noteq> [] \<Longrightarrow> fs' outAddr = Some (addr @ newline_str)"
    using assms(2-4)
    by (auto simp: runKeygen_def write_file_def Let_def split: if_splits option.splits sum.splits)
  show "out = []" by (rule addr(2))
  show "fs' p = fs p" if "p \<notin> {outKey, outAddr}" for p
    using assms(2-4) that
    by (auto simp: runKeygen_def write_file_def Let_def split: if_splits option.splits sum.splits)
qed

end

end
