(* ===== verification/Commands.thy ===== *)
theory Commands
  imports Fund Claim Deploy Keys Flags
begin

section \<open>The command lines of claim, fund, deploy, keygen and addr\<close>

text \<open>
  Each command from its arguments: the flags it defines with their defaults, and the node at the
  address of \<open>--rpc\<close>. \<open>pfloat\<close> is \<open>strconv.ParseFloat(s, 64)\<close>, which reads \<open>fund\<close>'s amount.
\<close>

subsection \<open>claim\<close>

definition claim_flag_kind :: "string \<Rightarrow> flag_kind option" where
  "claim_flag_kind name =
     (if name \<in> {''contract'', ''private-key'', ''rpc''} then Some ValueFlag
      else if name = ''chain-id'' then Some IntFlag
      else if name = ''dry-run'' then Some BoolFlag
      else None)"

definition claim_flags_of :: "(string \<times> string) list \<Rightarrow> claimFlags" where
  "claim_flags_of as =
     \<lparr>cf_contract = flag_value as ''contract'' (cf_contract default_claim_flags),
      cf_privateKey = flag_value as ''private-key'' (cf_privateKey default_claim_flags),
      cf_chainID = int_value as ''chain-id'' (cf_chainID default_claim_flags),
      cf_dryRun = bool_value as ''dry-run'' (cf_dryRun default_claim_flags)\<rparr>"

definition claim_command ::
  "ethlib \<Rightarrow> ('k, 's) keylib \<Rightarrow> (string \<Rightarrow> ('c, 's) node) \<Rightarrow> pool_abi \<Rightarrow> (string \<Rightarrow> string) \<Rightarrow> string list \<Rightarrow> 'c \<Rightarrow>
   (flag_error + claim_result) \<times> 'c" where
  "claim_command L K nodes A getenv args c =
     (case parse_flags claim_flag_kind args of
        Inl e \<Rightarrow> (Inl e, c)
      | Inr (as, left) \<Rightarrow>
          apfst Inr (runClaim L K (nodes (flag_value as ''rpc'' iotexMainnetRPC)) A getenv (claim_flags_of as) c))"

subsection \<open>fund\<close>

definition fund_flag_kind :: "(string \<Rightarrow> float64 option) \<Rightarrow> string \<Rightarrow> flag_kind option" where
  "fund_flag_kind pfloat name =
     (if name \<in> {''private-key'', ''rpc''} then Some ValueFlag
      else if name = ''chain-id'' then Some IntFlag
      else if name = ''amount'' then Some (CheckedFlag (\<lambda>v. pfloat v \<noteq> None))
      else if name = ''dry-run'' then Some BoolFlag
      else None)"

text \<open>The \<open>float64\<close> nearest to 0.1.\<close>

definition default_amount :: float64 where "default_amount = 0x3FB999999999999A"

definition float_value :: "(string \<Rightarrow> float64 option) \<Rightarrow> (string \<times> string) list \<Rightarrow> string \<Rightarrow> float64 \<Rightarrow> float64" where
  "float_value pfloat as name d =
     (case map_of (rev as) name of None \<Rightarrow> d | Some v \<Rightarrow> (case pfloat v of None \<Rightarrow> d | Some x \<Rightarrow> x))"

definition fund_flags_of :: "(string \<Rightarrow> float64 option) \<Rightarrow> (string \<times> string) list \<Rightarrow> fundFlags" where
  "fund_flags_of pfloat as =
     \<lparr>ff_privateKey = flag_value as ''private-key'' [],
      ff_chainID = int_value as ''chain-id'' iotexMainnetChainID,
      ff_amount = float_value pfloat as ''amount'' default_amount,
      ff_dryRun = bool_value as ''dry-run'' False\<rparr>"

definition fund_command ::
  "(string \<Rightarrow> float64 option) \<Rightarrow> ethlib \<Rightarrow> ('k, 's) keylib \<Rightarrow> (string \<Rightarrow> ('c, 's) node) \<Rightarrow> (string \<Rightarrow> string) \<Rightarrow>
   string list \<Rightarrow> 'c \<Rightarrow> (flag_error + 's fund_result) \<times> 'c" where
  "fund_command pfloat L K nodes getenv args c =
     (case parse_flags (fund_flag_kind pfloat) args of
        Inl e \<Rightarrow> (Inl e, c)
      | Inr (as, wallets) \<Rightarrow>
          apfst Inr (runFund L K (nodes (flag_value as ''rpc'' iotexMainnetRPC)) getenv
            (fund_flags_of pfloat as) wallets c))"

subsection \<open>deploy\<close>

definition deploy_flag_kind :: "string \<Rightarrow> flag_kind option" where
  "deploy_flag_kind name =
     (if name \<in> {''private-key'', ''coordinator'', ''rpc''} then Some ValueFlag
      else if name = ''chain-id'' then Some IntFlag
      else None)"

definition deploy_flags_of :: "(string \<times> string) list \<Rightarrow> deployFlags" where
  "deploy_flags_of as =
     \<lparr>df_privateKey = flag_value as ''private-key'' [],
      df_coordinator = flag_value as ''coordinator'' [],
      df_chainID = int_value as ''chain-id'' iotexMainnetChainID\<rparr>"

definition deploy_command ::
  "ethlib \<Rightarrow> ('k, 's) keylib \<Rightarrow> (string \<Rightarrow> ('c, 's) node) \<Rightarrow> (string \<Rightarrow> string) \<Rightarrow> string list \<Rightarrow> 'c \<Rightarrow>
   (flag_error + deploy_result) \<times> 'c" where
  "deploy_command L K nodes getenv args c =
     (case parse_flags deploy_flag_kind args of
        Inl e \<Rightarrow> (Inl e, c)
      | Inr (as, left) \<Rightarrow>
          apfst Inr (runDeploy L K (nodes (flag_value as ''rpc'' iotexMainnetRPC)) getenv (deploy_flags_of as) c))"

subsection \<open>keygen and addr\<close>

definition keygen_flag_kind :: "string \<Rightarrow> flag_kind option" where
  "keygen_flag_kind name = (if name = ''out'' \<or> name = ''addr-out'' then Some ValueFlag else None)"

definition keygen_command ::
  "ethlib \<Rightarrow> ('k, 's) keylib \<Rightarrow> (string \<Rightarrow> string option) \<Rightarrow> string + 'k \<Rightarrow> string list \<Rightarrow> files \<Rightarrow>
   (flag_error + keygen_exit + string \<times> string) \<times> files" where
  "keygen_command L K deny generated args fs =
     (case parse_flags keygen_flag_kind args of
        Inl e \<Rightarrow> (Inl e, fs)
      | Inr (as, left) \<Rightarrow>
          apfst Inr (runKeygen L K deny generated (flag_value as ''out'' []) (flag_value as ''addr-out'' []) fs))"

definition addr_flag_kind :: "string \<Rightarrow> flag_kind option" where
  "addr_flag_kind name = (if name = ''key'' then Some ValueFlag else None)"

definition addr_command ::
  "ethlib \<Rightarrow> ('k, 's) keylib \<Rightarrow> files \<Rightarrow> string list \<Rightarrow> flag_error + addr_exit + string" where
  "addr_command L K fs args =
     map_sum id (\<lambda>(as, left). runAddr L K fs (flag_value as ''key'' [])) (parse_flags addr_flag_kind args)"

subsection \<open>The default amount\<close>

text \<open>
  0.1 has no exact \<open>float64\<close>, but the product with \<open>10 ^ 18\<close> is rounded to 53 bits, and so
  the default amount is exactly a tenth of an IOTX.
\<close>

lemma default_amount_exact: "iotxToWei default_amount = Wei (10 ^ 17)"
proof -
  have "float_units default_amount = 0x1999999999999A * 2 ^ 1018"
    by (simp only: float_units_def float_exponent_def float_fraction_def default_amount_def) simp
  then have n: "float_units default_amount * 10 ^ 18 = (0x1999999999999A * 10 ^ 18) * 2 ^ 1018"
    by (simp only: mult_ac)
  have len: "bit_len (0x1999999999999A * 10 ^ 18) = 113" by (simp add: bit_len.simps)
  have "round_bits 53 (0x1999999999999A * 10 ^ 18) = 10 ^ 17 * 2 ^ 56"
    unfolding round_bits_def len by (simp add: round_div_def)
  then have "round_bits 53 (float_units default_amount * 10 ^ 18) = (10 ^ 17 * 2 ^ 56) * 2 ^ 1018"
    unfolding n using len by (subst round_bits_shift) simp_all
  also have "\<dots> = 10 ^ 17 * float_one" by (simp only: float_one_def mult.assoc flip: power_add) simp
  finally have r: "round_bits 53 (float_units default_amount * 10 ^ 18) div float_one = 10 ^ 17"
    by (simp only:) (simp add: float_one_def)
  have "float_exponent default_amount = 1019" "\<not> float_sign default_amount"
    by (simp_all add: float_exponent_def float_sign_def default_amount_def)
  then show ?thesis using r by (simp only: iotxToWei_def Let_def) simp
qed

end
