(* ===== verification/Json.thy ===== *)
theory Json
  imports Account "HOL-Library.Monad_Syntax"
begin

section \<open>JSON (encoding/json)\<close>

text \<open>
  The values, the text \<open>json.Marshal\<close> writes, and the parser behind \<open>json.Unmarshal\<close>. Strings are
  bytes; bytes from 0x80 on are written and read as they are, which is what the package does with
  valid UTF-8 (the two line separators it escapes aside). A number is its text. The limit on the
  nesting depth is left out. The last part decodes values into structs.
\<close>

datatype json =
    JNull
  | JBool bool
  | JNum string
  | JStr string
  | JArr "json list"
  | JObj "(string \<times> json) list"

subsection \<open>Strings\<close>

definition quote :: char where "quote = CHR 0x22"
definition backslash :: char where "backslash = CHR 0x5C"

definition esc_char :: "char \<Rightarrow> string" where
  "esc_char c =
     (let n = of_char c :: nat in
      if c = quote \<or> c = backslash then [backslash, c]
      else if n = 8 then [backslash, CHR ''b'']
      else if n = 9 then [backslash, CHR ''t'']
      else if n = 10 then [backslash, CHR ''n'']
      else if n = 12 then [backslash, CHR ''f'']
      else if n = 13 then [backslash, CHR ''r'']
      else if n < 32 \<or> c = CHR ''<'' \<or> c = CHR ''>'' \<or> c = CHR ''&'' then
        [backslash, CHR ''u'', CHR ''0'', CHR ''0'', hex_digit (n div 16), hex_digit (n mod 16)]
      else [c])"

definition show_string :: "string \<Rightarrow> string" where
  "show_string s = quote # concat (map esc_char s) @ [quote]"

definition utf8 :: "nat \<Rightarrow> string" where
  "utf8 u =
     (if u < 0x80 then [char_of u]
      else if u < 0x800 then [char_of (0xC0 + u div 64), char_of (0x80 + u mod 64)]
      else if u < 0x10000 then
        [char_of (0xE0 + u div 4096), char_of (0x80 + u div 64 mod 64), char_of (0x80 + u mod 64)]
      else [char_of (0xF0 + u div 262144), char_of (0x80 + u div 4096 mod 64),
            char_of (0x80 + u div 64 mod 64), char_of (0x80 + u mod 64)])"

definition hex_nat :: "char \<Rightarrow> nat option" where
  "hex_nat c = (case hexVal c of Inl e \<Rightarrow> None | Inr v \<Rightarrow> Some (unat v))"

text \<open>Four hexadecimal digits.\<close>

fun read_hex4 :: "string \<Rightarrow> (nat \<times> string) option" where
  "read_hex4 (a # b # c # d # r) =
     (case (hex_nat a, hex_nat b, hex_nat c, hex_nat d) of
        (Some a, Some b, Some c, Some d) \<Rightarrow> Some (4096 * a + 256 * b + 16 * c + d, r)
      | _ \<Rightarrow> None)"
| "read_hex4 s = None"

text \<open>The second half of a surrogate pair, or the replacement character.\<close>

definition surrogate :: "nat \<Rightarrow> string \<Rightarrow> string \<times> string" where
  "surrogate u r =
     (if u < 0xD800 \<or> 0xE000 \<le> u then (utf8 u, r)
      else if u < 0xDC00 then
        (case r of
           b # c # r' \<Rightarrow>
             if b = backslash \<and> c = CHR ''u'' then
               (case read_hex4 r' of
                  Some (v, r'') \<Rightarrow>
                    if 0xDC00 \<le> v \<and> v < 0xE000
                    then (utf8 (0x10000 + (u - 0xD800) * 1024 + (v - 0xDC00)), r'')
                    else (utf8 0xFFFD, r)
                | None \<Rightarrow> (utf8 0xFFFD, r))
             else (utf8 0xFFFD, r)
         | _ \<Rightarrow> (utf8 0xFFFD, r))
      else (utf8 0xFFFD, r))"

text \<open>What follows a backslash: the bytes it stands for and the rest.\<close>

definition unescape :: "string \<Rightarrow> (string \<times> string) option" where
  "unescape s =
     (case s of
        [] \<Rightarrow> None
      | e # r \<Rightarrow>
          if e = quote \<or> e = backslash \<or> e = CHR ''/'' then Some ([e], r)
          else if e = CHR ''b'' then Some ([CHR 0x08], r)
          else if e = CHR ''t'' then Some ([CHR 0x09], r)
          else if e = CHR ''n'' then Some ([CHR 0x0A], r)
          else if e = CHR ''f'' then Some ([CHR 0x0C], r)
          else if e = CHR ''r'' then Some ([CHR 0x0D], r)
          else if e = CHR ''u'' then
            (case read_hex4 r of None \<Rightarrow> None | Some (u, r') \<Rightarrow> Some (surrogate u r'))
          else None)"

lemma read_hex4_length: "read_hex4 s = Some (u, r) \<Longrightarrow> length r < length s"
  by (cases s rule: read_hex4.cases) (auto split: option.splits)

lemma surrogate_length: "surrogate u r = (b, r') \<Longrightarrow> length r' \<le> length r"
  by (auto simp: surrogate_def split: if_splits list.splits option.splits prod.splits
      dest!: read_hex4_length)

lemma unescape_length: "unescape s = Some (b, r) \<Longrightarrow> length r < length s"
  by (auto simp: unescape_def split: list.splits if_splits option.splits prod.splits
      dest!: read_hex4_length surrogate_length)

text \<open>The rest of a string literal, after its opening quote.\<close>

function parse_chars :: "string \<Rightarrow> (string \<times> string) option" where
  "parse_chars [] = None"
| "parse_chars (c # cs) =
     (if c = quote then Some ([], cs)
      else if c = backslash then
        (case unescape cs of
           None \<Rightarrow> None
         | Some (b, r) \<Rightarrow> map_option (\<lambda>(s, r'). (b @ s, r')) (parse_chars r))
      else if (of_char c :: nat) < 32 then None
      else map_option (\<lambda>(s, r'). (c # s, r')) (parse_chars cs))"
  by pat_completeness auto
termination
  by (relation "measure length") (auto dest!: unescape_length)

lemma hex_nat_digit: "d < 16 \<Longrightarrow> hex_nat (hex_digit d) = Some d"
  by (simp add: hex_nat_def hexVal_hex_digit unat_of_nat del: hex_digit.simps)

lemma hex_nat_0: "hex_nat (CHR ''0'') = Some 0"
  by (simp add: hex_nat_def hexVal_def)

lemma read_hex4_small:
  assumes "n < 256"
  shows "read_hex4 (CHR ''0'' # CHR ''0'' # hex_digit (n div 16) # hex_digit (n mod 16) # r) = Some (n, r)"
proof -
  have "n div 16 < 16" using assms by simp
  then show ?thesis by (simp add: hex_nat_digit hex_nat_0 del: hex_digit.simps)
qed

lemma parse_chars_esc: "parse_chars (esc_char c @ r) = map_option (\<lambda>(s, r'). (c # s, r')) (parse_chars r)"
proof -
  define n where "n = (of_char c :: nat)"
  have c: "char_of n = c" by (simp add: n_def)
  have n: "n < 256" by (simp add: n_def)
  note defs = esc_char_def quote_def backslash_def unescape_def Let_def
  consider "c = quote \<or> c = backslash" | "n \<in> {8, 9, 10, 12, 13}"
    | "c \<noteq> quote" "c \<noteq> backslash" "n \<notin> {8, 9, 10, 12, 13}" "n < 32 \<or> c = CHR ''<'' \<or> c = CHR ''>'' \<or> c = CHR ''&''"
    | "c \<noteq> quote" "c \<noteq> backslash" "n \<notin> {8, 9, 10, 12, 13}" "\<not> (n < 32 \<or> c = CHR ''<'' \<or> c = CHR ''>'' \<or> c = CHR ''&'')"
    by blast
  then show ?thesis
  proof cases
    case 1
    then show ?thesis by (auto simp: defs)
  next
    case 2
    then have "n \<in> of_char ` {CHR 0x08, CHR 0x09, CHR 0x0A, CHR 0x0C, CHR 0x0D}" by simp
    then have "c \<in> {CHR 0x08, CHR 0x09, CHR 0x0A, CHR 0x0C, CHR 0x0D}"
      by (auto simp only: n_def of_char_eq_iff image_iff)
    then show ?thesis by (elim insertE) (simp_all add: defs)
  next
    case 3
    then have esc: "esc_char c = [backslash, CHR ''u'', CHR ''0'', CHR ''0'', hex_digit (n div 16), hex_digit (n mod 16)]"
      by (auto simp: esc_char_def Let_def n_def simp del: hex_digit.simps)
    have "n < 128" using 3(4) by (auto simp: n_def)
    then have "utf8 n = [c]" using c by (simp add: utf8_def)
    moreover have "surrogate n r = (utf8 n, r)" using \<open>n < 128\<close> by (simp add: surrogate_def)
    ultimately have "unescape (tl (esc_char c) @ r) = Some ([c], r)"
      using read_hex4_small [OF n, of r]
      by (simp add: esc unescape_def quote_def backslash_def del: hex_digit.simps read_hex4.simps)
    then show ?thesis by (simp add: esc quote_def backslash_def del: hex_digit.simps)
  next
    case 4
    then show ?thesis by (auto simp: esc_char_def Let_def n_def)
  qed
qed

lemma parse_show_string: "parse_chars (concat (map esc_char s) @ quote # r) = Some (s, r)"
  by (induction s) (simp_all add: parse_chars_esc)

subsection \<open>Numbers\<close>

definition is_digit :: "char \<Rightarrow> bool" where
  "is_digit c = (digit_of c \<noteq> None)"

definition num_char :: "char \<Rightarrow> bool" where
  "num_char c = (is_digit c \<or> c \<in> {CHR ''-'', CHR ''+'', CHR ''.'', CHR ''e'', CHR ''E''})"

definition exponent_ok :: "string \<Rightarrow> bool" where
  "exponent_ok s =
     (case s of
        [] \<Rightarrow> True
      | c # cs \<Rightarrow>
          (c = CHR ''e'' \<or> c = CHR ''E'') \<and>
          (let ds = (case cs of d # ds \<Rightarrow> if d = CHR ''+'' \<or> d = CHR ''-'' then ds else cs | [] \<Rightarrow> cs)
           in ds \<noteq> [] \<and> list_all is_digit ds))"

definition fraction_ok :: "string \<Rightarrow> bool" where
  "fraction_ok s =
     (case s of
        [] \<Rightarrow> True
      | c # cs \<Rightarrow>
          if c = CHR ''.'' then takeWhile is_digit cs \<noteq> [] \<and> exponent_ok (dropWhile is_digit cs)
          else exponent_ok s)"

text \<open>A sign, an integer part without a needless leading zero, a fraction, an exponent.\<close>

definition is_number :: "string \<Rightarrow> bool" where
  "is_number s =
     (let u = (case s of c # cs \<Rightarrow> if c = CHR ''-'' then cs else s | [] \<Rightarrow> s);
          ip = takeWhile is_digit u
      in ip \<noteq> [] \<and> (length ip = 1 \<or> hd ip \<noteq> CHR ''0'') \<and> fraction_ok (dropWhile is_digit u))"

definition show_int :: "int \<Rightarrow> string" where
  "show_int i = (if i < 0 then CHR ''-'' # dec_string (nat (- i)) else dec_string (nat i))"

lemma is_digit_dec_string: "list_all is_digit (dec_string n)"
  using dec_string_digits [of n] by (simp add: list_all_iff is_digit_def)

lemma hd_dec_string: "0 < n \<Longrightarrow> hd (dec_string n) \<noteq> CHR ''0''"
proof (induction n rule: dec_string.induct)
  case (1 n)
  have "(of_char (char_of (48 + n) :: char) :: nat) \<noteq> of_char CHR ''0''" if "n < 10"
    using that 1 by simp
  then have "char_of (48 + n) \<noteq> CHR ''0''" if "n < 10" using that by metis
  with 1 show ?case by (subst dec_string.simps) auto
qed

lemma is_number_dec_string: "is_number (dec_string n)" "is_number (CHR ''-'' # dec_string n)"
proof -
  have all: "takeWhile is_digit (dec_string n) = dec_string n" "dropWhile is_digit (dec_string n) = []"
    using is_digit_dec_string [of n] by (simp_all add: list_all_iff takeWhile_eq_all_conv)
  have "length (dec_string n) = 1 \<or> hd (dec_string n) \<noteq> CHR ''0''"
    using hd_dec_string [of n] by (cases "n = 0") (simp_all add: dec_string.simps)
  moreover have "hd (dec_string n) \<noteq> CHR ''-''"
  proof -
    have "is_digit (hd (dec_string n))"
      using is_digit_dec_string [of n] by (simp add: list_all_iff)
    then show ?thesis by (auto simp: is_digit_def digit_of_def)
  qed
  moreover from this
  have "(case dec_string n of c # cs \<Rightarrow> if c = CHR ''-'' then cs else dec_string n | [] \<Rightarrow> dec_string n)
      = dec_string n"
    by (cases "dec_string n") simp_all
  ultimately show "is_number (dec_string n)" "is_number (CHR ''-'' # dec_string n)"
    by (simp_all add: is_number_def Let_def all fraction_ok_def)
qed

lemma is_number_show_int [simp]: "is_number (show_int i)"
  by (simp add: show_int_def is_number_dec_string)

lemma num_char_exponent: "exponent_ok s \<Longrightarrow> list_all num_char s"
  by (auto simp: exponent_ok_def num_char_def Let_def list_all_iff split: list.splits if_splits)

lemma num_char_fraction: "fraction_ok s \<Longrightarrow> list_all num_char s"
proof (cases s)
  case (Cons c cs)
  assume ok: "fraction_ok s"
  have span: "list_all num_char (takeWhile is_digit cs)"
    by (auto simp: list_all_iff num_char_def dest: set_takeWhileD)
  show ?thesis
  proof (cases "c = CHR ''.''")
    case True
    with ok Cons have "list_all num_char (dropWhile is_digit cs)"
      by (auto simp: fraction_ok_def dest: num_char_exponent)
    with span have "list_all num_char (takeWhile is_digit cs @ dropWhile is_digit cs)"
      by (simp only: list_all_append)
    with True Cons show ?thesis by (simp add: num_char_def)
  next
    case False
    with ok Cons show ?thesis by (auto simp: fraction_ok_def dest: num_char_exponent)
  qed
qed simp

lemma num_char_number: "is_number s \<Longrightarrow> list_all num_char s"
proof -
  assume ok: "is_number s"
  define u where "u = (case s of c # cs \<Rightarrow> if c = CHR ''-'' then cs else s | [] \<Rightarrow> s)"
  have "fraction_ok (dropWhile is_digit u)" using ok by (simp add: is_number_def Let_def u_def)
  then have "list_all num_char (dropWhile is_digit u)" by (rule num_char_fraction)
  moreover have "list_all num_char (takeWhile is_digit u)"
    by (auto simp: list_all_iff num_char_def dest: set_takeWhileD)
  ultimately have "list_all num_char (takeWhile is_digit u @ dropWhile is_digit u)"
    by (simp only: list_all_append)
  then show ?thesis
    by (cases s) (auto simp: u_def num_char_def split: if_splits)
qed

lemma is_number_nonempty: "is_number s \<Longrightarrow> s \<noteq> []"
  by (auto simp: is_number_def)

subsection \<open>Writing values\<close>

fun join_with :: "string \<Rightarrow> string list \<Rightarrow> string" where
  "join_with sep [] = []"
| "join_with sep [x] = x"
| "join_with sep (x # y # ys) = x @ sep @ join_with sep (y # ys)"

text \<open>The line break and two spaces per level of \<open>MarshalIndent\<close>; nothing for \<open>Marshal\<close>.\<close>

definition gap :: "bool \<Rightarrow> nat \<Rightarrow> string" where
  "gap pretty l = (if pretty then CHR 0x0A # replicate (2 * l) (CHR '' '') else [])"

definition bracketed :: "bool \<Rightarrow> nat \<Rightarrow> char \<Rightarrow> char \<Rightarrow> string list \<Rightarrow> string" where
  "bracketed pretty l a b xs =
     (if xs = [] then [a, b]
      else a # gap pretty (Suc l) @ join_with (CHR '','' # gap pretty (Suc l)) xs @ gap pretty l @ [b])"

fun render :: "bool \<Rightarrow> nat \<Rightarrow> json \<Rightarrow> string" where
  "render pretty l JNull = ''null''"
| "render pretty l (JBool b) = (if b then ''true'' else ''false'')"
| "render pretty l (JNum n) = n"
| "render pretty l (JStr s) = show_string s"
| "render pretty l (JArr vs) =
     bracketed pretty l (CHR ''['') (CHR '']'') (map (render pretty (Suc l)) vs)"
| "render pretty l (JObj ms) =
     bracketed pretty l (CHR ''{'') (CHR ''}'')
       (map (\<lambda>(k, v). show_string k @ (if pretty then '': '' else '':'') @ render pretty (Suc l) v) ms)"

definition marshal :: "json \<Rightarrow> string" where
  "marshal v = render False 0 v"

definition marshal_indent :: "json \<Rightarrow> string" where
  "marshal_indent v = render True 0 v"

text \<open>A member with \<open>omitempty\<close> is left out when it has its zero value; integers are decimal.\<close>

definition omitempty :: "bool \<Rightarrow> string \<Rightarrow> json \<Rightarrow> (string \<times> json) list" where
  "omitempty zero k v = (if zero then [] else [(k, v)])"

definition json_int :: "int \<Rightarrow> json" where "json_int i = JNum (show_int i)"

definition json_nat :: "nat \<Rightarrow> json" where "json_nat n = JNum (dec_string n)"

subsection \<open>Reading values\<close>

definition is_ws :: "char \<Rightarrow> bool" where
  "is_ws c = (c = CHR '' '' \<or> c = CHR 0x09 \<or> c = CHR 0x0A \<or> c = CHR 0x0D)"

definition parse_scalar :: "string \<Rightarrow> (json \<times> string) option" where
  "parse_scalar s =
     (if has_prefix s ''null'' then Some (JNull, drop 4 s)
      else if has_prefix s ''true'' then Some (JBool True, drop 4 s)
      else if has_prefix s ''false'' then Some (JBool False, drop 5 s)
      else if is_number (takeWhile num_char s)
      then Some (JNum (takeWhile num_char s), dropWhile num_char s)
      else None)"

definition next_char :: "string \<Rightarrow> (char \<times> string) option" where
  "next_char s = (case dropWhile is_ws s of [] \<Rightarrow> None | c # r \<Rightarrow> Some (c, r))"

text \<open>The fuel bounds the calls; the length of the input is always enough (below).\<close>

fun parse_value :: "nat \<Rightarrow> string \<Rightarrow> (json \<times> string) option"
and parse_elems :: "nat \<Rightarrow> string \<Rightarrow> (json list \<times> string) option"
and parse_members :: "nat \<Rightarrow> string \<Rightarrow> ((string \<times> json) list \<times> string) option" where
  "parse_value 0 s = None"
| "parse_value (Suc f) s = do {
     (c, r) \<leftarrow> next_char s;
     if c = quote then do { (t, r') \<leftarrow> parse_chars r; Some (JStr t, r') }
     else if c = CHR ''['' then do {
       (d, r') \<leftarrow> next_char r;
       if d = CHR '']'' then Some (JArr [], r')
       else do { (vs, r') \<leftarrow> parse_elems f r; Some (JArr vs, r') } }
     else if c = CHR ''{'' then do {
       (d, r') \<leftarrow> next_char r;
       if d = CHR ''}'' then Some (JObj [], r')
       else do { (ms, r') \<leftarrow> parse_members f r; Some (JObj ms, r') } }
     else parse_scalar (c # r) }"
| "parse_elems 0 s = None"
| "parse_elems (Suc f) s = do {
     (v, r) \<leftarrow> parse_value f s;
     (d, r') \<leftarrow> next_char r;
     if d = CHR '','' then do { (vs, r'') \<leftarrow> parse_elems f r'; Some (v # vs, r'') }
     else if d = CHR '']'' then Some ([v], r')
     else None }"
| "parse_members 0 s = None"
| "parse_members (Suc f) s = do {
     (c, r) \<leftarrow> next_char s;
     (k, r) \<leftarrow> (if c = quote then parse_chars r else None);
     (d, r) \<leftarrow> next_char r;
     (v, r) \<leftarrow> (if d = CHR '':'' then parse_value f r else None);
     (e, r) \<leftarrow> next_char r;
     if e = CHR '','' then do { (ms, r') \<leftarrow> parse_members f r; Some ((k, v) # ms, r') }
     else if e = CHR ''}'' then Some ([(k, v)], r)
     else None }"

text \<open>
  \<open>json.Unmarshal\<close> takes the whole input; \<open>json.NewDecoder(r).Decode\<close> takes the first value and
  leaves the rest unread.
\<close>

definition unmarshal :: "string \<Rightarrow> json option" where
  "unmarshal s =
     (case parse_value (length s) s of
        Some (v, r) \<Rightarrow> if list_all is_ws r then Some v else None
      | None \<Rightarrow> None)"

definition decode_first :: "string \<Rightarrow> json option" where
  "decode_first s = map_option fst (parse_value (length s) s)"


subsection \<open>The fuel is enough\<close>

fun need :: "json \<Rightarrow> nat" and needs :: "json list \<Rightarrow> nat" and needs_m :: "(string \<times> json) list \<Rightarrow> nat" where
  "need (JArr vs) = Suc (needs vs)"
| "need (JObj ms) = Suc (needs_m ms)"
| "need JNull = 1"
| "need (JBool b) = 1"
| "need (JNum n) = 1"
| "need (JStr s) = 1"
| "needs [] = 0"
| "needs (v # vs) = Suc (max (need v) (needs vs))"
| "needs_m [] = 0"
| "needs_m ((k, v) # ms) = Suc (max (need v) (needs_m ms))"

lemma next_char_length: "next_char s = Some (c, r) \<Longrightarrow> length r < length s"
  using length_dropWhile_le [of is_ws s] by (auto simp: next_char_def split: list.splits)

lemma parse_chars_length: "parse_chars s = Some (t, r) \<Longrightarrow> length r < length s"
proof (induction s arbitrary: t r rule: parse_chars.induct)
  case (2 c cs)
  then show ?case
    by (fastforce split: if_splits option.splits dest: unescape_length)
qed simp

lemma has_prefix_length: "has_prefix s p \<Longrightarrow> length p \<le> length s"
  by (auto simp: has_prefix_iff)

lemma parse_scalar_length: "parse_scalar s = Some (v, r) \<Longrightarrow> length r < length s \<and> need v = 1"
proof -
  assume p: "parse_scalar s = Some (v, r)"
  have n: "length (dropWhile num_char s) < length s" if "is_number (takeWhile num_char s)"
  proof -
    have "length (takeWhile num_char s @ dropWhile num_char s) = length s" by simp
    then show ?thesis using is_number_nonempty [OF that] by (cases "takeWhile num_char s") auto
  qed
  note drop = has_prefix_length [of s "''null''"] has_prefix_length [of s "''true''"]
    has_prefix_length [of s "''false''"]
  consider "has_prefix s ''null''" "v = JNull" "r = drop 4 s"
    | "has_prefix s ''true''" "v = JBool True" "r = drop 4 s"
    | "has_prefix s ''false''" "v = JBool False" "r = drop 5 s"
    | "is_number (takeWhile num_char s)" "v = JNum (takeWhile num_char s)" "r = dropWhile num_char s"
    using p unfolding parse_scalar_def
    by (auto split: if_split_asm)
  then show ?thesis
    by cases (use drop n in simp_all)
qed

lemma next_char_length1: "next_char s = Some (c, r) \<Longrightarrow> Suc (length r) \<le> length s"
  using next_char_length by (simp add: Suc_le_eq)

lemma parse_length:
  "parse_value f s = Some (v, r) \<Longrightarrow> need v + length r \<le> length s"
  "parse_elems f s = Some (vs, r) \<Longrightarrow> needs vs + length r \<le> length s"
  "parse_members f s = Some (ms, r) \<Longrightarrow> needs_m ms + length r \<le> length s"
proof (induction f arbitrary: s v r vs ms)
  case (Suc f)
  {
    case 1
    then show ?case
      by (auto simp: bind_eq_Some_conv split: if_splits
          dest!: next_char_length parse_chars_length parse_scalar_length Suc.IH)
  next
    case 2
    then show ?case
      by (auto simp: bind_eq_Some_conv split: if_splits
          dest!: next_char_length Suc.IH)
  next
    case 3
    then show ?case
      by (auto simp: bind_eq_Some_conv split: if_splits
          dest!: next_char_length parse_chars_length Suc.IH)
  }
qed simp_all

lemma parse_fuel:
  "parse_value f s = Some (v, r) \<Longrightarrow> need v \<le> g \<Longrightarrow> parse_value g s = Some (v, r)"
  "parse_elems f s = Some (vs, r) \<Longrightarrow> needs vs \<le> g \<Longrightarrow> parse_elems g s = Some (vs, r)"
  "parse_members f s = Some (ms, r) \<Longrightarrow> needs_m ms \<le> g \<Longrightarrow> parse_members g s = Some (ms, r)"
proof (induction f arbitrary: s v r vs ms g)
  case (Suc f)
  {
    case 1
    then obtain h where g: "g = Suc h" by (cases g; cases v) auto
    obtain c t where c: "next_char s = Some (c, t)" using 1(1) by (auto simp: bind_eq_Some_conv)
    consider "c = quote" | "c = CHR ''[''" | "c = CHR ''{''"
      | "c \<noteq> quote" "c \<noteq> CHR ''[''" "c \<noteq> CHR ''{''" by blast
    then show ?case
    proof cases
      case 2
      obtain d t' where d: "next_char t = Some (d, t')"
        using 1(1) 2 c by (auto simp: quote_def bind_eq_Some_conv)
      consider "d = CHR '']''" "v = JArr []" "r = t'"
        | vs where "d \<noteq> CHR '']''" "parse_elems f t = Some (vs, r)" "v = JArr vs"
        using 1(1) 2 c d by (auto simp: quote_def bind_eq_Some_conv split: if_splits)
      then show ?thesis
        by cases (use Suc.IH(2) [of t _ r h] 1(2) 2 in \<open>simp_all add: c d g quote_def\<close>)
    next
      case 3
      obtain d t' where d: "next_char t = Some (d, t')"
        using 1(1) 3 c by (auto simp: quote_def bind_eq_Some_conv)
      consider "d = CHR ''}''" "v = JObj []" "r = t'"
        | ms where "d \<noteq> CHR ''}''" "parse_members f t = Some (ms, r)" "v = JObj ms"
        using 1(1) 3 c d by (auto simp: quote_def bind_eq_Some_conv split: if_splits)
      then show ?thesis
        by cases (use Suc.IH(3) [of t _ r h] 1(2) 3 in \<open>simp_all add: c d g quote_def\<close>)
    qed (use 1 in \<open>simp_all add: c g\<close>)
  next
    case 2
    obtain v t d t' where v: "parse_value f s = Some (v, t)" "next_char t = Some (d, t')"
      using 2(1) by (auto simp: bind_eq_Some_conv)
    consider ws where "d = CHR '',''" "parse_elems f t' = Some (ws, r)" "vs = v # ws"
      | "d = CHR '']''" "vs = [v]" "r = t'"
      using 2(1) v by (auto simp: bind_eq_Some_conv split: if_splits)
    moreover from this obtain h where g: "g = Suc h" using 2(2) by cases (cases g; simp)+
    ultimately show ?case
      by cases (use Suc.IH(1) [OF v(1), of h] Suc.IH(2) [of t' _ r h] 2(2) v(2) in \<open>simp_all add: g\<close>)
  next
    case 3
    obtain c t0 k t1 d t2 v t e t' where k: "next_char s = Some (c, t0)" "c = quote"
      "parse_chars t0 = Some (k, t1)" "next_char t1 = Some (d, t2)" "d = CHR '':''"
      and v: "parse_value f t2 = Some (v, t)" and e: "next_char t = Some (e, t')"
      using 3(1) by (auto simp: bind_eq_Some_conv split: if_splits)
    consider ns where "e = CHR '',''" "parse_members f t' = Some (ns, r)" "ms = (k, v) # ns"
      | "e = CHR ''}''" "ms = [(k, v)]" "r = t'"
      using 3(1) k v e by (auto simp: bind_eq_Some_conv split: if_splits)
    moreover from this obtain h where g: "g = Suc h" using 3(2) by cases (cases g; simp)+
    ultimately show ?case
      by cases (use Suc.IH(1) [OF v, of h] Suc.IH(3) [of t' _ r h] 3(2) k e in \<open>simp_all add: g\<close>)
  }
qed simp_all

subsection \<open>What is written is read back\<close>

fun numbers_ok :: "json \<Rightarrow> bool" where
  "numbers_ok (JNum n) = is_number n"
| "numbers_ok (JArr vs) = (\<forall>v \<in> set vs. numbers_ok v)"
| "numbers_ok (JObj ms) = (\<forall>m \<in> set ms. numbers_ok (snd m))"
| "numbers_ok v = True"

lemma numbers_ok_ints [simp]: "numbers_ok (json_int i)" "numbers_ok (json_nat n)"
  by (simp_all add: json_int_def json_nat_def is_number_dec_string)

lemma numbers_ok_omitempty [simp]:
  "(\<forall>m \<in> set (omitempty zero k v). numbers_ok (snd m)) \<longleftrightarrow> zero \<or> numbers_ok v"
  by (simp add: omitempty_def)

definition ends_number :: "string \<Rightarrow> bool" where
  "ends_number r = (r = [] \<or> \<not> num_char (hd r))"

lemma next_char_ws: "list_all is_ws w \<Longrightarrow> next_char (w @ s) = next_char s"
  by (induction w) (simp_all add: next_char_def)

lemma next_char_Cons: "\<not> is_ws c \<Longrightarrow> next_char (c # s) = Some (c, s)"
  by (simp add: next_char_def)

lemma parse_value_ws: "list_all is_ws w \<Longrightarrow> parse_value f (w @ s) = parse_value f s"
  by (cases f) (simp_all add: next_char_ws)

lemma ws_gap: "list_all is_ws (gap pretty l)"
  by (auto simp: gap_def is_ws_def list_all_iff)

lemma not_ws_chars [simp]:
  "\<not> is_ws quote" "\<not> is_ws (CHR ''['')" "\<not> is_ws (CHR ''{'')" "\<not> is_ws (CHR '']'')"
  "\<not> is_ws (CHR ''}'')" "\<not> is_ws (CHR '','')" "\<not> is_ws (CHR '':'')"
  by (simp_all add: is_ws_def quote_def)

lemma ends_number_seps [simp]:
  "ends_number (CHR '','' # r)" "ends_number (CHR '']'' # r)" "ends_number (CHR ''}'' # r)"
  by (simp_all add: ends_number_def num_char_def is_digit_def digit_of_def)

lemma ends_number_gap: "ends_number r \<Longrightarrow> ends_number (gap pretty l @ r)"
  by (simp add: gap_def ends_number_def num_char_def is_digit_def digit_of_def)

lemma number_start: "is_number (c # n) \<Longrightarrow> is_digit c \<or> c = CHR ''-''"
  by (auto simp: is_number_def Let_def split: if_splits)

lemma parse_scalar_number:
  assumes "is_number n" "ends_number r"
  shows "parse_scalar (n @ r) = Some (JNum n, r)"
proof -
  obtain c m where n: "n = c # m" using is_number_nonempty [OF assms(1)] by (cases n) auto
  have "c \<noteq> CHR ''n''" "c \<noteq> CHR ''t''" "c \<noteq> CHR ''f''"
    using number_start [of c m] assms(1) by (auto simp: n is_digit_def digit_of_def)
  moreover have "takeWhile num_char (n @ r) = n" "dropWhile num_char (n @ r) = r"
  proof -
    have all: "list_all num_char n" by (rule num_char_number [OF assms(1)])
    then show "takeWhile num_char (n @ r) = n" "dropWhile num_char (n @ r) = r"
      using assms(2)
      by (cases r; simp add: takeWhile_append dropWhile_append list_all_iff ends_number_def)+
  qed
  ultimately show ?thesis using assms(1) by (simp add: parse_scalar_def n)
qed

lemma parse_elems_join:
  assumes "\<And>v f r. v \<in> set vs \<Longrightarrow> need v \<le> f \<Longrightarrow> ends_number r \<Longrightarrow> parse_value f (R v @ r) = Some (v, r)"
    and "list_all is_ws g" "list_all is_ws w" "\<And>r. ends_number (w @ CHR '']'' # r)"
  shows "vs \<noteq> [] \<Longrightarrow> needs vs \<le> f \<Longrightarrow>
    parse_elems f (g @ join_with (CHR '','' # g) (map R vs) @ w @ CHR '']'' # r) = Some (vs, r)"
  using assms(1)
proof (induction vs arbitrary: f rule: induct_list012)
  case (2 v)
  then obtain h where f: "f = Suc h" by (cases f) auto
  with 2 assms show ?case by (simp add: parse_value_ws next_char_ws next_char_Cons)
next
  case (3 v v' vs)
  then obtain h where f: "f = Suc h" by (cases f) auto
  have "parse_elems h (g @ join_with (CHR '','' # g) (map R (v' # vs)) @ w @ CHR '']'' # r) = Some (v' # vs, r)"
    using 3 by (intro "3.IH"(2)) (auto simp: f)
  moreover have "need v \<le> h" using "3.prems"(2) by (simp add: f)
  ultimately show ?case
    using "3.prems"(3) assms(2) by (simp add: f parse_value_ws next_char_Cons)
qed simp

lemma parse_members_join:
  assumes "\<And>m f r. m \<in> set ms \<Longrightarrow> need (snd m) \<le> f \<Longrightarrow> ends_number r \<Longrightarrow> parse_value f (R (snd m) @ r) = Some (snd m, r)"
    and "list_all is_ws g" "list_all is_ws w" "list_all is_ws u" "\<And>r. ends_number (w @ CHR ''}'' # r)"
  shows "ms \<noteq> [] \<Longrightarrow> needs_m ms \<le> f \<Longrightarrow>
    parse_members f (g @ join_with (CHR '','' # g) (map (\<lambda>(k, v). show_string k @ (CHR '':'' # u) @ R v) ms)
      @ w @ CHR ''}'' # r) = Some (ms, r)"
  using assms(1)
proof (induction ms arbitrary: f rule: induct_list012)
  case (2 m)
  then obtain h where f: "f = Suc h" by (cases f; cases m) auto
  with 2 assms show ?case
    by (cases m) (simp add: parse_value_ws next_char_ws next_char_Cons show_string_def parse_show_string)
next
  case (3 m m' ms)
  then obtain h where f: "f = Suc h" by (cases f; cases m) auto
  obtain k v where m: "m = (k, v)" by (cases m)
  have "parse_members h (g @ join_with (CHR '','' # g)
      (map (\<lambda>(k, v). show_string k @ (CHR '':'' # u) @ R v) (m' # ms)) @ w @ CHR ''}'' # r) = Some (m' # ms, r)"
    using 3 by (intro "3.IH"(2)) (auto simp: f m)
  moreover have "need v \<le> h" using "3.prems"(2) by (simp add: f m)
  moreover have "parse_value h' (R v @ r') = Some (v, r')" if "need v \<le> h'" "ends_number r'" for h' r'
    using "3.prems"(3) [of m h' r'] that by (simp add: m)
  ultimately show ?case
    using assms(2,4)
    by (simp add: f m parse_value_ws next_char_ws next_char_Cons show_string_def parse_show_string)
qed simp


text \<open>The first character of a value is no white space and closes no bracket.\<close>

lemma render_start:
  assumes "numbers_ok v"
  obtains c s where "render pretty l v = c # s" "\<not> is_ws c" "c \<noteq> CHR '']''" "c \<noteq> CHR ''}''"
    "list_all is_ws w \<Longrightarrow> next_char (w @ render pretty l v @ r) = Some (c, s @ r)"
proof -
  have "\<exists>c s. render pretty l v = c # s \<and> \<not> is_ws c \<and> c \<noteq> CHR '']'' \<and> c \<noteq> CHR ''}''"
  proof (cases v)
    case (JNum n)
    with assms obtain c m where "n = c # m" "is_digit c \<or> c = CHR ''-''"
      using is_number_nonempty [of n] number_start by (cases n) auto
    with JNum show ?thesis by (auto simp: is_ws_def is_digit_def digit_of_def)
  qed (auto simp: is_ws_def show_string_def quote_def bracketed_def)
  with that show thesis by (auto simp: next_char_ws next_char_Cons)
qed

lemma parse_render:
  assumes "numbers_ok v" "ends_number r" "need v \<le> f"
  shows "parse_value f (render pretty l v @ r) = Some (v, r)"
  using assms
proof (induction pretty l v arbitrary: f r rule: render.induct)
  case (3 pretty l n)
  then obtain h where f: "f = Suc h" by (cases f) auto
  obtain c m where n: "n = c # m" "is_digit c \<or> c = CHR ''-''"
    using 3 is_number_nonempty [of n] number_start by (cases n) auto
  have "\<not> is_ws c" "c \<noteq> quote" "c \<noteq> CHR ''[''" "c \<noteq> CHR ''{''"
    using n(2) by (auto simp: is_ws_def quote_def is_digit_def digit_of_def)
  then show ?case
    using 3 parse_scalar_number [of n r] by (simp add: f n next_char_Cons)
next
  case (5 pretty l vs)
  then obtain h where f: "f = Suc h" by (cases f) auto
  show ?case
  proof (cases vs)
    case Nil
    then show ?thesis by (simp add: f bracketed_def next_char_Cons quote_def)
  next
    case (Cons v vs')
    let ?R = "render pretty (Suc l)"
    let ?s = "gap pretty (Suc l) @ join_with (CHR '','' # gap pretty (Suc l)) (map ?R vs)
      @ gap pretty l @ CHR '']'' # r"
    have elems: "parse_elems h ?s = Some (vs, r)"
      using "5.IH" "5.prems"(1,3)
      by (intro parse_elems_join) (auto simp: ws_gap ends_number_gap Cons f)
    have "\<exists>d t. next_char ?s = Some (d, t) \<and> d \<noteq> CHR '']''"
      using "5.prems"(1) by (cases vs') (auto simp: Cons elim!: render_start [of v pretty "Suc l"] intro: ws_gap)
    with elems show ?thesis
      by (auto simp: f bracketed_def next_char_Cons quote_def Cons)
  qed
next
  case (6 pretty l ms)
  then obtain h where f: "f = Suc h" by (cases f) auto
  show ?case
  proof (cases ms)
    case Nil
    then show ?thesis by (simp add: f bracketed_def next_char_Cons quote_def)
  next
    case (Cons m ms')
    let ?R = "render pretty (Suc l)"
    let ?u = "if pretty then '' '' else []"
    let ?s = "gap pretty (Suc l) @ join_with (CHR '','' # gap pretty (Suc l))
      (map (\<lambda>(k, v). show_string k @ (CHR '':'' # ?u) @ ?R v) ms) @ gap pretty l @ CHR ''}'' # r"
    have IH: "parse_value g (?R (snd n) @ r') = Some (snd n, r')"
      if "n \<in> set ms" "need (snd n) \<le> g" "ends_number r'" for n g r'
      using "6.IH" [of n "fst n" "snd n" r' g] "6.prems"(1) that by simp
    have members: "parse_members h ?s = Some (ms, r)"
      using "6.prems"(3)
      by (intro parse_members_join) (simp_all add: IH ws_gap ends_number_gap Cons f is_ws_def)
    have "\<exists>t. next_char ?s = Some (quote, t)"
      by (cases m; cases ms') (simp_all add: Cons next_char_ws ws_gap show_string_def next_char_Cons)
    with members show ?thesis
      by (auto simp: f bracketed_def next_char_Cons quote_def Cons)
  qed
qed (auto simp: next_char_Cons is_ws_def quote_def parse_scalar_def show_string_def
    parse_show_string [unfolded quote_def] Suc_le_eq gr0_conv_Suc)

lemma parse_render_all:
  assumes "numbers_ok v"
  shows "parse_value (length (render pretty l v)) (render pretty l v) = Some (v, [])"
proof -
  have p: "parse_value (need v) (render pretty l v) = Some (v, [])"
    using parse_render [OF assms, of "[]" "need v" pretty l] by (simp add: ends_number_def)
  then have "need v \<le> length (render pretty l v)" using parse_length(1) [OF p] by simp
  then show ?thesis by (rule parse_fuel(1) [OF p])
qed

lemma unmarshal_marshal:
  "numbers_ok v \<Longrightarrow> unmarshal (marshal v) = Some v"
  "numbers_ok v \<Longrightarrow> unmarshal (marshal_indent v) = Some v"
  by (simp_all add: unmarshal_def marshal_def marshal_indent_def parse_render_all)

lemma unmarshal_fuel:
  "unmarshal s = Some v \<longleftrightarrow> (\<exists>f r. parse_value f s = Some (v, r) \<and> list_all is_ws r)"
proof
  assume "\<exists>f r. parse_value f s = Some (v, r) \<and> list_all is_ws r"
  then obtain f r where p: "parse_value f s = Some (v, r)" "list_all is_ws r" by blast
  have "need v \<le> length s" using parse_length(1) [OF p(1)] by simp
  then show "unmarshal s = Some v" using parse_fuel(1) [OF p(1)] p(2) by (simp add: unmarshal_def)
qed (auto simp: unmarshal_def split: option.splits if_splits, blast)

subsection \<open>Decoding into Go values\<close>

text \<open>
  A decoder takes the value the target has and gives the one it gets, or fails with the error the
  package reports (it reports a value of the wrong type at the end of the call; every caller here
  drops the target then). \<open>null\<close> leaves the target as it is, except that it empties a slice. A
  member goes to the field of its name, or of its name in another case, and a member without a
  field is skipped.
\<close>

type_synonym 'a decoder = "'a \<Rightarrow> json \<Rightarrow> 'a option"

fun dec_str :: "string decoder" where
  "dec_str old (JStr s) = Some s"
| "dec_str old JNull = Some old"
| "dec_str old v = None"

definition fits :: "int \<Rightarrow> int \<Rightarrow> string \<Rightarrow> int option" where
  "fits lo hi n =
     (case set_string10 n of None \<Rightarrow> None | Some i \<Rightarrow> if lo \<le> i \<and> i \<le> hi then Some i else None)"

fun dec_int :: "int \<Rightarrow> int \<Rightarrow> int decoder" where
  "dec_int lo hi old (JNum n) = fits lo hi n"
| "dec_int lo hi old JNull = Some old"
| "dec_int lo hi old v = None"

fun dec_bool :: "bool decoder" where
  "dec_bool old (JBool b) = Some b"
| "dec_bool old JNull = Some old"
| "dec_bool old v = None"

fun dec_all :: "('a decoder) \<Rightarrow> 'a \<Rightarrow> json list \<Rightarrow> 'a list option" where
  "dec_all d zero [] = Some []"
| "dec_all d zero (v # vs) = do { x \<leftarrow> d zero v; xs \<leftarrow> dec_all d zero vs; Some (x # xs) }"

text \<open>A slice; the nil slice is \<open>None\<close>.\<close>

fun dec_slice :: "'a decoder \<Rightarrow> 'a \<Rightarrow> 'a list option decoder" where
  "dec_slice d zero old (JArr vs) = map_option Some (dec_all d zero vs)"
| "dec_slice d zero old JNull = Some None"
| "dec_slice d zero old v = None"

definition elems :: "'a list option \<Rightarrow> 'a list" where
  "elems xs = (case xs of None \<Rightarrow> [] | Some ys \<Rightarrow> ys)"

text \<open>A slice is written as \<open>null\<close> when it is nil.\<close>

definition json_slice :: "('a \<Rightarrow> json) \<Rightarrow> 'a list option \<Rightarrow> json" where
  "json_slice f xs = (case xs of None \<Rightarrow> JNull | Some ys \<Rightarrow> JArr (map f ys))"

text \<open>A slice built by \<open>append\<close> is nil while nothing was appended.\<close>

definition appended :: "'a list \<Rightarrow> 'a list option" where
  "appended xs = (if xs = [] then None else Some xs)"

text \<open>A struct: one setter per field.\<close>

definition field_for :: "(string \<times> 'f) list \<Rightarrow> string \<Rightarrow> 'f option" where
  "field_for fs k =
     (case map_of fs k of
        Some f \<Rightarrow> Some f
      | None \<Rightarrow> map_option snd (find (\<lambda>f. to_lower (fst f) = to_lower k) fs))"

fun dec_members :: "(string \<times> 'a decoder) list \<Rightarrow> 'a \<Rightarrow> (string \<times> json) list \<Rightarrow> 'a option" where
  "dec_members fs x [] = Some x"
| "dec_members fs x ((k, v) # ms) =
     (case field_for fs k of
        None \<Rightarrow> dec_members fs x ms
      | Some f \<Rightarrow> (case f x v of None \<Rightarrow> None | Some y \<Rightarrow> dec_members fs y ms))"

fun dec_struct :: "(string \<times> 'a decoder) list \<Rightarrow> 'a decoder" where
  "dec_struct fs old (JObj ms) = dec_members fs old ms"
| "dec_struct fs old JNull = Some old"
| "dec_struct fs old v = None"

text \<open>A pointer to a struct: \<open>null\<close> makes it nil, anything else allocates.\<close>

fun dec_pointer :: "'a decoder \<Rightarrow> 'a \<Rightarrow> 'a option decoder" where
  "dec_pointer d zero old JNull = Some None"
| "dec_pointer d zero old v = map_option Some (d (case old of None \<Rightarrow> zero | Some x \<Rightarrow> x) v)"

definition field :: "('a \<Rightarrow> 'b) \<Rightarrow> ('b \<Rightarrow> 'a \<Rightarrow> 'a) \<Rightarrow> 'b decoder \<Rightarrow> 'a decoder" where
  "field get put d x v = map_option (\<lambda>y. put y x) (d (get x) v)"

lemma fits_show_int: "lo \<le> i \<Longrightarrow> i \<le> hi \<Longrightarrow> fits lo hi (show_int i) = Some i"
proof -
  assume b: "lo \<le> i" "i \<le> hi"
  have "set_string10 (show_int i) = Some i"
  proof (cases "i < 0")
    case True
    then show ?thesis by (simp add: show_int_def set_string10_def digits10_dec_string)
  qed (simp add: show_int_def)
  with b show ?thesis by (simp add: fits_def)
qed

lemma field_for_exact: "map_of fs k = Some f \<Longrightarrow> field_for fs k = Some f"
  by (simp add: field_for_def)

end
