(* ===== verification/Http.thy ===== *)
theory Http
  imports Json OsFiles
begin

section \<open>HTTP, URLs and base64\<close>

text \<open>
  What the LLM commands use of \<open>net/http\<close>, \<open>net/url\<close> and \<open>encoding/base64\<close>. A request is what is
  handed to \<open>http.Client\<close>, a reply is its error or the status and the body that was read; the
  client itself is an argument of the definitions that use it.
\<close>

subsection \<open>Requests and replies\<close>

record http_request =
  hqMethod :: string
  hqURL :: string
  hqHeaders :: "(string \<times> string) list"
  hqBody :: string

type_synonym http_reply = "string + nat \<times> string"

record http_response =
  hpStatus :: nat
  hpContentType :: string
  hpBody :: string

text \<open>\<open>Header.Set\<close>: the key in its canonical form, one value per key.\<close>

fun canonical_from :: "bool \<Rightarrow> string \<Rightarrow> string" where
  "canonical_from up [] = []"
| "canonical_from up (c # cs) =
     (if up then to_upper_char c else to_lower_char c) # canonical_from (c = CHR ''-'') cs"

definition canonical_key :: "string \<Rightarrow> string" where
  "canonical_key k = canonical_from True k"

definition header_set :: "string \<Rightarrow> string \<Rightarrow> (string \<times> string) list \<Rightarrow> (string \<times> string) list" where
  "header_set k v hs = filter (\<lambda>h. fst h \<noteq> canonical_key k) hs @ [(canonical_key k, v)]"

definition set_headers :: "(string \<times> string) list \<Rightarrow> http_request \<Rightarrow> http_request" where
  "set_headers kvs r = r\<lparr>hqHeaders := fold (\<lambda>(k, v). header_set k v) kvs (hqHeaders r)\<rparr>"

text \<open>\<open>http.Error\<close>, and a value written by \<open>json.NewEncoder(w).Encode\<close>, which ends the line.\<close>

definition http_error :: "string \<Rightarrow> nat \<Rightarrow> http_response" where
  "http_error msg code =
     \<lparr>hpStatus = code, hpContentType = ''text/plain; charset=utf-8'', hpBody = msg @ newline_str\<rparr>"

definition json_response :: "nat \<Rightarrow> json \<Rightarrow> http_response" where
  "json_response code v =
     \<lparr>hpStatus = code, hpContentType = ''application/json'', hpBody = marshal v @ newline_str\<rparr>"

subsection \<open>Base64\<close>

definition b64_alphabet :: "bool \<Rightarrow> string" where
  "b64_alphabet url =
     ''ABCDEFGHIJKLMNOPQRSTUVWXYZabcdefghijklmnopqrstuvwxyz0123456789'' @ (if url then ''-_'' else ''+/'')"

definition b64_char :: "bool \<Rightarrow> nat \<Rightarrow> char" where
  "b64_char url n = b64_alphabet url ! n"

text \<open>\<open>EncodeToString\<close>: three bytes give four characters; padding only when \<open>pad\<close>.\<close>

fun b64_encode :: "bool \<Rightarrow> bool \<Rightarrow> bytes \<Rightarrow> string" where
  "b64_encode url pad (a # b # c # bs) =
     [b64_char url (unat a div 4), b64_char url (unat a mod 4 * 16 + unat b div 16),
      b64_char url (unat b mod 16 * 4 + unat c div 64), b64_char url (unat c mod 64)] @
     b64_encode url pad bs"
| "b64_encode url pad [a, b] =
     [b64_char url (unat a div 4), b64_char url (unat a mod 4 * 16 + unat b div 16),
      b64_char url (unat b mod 16 * 4)] @ (if pad then ''='' else [])"
| "b64_encode url pad [a] =
     [b64_char url (unat a div 4), b64_char url (unat a mod 4 * 16)] @ (if pad then ''=='' else [])"
| "b64_encode url pad [] = []"

definition raw_url_base64 :: "bytes \<Rightarrow> string" where
  "raw_url_base64 = b64_encode True False"

text \<open>\<open>StdEncoding.Decode\<close>, on input without line breaks: four characters at a time.\<close>

definition b64_value :: "bool \<Rightarrow> char \<Rightarrow> nat option" where
  "b64_value url c =
     (let n = length (takeWhile (\<lambda>d. d \<noteq> c) (b64_alphabet url))
      in if n < length (b64_alphabet url) then Some n else None)"

fun b64_decode :: "bool \<Rightarrow> string \<Rightarrow> bytes option" where
  "b64_decode url [] = Some []"
| "b64_decode url (p # q # r # s # cs) = do {
     a \<leftarrow> b64_value url p;
     b \<leftarrow> b64_value url q;
     if r = CHR ''='' then
       (if s = CHR ''='' \<and> cs = [] then Some [byte_of (a * 4 + b div 16)] else None)
     else do {
       c \<leftarrow> b64_value url r;
       if s = CHR ''='' then
         (if cs = [] then Some [byte_of (a * 4 + b div 16), byte_of (b mod 16 * 16 + c div 4)] else None)
       else do {
         d \<leftarrow> b64_value url s;
         bs \<leftarrow> b64_decode url cs;
         Some (byte_of (a * 4 + b div 16) # byte_of (b mod 16 * 16 + c div 4) # byte_of (c mod 4 * 64 + d) # bs)
       }
     }
   }"
| "b64_decode url cs = None"

lemma b64_length [simp]: "length (b64_alphabet url) = 64"
  by (simp add: b64_alphabet_def)

lemma b64_distinct: "distinct (b64_alphabet url)"
  by (cases url) (simp_all add: b64_alphabet_def)

lemma takeWhile_nth: "distinct xs \<Longrightarrow> n < length xs \<Longrightarrow> length (takeWhile (\<lambda>d. d \<noteq> xs ! n) xs) = n"
  by (induction xs arbitrary: n) (auto simp: nth_Cons split: nat.splits)

lemma b64_value_char: "n < 64 \<Longrightarrow> b64_value url (b64_char url n) = Some n"
  by (simp add: b64_value_def b64_char_def takeWhile_nth b64_distinct)

lemma b64_char_not_pad: "n < 64 \<Longrightarrow> b64_char url n \<noteq> CHR ''=''"
proof -
  assume "n < 64"
  then have "b64_char url n \<in> set (b64_alphabet url)" by (simp add: b64_char_def)
  then show ?thesis by (cases url) (auto simp: b64_alphabet_def)
qed

lemma byte_of_eq: "n = unat (x :: byte) \<Longrightarrow> byte_of n = x"
  by simp

lemma b64_bits:
  assumes "b < 256" "c < (256 :: nat)"
  shows "b div 16 div 16 = 0" "b div 16 mod 16 * 16 + (b mod 16 + c div 64 div 4) = b"
    "c div 64 mod 4 * 64 + c mod 64 = c" "b div 16 mod 16 * 16 + b mod 16 = b"
proof -
  show "b div 16 div 16 = 0" using assms(1) by (simp add: div_mult2_eq [symmetric])
  have "b div 16 < 16" "c div 64 < 4" using assms by simp_all
  then show "b div 16 mod 16 * 16 + (b mod 16 + c div 64 div 4) = b"
    "c div 64 mod 4 * 64 + c mod 64 = c" "b div 16 mod 16 * 16 + b mod 16 = b" by simp_all
qed

lemma b64_round_trip: "pad \<Longrightarrow> b64_decode url (b64_encode url pad bs) = Some bs"
proof (induction url pad bs rule: b64_encode.induct)
  case (1 url pad a b c bs)
  have "unat a div 4 < 64" "unat a mod 4 * 16 + unat b div 16 < 64"
    "unat b mod 16 * 4 + unat c div 64 < 64" "unat c mod 64 < 64"
    using unat_bound [of a] unat_bound [of b] unat_bound [of c] by simp_all
  with 1 show ?case
    using b64_bits [of "unat b" "unat c"] unat_bound [of b] unat_bound [of c]
    by (simp add: b64_value_char b64_char_not_pad byte_of_eq)
next
  case (2 url pad a b)
  have "unat a div 4 < 64" "unat a mod 4 * 16 + unat b div 16 < 64" "unat b mod 16 * 4 < 64"
    using unat_bound [of a] unat_bound [of b] by simp_all
  with 2 show ?case
    using b64_bits [of "unat b" 0] unat_bound [of b]
    by (simp add: b64_value_char b64_char_not_pad byte_of_eq)
next
  case (3 url pad a)
  have "unat a div 4 < 64" "unat a mod 4 * 16 < 64" using unat_bound [of a] by simp_all
  with 3 show ?case by (simp add: b64_value_char b64_char_not_pad)
qed simp

lemma length_b64_encode: "\<not> pad \<Longrightarrow> length (b64_encode url pad bs) = (4 * length bs + 2) div 3"
  by (induction url pad bs rule: b64_encode.induct) simp_all

subsection \<open>Queries\<close>

text \<open>\<open>url.QueryEscape\<close> and \<open>url.QueryUnescape\<close>.\<close>

definition unreserved :: "char \<Rightarrow> bool" where
  "unreserved c =
     (let n = of_char c :: nat in
      (97 \<le> n \<and> n \<le> 122) \<or> (65 \<le> n \<and> n \<le> 90) \<or> (48 \<le> n \<and> n \<le> 57) \<or>
      c \<in> {CHR ''-'', CHR ''_'', CHR ''.'', CHR ''~''})"

definition escape_char :: "char \<Rightarrow> string" where
  "escape_char c =
     (if unreserved c then [c]
      else if c = CHR '' '' then ''+''
      else let n = of_char c :: nat in
        [CHR ''%'', to_upper_char (hex_digit (n div 16)), to_upper_char (hex_digit (n mod 16))])"

definition query_escape :: "string \<Rightarrow> string" where
  "query_escape s = concat (map escape_char s)"

fun query_unescape :: "string \<Rightarrow> string option" where
  "query_unescape [] = Some []"
| "query_unescape (c # cs) =
     (if c = CHR ''%'' then
        (case cs of
           h # l # r \<Rightarrow> do {
             hi \<leftarrow> hex_nat h;
             lo \<leftarrow> hex_nat l;
             s \<leftarrow> query_unescape r;
             Some (char_of (16 * hi + lo) # s) }
         | _ \<Rightarrow> None)
      else map_option ((#) (if c = CHR ''+'' then CHR '' '' else c)) (query_unescape cs))"

text \<open>
  \<open>url.Values.Encode\<close> writes the keys in sorted order; the lists below are given in it. The
  parser behind \<open>URL.Query\<close> skips pieces it cannot read; \<open>Get\<close> is the first value or empty.
\<close>

definition values_encode :: "(string \<times> string) list \<Rightarrow> string" where
  "values_encode kvs = join_with ''&'' (map (\<lambda>(k, v). query_escape k @ ''='' @ query_escape v) kvs)"

definition query_piece :: "string \<Rightarrow> (string \<times> string) option" where
  "query_piece p =
     (if CHR '';'' \<in> set p \<or> p = [] then None
      else
        (case cut_on (CHR ''='') p of
           (k, v) \<Rightarrow> do {
             k \<leftarrow> query_unescape k;
             v \<leftarrow> query_unescape (case v of None \<Rightarrow> [] | Some v \<Rightarrow> v);
             Some (k, v) }))"

definition parse_query :: "string \<Rightarrow> (string \<times> string) list" where
  "parse_query q = List.map_filter query_piece (split_on (CHR ''&'') q)"

definition query_get :: "string \<Rightarrow> string \<Rightarrow> string" where
  "query_get q k = (case map_of (parse_query q) k of Some v \<Rightarrow> v | None \<Rightarrow> [])"

text \<open>What is encoded is read back.\<close>

lemma hex_nat_upper: "d < 16 \<Longrightarrow> hex_nat (to_upper_char (hex_digit d)) = Some d"
  by (auto simp: hex_nat_def hexVal_def to_upper_char_def unat_of_nat Let_def)

lemma unescape_escape_char:
  "query_unescape (escape_char c @ s) = map_option ((#) c) (query_unescape s)"
proof (cases "unreserved c \<or> c = CHR '' ''")
  case True
  then show ?thesis by (auto simp: escape_char_def unreserved_def Let_def)
next
  case False
  have n: "of_char c div 16 < (16 :: nat)" by (simp add: less_mult_imp_div_less)
  have "query_unescape (escape_char c @ s) = do { s' \<leftarrow> query_unescape s; Some (c # s') }"
    using False hex_nat_upper [OF n] hex_nat_upper [of "of_char c mod 16"]
    by (simp add: escape_char_def Let_def del: hex_digit.simps)
  then show ?thesis by (cases "query_unescape s") simp_all
qed

lemma query_unescape_escape: "query_unescape (query_escape s) = Some s"
  by (induction s) (simp_all add: query_escape_def unescape_escape_char)

lemma escape_char_set: "d \<in> set (escape_char c) \<Longrightarrow> unreserved d \<or> d = CHR ''+'' \<or> d = CHR ''%''"
proof -
  have up: "unreserved (to_upper_char (hex_digit n))" if "n < 16" for n
    using that by (auto simp: unreserved_def to_upper_char_def Let_def)
  have "of_char c div 16 < (16 :: nat)" by (simp add: less_mult_imp_div_less)
  then show "d \<in> set (escape_char c) \<Longrightarrow> ?thesis"
    by (auto simp: escape_char_def Let_def up simp del: hex_digit.simps split: if_splits)
qed

lemma query_escape_set: "c \<in> {CHR ''&'', CHR ''='', CHR '';''} \<Longrightarrow> c \<notin> set (query_escape s)"
proof
  assume c: "c \<in> {CHR ''&'', CHR ''='', CHR '';''}" and "c \<in> set (query_escape s)"
  then obtain d where "c \<in> set (escape_char d)" by (auto simp: query_escape_def)
  from escape_char_set [OF this] c show False by (auto simp: unreserved_def)
qed

lemma split_on_join: "ps \<noteq> [] \<Longrightarrow> \<forall>p \<in> set ps. c \<notin> set p \<Longrightarrow> split_on c (join_with [c] ps) = ps"
  by (induction "[c]" ps rule: join_with.induct) (simp_all add: split_on_append split_on_free)

lemma query_piece_escape:
  "query_piece (query_escape k @ ''='' @ query_escape v) = Some (k, v)"
  using query_escape_set [of "CHR '';''"] query_escape_set [of "CHR ''=''" k]
  by (simp add: query_piece_def cut_on_append query_unescape_escape)

lemma parse_query_encode: "kvs \<noteq> [] \<Longrightarrow> parse_query (values_encode kvs) = kvs"
proof -
  assume "kvs \<noteq> []"
  then have "split_on (CHR ''&'') (values_encode kvs) =
      map (\<lambda>(k, v). query_escape k @ ''='' @ query_escape v) kvs"
    using query_escape_set [of "CHR ''&''"]
    by (unfold values_encode_def, subst split_on_join) auto
  moreover have "List.map_filter query_piece (map (\<lambda>(k, v). query_escape k @ ''='' @ query_escape v) ms) = ms" for ms
    using query_piece_escape by (induction ms) auto
  ultimately show ?thesis by (simp add: parse_query_def)
qed

end
