(* ===== verification/LlmSetup.thy ===== *)
theory LlmSetup
  imports Http
begin

section \<open>The Claude login (llm_setup.go)\<close>

text \<open>
  The OAuth login with PKCE: the code challenge and the state, the callback server, the exchange of
  the code for tokens, and the token file. Random bytes, SHA-256, the answer of the token endpoint
  and the time an expiry falls on are arguments.
\<close>

subsection \<open>Constants and the token file\<close>

definition claudeAuthURL :: string where "claudeAuthURL = ''https://claude.ai/oauth/authorize''"
definition claudeTokenURL :: string where "claudeTokenURL = ''https://api.anthropic.com/v1/oauth/token''"
definition claudeClientID :: string where "claudeClientID = ''9d1c250a-e61b-44d9-88ed-5944d1962f5e''"
definition claudeRedirect :: string where "claudeRedirect = ''http://localhost:54545/callback''"
definition claudeScope :: string where "claudeScope = ''org:create_api_key user:profile user:inference''"
definition claudeTokenFile :: string where "claudeTokenFile = ''claude_token.json''"

record claudeToken =
  ctAccessToken :: string
  ctRefreshToken :: string
  ctEmail :: string
  ctExpire :: string
  ctOrgID :: string
  ctType :: string

definition empty_token :: claudeToken where
  "empty_token = \<lparr>ctAccessToken = [], ctRefreshToken = [], ctEmail = [], ctExpire = [], ctOrgID = [], ctType = []\<rparr>"

definition token_json :: "claudeToken \<Rightarrow> json" where
  "token_json t =
     JObj [(''access_token'', JStr (ctAccessToken t)), (''refresh_token'', JStr (ctRefreshToken t)),
           (''email'', JStr (ctEmail t)), (''expire'', JStr (ctExpire t)),
           (''org_id'', JStr (ctOrgID t)), (''type'', JStr (ctType t))]"

definition dec_token :: "claudeToken decoder" where
  "dec_token = dec_struct
     [(''access_token'', field ctAccessToken (\<lambda>v. ctAccessToken_update (\<lambda>_. v)) dec_str),
      (''refresh_token'', field ctRefreshToken (\<lambda>v. ctRefreshToken_update (\<lambda>_. v)) dec_str),
      (''email'', field ctEmail (\<lambda>v. ctEmail_update (\<lambda>_. v)) dec_str),
      (''expire'', field ctExpire (\<lambda>v. ctExpire_update (\<lambda>_. v)) dec_str),
      (''org_id'', field ctOrgID (\<lambda>v. ctOrgID_update (\<lambda>_. v)) dec_str),
      (''type'', field ctType (\<lambda>v. ctType_update (\<lambda>_. v)) dec_str)]"

definition tokenDir :: "string \<Rightarrow> string" where "tokenDir home = home @ ''/.ioswarm''"
definition tokenPath :: "string \<Rightarrow> string" where "tokenPath home = tokenDir home @ ''/'' @ claudeTokenFile"

datatype token_error = TokenUnreadable | TokenMalformed

definition loadToken :: "string \<Rightarrow> files \<Rightarrow> token_error + claudeToken" where
  "loadToken home fs =
     (case fs (tokenPath home) of
        None \<Rightarrow> Inl TokenUnreadable
      | Some data \<Rightarrow>
          (case Option.bind (unmarshal data) (dec_token empty_token) of
             None \<Rightarrow> Inl TokenMalformed
           | Some t \<Rightarrow> Inr t))"

text \<open>\<open>saveToken\<close> also sets the type in the token it was given.\<close>

definition saveToken ::
  "(string \<Rightarrow> string option) \<Rightarrow> string \<Rightarrow> files \<Rightarrow> claudeToken \<Rightarrow> string + claudeToken \<times> files" where
  "saveToken deny home fs t =
     (let t = t\<lparr>ctType := ''claude''\<rparr>
      in map_sum id (\<lambda>fs'. (t, fs')) (write_file deny fs (tokenPath home) (marshal_indent (token_json t))))"

subsection \<open>PKCE and state\<close>

record pkceCodes =
  pkVerifier :: string
  pkChallenge :: string

definition generatePKCE :: "(bytes \<Rightarrow> bytes) \<Rightarrow> bytes \<Rightarrow> pkceCodes" where
  "generatePKCE sha256 b =
     (let verifier = raw_url_base64 b;
          h = sha256 (bytes_of_string verifier)
      in \<lparr>pkVerifier = verifier, pkChallenge = raw_url_base64 h\<rparr>)"

definition generateState :: "bytes \<Rightarrow> string" where
  "generateState b = hex_of b"

definition auth_url :: "pkceCodes \<Rightarrow> string \<Rightarrow> string" where
  "auth_url pkce state =
     claudeAuthURL @ ''?'' @ values_encode
       [(''client_id'', claudeClientID), (''code'', ''true''), (''code_challenge'', pkChallenge pkce),
        (''code_challenge_method'', ''S256''), (''redirect_uri'', claudeRedirect),
        (''response_type'', ''code''), (''scope'', claudeScope), (''state'', state)]"

subsection \<open>The callback\<close>

datatype callback = Code string | StateMismatch | NoCode

definition success_page :: string where
  "success_page =
     ''<html><body style=\"background:#111;color:#fff;font-family:sans-serif;display:flex;align-items:center;justify-content:center;height:100vh;margin:0\">'' @
     newline_str @ replicate 3 (CHR 0x09) @ ''<div style=\"text-align:center\">'' @
     newline_str @ replicate 4 (CHR 0x09) @ ''<h1>'' @ [CHR 0xF0, CHR 0x9F, CHR 0x90, CHR 0x9D] @ '' Authenticated!</h1>'' @
     newline_str @ replicate 4 (CHR 0x09) @ ''<p>You can close this tab and return to your terminal.</p>'' @
     newline_str @ replicate 3 (CHR 0x09) @ ''</div></body></html>''"

text \<open>What the handler sends to the waiting \<open>select\<close> for a raw query, and the page it answers.\<close>

definition on_callback :: "string \<Rightarrow> string \<Rightarrow> callback \<times> string" where
  "on_callback state rawQuery =
     (let code = query_get rawQuery ''code''; cbState = query_get rawQuery ''state'' in
      if cbState \<noteq> state then
        (StateMismatch, ''Authentication failed: state mismatch. Close this tab.'')
      else if code = [] then
        (NoCode, ''Authentication failed: no code. Close this tab.'')
      else (Code code, success_page))"

subsection \<open>The exchange\<close>

definition token_body :: "string \<Rightarrow> string \<Rightarrow> pkceCodes \<Rightarrow> json" where
  "token_body code state pkce =
     JObj [(''client_id'', JStr claudeClientID), (''code'', JStr code),
           (''code_verifier'', JStr (pkVerifier pkce)), (''grant_type'', JStr ''authorization_code''),
           (''redirect_uri'', JStr claudeRedirect), (''state'', JStr state)]"

definition token_request :: "string \<Rightarrow> http_request" where
  "token_request body = set_headers
     [(''Content-Type'', ''application/json''), (''Accept'', ''application/json''),
      (''User-Agent'', ''claude-cli/2.1.22 (external, cli)'')]
     \<lparr>hqMethod = ''POST'', hqURL = claudeTokenURL, hqHeaders = [], hqBody = body\<rparr>"

record tokenResp =
  rtAccessToken :: string
  rtRefreshToken :: string
  rtExpiresIn :: int
  rtUUID :: string
  rtEmailAddress :: string

definition empty_resp :: tokenResp where
  "empty_resp = \<lparr>rtAccessToken = [], rtRefreshToken = [], rtExpiresIn = 0, rtUUID = [], rtEmailAddress = []\<rparr>"

definition dec_resp :: "tokenResp decoder" where
  "dec_resp = dec_struct
     [(''access_token'', field rtAccessToken (\<lambda>v. rtAccessToken_update (\<lambda>_. v)) dec_str),
      (''refresh_token'', field rtRefreshToken (\<lambda>v. rtRefreshToken_update (\<lambda>_. v)) dec_str),
      (''expires_in'', field rtExpiresIn (\<lambda>v. rtExpiresIn_update (\<lambda>_. v)) (dec_int (- (2 ^ 63)) (2 ^ 63 - 1))),
      (''organization'', field rtUUID (\<lambda>v. rtUUID_update (\<lambda>_. v)) (dec_struct [(''uuid'', dec_str)])),
      (''account'', field rtEmailAddress (\<lambda>v. rtEmailAddress_update (\<lambda>_. v))
         (dec_struct [(''email_address'', dec_str)]))]"

datatype oauth_error =
    ListenFailed string
  | BadState
  | MissingCode
  | AuthTimeout
  | ExchangeFailed string
  | ExchangeStatus nat string
  | BadTokenResponse
  | SaveFailed string

text \<open>Seconds as a \<open>time.Duration\<close>: nanoseconds, which wrap around.\<close>

definition seconds :: "int \<Rightarrow> int" where
  "seconds s = sint (word_of_int (s * 1000000000) :: 64 word)"

definition exchange_result :: "(int \<Rightarrow> string) \<Rightarrow> http_reply \<Rightarrow> oauth_error + claudeToken" where
  "exchange_result expiry reply =
     (case reply of
        Inl e \<Rightarrow> Inl (ExchangeFailed e)
      | Inr (status, body) \<Rightarrow>
          if status \<noteq> 200 then Inl (ExchangeStatus status (take 500 body))
          else
            (case Option.bind (decode_first body) (dec_resp empty_resp) of
               None \<Rightarrow> Inl BadTokenResponse
             | Some r \<Rightarrow> Inr
                 \<lparr>ctAccessToken = rtAccessToken r, ctRefreshToken = rtRefreshToken r,
                  ctEmail = rtEmailAddress r, ctExpire = expiry (seconds (rtExpiresIn r)),
                  ctOrgID = rtUUID r, ctType = []\<rparr>))"

subsection \<open>The login\<close>

text \<open>
  \<open>oaCallback\<close> is the raw query of the callback whose message the \<open>select\<close> receives, if one comes
  before the timeout.
\<close>

record oauth_env =
  oaVerifier :: bytes
  oaState :: bytes
  oaSha256 :: "bytes \<Rightarrow> bytes"
  oaListen :: "string option"
  oaCallback :: "string option"
  oaDo :: "http_request \<Rightarrow> http_reply"
  oaExpiry :: "int \<Rightarrow> string"
  oaDeny :: "string \<Rightarrow> string option"
  oaHome :: string

record oauth_run =
  orResult :: "oauth_error + claudeToken"
  orSent :: "http_request list"
  orPrinted :: "string list"
  orFiles :: files

definition oauth_stop :: "files \<Rightarrow> string list \<Rightarrow> oauth_error \<Rightarrow> oauth_run" where
  "oauth_stop fs printed e = \<lparr>orResult = Inl e, orSent = [], orPrinted = printed, orFiles = fs\<rparr>"

definition finish_exchange ::
  "oauth_env \<Rightarrow> files \<Rightarrow> oauth_error + claudeToken \<Rightarrow> (oauth_error + claudeToken) \<times> files" where
  "finish_exchange E fs r =
     (case r of
        Inl e \<Rightarrow> (Inl e, fs)
      | Inr t \<Rightarrow>
          (case saveToken (oaDeny E) (oaHome E) fs t of
             Inl e \<Rightarrow> (Inl (SaveFailed e), fs)
           | Inr (t', fs') \<Rightarrow> (Inr t', fs')))"

definition exchange_code :: "oauth_env \<Rightarrow> files \<Rightarrow> string list \<Rightarrow> pkceCodes \<Rightarrow> string \<Rightarrow> string \<Rightarrow> oauth_run" where
  "exchange_code E fs printed pkce state code =
     (let tokenJSON = marshal (token_body code state pkce);
          req = token_request tokenJSON;
          r = finish_exchange E fs (exchange_result (oaExpiry E) (oaDo E req))
      in \<lparr>orResult = fst r, orSent = [req],
          orPrinted = printed @ [''Exchanging code for tokens...'', ''  Token request body: '' @ tokenJSON],
          orFiles = snd r\<rparr>)"

definition login_lines :: "string \<Rightarrow> string list" where
  "login_lines authURL =
     [''Opening browser for Claude login...'',
      ''If browser doesn't open, visit:'' @ newline_str @ ''  '' @ authURL @ newline_str,
      ''Waiting for authentication...'']"

definition runClaudeOAuth :: "oauth_env \<Rightarrow> files \<Rightarrow> oauth_run" where
  "runClaudeOAuth E fs =
     (let pkce = generatePKCE (oaSha256 E) (oaVerifier E);
          state = generateState (oaState E);
          authURL = auth_url pkce state
      in case oaListen E of
           Some e \<Rightarrow> oauth_stop fs [] (ListenFailed e)
         | None \<Rightarrow>
             let printed = login_lines authURL
             in (case map_option (fst \<circ> on_callback state) (oaCallback E) of
                   None \<Rightarrow> oauth_stop fs printed AuthTimeout
                 | Some StateMismatch \<Rightarrow> oauth_stop fs printed BadState
                 | Some NoCode \<Rightarrow> oauth_stop fs printed MissingCode
                 | Some (Code code) \<Rightarrow> exchange_code E fs printed pkce state code))"

datatype setup_result = KeptToken claudeToken | SetupFailed oauth_error | LoggedIn claudeToken

definition do_login :: "oauth_env \<Rightarrow> files \<Rightarrow> setup_result \<times> http_request list \<times> files" where
  "do_login E fs =
     (let r = runClaudeOAuth E fs
      in (case orResult r of Inl e \<Rightarrow> SetupFailed e | Inr t \<Rightarrow> LoggedIn t, orSent r, orFiles r))"

text \<open>\<open>answer\<close> is the word \<open>Scanln\<close> reads, empty for an empty line.\<close>

definition runLLMSetup :: "oauth_env \<Rightarrow> string \<Rightarrow> files \<Rightarrow> setup_result \<times> http_request list \<times> files" where
  "runLLMSetup E answer fs =
     (case loadToken (oaHome E) fs of
        Inr existing \<Rightarrow>
          if ctAccessToken existing \<noteq> [] \<and> to_lower answer \<noteq> ''y'' then (KeptToken existing, [], fs)
          else do_login E fs
      | Inl e \<Rightarrow> do_login E fs)"

subsection \<open>The token file is read back\<close>

lemma token_json_numbers: "numbers_ok (token_json t)"
  by (simp add: token_json_def)

lemma dec_token_json: "dec_token old (token_json t) = Some t"
  by (simp add: dec_token_def token_json_def field_for_def field_def)

lemma loadToken_saveToken:
  "saveToken deny home fs t = Inr (t', fs') \<Longrightarrow>
     t' = t\<lparr>ctType := ''claude''\<rparr> \<and> loadToken home fs' = Inr t' \<and> (\<forall>p. p \<noteq> tokenPath home \<longrightarrow> fs' p = fs p)"
  by (auto simp: saveToken_def Let_def write_file_def loadToken_def dec_token_json token_json_numbers
      unmarshal_marshal split: option.splits)

lemma finish_exchange_ok:
  "finish_exchange E fs r = (Inr t, fs') \<Longrightarrow>
     loadToken (oaHome E) fs' = Inr t \<and> ctType t = ''claude'' \<and> (\<forall>p. p \<noteq> tokenPath (oaHome E) \<longrightarrow> fs' p = fs p)"
  by (auto simp: finish_exchange_def split: sum.splits prod.splits dest!: loadToken_saveToken)

lemma finish_exchange_fails: "finish_exchange E fs r = (Inl e, fs') \<Longrightarrow> fs' = fs"
  by (auto simp: finish_exchange_def split: sum.splits prod.splits)

text \<open>A request is sent only after a callback with the generated state and a code.\<close>

lemma on_callback_code:
  "fst (on_callback state q) = Code c \<longleftrightarrow>
     query_get q ''state'' = state \<and> query_get q ''code'' = c \<and> c \<noteq> []"
  by (auto simp: on_callback_def Let_def)

lemma runClaudeOAuth_cases:
  obtains (stopped) e where "orSent (runClaudeOAuth E fs) = []" "orFiles (runClaudeOAuth E fs) = fs"
      "orResult (runClaudeOAuth E fs) = Inl e"
  | (exchanged) q c printed where "oaListen E = None" "oaCallback E = Some q"
      "query_get q ''state'' = generateState (oaState E)" "query_get q ''code'' = c" "c \<noteq> []"
      "runClaudeOAuth E fs =
         exchange_code E fs printed (generatePKCE (oaSha256 E) (oaVerifier E)) (generateState (oaState E)) c"
proof (cases "oaListen E")
  case (Some e)
  then show thesis by (intro stopped) (simp_all add: runClaudeOAuth_def oauth_stop_def Let_def)
next
  case None
  show thesis
  proof (cases "oaCallback E")
    case None': None
    with None show thesis by (intro stopped) (simp_all add: runClaudeOAuth_def oauth_stop_def Let_def)
  next
    case (Some q)
    show thesis
    proof (cases "fst (on_callback (generateState (oaState E)) q)")
      case (Code c)
      with None Some show thesis
        using on_callback_code [of "generateState (oaState E)" q c]
        by (intro exchanged [of q c "login_lines (auth_url (generatePKCE (oaSha256 E) (oaVerifier E)) (generateState (oaState E)))"])
          (simp_all add: runClaudeOAuth_def Let_def)
    qed (use None Some in \<open>auto intro!: stopped simp: runClaudeOAuth_def oauth_stop_def Let_def\<close>)
  qed
qed

end
