(* ===== verification/Llm.thy ===== *)
theory Llm
  imports LlmSetup Flags
begin

section \<open>The LLM proxy (llm.go)\<close>

text \<open>
  The OpenAI-compatible proxy: which models it offers, which provider a request goes to with which
  key, the request it sends and what it makes of the reply. The environment, the token file, the
  HTTP client and the texts of encoding/json's errors are arguments. Maps are written with their
  keys in sorted order, as \<open>json.Marshal\<close> writes them.
\<close>

subsection \<open>Types\<close>

record llmMessage =
  lmRole :: string
  lmContent :: string

record llmRequest =
  lqModel :: string
  lqMessages :: "llmMessage list option"

record llmChoice =
  lcIndex :: nat
  lcMessage :: llmMessage
  lcFinishReason :: string

record llmUsage =
  luPromptTokens :: nat
  luCompletionTokens :: nat
  luTotalTokens :: nat

record llmResponse =
  lrID :: string
  lrObject :: string
  lrModel :: string
  lrChoices :: "llmChoice list"
  lrUsage :: llmUsage

definition message_json :: "llmMessage \<Rightarrow> json" where
  "message_json m = JObj [(''role'', JStr (lmRole m)), (''content'', JStr (lmContent m))]"

definition choice_json :: "llmChoice \<Rightarrow> json" where
  "choice_json c =
     JObj [(''index'', json_nat (lcIndex c)), (''message'', message_json (lcMessage c)),
           (''finish_reason'', JStr (lcFinishReason c))]"

definition usage_json :: "llmUsage \<Rightarrow> json" where
  "usage_json u =
     JObj [(''prompt_tokens'', json_nat (luPromptTokens u)),
           (''completion_tokens'', json_nat (luCompletionTokens u)),
           (''total_tokens'', json_nat (luTotalTokens u))]"

definition response_json :: "llmResponse \<Rightarrow> json" where
  "response_json r =
     JObj [(''id'', JStr (lrID r)), (''object'', JStr (lrObject r)), (''model'', JStr (lrModel r)),
           (''choices'', JArr (map choice_json (lrChoices r))), (''usage'', usage_json (lrUsage r))]"

definition dec_message :: "llmMessage decoder" where
  "dec_message = dec_struct
     [(''role'', field lmRole (\<lambda>v. lmRole_update (\<lambda>_. v)) dec_str),
      (''content'', field lmContent (\<lambda>v. lmContent_update (\<lambda>_. v)) dec_str)]"

definition empty_message :: llmMessage where "empty_message = \<lparr>lmRole = [], lmContent = []\<rparr>"

definition dec_request :: "llmRequest decoder" where
  "dec_request = dec_struct
     [(''model'', field lqModel (\<lambda>v. lqModel_update (\<lambda>_. v)) dec_str),
      (''messages'', field lqMessages (\<lambda>v. lqMessages_update (\<lambda>_. v)) (dec_slice dec_message empty_message))]"

definition empty_request :: llmRequest where "empty_request = \<lparr>lqModel = [], lqMessages = None\<rparr>"

subsection \<open>Keys and models\<close>

record llm_env =
  leGetenv :: "string \<Rightarrow> string"
  leHome :: string
  leFiles :: files
  leJsonError :: "string \<Rightarrow> string"

definition anthropicModelMap :: "string \<Rightarrow> string" where
  "anthropicModelMap model =
     (if model = ''claude-opus-4.6'' then ''claude-opus-4-20250514''
      else if model = ''claude-sonnet-4.6'' then ''claude-sonnet-4-20250514''
      else if model = ''claude-haiku-4.5'' then ''claude-haiku-4-5-20251001''
      else [])"

definition getClaudeKey :: "llm_env \<Rightarrow> string" where
  "getClaudeKey E =
     (let key = leGetenv E ''ANTHROPIC_API_KEY'' in
      if key \<noteq> [] then key
      else (case loadToken (leHome E) (leFiles E) of
              Inl e \<Rightarrow> []
            | Inr token \<Rightarrow> ctAccessToken token))"

definition geminiKey :: "llm_env \<Rightarrow> string" where "geminiKey E = leGetenv E ''GEMINI_API_KEY''"
definition openaiKey :: "llm_env \<Rightarrow> string" where "openaiKey E = leGetenv E ''OPENAI_API_KEY''"

definition detectModels :: "llm_env \<Rightarrow> string list" where
  "detectModels E =
     (if getClaudeKey E \<noteq> [] then [''claude-opus-4.6'', ''claude-sonnet-4.6'', ''claude-haiku-4.5''] else []) @
     (if geminiKey E \<noteq> [] then [''gemini-2.0-flash'', ''gemini-1.5-flash''] else []) @
     (if openaiKey E \<noteq> [] then [''gpt-4o''] else [])"

definition truncate :: "string \<Rightarrow> nat \<Rightarrow> string" where
  "truncate s n = (if length s \<le> n then s else take n s)"

definition isOAuthToken :: "string \<Rightarrow> bool" where
  "isOAuthToken key = (\<not> has_prefix key ''sk-ant-api'')"

subsection \<open>Providers\<close>

datatype provider = Anthropic | Gemini | OpenAI

definition provider_name :: "provider \<Rightarrow> string" where
  "provider_name p = (case p of Anthropic \<Rightarrow> ''anthropic'' | Gemini \<Rightarrow> ''gemini'' | OpenAI \<Rightarrow> ''openai'')"

datatype llm_error =
    RequestFailed provider string
  | BadStatus provider nat string
  | BadReply provider string
  | EmptyReply provider
  | NoKey string

definition error_text :: "llm_error \<Rightarrow> string" where
  "error_text e =
     (case e of
        RequestFailed p t \<Rightarrow> provider_name p @ '' request: '' @ t
      | BadStatus p n body \<Rightarrow> provider_name p @ '' '' @ dec_string n @ '': '' @ body
      | BadReply p t \<Rightarrow> ''parse '' @ provider_name p @ '' response: '' @ t
      | EmptyReply p \<Rightarrow> ''empty response from '' @ provider_name p
      | NoKey m \<Rightarrow> ''no key configured for model '' @ m)"

text \<open>The reply of a provider: the first text of the decoded body.\<close>

definition reply_text ::
  "llm_env \<Rightarrow> provider \<Rightarrow> 'a decoder \<Rightarrow> 'a \<Rightarrow> ('a \<Rightarrow> string list) \<Rightarrow> http_reply \<Rightarrow> llm_error + string" where
  "reply_text E p dec zero texts reply =
     (case reply of
        Inl e \<Rightarrow> Inl (RequestFailed p e)
      | Inr (status, body) \<Rightarrow>
          if status \<noteq> 200 then Inl (BadStatus p status (truncate body 200))
          else
            (case Option.bind (unmarshal body) (dec zero) of
               None \<Rightarrow> Inl (BadReply p (leJsonError E body))
             | Some r \<Rightarrow> (case texts r of [] \<Rightarrow> Inl (EmptyReply p) | t # ts \<Rightarrow> Inr t)))"

text \<open>Each struct of a reply has one field, so it is decoded as that field.\<close>

definition dec_only :: "string \<Rightarrow> 'a decoder \<Rightarrow> 'a decoder" where
  "dec_only name d = dec_struct [(name, d)]"

definition anthropic_system :: "llmMessage list \<Rightarrow> string" where
  "anthropic_system ms = fold (\<lambda>m s. if lmRole m = ''system'' then lmContent m else s) ms []"

definition api_message :: "llmMessage \<Rightarrow> json" where
  "api_message m = JObj [(''content'', JStr (lmContent m)), (''role'', JStr (lmRole m))]"

definition anthropic_body :: "string \<Rightarrow> llmMessage list \<Rightarrow> json" where
  "anthropic_body model ms =
     (let realModel = (if anthropicModelMap model = [] then model else anthropicModelMap model);
          system = anthropic_system ms;
          apiMsgs = filter (\<lambda>m. lmRole m \<noteq> ''system'') ms
      in JObj ([(''max_tokens'', json_nat 4096),
                (''messages'', json_slice api_message (appended apiMsgs)),
                (''model'', JStr realModel)] @
               (if system \<noteq> [] then [(''system'', JStr system)] else [])))"

definition anthropic_headers :: "string \<Rightarrow> (string \<times> string) list" where
  "anthropic_headers key =
     (if isOAuthToken key
      then [(''authorization'', ''Bearer '' @ key),
            (''anthropic-beta'', ''claude-code-20250219,oauth-2025-04-20,interleaved-thinking-2025-05-14''),
            (''user-agent'', ''claude-cli/2.1.22 (external, cli)''),
            (''x-app'', ''cli''),
            (''anthropic-dangerous-direct-browser-access'', ''true'')]
      else [(''x-api-key'', key)]) @
     [(''anthropic-version'', ''2023-06-01''), (''content-type'', ''application/json'')]"

definition anthropic_request :: "string \<Rightarrow> string \<Rightarrow> llmMessage list \<Rightarrow> http_request" where
  "anthropic_request key model ms = set_headers (anthropic_headers key)
     \<lparr>hqMethod = ''POST'', hqURL = ''https://api.anthropic.com/v1/messages'', hqHeaders = [],
      hqBody = marshal (anthropic_body model ms)\<rparr>"

definition callAnthropic ::
  "llm_env \<Rightarrow> (http_request \<Rightarrow> http_reply) \<Rightarrow> string \<Rightarrow> llmMessage list \<Rightarrow>
   (llm_error + string) \<times> http_request list" where
  "callAnthropic E send model ms =
     (let req = anthropic_request (getClaudeKey E) model ms
      in (reply_text E Anthropic (dec_only ''content'' (dec_slice (dec_only ''text'' dec_str) [])) None elems
            (send req), [req]))"

definition gemini_role :: "string \<Rightarrow> string" where
  "gemini_role role = (if role = ''assistant'' \<or> role = ''model'' then ''model'' else ''user'')"

definition gemini_content :: "llmMessage \<Rightarrow> json" where
  "gemini_content m =
     JObj [(''parts'', JArr [JObj [(''text'', JStr (lmContent m))]]), (''role'', JStr (gemini_role (lmRole m)))]"

definition gemini_body :: "llmMessage list \<Rightarrow> json" where
  "gemini_body ms = JObj [(''contents'', json_slice gemini_content (appended ms))]"

definition gemini_request :: "string \<Rightarrow> string \<Rightarrow> llmMessage list \<Rightarrow> http_request" where
  "gemini_request key model ms = set_headers [(''Content-Type'', ''application/json'')]
     \<lparr>hqMethod = ''POST'',
      hqURL = ''https://generativelanguage.googleapis.com/v1beta/models/'' @ model @ '':generateContent?key='' @ key,
      hqHeaders = [], hqBody = marshal (gemini_body ms)\<rparr>"

text \<open>The texts of the first candidate; none when there is no candidate or it has no parts.\<close>

definition gemini_texts :: "string list option list option \<Rightarrow> string list" where
  "gemini_texts cs = (case elems cs of [] \<Rightarrow> [] | parts # _ \<Rightarrow> elems parts)"

definition callGemini ::
  "llm_env \<Rightarrow> (http_request \<Rightarrow> http_reply) \<Rightarrow> string \<Rightarrow> llmMessage list \<Rightarrow>
   (llm_error + string) \<times> http_request list" where
  "callGemini E send model ms =
     (let req = gemini_request (geminiKey E) model ms
      in (reply_text E Gemini
            (dec_only ''candidates'' (dec_slice
              (dec_only ''content'' (dec_only ''parts'' (dec_slice (dec_only ''text'' dec_str) []))) None))
            None gemini_texts (send req), [req]))"

definition openai_body :: "string \<Rightarrow> llmMessage list option \<Rightarrow> json" where
  "openai_body model ms = JObj [(''messages'', json_slice message_json ms), (''model'', JStr model)]"

definition openai_request :: "string \<Rightarrow> string \<Rightarrow> llmMessage list option \<Rightarrow> http_request" where
  "openai_request key model ms = set_headers
     [(''Authorization'', ''Bearer '' @ key), (''Content-Type'', ''application/json'')]
     \<lparr>hqMethod = ''POST'', hqURL = ''https://api.openai.com/v1/chat/completions'', hqHeaders = [],
      hqBody = marshal (openai_body model ms)\<rparr>"

definition callOpenAI ::
  "llm_env \<Rightarrow> (http_request \<Rightarrow> http_reply) \<Rightarrow> string \<Rightarrow> llmMessage list option \<Rightarrow>
   (llm_error + string) \<times> http_request list" where
  "callOpenAI E send model ms =
     (let req = openai_request (openaiKey E) model ms
      in (reply_text E OpenAI
            (dec_only ''choices'' (dec_slice (dec_only ''message'' (dec_only ''content'' dec_str)) []))
            None elems (send req), [req]))"

definition routeLLM ::
  "llm_env \<Rightarrow> (http_request \<Rightarrow> http_reply) \<Rightarrow> string \<Rightarrow> llmMessage list option \<Rightarrow>
   (llm_error + string) \<times> http_request list" where
  "routeLLM E send model ms =
     (if has_prefix model ''claude'' \<and> getClaudeKey E \<noteq> [] then callAnthropic E send model (elems ms)
      else if has_prefix model ''gemini'' \<and> geminiKey E \<noteq> [] then callGemini E send model (elems ms)
      else if has_prefix model ''gpt'' \<and> openaiKey E \<noteq> [] then callOpenAI E send model ms
      else (Inl (NoKey model), []))"

subsection \<open>Handlers\<close>

definition chat_model :: "string \<Rightarrow> string" where
  "chat_model model = fold (\<lambda>p m. trim_prefix m p) [''clawhive/'', ''google/'', ''anthropic/'', ''openai/''] model"

definition error_json :: "string \<Rightarrow> json" where
  "error_json msg = JObj [(''error'', JObj [(''message'', JStr msg)])]"

definition chat_usage :: "llmMessage list \<Rightarrow> string \<Rightarrow> llmUsage" where
  "chat_usage ms text =
     (let inputTokens = (\<Sum>m \<leftarrow> ms. length (lmContent m) div 4);
          outputTokens = length text div 4
      in \<lparr>luPromptTokens = inputTokens, luCompletionTokens = outputTokens,
          luTotalTokens = inputTokens + outputTokens\<rparr>)"

definition chat_response :: "nat \<Rightarrow> string \<Rightarrow> llmMessage list \<Rightarrow> string \<Rightarrow> llmResponse" where
  "chat_response now model ms text =
     \<lparr>lrID = ''chatcmpl-'' @ dec_string now, lrObject = ''chat.completion'', lrModel = model,
      lrChoices = [\<lparr>lcIndex = 0, lcMessage = \<lparr>lmRole = ''assistant'', lmContent = text\<rparr>, lcFinishReason = ''stop''\<rparr>],
      lrUsage = chat_usage ms text\<rparr>"

definition post_only :: string where
  "post_only = ''{\"error\":{\"message\":\"POST only\"}}''"

definition handleLLMChat ::
  "llm_env \<Rightarrow> (http_request \<Rightarrow> http_reply) \<Rightarrow> nat \<Rightarrow> string \<Rightarrow> string \<Rightarrow> http_response \<times> http_request list" where
  "handleLLMChat E send now method body =
     (if method \<noteq> ''POST'' then (http_error post_only 405, [])
      else
        (case Option.bind (decode_first body) (dec_request empty_request) of
           None \<Rightarrow> (json_response 400 (error_json ''Invalid JSON''), [])
         | Some req \<Rightarrow>
             let model = chat_model (lqModel req) in
             (case routeLLM E send model (lqMessages req) of
                (Inl e, sent) \<Rightarrow> (json_response 502 (error_json (error_text e)), sent)
              | (Inr text, sent) \<Rightarrow>
                  (json_response 200 (response_json (chat_response now model (elems (lqMessages req)) text)), sent))))"

definition handleLLMHealth :: "llm_env \<Rightarrow> http_response" where
  "handleLLMHealth E =
     json_response 200
       (JObj [(''models'', json_slice JStr (appended (detectModels E))), (''status'', JStr ''ok'')])"

definition handleLLMModels :: "llm_env \<Rightarrow> http_response" where
  "handleLLMModels E =
     json_response 200
       (JObj [(''data'', json_slice (\<lambda>m. JObj [(''id'', JStr m), (''object'', JStr ''model'')])
                 (appended (detectModels E))),
              (''object'', JStr ''list'')])"

text \<open>The three paths of the proxy; any other is answered by \<open>net/http\<close>.\<close>

definition llm_serve ::
  "llm_env \<Rightarrow> (http_request \<Rightarrow> http_reply) \<Rightarrow> nat \<Rightarrow> string \<Rightarrow> string \<Rightarrow> string \<Rightarrow>
   (http_response \<times> http_request list) option" where
  "llm_serve E send now path method body =
     (if path = ''/v1/chat/completions'' then Some (handleLLMChat E send now method body)
      else if path = ''/health'' then Some (handleLLMHealth E, [])
      else if path = ''/v1/models'' then Some (handleLLMModels E, [])
      else None)"

subsection \<open>Starting the proxy\<close>

datatype proxy_start =
    NoModels
  | Serving int "string list"
  | ProxyFailed string

definition startLLMProxy :: "llm_env \<Rightarrow> (int \<Rightarrow> string option) \<Rightarrow> int \<Rightarrow> proxy_start" where
  "startLLMProxy E listen port =
     (let models = detectModels E in
      if models = [] then NoModels
      else (case listen port of Some e \<Rightarrow> ProxyFailed e | None \<Rightarrow> Serving port models))"

definition llm_flag_kind :: "string \<Rightarrow> flag_kind option" where
  "llm_flag_kind name = (if name = ''port'' then Some IntFlag else None)"

definition runLLMProxy :: "llm_env \<Rightarrow> (int \<Rightarrow> string option) \<Rightarrow> string list \<Rightarrow> flag_error + proxy_start" where
  "runLLMProxy E listen args =
     map_sum id (\<lambda>(as, left). startLLMProxy E listen (int_value as ''port'' 8082)) (parse_flags llm_flag_kind args)"

subsection \<open>One request, to the provider of the model\<close>

definition provider_of :: "string \<Rightarrow> provider option" where
  "provider_of model =
     (if has_prefix model ''claude'' then Some Anthropic
      else if has_prefix model ''gemini'' then Some Gemini
      else if has_prefix model ''gpt'' then Some OpenAI
      else None)"

definition llm_key :: "llm_env \<Rightarrow> provider \<Rightarrow> string" where
  "llm_key E p = (case p of Anthropic \<Rightarrow> getClaudeKey E | Gemini \<Rightarrow> geminiKey E | OpenAI \<Rightarrow> openaiKey E)"

definition provider_host :: "provider \<Rightarrow> string" where
  "provider_host p =
     (case p of Anthropic \<Rightarrow> ''https://api.anthropic.com/''
      | Gemini \<Rightarrow> ''https://generativelanguage.googleapis.com/''
      | OpenAI \<Rightarrow> ''https://api.openai.com/'')"

lemma prefixes_disjoint:
  "has_prefix m ''gemini'' \<Longrightarrow> \<not> has_prefix m ''claude''"
  "has_prefix m ''gpt'' \<Longrightarrow> \<not> has_prefix m ''claude'' \<and> \<not> has_prefix m ''gemini''"
  by (auto simp: has_prefix_iff)

definition call_provider ::
  "llm_env \<Rightarrow> (http_request \<Rightarrow> http_reply) \<Rightarrow> provider \<Rightarrow> string \<Rightarrow> llmMessage list option \<Rightarrow>
   (llm_error + string) \<times> http_request list" where
  "call_provider E send p model ms =
     (case p of Anthropic \<Rightarrow> callAnthropic E send model (elems ms)
      | Gemini \<Rightarrow> callGemini E send model (elems ms)
      | OpenAI \<Rightarrow> callOpenAI E send model ms)"

lemma routeLLM_provider:
  "routeLLM E send model ms =
     (case provider_of model of
        None \<Rightarrow> (Inl (NoKey model), [])
      | Some p \<Rightarrow> if llm_key E p \<noteq> [] then call_provider E send p model ms else (Inl (NoKey model), []))"
  using prefixes_disjoint [of model]
  by (auto simp: routeLLM_def provider_of_def llm_key_def call_provider_def)

lemma hqURL_set_headers [simp]: "hqURL (set_headers hs r) = hqURL r"
  by (simp add: set_headers_def)

lemma call_provider_request:
  "\<exists>req. snd (call_provider E send p model ms) = [req] \<and> has_prefix (hqURL req) (provider_host p)"
  by (cases p) (simp_all add: call_provider_def callAnthropic_def callGemini_def callOpenAI_def Let_def
      anthropic_request_def gemini_request_def openai_request_def provider_host_def)

lemma reply_text_cong:
  "leJsonError E = leJsonError E' \<Longrightarrow> reply_text E p dec zero texts r = reply_text E' p dec zero texts r"
  by (auto simp: reply_text_def split: sum.splits option.splits list.splits)

lemma call_provider_key:
  "llm_key E p = llm_key E' p \<Longrightarrow> leJsonError E = leJsonError E' \<Longrightarrow>
   call_provider E send p model ms = call_provider E' send p model ms"
  by (cases p) (simp_all add: call_provider_def callAnthropic_def callGemini_def callOpenAI_def Let_def
      llm_key_def reply_text_cong [of E E'])

lemma handleLLMChat_sent:
  assumes "handleLLMChat E send now method body = (resp, sent)" and "sent \<noteq> []"
  obtains r p req where "method = ''POST''" "Option.bind (decode_first body) (dec_request empty_request) = Some r"
    "provider_of (chat_model (lqModel r)) = Some p" "llm_key E p \<noteq> []" "sent = [req]"
    "has_prefix (hqURL req) (provider_host p)"
proof -
  obtain r where r: "method = ''POST''" "Option.bind (decode_first body) (dec_request empty_request) = Some r"
    and sent: "sent = snd (routeLLM E send (chat_model (lqModel r)) (lqMessages r))"
    using assms by (auto simp: handleLLMChat_def Let_def split: if_splits option.splits sum.splits prod.splits)
  with assms(2) obtain p where p: "provider_of (chat_model (lqModel r)) = Some p" "llm_key E p \<noteq> []"
    "sent = snd (call_provider E send p (chat_model (lqModel r)) (lqMessages r))"
    by (auto simp: routeLLM_provider split: option.splits if_splits)
  with r that call_provider_request [of E send p] show thesis by metis
qed

lemma handleLLMChat_key:
  assumes "Option.bind (decode_first body) (dec_request empty_request) = Some r"
    and "provider_of (chat_model (lqModel r)) = Some p"
    and "llm_key E p = llm_key E' p" and "leJsonError E = leJsonError E'"
  shows "handleLLMChat E send now method body = handleLLMChat E' send now method body"
  using assms call_provider_key [OF assms(3,4)]
  by (simp add: handleLLMChat_def Let_def routeLLM_provider)

lemma provider_of_listed:
  "provider_of ''claude-opus-4.6'' = Some Anthropic" "provider_of ''claude-sonnet-4.6'' = Some Anthropic"
  "provider_of ''claude-haiku-4.5'' = Some Anthropic" "provider_of ''gemini-2.0-flash'' = Some Gemini"
  "provider_of ''gemini-1.5-flash'' = Some Gemini" "provider_of ''gpt-4o'' = Some OpenAI"
  by (simp_all add: provider_of_def)

lemma detectModels_routed:
  assumes "m \<in> set (detectModels E)"
  shows "\<exists>p. provider_of m = Some p \<and> llm_key E p \<noteq> []"
  using assms provider_of_listed by (auto simp: detectModels_def llm_key_def split: if_splits)

subsection \<open>What a client gets\<close>

text \<open>The replies of the providers that carry one text, and the client's request.\<close>

definition provider_reply :: "provider \<Rightarrow> string \<Rightarrow> json" where
  "provider_reply p t =
     (case p of
        Anthropic \<Rightarrow> JObj [(''content'', JArr [JObj [(''type'', JStr ''text''), (''text'', JStr t)]])]
      | Gemini \<Rightarrow> JObj [(''candidates'', JArr [JObj [(''content'', JObj [(''parts'', JArr [JObj [(''text'', JStr t)]])])]])]
      | OpenAI \<Rightarrow> JObj [(''choices'', JArr [JObj [(''index'', json_nat 0), (''message'', JObj [(''role'', JStr ''assistant''), (''content'', JStr t)])]])])"

definition request_json :: "llmRequest \<Rightarrow> json" where
  "request_json r =
     JObj [(''model'', JStr (lqModel r)), (''messages'', json_slice message_json (lqMessages r))]"

lemma dec_all_messages: "dec_all dec_message zero (map message_json ms) = Some ms"
proof (induction ms)
  case (Cons m ms)
  have "dec_message zero (message_json m) = Some m"
    by (simp add: dec_message_def message_json_def field_for_def field_def)
  with Cons show ?case by simp
qed simp

lemma dec_request_json: "dec_request empty_request (request_json r) = Some r"
proof -
  have "dec_slice dec_message empty_message old (json_slice message_json ms) = Some ms" for old ms
    by (simp add: json_slice_def dec_all_messages split: option.splits)
  then show ?thesis by (simp add: dec_request_def request_json_def field_for_def field_def)
qed

lemma request_json_numbers: "numbers_ok (request_json r)"
  by (auto simp: request_json_def json_slice_def message_json_def split: option.splits)

lemma decode_first_marshal: "numbers_ok v \<Longrightarrow> decode_first (marshal v) = Some v"
  by (simp add: decode_first_def marshal_def parse_render_all)

lemma provider_reply_numbers: "numbers_ok (provider_reply p t)"
  by (simp add: provider_reply_def split: provider.splits)

lemma call_provider_reply:
  assumes "\<And>req. send req = Inr (200, marshal (provider_reply p t))"
  shows "fst (call_provider E send p model ms) = Inr t"
proof -
  note u = unmarshal_marshal(1) [OF provider_reply_numbers]
  show ?thesis
    by (cases p) (simp_all add: call_provider_def callAnthropic_def callGemini_def callOpenAI_def Let_def
        assms reply_text_def u, simp_all add: provider_reply_def dec_only_def field_for_def field_def
        elems_def gemini_texts_def to_lower_def to_lower_char_def)
qed

end
