(* ===== verification/Codec.thy ===== *)
theory Codec
  imports Http Types
begin

section \<open>Messages on the wire (codec.go, types.go)\<close>

text \<open>
  The gRPC codec is JSON, with the field names of types.go. First the messages the agent sends, with
  the texts of validator.go and evm.go for the reasons, notes and errors of a result; then the ones
  it receives. An empty byte slice is written as an empty string, which readers take like the
  \<open>null\<close> of a nil one. Of the messages with floating-point fields, the heartbeats, no encoding is
  given.
\<close>

subsection \<open>The codec\<close>

definition codec_Marshal :: "json \<Rightarrow> string" where
  "codec_Marshal v = marshal v"

definition codec_Unmarshal :: "'a decoder \<Rightarrow> 'a \<Rightarrow> string \<Rightarrow> 'a option" where
  "codec_Unmarshal dec zero data = Option.bind (unmarshal data) (dec zero)"

definition codec_Name :: string where "codec_Name = ''proto''"

subsection \<open>Values\<close>

definition json_word :: "'w::len word \<Rightarrow> json" where "json_word w = json_int (uint w)"

definition json_bytes :: "bytes \<Rightarrow> json" where "json_bytes bs = JStr (b64_encode False True bs)"

definition json_pointer :: "('a \<Rightarrow> json) \<Rightarrow> 'a option \<Rightarrow> json" where
  "json_pointer f p = (case p of None \<Rightarrow> JNull | Some x \<Rightarrow> f x)"

definition dec_word :: "'w::len word decoder" where
  "dec_word old v = map_option word_of_int (dec_int 0 (2 ^ LENGTH('w) - 1) (uint old) v)"

definition dec_int32 :: "int decoder" where
  "dec_int32 = dec_int (- (2 ^ 31)) (2 ^ 31 - 1)"

text \<open>A byte slice: base64, whose decoder skips line breaks, or an array of numbers.\<close>

fun dec_bytes :: "bytes decoder" where
  "dec_bytes old (JStr s) = b64_decode False (filter (\<lambda>c. c \<noteq> CHR 0x0A \<and> c \<noteq> CHR 0x0D) s)"
| "dec_bytes old (JArr vs) = dec_all dec_word 0 vs"
| "dec_bytes old JNull = Some []"
| "dec_bytes old v = None"

text \<open>A map: later members replace earlier ones of the same key.\<close>

fun map_put :: "string \<Rightarrow> 'v \<Rightarrow> (string \<times> 'v) list \<Rightarrow> (string \<times> 'v) list" where
  "map_put k v [] = [(k, v)]"
| "map_put k v ((k', v') # m) = (if k = k' then (k, v) # m else (k', v') # map_put k v m)"

fun dec_entries :: "'v decoder \<Rightarrow> 'v \<Rightarrow> (string \<times> 'v) list \<Rightarrow> (string \<times> json) list \<Rightarrow> (string \<times> 'v) list option" where
  "dec_entries d zero m [] = Some m"
| "dec_entries d zero m ((k, v) # ms) =
     (case d zero v of None \<Rightarrow> None | Some x \<Rightarrow> dec_entries d zero (map_put k x m) ms)"

fun dec_map :: "'v decoder \<Rightarrow> 'v \<Rightarrow> (string \<times> 'v) list decoder" where
  "dec_map d zero old (JObj ms) = dec_entries d zero old ms"
| "dec_map d zero old JNull = Some []"
| "dec_map d zero old v = None"

definition json_map :: "('v \<Rightarrow> json) \<Rightarrow> (string \<times> 'v) list \<Rightarrow> json" where
  "json_map f m = JObj (map (\<lambda>(k, v). (k, f v)) m)"

text \<open>
  A slice of pointers the code goes through without a test for nil: an element \<open>null\<close> is refused
  here, where the code would panic on it later.
\<close>

fun dec_refs :: "'a decoder \<Rightarrow> 'a \<Rightarrow> json list \<Rightarrow> 'a list option" where
  "dec_refs d zero [] = Some []"
| "dec_refs d zero (v # vs) =
     (if v = JNull then None else do { x \<leftarrow> d zero v; xs \<leftarrow> dec_refs d zero vs; Some (x # xs) })"

fun dec_ref_slice :: "'a decoder \<Rightarrow> 'a \<Rightarrow> 'a list decoder" where
  "dec_ref_slice d zero old (JArr vs) = dec_refs d zero vs"
| "dec_ref_slice d zero old JNull = Some []"
| "dec_ref_slice d zero old v = None"

subsection \<open>Messages sent\<close>

definition registerRequest_json :: "registerRequest \<Rightarrow> json" where
  "registerRequest_json r =
     JObj ([(''agent_id'', JStr (rqAgentID r)), (''capability'', json_int (rqCapability r)),
            (''region'', JStr (rqRegion r)), (''version'', JStr (rqVersion r))] @
           omitempty (rqWalletAddress r = []) ''wallet_address'' (JStr (rqWalletAddress r)))"

definition getTasksRequest_json :: "getTasksRequest \<Rightarrow> json" where
  "getTasksRequest_json r =
     JObj [(''agent_id'', JStr (gtAgentID r)), (''max_level'', json_int (gtMaxLevel r)),
           (''max_batch_size'', json_word (gtMaxBatchSize r))]"

definition streamStateDiffsRequest_json :: "streamStateDiffsRequest \<Rightarrow> json" where
  "streamStateDiffsRequest_json r =
     JObj [(''agent_id'', JStr (sdAgentID r)), (''from_height'', json_word (sdFromHeight r))]"

text \<open>The texts of a result; \<open>goQuote\<close> is \<open>fmt\<close>'s \<open>%q\<close>.\<close>

definition exec_text :: "exec_error \<Rightarrow> string" where
  "exec_text e =
     (case e of
        NoExecError \<Rightarrow> []
      | NoEvmTxData \<Rightarrow> ''no EVM tx data''
      | NoSenderState \<Rightarrow> ''no sender account state''
      | ValueOverflow \<Rightarrow> ''tx value exceeds uint256''
      | EvmFailed t \<Rightarrow> t
      | EvmPanic t \<Rightarrow> ''EVM panic: '' @ t)"

definition word_text :: "'w::len word \<Rightarrow> string" where "word_text w = dec_string (unat w)"

definition nonce_text :: "u64 \<Rightarrow> u64 \<Rightarrow> string" where
  "nonce_text tx acct = ''nonce too low: tx='' @ word_text tx @ '' account='' @ word_text acct"

definition reason_text :: "(string \<Rightarrow> string) \<Rightarrow> reason \<Rightarrow> string" where
  "reason_text goQuote r =
     (case r of
        NoReason \<Rightarrow> []
      | TxTooShort \<Rightarrow> ''tx too short for signature (need >= 65 bytes)''
      | SigRZero \<Rightarrow> ''signature r is zero''
      | SigSZero \<Rightarrow> ''signature s is zero''
      | SigRTooBig \<Rightarrow> ''signature r >= curve order''
      | SigSTooBig \<Rightarrow> ''signature s >= curve order''
      | MissingSender \<Rightarrow> ''missing sender account state''
      | InvalidSenderBalance b \<Rightarrow> ''invalid sender balance: '' @ goQuote b
      | ZeroBalance \<Rightarrow> ''sender has zero balance''
      | NonceTooLow t a \<Rightarrow> nonce_text t a
      | StoreNotInitialized \<Rightarrow> ''L4 state store not initialized''
      | ZeroBalanceLocal \<Rightarrow> ''sender has zero balance (L4-local)''
      | NonceTooLowLocal t a \<Rightarrow> nonce_text t a @ '' (L4-local)''
      | ExecReason e \<Rightarrow> exec_text e)"

definition src_text :: "acct_source \<Rightarrow> string" where
  "src_text s = (case s of Coord \<Rightarrow> ''coord'' | Local \<Rightarrow> ''local'')"

definition note_text :: "result_note \<Rightarrow> string" where
  "note_text n =
     (case n of
        NoNote \<Rightarrow> []
      | L2Only \<Rightarrow> ''no EVM tx data, L2 result only''
      | L4Local h \<Rightarrow> ''L4-local(h='' @ word_text h @ '')''
      | L4NoEvm h s \<Rightarrow> ''L4(h='' @ word_text h @ '',src='' @ src_text s @ ''): no-evm''
      | L4Evm h s \<Rightarrow> ''L4(h='' @ word_text h @ '',src='' @ src_text s @ ''): evm'')"

definition stateChange_json :: "stateChange \<Rightarrow> json" where
  "stateChange_json c =
     JObj [(''address'', JStr (scAddress c)), (''slot'', JStr (scSlot c)),
           (''old_value'', JStr (scOldValue c)), (''new_value'', JStr (scNewValue c))]"

definition logEntry_json :: "logEntry \<Rightarrow> json" where
  "logEntry_json l =
     JObj [(''address'', JStr (leAddress l)), (''topics'', json_slice JStr (appended (leTopics l))),
           (''data'', json_bytes (leData l))]"

definition taskResult_json :: "(string \<Rightarrow> string) \<Rightarrow> taskResult \<Rightarrow> json" where
  "taskResult_json goQuote r =
     (let reason = reason_text goQuote (trRejectReason r);
          msg = note_text (trNote r);
          err = exec_text (trExecError r)
      in JObj ([(''task_id'', json_word (trTaskID r)), (''valid'', JBool (trValid r))] @
               omitempty (reason = []) ''reject_reason'' (JStr reason) @
               omitempty (msg = []) ''note'' (JStr msg) @
               [(''gas_estimate'', json_word (trGasEstimate r)), (''latency_us'', json_word (trLatencyUs r))] @
               omitempty (trGasUsed r = 0) ''gas_used'' (json_word (trGasUsed r)) @
               omitempty (trReturnData r = []) ''return_data'' (json_bytes (trReturnData r)) @
               omitempty (trStateChanges r = []) ''state_changes'' (JArr (map stateChange_json (trStateChanges r))) @
               omitempty (trLogs r = []) ''logs'' (JArr (map logEntry_json (trLogs r))) @
               omitempty (err = []) ''exec_error'' (JStr err)))"

definition batchResult_json :: "(string \<Rightarrow> string) \<Rightarrow> batchResult \<Rightarrow> json" where
  "batchResult_json goQuote b =
     JObj [(''agent_id'', JStr (brAgentID b)), (''batch_id'', JStr (brBatchID b)),
           (''results'', JArr (map (taskResult_json goQuote) (brResults b))),
           (''timestamp'', json_word (brTimestamp b))]"

subsection \<open>Messages received\<close>

definition dec_blockCtx :: "blockCtx decoder" where
  "dec_blockCtx = dec_struct
     [(''timestamp'', field bcTimestamp (\<lambda>v. bcTimestamp_update (\<lambda>_. v)) dec_word),
      (''gas_limit'', field bcGasLimit (\<lambda>v. bcGasLimit_update (\<lambda>_. v)) dec_word),
      (''base_fee'', field bcBaseFee (\<lambda>v. bcBaseFee_update (\<lambda>_. v)) dec_str),
      (''coinbase'', field bcCoinbase (\<lambda>v. bcCoinbase_update (\<lambda>_. v)) dec_str),
      (''number'', field bcNumber (\<lambda>v. bcNumber_update (\<lambda>_. v)) dec_word)]"

definition empty_blockCtx :: blockCtx where
  "empty_blockCtx = \<lparr>bcTimestamp = 0, bcGasLimit = 0, bcBaseFee = [], bcCoinbase = [], bcNumber = 0\<rparr>"

definition dec_evmTx :: "evmTx decoder" where
  "dec_evmTx = dec_struct
     [(''to'', field txTo (\<lambda>v. txTo_update (\<lambda>_. v)) dec_str),
      (''value'', field txValue (\<lambda>v. txValue_update (\<lambda>_. v)) dec_str),
      (''data'', field txData (\<lambda>v. txData_update (\<lambda>_. v)) dec_bytes),
      (''gas_limit'', field txGasLimit (\<lambda>v. txGasLimit_update (\<lambda>_. v)) dec_word),
      (''gas_price'', field txGasPrice (\<lambda>v. txGasPrice_update (\<lambda>_. v)) dec_str)]"

definition empty_evmTx :: evmTx where
  "empty_evmTx = \<lparr>txTo = [], txValue = [], txData = [], txGasLimit = 0, txGasPrice = []\<rparr>"

definition dec_accountSnapshot :: "accountSnapshot decoder" where
  "dec_accountSnapshot = dec_struct
     [(''address'', field snAddress (\<lambda>v. snAddress_update (\<lambda>_. v)) dec_str),
      (''balance'', field snBalance (\<lambda>v. snBalance_update (\<lambda>_. v)) dec_str),
      (''nonce'', field snNonce (\<lambda>v. snNonce_update (\<lambda>_. v)) dec_word),
      (''code_hash'', field snCodeHash (\<lambda>v. snCodeHash_update (\<lambda>_. v)) dec_bytes)]"

definition empty_accountSnapshot :: accountSnapshot where
  "empty_accountSnapshot = \<lparr>snAddress = [], snBalance = [], snNonce = 0, snCodeHash = []\<rparr>"

definition dec_taskPackage :: "taskPackage decoder" where
  "dec_taskPackage = dec_struct
     [(''task_id'', field tpTaskID (\<lambda>v. tpTaskID_update (\<lambda>_. v)) dec_word),
      (''tx_raw'', field tpTxRaw (\<lambda>v. tpTxRaw_update (\<lambda>_. v)) dec_bytes),
      (''level'', field tpLevel (\<lambda>v. tpLevel_update (\<lambda>_. v)) dec_int32),
      (''sender'', field tpSender (\<lambda>v. tpSender_update (\<lambda>_. v)) (dec_pointer dec_accountSnapshot empty_accountSnapshot)),
      (''receiver'', field tpReceiver (\<lambda>v. tpReceiver_update (\<lambda>_. v)) (dec_pointer dec_accountSnapshot empty_accountSnapshot)),
      (''block_height'', field tpBlockHeight (\<lambda>v. tpBlockHeight_update (\<lambda>_. v)) dec_word),
      (''block_context'', field tpBlockContext (\<lambda>v. tpBlockContext_update (\<lambda>_. v)) (dec_pointer dec_blockCtx empty_blockCtx)),
      (''contract_code'', field tpContractCode (\<lambda>v. tpContractCode_update (\<lambda>_. v)) (dec_map dec_bytes [])),
      (''storage_slots'', field tpStorageSlots (\<lambda>v. tpStorageSlots_update (\<lambda>_. v)) (dec_map (dec_map dec_str []) [])),
      (''evm_tx'', field tpEvmTx (\<lambda>v. tpEvmTx_update (\<lambda>_. v)) (dec_pointer dec_evmTx empty_evmTx))]"

definition empty_taskPackage :: taskPackage where
  "empty_taskPackage =
     \<lparr>tpTaskID = 0, tpTxRaw = [], tpLevel = 0, tpSender = None, tpReceiver = None, tpBlockHeight = 0,
      tpBlockContext = None, tpContractCode = [], tpStorageSlots = [], tpEvmTx = None\<rparr>"

definition dec_taskBatch :: "taskBatch decoder" where
  "dec_taskBatch = dec_struct
     [(''batch_id'', field tbBatchID (\<lambda>v. tbBatchID_update (\<lambda>_. v)) dec_str),
      (''tasks'', field tbTasks (\<lambda>v. tbTasks_update (\<lambda>_. v)) (dec_ref_slice dec_taskPackage empty_taskPackage)),
      (''timestamp'', field tbTimestamp (\<lambda>v. tbTimestamp_update (\<lambda>_. v)) dec_word)]"

definition empty_taskBatch :: taskBatch where
  "empty_taskBatch = \<lparr>tbBatchID = [], tbTasks = [], tbTimestamp = 0\<rparr>"

definition dec_stateDiffEntry :: "stateDiffEntry decoder" where
  "dec_stateDiffEntry = dec_struct
     [(''write_type'', field deWriteType (\<lambda>v. deWriteType_update (\<lambda>_. v)) dec_word),
      (''namespace'', field deNamespace (\<lambda>v. deNamespace_update (\<lambda>_. v)) dec_str),
      (''key'', field deKey (\<lambda>v. deKey_update (\<lambda>_. v)) dec_bytes),
      (''value'', field deValue (\<lambda>v. deValue_update (\<lambda>_. v)) dec_bytes)]"

definition empty_stateDiffEntry :: stateDiffEntry where
  "empty_stateDiffEntry = \<lparr>deWriteType = 0, deNamespace = [], deKey = [], deValue = []\<rparr>"

definition dec_stateDiffResponse :: "stateDiffResponse decoder" where
  "dec_stateDiffResponse = dec_struct
     [(''height'', field srHeight (\<lambda>v. srHeight_update (\<lambda>_. v)) dec_word),
      (''entries'', field srEntries (\<lambda>v. srEntries_update (\<lambda>_. v)) (dec_ref_slice dec_stateDiffEntry empty_stateDiffEntry)),
      (''digest_bytes'', field srDigestBytes (\<lambda>v. srDigestBytes_update (\<lambda>_. v)) dec_bytes)]"

definition empty_stateDiffResponse :: stateDiffResponse where
  "empty_stateDiffResponse = \<lparr>srHeight = 0, srEntries = [], srDigestBytes = []\<rparr>"

definition dec_registerResponse :: "registerResponse decoder" where
  "dec_registerResponse = dec_struct
     [(''accepted'', field rsAccepted (\<lambda>v. rsAccepted_update (\<lambda>_. v)) dec_bool),
      (''reason'', field rsReason (\<lambda>v. rsReason_update (\<lambda>_. v)) dec_str),
      (''heartbeat_interval_sec'', field rsHeartbeatIntervalSec (\<lambda>v. rsHeartbeatIntervalSec_update (\<lambda>_. v)) dec_word)]"

definition dec_submitResponse :: "submitResponse decoder" where
  "dec_submitResponse = dec_struct
     [(''accepted'', field suAccepted (\<lambda>v. suAccepted_update (\<lambda>_. v)) dec_bool),
      (''reason'', field suReason (\<lambda>v. suReason_update (\<lambda>_. v)) dec_str)]"

subsection \<open>What the coordinator writes is read as it was\<close>

text \<open>
  The coordinator marshals the same structs. A Go map is written with its keys in sorted order; the
  list of its entries is taken in that order.
\<close>

definition blockCtx_json :: "blockCtx \<Rightarrow> json" where
  "blockCtx_json b =
     JObj [(''timestamp'', json_word (bcTimestamp b)), (''gas_limit'', json_word (bcGasLimit b)),
           (''base_fee'', JStr (bcBaseFee b)), (''coinbase'', JStr (bcCoinbase b)), (''number'', json_word (bcNumber b))]"

definition evmTx_json :: "evmTx \<Rightarrow> json" where
  "evmTx_json t =
     JObj (omitempty (txTo t = []) ''to'' (JStr (txTo t)) @ [(''value'', JStr (txValue t))] @
           omitempty (txData t = []) ''data'' (json_bytes (txData t)) @
           [(''gas_limit'', json_word (txGasLimit t)), (''gas_price'', JStr (txGasPrice t))])"

definition accountSnapshot_json :: "accountSnapshot \<Rightarrow> json" where
  "accountSnapshot_json a =
     JObj ([(''address'', JStr (snAddress a)), (''balance'', JStr (snBalance a)), (''nonce'', json_word (snNonce a))] @
           omitempty (snCodeHash a = []) ''code_hash'' (json_bytes (snCodeHash a)))"

definition taskPackage_json :: "taskPackage \<Rightarrow> json" where
  "taskPackage_json t =
     JObj ([(''task_id'', json_word (tpTaskID t)), (''tx_raw'', json_bytes (tpTxRaw t)),
            (''level'', json_int (tpLevel t)), (''sender'', json_pointer accountSnapshot_json (tpSender t)),
            (''receiver'', json_pointer accountSnapshot_json (tpReceiver t)),
            (''block_height'', json_word (tpBlockHeight t))] @
           omitempty (tpBlockContext t = None) ''block_context'' (json_pointer blockCtx_json (tpBlockContext t)) @
           omitempty (tpContractCode t = []) ''contract_code'' (json_map json_bytes (tpContractCode t)) @
           omitempty (tpStorageSlots t = []) ''storage_slots'' (json_map (json_map JStr) (tpStorageSlots t)) @
           omitempty (tpEvmTx t = None) ''evm_tx'' (json_pointer evmTx_json (tpEvmTx t)))"

definition taskBatch_json :: "taskBatch \<Rightarrow> json" where
  "taskBatch_json b =
     JObj [(''batch_id'', JStr (tbBatchID b)), (''tasks'', JArr (map taskPackage_json (tbTasks b))),
           (''timestamp'', json_word (tbTimestamp b))]"

definition stateDiffEntry_json :: "stateDiffEntry \<Rightarrow> json" where
  "stateDiffEntry_json e =
     JObj ([(''write_type'', json_word (deWriteType e)), (''namespace'', JStr (deNamespace e)),
            (''key'', json_bytes (deKey e))] @
           omitempty (deValue e = []) ''value'' (json_bytes (deValue e)))"

definition stateDiffResponse_json :: "stateDiffResponse \<Rightarrow> json" where
  "stateDiffResponse_json r =
     JObj [(''height'', json_word (srHeight r)), (''entries'', JArr (map stateDiffEntry_json (srEntries r))),
           (''digest_bytes'', json_bytes (srDigestBytes r))]"

text \<open>The level is an \<open>int32\<close>, and no key of a map comes twice.\<close>

definition wf_task :: "taskPackage \<Rightarrow> bool" where
  "wf_task t \<longleftrightarrow> - (2 ^ 31) \<le> tpLevel t \<and> tpLevel t < 2 ^ 31 \<and>
     distinct (map fst (tpContractCode t)) \<and> distinct (map fst (tpStorageSlots t)) \<and>
     (\<forall>m \<in> set (tpStorageSlots t). distinct (map fst (snd m)))"

subsubsection \<open>Values\<close>

lemma dec_word_json: "dec_word old (json_word w) = Some w"
proof -
  have "uint w \<le> 2 ^ LENGTH('a) - 1" using uint_lt2p [of w] by simp
  then have "fits 0 (2 ^ LENGTH('a) - 1) (show_int (uint w)) = Some (uint w)"
    by (intro fits_show_int) simp_all
  then show ?thesis by (simp add: dec_word_def json_word_def json_int_def)
qed

lemma dec_int32_json: "- (2 ^ 31) \<le> i \<Longrightarrow> i < 2 ^ 31 \<Longrightarrow> dec_int32 old (json_int i) = Some i"
  using fits_show_int [of "- (2 ^ 31)" i "2 ^ 31 - 1"] by (simp add: dec_int32_def json_int_def)

lemma b64_no_breaks:
  "c \<in> set (b64_encode url pad bs) \<Longrightarrow> c \<noteq> CHR 0x0A \<and> c \<noteq> CHR 0x0D"
proof (induction url pad bs rule: b64_encode.induct)
  have b: "b64_char url n \<noteq> CHR 0x0A \<and> b64_char url n \<noteq> CHR 0x0D" if "n < 64" for url n
  proof -
    have "b64_char url n \<in> set (b64_alphabet url)" using that by (simp add: b64_char_def)
    then show ?thesis by (cases url) (auto simp: b64_alphabet_def)
  qed
  have lt: "unat (a :: byte) div 4 < 64" "unat a mod 4 * 16 + unat (b :: byte) div 16 < 64"
    "unat b mod 16 * 4 + unat (c :: byte) div 64 < 64" "unat c mod 64 < 64"
    "unat b mod 16 * 4 < 64" "unat a mod 4 * 16 < 64" for a b c
    using unat_bound [of a] unat_bound [of b] unat_bound [of c] by simp_all
  {
    case (1 url pad a b c bs)
    then show ?case using b [OF lt(1)] b [OF lt(2)] b [OF lt(3)] b [OF lt(4)] by auto
  next
    case (2 url pad a b)
    then show ?case using b [OF lt(1)] b [OF lt(2)] b [OF lt(5)] by (auto split: if_splits)
  next
    case (3 url pad a)
    then show ?case using b [OF lt(1)] b [OF lt(6)] by (auto split: if_splits)
  }
qed simp

lemma dec_bytes_json: "dec_bytes old (json_bytes bs) = Some bs"
proof -
  have "filter (\<lambda>c. c \<noteq> CHR 0x0A \<and> c \<noteq> CHR 0x0D) (b64_encode False True bs) = b64_encode False True bs"
    using b64_no_breaks by (intro filter_True) blast
  then show ?thesis by (simp add: json_bytes_def b64_round_trip)
qed

lemma map_put_new: "k \<notin> fst ` set m \<Longrightarrow> map_put k v m = m @ [(k, v)]"
  by (induction m) auto

lemma dec_entries_json:
  assumes "\<And>k v. (k, v) \<in> set ms \<Longrightarrow> d zero (f v) = Some v"
    and "distinct (map fst (m @ ms))"
  shows "dec_entries d zero m (map (\<lambda>(k, v). (k, f v)) ms) = Some (m @ ms)"
  using assms
proof (induction ms arbitrary: m)
  case (Cons kv ms)
  obtain k v where kv: "kv = (k, v)" by (cases kv)
  have "d zero (f v) = Some v" using Cons.prems(1) [of k v] by (simp add: kv)
  moreover have "dec_entries d zero (m @ [(k, v)]) (map (\<lambda>(k, v). (k, f v)) ms) = Some ((m @ [(k, v)]) @ ms)"
    using Cons.prems kv by (intro Cons.IH) auto
  moreover have "k \<notin> fst ` set m" using Cons.prems(2) kv by auto
  ultimately show ?case by (simp add: kv map_put_new)
qed simp

lemma dec_map_json:
  assumes "\<And>k v. (k, v) \<in> set ms \<Longrightarrow> d zero (f v) = Some v" and "distinct (map fst ms)"
  shows "dec_map d zero [] (json_map f ms) = Some ms"
  using dec_entries_json [of ms d zero f "[]"] assms by (simp add: json_map_def)

lemma dec_refs_json:
  "(\<And>x. x \<in> set xs \<Longrightarrow> f x \<noteq> JNull \<and> d zero (f x) = Some x) \<Longrightarrow> dec_refs d zero (map f xs) = Some xs"
  by (induction xs) auto

lemma dec_pointer_value:
  "v \<noteq> JNull \<Longrightarrow> dec_pointer d zero old v = map_option Some (d (case old of None \<Rightarrow> zero | Some x \<Rightarrow> x) v)"
  by (cases v) simp_all

lemma dec_pointer_json:
  "(\<And>x. f x \<noteq> JNull) \<Longrightarrow> (\<And>x. d zero (f x) = Some x) \<Longrightarrow> dec_pointer d zero None (json_pointer f p) = Some p"
  by (cases p) (simp_all add: json_pointer_def dec_pointer_value)

subsubsection \<open>Structs\<close>

lemmas struct_simps = field_for_def field_def omitempty_def dec_word_json dec_bytes_json

lemma dec_blockCtx_json: "dec_blockCtx empty_blockCtx (blockCtx_json b) = Some b"
  by (simp add: dec_blockCtx_def blockCtx_json_def empty_blockCtx_def struct_simps)

lemma dec_evmTx_json: "dec_evmTx empty_evmTx (evmTx_json t) = Some t"
  by (cases t) (simp add: dec_evmTx_def evmTx_json_def empty_evmTx_def struct_simps)

lemma dec_accountSnapshot_json:
  "dec_accountSnapshot empty_accountSnapshot (accountSnapshot_json a) = Some a"
  by (cases a) (simp add: dec_accountSnapshot_def accountSnapshot_json_def empty_accountSnapshot_def struct_simps)

lemma not_null [simp]:
  "blockCtx_json b \<noteq> JNull" "evmTx_json t \<noteq> JNull" "accountSnapshot_json a \<noteq> JNull"
  "taskPackage_json p \<noteq> JNull" "stateDiffEntry_json e \<noteq> JNull"
  by (simp_all add: blockCtx_json_def evmTx_json_def accountSnapshot_json_def taskPackage_json_def
      stateDiffEntry_json_def)

lemma dec_stateDiffEntry_json:
  "dec_stateDiffEntry empty_stateDiffEntry (stateDiffEntry_json e) = Some e"
  by (cases e) (simp add: dec_stateDiffEntry_def stateDiffEntry_json_def empty_stateDiffEntry_def struct_simps)

lemma dec_stateDiffResponse_json:
  "dec_stateDiffResponse empty_stateDiffResponse (stateDiffResponse_json r) = Some r"
  by (cases r) (simp add: dec_stateDiffResponse_def stateDiffResponse_json_def empty_stateDiffResponse_def
      struct_simps dec_refs_json dec_stateDiffEntry_json)

lemmas pointer_json =
  dec_pointer_json [of accountSnapshot_json dec_accountSnapshot, OF not_null(3) dec_accountSnapshot_json]
  dec_pointer_json [of blockCtx_json dec_blockCtx, OF not_null(1) dec_blockCtx_json]
  dec_pointer_json [of evmTx_json dec_evmTx, OF not_null(2) dec_evmTx_json]

lemma dec_taskPackage_json:
  assumes "wf_task t"
  shows "dec_taskPackage empty_taskPackage (taskPackage_json t) = Some t"
proof -
  have code: "dec_map dec_bytes [] [] (json_map json_bytes (tpContractCode t)) = Some (tpContractCode t)"
    using assms by (intro dec_map_json) (simp_all add: wf_task_def dec_bytes_json)
  have slots: "dec_map (dec_map dec_str []) [] [] (json_map (json_map JStr) (tpStorageSlots t)) = Some (tpStorageSlots t)"
    using assms by (intro dec_map_json) (auto simp: wf_task_def)
  have level: "dec_int32 0 (json_int (tpLevel t)) = Some (tpLevel t)"
    using assms by (simp add: wf_task_def dec_int32_json)
  from code slots level show ?thesis
    by (cases t) (simp add: dec_taskPackage_def taskPackage_json_def empty_taskPackage_def struct_simps pointer_json)
qed

lemma dec_taskBatch_json:
  "\<forall>t \<in> set (tbTasks b). wf_task t \<Longrightarrow> dec_taskBatch empty_taskBatch (taskBatch_json b) = Some b"
  by (cases b) (simp add: dec_taskBatch_def taskBatch_json_def empty_taskBatch_def struct_simps
      dec_refs_json dec_taskPackage_json)

subsubsection \<open>Texts\<close>

lemma numbers_ok_values [simp]: "numbers_ok (json_word w)" "numbers_ok (json_bytes b)"
  by (simp_all add: json_word_def json_bytes_def)

lemma numbers_ok_pointer: "(\<And>x. numbers_ok (f x)) \<Longrightarrow> numbers_ok (json_pointer f p)"
  by (cases p) (simp_all add: json_pointer_def)

lemma numbers_ok_map: "(\<And>x. numbers_ok (f x)) \<Longrightarrow> numbers_ok (json_map f m)"
  by (auto simp: json_map_def)

lemma numbers_ok_structs [simp]:
  "numbers_ok (blockCtx_json b)" "numbers_ok (evmTx_json t)" "numbers_ok (accountSnapshot_json a)"
  "numbers_ok (stateDiffEntry_json e)"
  by (simp_all add: blockCtx_json_def evmTx_json_def accountSnapshot_json_def stateDiffEntry_json_def ball_Un)

lemma numbers_ok_task [simp]: "numbers_ok (taskPackage_json t)"
  by (simp add: taskPackage_json_def ball_Un numbers_ok_pointer numbers_ok_map)

lemma numbers_ok_batch [simp]: "numbers_ok (taskBatch_json b)"
  by (simp add: taskBatch_json_def)

lemma numbers_ok_diff [simp]: "numbers_ok (stateDiffResponse_json r)"
  by (simp add: stateDiffResponse_json_def)

lemma taskBatch_received:
  "\<forall>t \<in> set (tbTasks b). wf_task t \<Longrightarrow>
   codec_Unmarshal dec_taskBatch empty_taskBatch (codec_Marshal (taskBatch_json b)) = Some b"
  by (simp add: codec_Unmarshal_def codec_Marshal_def unmarshal_marshal dec_taskBatch_json)

lemma stateDiff_received:
  "codec_Unmarshal dec_stateDiffResponse empty_stateDiffResponse
     (codec_Marshal (stateDiffResponse_json r)) = Some r"
  by (simp add: codec_Unmarshal_def codec_Marshal_def unmarshal_marshal dec_stateDiffResponse_json)

end
