(* ===== verification/Reports.thy ===== *)
theory Reports
  imports Http Config Flags
begin

section \<open>The status, rewards and update commands (status.go, rewards.go, upgrade.go)\<close>

text \<open>
  The command lines of \<open>status\<close> and \<open>rewards\<close>, the JSON the first prints, the request and the text
  of the second, and the request of the update check. Reading a floating-point number and printing
  one with a number of decimals are the arguments \<open>fparse\<close> and \<open>fshow\<close>.
\<close>

subsection \<open>Status\<close>

definition omit_str :: "string \<Rightarrow> string \<Rightarrow> (string \<times> json) list" where
  "omit_str k v = omitempty (v = []) k (JStr v)"

definition omit_int :: "string \<Rightarrow> int \<Rightarrow> (string \<times> json) list" where
  "omit_int k v = omitempty (v = 0) k (json_int v)"

definition status_json :: "agentStatus \<Rightarrow> json" where
  "status_json st =
     JObj ([(''running'', JBool (as_Running st))] @ omit_int ''pid'' (as_PID st) @
           omit_str ''agent_id'' (as_AgentID st) @ omit_str ''wallet'' (as_Wallet st) @
           omit_str ''coordinator'' (as_Coordinator st) @ omit_str ''level'' (as_Level st) @
           omit_str ''region'' (as_Region st) @ omit_int ''uptime_seconds'' (as_UptimeSeconds st) @
           [(''tasks_processed'', json_nat (as_TasksProcessed st))] @
           omit_str ''log_file'' (as_LogFile st))"

definition status_flag_kind :: "string \<Rightarrow> flag_kind option" where
  "status_flag_kind name = (if name = ''datadir'' then Some ValueFlag else None)"

definition status_command ::
  "(string \<Rightarrow> string) \<Rightarrow> string \<Rightarrow> files \<Rightarrow> (int \<Rightarrow> bool) \<Rightarrow> int option \<Rightarrow> string list \<Rightarrow> flag_error + string" where
  "status_command getenv home fs alive uptime args =
     (case parse_flags status_flag_kind args of
        Inl e \<Rightarrow> Inl e
      | Inr (as, left) \<Rightarrow>
          let dir = data_dir getenv home (flag_value as ''datadir'' [])
          in Inr (marshal_indent (status_json (runStatus fs alive uptime dir)) @ newline_str))"

subsection \<open>Rewards\<close>

record 'f rewardEntry =
  reEpoch :: int
  reAmountIOTX :: 'f
  reTasks :: int
  reAccuracy :: 'f
  reRank :: int
  reBonus :: bool

record 'f rewardsResponse =
  rrAgentID :: string
  rrHistory :: "'f rewardEntry list option"
  rrEarnedIOTX :: 'f
  rrTotalTasks :: int
  rrAvgAccuracy :: 'f

fun dec_float :: "(string \<Rightarrow> 'f option) \<Rightarrow> 'f decoder" where
  "dec_float fparse old (JNum n) = fparse n"
| "dec_float fparse old JNull = Some old"
| "dec_float fparse old v = None"

definition dec_u64 :: "int decoder" where "dec_u64 = dec_int 0 (2 ^ 64 - 1)"
definition dec_i64 :: "int decoder" where "dec_i64 = dec_int (- (2 ^ 63)) (2 ^ 63 - 1)"

definition dec_entry :: "(string \<Rightarrow> 'f option) \<Rightarrow> 'f rewardEntry decoder" where
  "dec_entry fparse = dec_struct
     [(''epoch'', field reEpoch (\<lambda>v. reEpoch_update (\<lambda>_. v)) dec_u64),
      (''amount_iotx'', field reAmountIOTX (\<lambda>v. reAmountIOTX_update (\<lambda>_. v)) (dec_float fparse)),
      (''tasks'', field reTasks (\<lambda>v. reTasks_update (\<lambda>_. v)) dec_u64),
      (''accuracy_pct'', field reAccuracy (\<lambda>v. reAccuracy_update (\<lambda>_. v)) (dec_float fparse)),
      (''rank'', field reRank (\<lambda>v. reRank_update (\<lambda>_. v)) dec_i64),
      (''bonus_applied'', field reBonus (\<lambda>v. reBonus_update (\<lambda>_. v)) dec_bool)]"

definition empty_entry :: "'f \<Rightarrow> 'f rewardEntry" where
  "empty_entry zero =
     \<lparr>reEpoch = 0, reAmountIOTX = zero, reTasks = 0, reAccuracy = zero, reRank = 0, reBonus = False\<rparr>"

definition dec_totals :: "(string \<Rightarrow> 'f option) \<Rightarrow> 'f rewardsResponse decoder" where
  "dec_totals fparse = dec_struct
     [(''earned_iotx'', field rrEarnedIOTX (\<lambda>v. rrEarnedIOTX_update (\<lambda>_. v)) (dec_float fparse)),
      (''total_tasks'', field rrTotalTasks (\<lambda>v. rrTotalTasks_update (\<lambda>_. v)) dec_u64),
      (''avg_accuracy'', field rrAvgAccuracy (\<lambda>v. rrAvgAccuracy_update (\<lambda>_. v)) (dec_float fparse))]"

definition dec_rewards :: "(string \<Rightarrow> 'f option) \<Rightarrow> 'f \<Rightarrow> 'f rewardsResponse decoder" where
  "dec_rewards fparse zero = dec_struct
     [(''agent_id'', field rrAgentID (\<lambda>v. rrAgentID_update (\<lambda>_. v)) dec_str),
      (''history'', field rrHistory (\<lambda>v. rrHistory_update (\<lambda>_. v))
         (dec_slice (dec_entry fparse) (empty_entry zero))),
      (''totals'', dec_totals fparse)]"

definition empty_rewards :: "'f \<Rightarrow> 'f rewardsResponse" where
  "empty_rewards zero =
     \<lparr>rrAgentID = [], rrHistory = None, rrEarnedIOTX = zero, rrTotalTasks = 0, rrAvgAccuracy = zero\<rparr>"

text \<open>\<open>%-8s\<close> and its like: padded on the right.\<close>

definition pad_right :: "nat \<Rightarrow> string \<Rightarrow> string" where
  "pad_right n s = s @ replicate (n - length s) (CHR '' '')"

definition reward_line :: "(nat \<Rightarrow> 'f \<Rightarrow> string) \<Rightarrow> 'f rewardEntry \<Rightarrow> string" where
  "reward_line fshow e =
     ''  '' @ pad_right 8 (show_int (reEpoch e)) @ '' '' @ pad_right 8 (show_int (reTasks e)) @ '' '' @
     pad_right 10 (fshow 1 (reAccuracy e)) @ ''% '' @ pad_right 10 (fshow 4 (reAmountIOTX e)) @ '' '' @
     pad_right 6 (show_int (reRank e)) @ '' '' @ (if reBonus e then ''+20%'' else [])"

definition reward_lines :: "(nat \<Rightarrow> 'f \<Rightarrow> string) \<Rightarrow> 'f rewardsResponse \<Rightarrow> string list" where
  "reward_lines fshow r =
     [''Agent: '' @ rrAgentID r, []] @
     (if elems (rrHistory r) \<noteq> [] then
        [''Reward History:'',
         ''  '' @ pad_right 8 ''Epoch'' @ '' '' @ pad_right 8 ''Tasks'' @ '' '' @ pad_right 10 ''Accuracy'' @ '' '' @
         pad_right 10 ''IOTX'' @ '' '' @ pad_right 6 ''Rank'' @ '' Bonus''] @
        map (reward_line fshow) (elems (rrHistory r)) @ [[]]
      else [''No reward history yet.'']) @
     [''Totals: '' @ fshow 4 (rrEarnedIOTX r) @ '' IOTX earned | '' @ show_int (rrTotalTasks r) @
      '' tasks | '' @ fshow 1 (rrAvgAccuracy r) @ ''% avg accuracy'']"

datatype rewards_exit =
    RewardsFlags flag_error
  | RewardsUsage
  | RewardsRequest string
  | RewardsStatus nat
  | RewardsParse

definition rewards_flag_kind :: "string \<Rightarrow> flag_kind option" where
  "rewards_flag_kind name = (if name = ''coordinator'' \<or> name = ''agent-id'' then Some ValueFlag else None)"

definition rewards_url :: "string \<Rightarrow> string \<Rightarrow> string" where
  "rewards_url coordURL agentID = coordURL @ ''/api/rewards?agent='' @ agentID"

definition runRewards ::
  "(string \<Rightarrow> 'f option) \<Rightarrow> 'f \<Rightarrow> (nat \<Rightarrow> 'f \<Rightarrow> string) \<Rightarrow> (string \<Rightarrow> string) \<Rightarrow> (string \<Rightarrow> http_reply) \<Rightarrow>
   string list \<Rightarrow> rewards_exit + string list" where
  "runRewards fparse zero fshow getenv get args =
     (case parse_flags rewards_flag_kind args of
        Inl e \<Rightarrow> Inl (RewardsFlags e)
      | Inr (as, left) \<Rightarrow>
          let coordURL = flag_value as ''coordinator'' [];
              agentID = flag_value as ''agent-id'' [];
              coordURL = (if coordURL = [] then getenv ''IOSWARM_COORDINATOR_HTTP'' else coordURL);
              agentID = (if agentID = [] then getenv ''IOSWARM_AGENT_ID'' else agentID)
          in if coordURL = [] \<or> agentID = [] then Inl RewardsUsage
             else
               (case get (rewards_url coordURL agentID) of
                  Inl e \<Rightarrow> Inl (RewardsRequest e)
                | Inr (status, body) \<Rightarrow>
                    if status \<noteq> 200 then Inl (RewardsStatus status)
                    else
                      (case Option.bind (decode_first body) (dec_rewards fparse zero (empty_rewards zero)) of
                         None \<Rightarrow> Inl RewardsParse
                       | Some r \<Rightarrow> Inr (reward_lines fshow r))))"

subsection \<open>The update check\<close>

definition releases_url :: string where
  "releases_url = ''https://api.github.com/repos/iotexproject/ioswarm-agent/releases/latest''"

definition release_tag :: "http_reply \<Rightarrow> string option" where
  "release_tag reply =
     (case reply of
        Inl e \<Rightarrow> None
      | Inr (status, body) \<Rightarrow>
          if status \<noteq> 200 then None
          else Option.bind (decode_first body) (dec_struct [(''tag_name'', dec_str)] []))"

definition update_offer :: "(string \<Rightarrow> http_reply) \<Rightarrow> string \<Rightarrow> (string \<times> string) option" where
  "update_offer get currentVersion = checkForUpdate currentVersion (release_tag (get releases_url))"

subsection \<open>The status is valid JSON\<close>

lemma status_json_numbers: "numbers_ok (status_json st)"
  by (simp add: status_json_def omit_str_def omit_int_def ball_Un)

lemma unmarshal_line: "numbers_ok v \<Longrightarrow> unmarshal (marshal_indent v @ newline_str) = Some v"
proof -
  assume ok: "numbers_ok v"
  have p: "parse_value (need v) (render True 0 v @ newline_str) = Some (v, newline_str)"
    by (rule parse_render [OF ok])
      (simp_all add: ends_number_def newline_str_def num_char_def is_digit_def digit_of_def)
  moreover have "list_all is_ws newline_str" by (simp add: newline_str_def is_ws_def)
  ultimately show ?thesis
    unfolding unmarshal_fuel marshal_indent_def by blast
qed

lemma status_command_json:
  "status_command getenv home fs alive uptime args = Inr out \<Longrightarrow>
   \<exists>dir. unmarshal out = Some (status_json (runStatus fs alive uptime dir))"
  by (auto simp: status_command_def Let_def unmarshal_line status_json_numbers split: sum.splits)

end
