(* ===== verification/TaskOrder.thy ===== *)
theory TaskOrder
  imports Validator "HOL-Library.Multiset"
begin

section \<open>The order of a task's maps (statedb.go)\<close>

text \<open>
  \<open>NewMemStateDB\<close> ranges over the maps of a task, and Go ranges over a map in any order. The loops
  do commute when the keys of each map name different addresses and slots; then the database, and
  with it the result of a task, is the same for every order.
\<close>

subsection \<open>Folds over permutations\<close>

lemma foldl_perm:
  assumes "mset xs = mset ys" and "distinct (map key xs)"
    and "\<And>s x y. key x \<noteq> key y \<Longrightarrow> f (f s x) y = f (f s y) x"
  shows "foldl f s xs = foldl f s ys"
proof -
  have "fold (\<lambda>x s. f s x) xs = fold (\<lambda>x s. f s x) ys"
  proof (rule fold_multiset_equiv [OF _ assms(1)])
    fix x y assume xy: "x \<in> set xs" "y \<in> set xs"
    show "(\<lambda>s. f s x) \<circ> (\<lambda>s. f s y) = (\<lambda>s. f s y) \<circ> (\<lambda>s. f s x)"
    proof (cases "key x = key y")
      case True
      with xy assms(2) have "x = y" by (auto simp: distinct_map inj_on_def)
      then show ?thesis by simp
    next
      case False
      with assms(3) [of y x] show ?thesis by (auto simp: fun_eq_iff)
    qed
  qed
  then show ?thesis by (simp add: foldl_conv_fold)
qed

lemma perm_map:
  "mset (map g xs) = mset (map g ys) \<Longrightarrow> \<exists>zs. mset zs = mset xs \<and> map g zs = map g ys"
proof (induction ys arbitrary: xs)
  case (Cons y ys)
  then have "g y \<in> set (map g xs)" by (metis list.set_intros(1) list.simps(9) set_mset_mset)
  then obtain x where x: "x \<in> set xs" "g x = g y" by auto
  then have "mset (map g (remove1 x xs)) = mset (map g ys)"
    using Cons.prems by (simp add: image_mset_Diff)
  from Cons.IH [OF this] obtain zs where "mset zs = mset (remove1 x xs)" "map g zs = map g ys" by blast
  with x show ?case by (intro exI [of _ "x # zs"]) simp
qed simp

subsection \<open>The three loops\<close>

definition code_key :: "'d env \<Rightarrow> string \<times> 'v \<Rightarrow> address" where
  "code_key E e = HexToAddress (ev_eth E) (fst e)"

definition slot_key :: "'d env \<Rightarrow> string \<times> string \<Rightarrow> hash" where
  "slot_key E e = HexToHash (ev_eth E) (fst e)"

lemma load_code_commute:
  "code_key E x \<noteq> code_key E y \<Longrightarrow> load_code E (load_code E s x) y = load_code E (load_code E s y) x"
  by (auto simp: load_code_def Let_def code_key_def fun_upd_twist split: option.splits)

definition put_slots :: "'d env \<Rightarrow> (string \<times> string) list \<Rightarrow> (hash \<rightharpoonup> hash) \<Rightarrow> (hash \<rightharpoonup> hash)" where
  "put_slots E ss m = foldl (\<lambda>m e. m(slot_key E e \<mapsto> HexToHash (ev_eth E) (snd e))) m ss"

definition inner :: "('a \<rightharpoonup> ('k \<rightharpoonup> 'v)) \<Rightarrow> 'a \<Rightarrow> ('k \<rightharpoonup> 'v)" where
  "inner m a = (case m a of None \<Rightarrow> Map.empty | Some m' \<Rightarrow> m')"

lemma foldl_load_slot:
  "storage s a = Some m \<Longrightarrow> committedStorage s a = Some c \<Longrightarrow>
   foldl (load_slot E a) s ss =
     s\<lparr>storage := (storage s)(a \<mapsto> put_slots E ss m), committedStorage := (committedStorage s)(a \<mapsto> put_slots E ss c)\<rparr>"
proof (induction ss arbitrary: s m c)
  case (Cons e ss)
  let ?k = "slot_key E e" and ?v = "HexToHash (ev_eth E) (snd e)"
  have step: "load_slot E a s e =
      s\<lparr>storage := (storage s)(a \<mapsto> m(?k \<mapsto> ?v)), committedStorage := (committedStorage s)(a \<mapsto> c(?k \<mapsto> ?v))\<rparr>"
    using Cons.prems by (simp add: load_slot_def Let_def upd2_def slot_key_def)
  have "put_slots E (e # ss) m' = put_slots E ss (m'(?k \<mapsto> ?v))" for m'
    by (simp add: put_slots_def)
  moreover have "storage (load_slot E a s e) a = Some (m(?k \<mapsto> ?v))"
    "committedStorage (load_slot E a s e) a = Some (c(?k \<mapsto> ?v))" by (simp_all add: step)
  note Cons.IH [OF this]
  ultimately show ?case by (simp add: step fun_upd_def cong: if_cong)
next
  case Nil
  then show ?case by (simp add: put_slots_def map_upd_triv)
qed

lemma load_slots_eq:
  "load_slots E s e =
     (let a = code_key E e in
      s\<lparr>storage := (storage s)(a \<mapsto> put_slots E (snd e) (inner (storage s) a)),
        committedStorage := (committedStorage s)(a \<mapsto> put_slots E (snd e) (inner (committedStorage s) a))\<rparr>)"
proof -
  have ensure: "ensure_inner m a a = Some (inner m a)" "(ensure_inner m a)(a \<mapsto> x) = m(a \<mapsto> x)"
    for m :: "address \<rightharpoonup> hash \<rightharpoonup> hash" and a x
    by (auto simp: ensure_inner_def inner_def)
  show ?thesis
    by (simp add: load_slots_def Let_def code_key_def foldl_load_slot ensure)
qed

lemma put_slots_perm:
  "mset ss = mset ss' \<Longrightarrow> distinct (map (slot_key E) ss) \<Longrightarrow> put_slots E ss = put_slots E ss'"
  unfolding put_slots_def by (rule ext, rule foldl_perm [where key = "slot_key E"]) (auto simp: fun_upd_twist)

lemma load_slots_commute:
  "code_key E x \<noteq> code_key E y \<Longrightarrow> load_slots E (load_slots E s x) y = load_slots E (load_slots E s y) x"
  by (simp add: load_slots_eq Let_def inner_def fun_upd_twist)

subsection \<open>The same task\<close>

text \<open>Two tasks whose maps have the same entries, and maps whose keys are told apart.\<close>

definition same_maps :: "taskPackage \<Rightarrow> taskPackage \<Rightarrow> bool" where
  "same_maps t t' \<longleftrightarrow>
     t' = t\<lparr>tpContractCode := tpContractCode t', tpStorageSlots := tpStorageSlots t'\<rparr> \<and>
     mset (tpContractCode t) = mset (tpContractCode t') \<and>
     mset (map (map_prod id mset) (tpStorageSlots t)) = mset (map (map_prod id mset) (tpStorageSlots t'))"

definition keys_apart :: "'d env \<Rightarrow> taskPackage \<Rightarrow> bool" where
  "keys_apart E t \<longleftrightarrow>
     distinct (map (code_key E) (tpContractCode t)) \<and> distinct (map (code_key E) (tpStorageSlots t)) \<and>
     (\<forall>e \<in> set (tpStorageSlots t). distinct (map (slot_key E) (snd e)))"

lemma foldl_load_slots_cong:
  assumes "map (map_prod id mset) xs = map (map_prod id mset) ys"
    and "\<forall>e \<in> set xs. distinct (map (slot_key E) (snd e))"
  shows "foldl (load_slots E) s xs = foldl (load_slots E) s ys"
  using assms
proof (induction xs arbitrary: ys s)
  case (Cons x xs)
  then obtain y zs where ys: "ys = y # zs" and eq: "fst x = fst y" "mset (snd x) = mset (snd y)"
    "map (map_prod id mset) xs = map (map_prod id mset) zs"
    by (cases ys) (auto simp: map_prod_def split: prod.splits)
  have "put_slots E (snd x) = put_slots E (snd y)"
    using Cons.prems(2) eq(2) by (intro put_slots_perm) auto
  then have "load_slots E s x = load_slots E s y"
    using eq(1) by (simp add: load_slots_eq code_key_def)
  with Cons.IH [OF eq(3)] Cons.prems(2) show ?case by (simp add: ys)
qed simp

lemma foldl_load_slots_perm:
  assumes "mset (map (map_prod id mset) xs) = mset (map (map_prod id mset) ys)"
    and "distinct (map (code_key E) xs)" and "\<forall>e \<in> set xs. distinct (map (slot_key E) (snd e))"
  shows "foldl (load_slots E) s xs = foldl (load_slots E) s ys"
proof -
  from perm_map [OF assms(1)] obtain zs where
    zs: "mset zs = mset xs" "map (map_prod id mset) zs = map (map_prod id mset) ys" by blast
  have "foldl (load_slots E) s xs = foldl (load_slots E) s zs"
    using zs(1) assms(2) by (intro foldl_perm [where key = "code_key E"]) (simp_all add: load_slots_commute)
  moreover have "set zs = set xs" using zs(1) by (metis set_mset_mset)
  ultimately show ?thesis using foldl_load_slots_cong [OF zs(2)] assms(3) by metis
qed

lemma NewMemStateDB_same:
  assumes "same_maps t t'" and "keys_apart E t"
  shows "NewMemStateDB E t = NewMemStateDB E t'"
proof -
  have t': "t' = t\<lparr>tpContractCode := tpContractCode t', tpStorageSlots := tpStorageSlots t'\<rparr>"
    using assms(1) by (simp only: same_maps_def)
  have eq: "tpSender t' = tpSender t" "tpReceiver t' = tpReceiver t" by (subst t', simp)+
  have code: "foldl (load_code E) s (tpContractCode t) = foldl (load_code E) s (tpContractCode t')" for s
    using assms by (intro foldl_perm [where key = "code_key E"]) (simp_all add: same_maps_def keys_apart_def load_code_commute)
  have slots: "foldl (load_slots E) s (tpStorageSlots t) = foldl (load_slots E) s (tpStorageSlots t')" for s
    using assms by (intro foldl_load_slots_perm) (simp_all add: same_maps_def keys_apart_def)
  show ?thesis by (simp add: NewMemStateDB_def Let_def eq code slots)
qed

lemma validateTask_same:
  assumes "same_maps t t'" and "keys_apart E t"
  shows "validateTask E evm active latency t level = validateTask E evm active latency t' level"
proof -
  have t': "t' = t\<lparr>tpContractCode := tpContractCode t', tpStorageSlots := tpStorageSlots t'\<rparr>"
    using assms(1) by (simp only: same_maps_def)
  have eqs: "tpTaskID t' = tpTaskID t" "tpTxRaw t' = tpTxRaw t" "tpSender t' = tpSender t" "tpReceiver t' = tpReceiver t"
    "tpBlockHeight t' = tpBlockHeight t" "tpBlockContext t' = tpBlockContext t" "tpEvmTx t' = tpEvmTx t"
    by (subst t', simp)+
  note db = NewMemStateDB_same [OF assms, symmetric]
  have ctx: "block_context E t' = block_context E t"
    unfolding block_context_def eqs by (rule refl)
  have exec: "executeEVM E evm t' store = executeEVM E evm t store" for store
    unfolding executeEVM_def eqs db ctx by (rule refl)
  have l1: "validateL1 t' = validateL1 t" unfolding validateL1_def eqs by (rule refl)
  have gas: "gas_estimate t' = gas_estimate t" unfolding gas_estimate_def eqs by (rule refl)
  have l2: "validateL2 t' = validateL2 t" unfolding validateL2_def eqs l1 gas by (rule refl)
  have local: "local_check E store t' = local_check E store t" for store
    unfolding local_check_def eqs by (rule refl)
  have l3: "validateL3 E evm t' = validateL3 E evm t" unfolding validateL3_def eqs l2 exec by (rule refl)
  have l4: "validateL4 E evm active t' = validateL4 E evm active t"
    unfolding validateL4_def eqs l1 l2 exec local gas by (rule refl)
  have result: "task_result t' = task_result t"
    unfolding task_result_def eqs by (rule refl)
  show ?thesis unfolding validateTask_def l1 l2 l3 l4 result by (rule refl)
qed

end
