(* ===== verification/CommandSamples.thy ===== *)
theory CommandSamples
  imports Samples Service Commands Llm Codec Reports TaskOrder
begin

section \<open>Concrete inputs for the commands\<close>

text \<open>
  A ledger with one funded wallet, a configuration directory, an LLM environment, a login, a batch
  and a task with two slots, for the witnesses of the properties of the commands.
\<close>

subsection \<open>A wallet on a ledger\<close>

text \<open>The wallet of key 7 holds ten IOTX; the gas price is 5 and the amount 1 IOTX.\<close>

definition demo_ledger :: ledger where
  "demo_ledger = \<lparr>lg_balance = (\<lambda>a. 10 ^ 19), lg_nonce = (\<lambda>a. 0), lg_mined = []\<rparr>"

abbreviation demo_node :: "(ledger, legacyTx \<times> int \<times> hash) node" where
  "demo_node \<equiv> ledger_node plain_keys (int 5)"

definition demo_private :: string where "demo_private = hex_of (hash_bytes 7)"

lemma demo_private_key:
  "demo_private \<noteq> []" "kHexToECDSA plain_keys (trim_prefix demo_private ''0x'') = Inr 7"
proof -
  have "length demo_private = 64" by (simp add: demo_private_def)
  then show "demo_private \<noteq> []" by auto
  have "kFromECDSA plain_keys 7 = hash_bytes 7" by (simp add: plain_keys_def)
  then show "kHexToECDSA plain_keys (trim_prefix demo_private ''0x'') = Inr 7"
    using plain.key_round_trip [of 7] by (simp add: demo_private_def trim_prefix_hex)
qed

lemma plain_keys_simps [simp]:
  "kSender plain_keys (tx, chain, k) = ucast k" "kTx plain_keys (tx, chain, k) = tx"
  "kAddress plain_keys k = ucast k" "kSign plain_keys tx chain k = Inr (tx, chain, k)"
  by (simp_all add: plain_keys_def)

lemma plain_signs: "\<exists>s. kSign plain_keys tx chain k = Inr s"
  by simp

text \<open>The \<open>float64\<close> 1.0.\<close>

definition float_1 :: float64 where "float_1 = 0x3FF0000000000000"

lemma float_1: "float_exponent float_1 = 1023" "float_fraction float_1 = 0" "\<not> float_sign float_1"
  by (simp_all add: float_1_def float_exponent_def float_fraction_def float_sign_def)

lemma iotxToWei_float_1: "iotxToWei float_1 = Wei (10 ^ 18)"
proof -
  have "float_units float_1 = 2 ^ 52 * 2 ^ 1022"
    by (simp only: float_units_def float_1) simp
  also have "\<dots> = 1 * float_one" unfolding float_one_def power_add [symmetric] by simp
  finally have "iotxToWei float_1 = Wei (int 1 * 10 ^ 18)"
    by (rule iotxToWei_whole) (simp_all add: float_1)
  then show ?thesis by simp
qed

definition demo_fund :: fundFlags where
  "demo_fund = \<lparr>ff_privateKey = demo_private, ff_chainID = 4689, ff_amount = float_1, ff_dryRun = False\<rparr>"

lemma demo_fund_simps [simp]:
  "ff_privateKey demo_fund = demo_private" "ff_chainID demo_fund = 4689"
  "ff_amount demo_fund = float_1" "\<not> ff_dryRun demo_fund"
  by (simp_all add: demo_fund_def)

definition demo_wallets :: "string list" where "demo_wallets = [addr_hex 8, addr_hex 9]"

lemma demo_fund_logged:
  "\<exists>as c' l. runFund eth_instance plain_keys (logged demo_node) (\<lambda>v. []) demo_fund demo_wallets (demo_ledger, []) =
     (FundDone as 2 0, c', l)"
proof -
  have "\<exists>as c'. runFund eth_instance plain_keys (logged demo_node) (\<lambda>v. []) demo_fund demo_wallets (demo_ledger, []) =
      (FundDone as (length demo_wallets) 0, c')"
    by (rule node_laws.runFund_completes [OF led.logged_laws [of 5] plain_signs, where amountWei = "10 ^ 18"])
      (simp_all add: demo_private_key iotxToWei_float_1 demo_wallets_def demo_ledger_def)
  then show ?thesis by (auto simp: demo_wallets_def)
qed

definition demo_abi :: pool_abi where
  "demo_abi = \<lparr>abPackClaimable = (\<lambda>a. Inr [1]), abUnpackClaimable = (\<lambda>b. Inr (5 * 10 ^ 18)), abPackClaim = Inr [2]\<rparr>"

definition demo_claim :: claimFlags where
  "demo_claim = \<lparr>cf_contract = addr_hex 9, cf_privateKey = demo_private, cf_chainID = 4689, cf_dryRun = False\<rparr>"

lemma demo_claim_run:
  "\<exists>r c' s. runClaim eth_instance plain_keys (logged demo_node) demo_abi (\<lambda>v. []) demo_claim (demo_ledger, []) =
     (r, c', [s])"
proof -
  obtain r c' l where run: "runClaim eth_instance plain_keys (logged demo_node) demo_abi (\<lambda>v. []) demo_claim (demo_ledger, []) =
      (r, c', l)" by (cases "runClaim eth_instance plain_keys (logged demo_node) demo_abi (\<lambda>v. []) demo_claim (demo_ledger, [])") auto
  have "\<exists>s. snd (snd (runClaim eth_instance plain_keys (logged demo_node) demo_abi (\<lambda>v. []) demo_claim (demo_ledger, []))) = [s]"
    by (simp add: runClaim_def claim_env_def demo_claim_def demo_private_key attempt_lift attempt_def Let_def
        claim_with_key_def demo_abi_def send_claim_def claim_tx_def tx_cost_def
        lift_call_def ledger_send_def demo_ledger_def claim_wait_log split: prod.splits)
  with run show ?thesis by simp
qed

subsection \<open>A service\<close>

definition demo_home :: string where "demo_home = ''/home/u''"

definition demo_settings :: "(string \<times> string) list" where
  "demo_settings = [(''IOSWARM_COORDINATOR'', ''h:1''), (''IOSWARM_AGENT_ID'', ''a''), (''IOSWARM_LEVEL'', ''L4'')]"

definition demo_files :: files where
  "demo_files = [''/d/config.env'' \<mapsto> config_file demo_settings]"

lemma demo_service_config:
  "sv_AgentID (loadServiceConfig demo_files ''/d'') = ''a''" "sv_Level (loadServiceConfig demo_files ''/d'') = ''L4''"
  "sv_Coordinator (loadServiceConfig demo_files ''/d'') = ''h:1''"
proof -
  have "loadServiceConfig demo_files ''/d'' =
    \<lparr>sv_AgentBin = ''/d'' @ ''/ioswarm-agent'',
     sv_Coordinator = last_setting ''IOSWARM_COORDINATOR'' [] demo_settings,
     sv_AgentID = last_setting ''IOSWARM_AGENT_ID'' [] demo_settings,
     sv_Level = last_setting ''IOSWARM_LEVEL'' ''L2'' demo_settings,
     sv_Region = last_setting ''IOSWARM_REGION'' ''default'' demo_settings,
     sv_Wallet = last_setting ''IOSWARM_WALLET'' [] demo_settings,
     sv_APIKey = last_setting ''IOSWARM_API_KEY'' [] demo_settings,
     sv_LogFile = ''/d'' @ ''/agent.log''\<rparr>"
    by (rule config_last_assignment_wins)
      (simp_all add: demo_files_def demo_settings_def wf_setting_def newline_def)
  then show "sv_AgentID (loadServiceConfig demo_files ''/d'') = ''a''"
    "sv_Level (loadServiceConfig demo_files ''/d'') = ''L4''"
    "sv_Coordinator (loadServiceConfig demo_files ''/d'') = ''h:1''"
    by (simp_all add: demo_settings_def last_setting_def)
qed

lemma demo_install:
  "\<exists>path fs'. installService (\<lambda>p. None) ''linux'' demo_home ''/d'' demo_files = (Inr path, fs')"
  by (simp add: installService_def installSystemd_def install_file_def write_file_def Let_def demo_service_config)

subsection \<open>An LLM proxy and a login\<close>

definition demo_getenv :: "string \<Rightarrow> string" where
  "demo_getenv v = (if v = ''GEMINI_API_KEY'' then ''g'' else if v = ''OPENAI_API_KEY'' then ''o'' else [])"

definition demo_llm :: llm_env where
  "demo_llm = \<lparr>leGetenv = demo_getenv, leHome = demo_home, leFiles = Map.empty, leJsonError = (\<lambda>s. ''bad'')\<rparr>"

definition demo_chat :: llmRequest where
  "demo_chat = \<lparr>lqModel = ''google/gemini-2.0-flash'', lqMessages = Some [\<lparr>lmRole = ''user'', lmContent = ''hi''\<rparr>]\<rparr>"

lemma demo_chat_model:
  "chat_model (lqModel demo_chat) = ''gemini-2.0-flash''" "provider_of ''gemini-2.0-flash'' = Some Gemini"
  "llm_key demo_llm Gemini = ''g''"
  by (simp_all add: chat_model_def demo_chat_def trim_prefix_def provider_of_def llm_key_def geminiKey_def
      demo_llm_def demo_getenv_def)

lemma demo_chat_decoded:
  "Option.bind (decode_first (marshal (request_json demo_chat))) (dec_request empty_request) = Some demo_chat"
  by (simp add: decode_first_marshal request_json_numbers dec_request_json)

lemma demo_chat_sent:
  "\<exists>resp req. handleLLMChat demo_llm send now ''POST'' (marshal (request_json demo_chat)) = (resp, [req])"
proof -
  let ?call = "call_provider demo_llm send Gemini ''gemini-2.0-flash'' (lqMessages demo_chat)"
  obtain req where "snd ?call = [req]" using call_provider_request by blast
  then obtain res where "?call = (res, [req])" by (cases ?call) simp
  then show ?thesis
    using demo_chat_decoded demo_chat_model
    by (cases res) (simp_all add: handleLLMChat_def Let_def routeLLM_provider)
qed

definition demo_resp :: json where
  "demo_resp =
     JObj [(''access_token'', JStr ''tok''), (''refresh_token'', JStr ''ref''), (''expires_in'', json_int 3600),
           (''account'', JObj [(''email_address'', JStr ''u'')])]"

definition demo_login :: oauth_env where
  "demo_login =
     \<lparr>oaVerifier = replicate 32 1, oaState = replicate 16 2, oaSha256 = id, oaListen = None,
      oaCallback = Some (values_encode [(''code'', ''c''), (''state'', generateState (replicate 16 2))]),
      oaDo = (\<lambda>r. Inr (200, marshal demo_resp)), oaExpiry = (\<lambda>n. ''soon''), oaDeny = (\<lambda>p. None), oaHome = demo_home\<rparr>"

lemma demo_login_token:
  "\<exists>t. orResult (runClaudeOAuth demo_login Map.empty) = Inr t \<and> ctAccessToken t = ''tok''"
proof -
  have resp: "decode_first (marshal demo_resp) = Some demo_resp"
    by (rule decode_first_marshal) (simp add: demo_resp_def)
  have q: "query_get (values_encode [(''code'', ''c''), (''state'', s)]) ''code'' = ''c''"
    "query_get (values_encode [(''code'', ''c''), (''state'', s)]) ''state'' = s" for s
    by (simp_all add: query_get_def parse_query_encode)
  have "fits (- 9223372036854775808) 9223372036854775807 (show_int 3600) = Some 3600"
    by (rule fits_show_int) simp_all
  then have "\<exists>r. dec_resp empty_resp demo_resp = Some r \<and> rtAccessToken r = ''tok''"
    by (simp add: dec_resp_def demo_resp_def empty_resp_def field_for_def field_def json_int_def)
  with resp q show ?thesis
    by (auto simp: runClaudeOAuth_def demo_login_def Let_def on_callback_def exchange_code_def finish_exchange_def
        exchange_result_def saveToken_def write_file_def)
qed

subsection \<open>A batch and a reordered task\<close>

definition demo_batch :: taskBatch where
  "demo_batch = \<lparr>tbBatchID = ''b'', tbTasks = [demo_task], tbTimestamp = 7\<rparr>"

lemma demo_batch_wf: "\<forall>t \<in> set (tbTasks demo_batch). wf_task t"
  by (simp add: demo_batch_def demo_task_def wf_task_def)

definition demo_two :: taskPackage where
  "demo_two = demo_task\<lparr>tpStorageSlots := [(addr_hex 8, [(hash_hex 0, hash_hex 4), (hash_hex 1, hash_hex 5)])]\<rparr>"

definition demo_two' :: taskPackage where
  "demo_two' = demo_task\<lparr>tpStorageSlots := [(addr_hex 8, [(hash_hex 1, hash_hex 5), (hash_hex 0, hash_hex 4)])]\<rparr>"

lemma demo_two_same: "same_maps demo_two demo_two'" "keys_apart demo_env demo_two"
  by (simp_all add: same_maps_def keys_apart_def demo_two_def demo_two'_def demo_task_def code_key_def slot_key_def
      add_mset_commute)

end
