(* ===== verification/Spec2Isabelle.thy ===== *)
theory Spec2Isabelle
  imports CommandSamples
begin

text \<open>
  The ioSwarm agent: a Go program that registers with a coordinator, receives batches of
  transactions to validate, validates each one at a level (L1 signature, L2 sender state, L3 EVM
  execution on the coordinator's data, L4 EVM execution on a local copy of the chain state) and
  sends the results back. This development models the agent's own logic and proves it correct
  with respect to the specifications below.

  PARTS AND THEORIES (file names are those under src/).

  Prelude, GoLib: bytes, words, big-endian integers, two-level maps and the \<open>for len(buf) > 0\<close>
  loop (\<open>buf_loop\<close>); the functions of the Go standard library the source calls.

  Protowire, WireFormat: the protobuf wire package as a record of functions with the locale
  \<open>protowire_laws\<close>, and the documented wire format as its interpretation.

  Account (account.go): \<open>DecodeAccount\<close>, \<open>addressToHash160\<close>. The decoder is the fold of the
  message's fields (\<open>account_field\<close>), and the address parser accepts one set of strings exactly.

  Mpt, MptCodec, TrieLookup, StoredTrie (mpt.go, \<open>GetStorageSlot\<close> of statestore.go): the five
  node decoders and \<open>skipField\<close>, the encoders, \<open>trieGet\<close> and \<open>GetStorageSlot\<close>. The abstract
  specification is a radix trie as a map (\<open>trie\<close>, \<open>tlookup\<close>); \<open>represents\<close> relates it to the
  nodes in the store. Lemmas: termination of the decoders, round trips of the encoders, lookups
  agree with the map, \<open>trieGet\<close> returns unless an extension node has an empty path.

  Bolt, Store, StoreSpec (statestore.go): the bbolt database as a record of operations with the
  locale \<open>bolt_laws\<close> and an in-memory database as its interpretation; \<open>OpenStateStore\<close>,
  \<open>ApplyDiff\<close> and the readers. The specification is a map with a height (locale
  \<open>versioned_store\<close>): a diff is applied entirely and in order, or not at all.

  Snapshot (snapshot.go): the IOSWSNAP reader, with the writer of snapshot_test.go as its
  reference.

  Sync (statesync.go): \<open>syncLoop\<close> and \<open>streamDiffs\<close> as a labelled step relation \<open>sync_step\<close>; the
  network and the cancellation are choices of the relation. The specification is the sequence of
  the diffs applied.

  EthLib, MemState, Journal, StateDiff (statedb.go): the StateDB the interpreter runs on. EthLib
  holds the go-ethereum helpers (record, locale \<open>ethlib_laws\<close>, instance). Journal states the
  snapshot contract as the locale \<open>journal\<close>, proves the nesting lemma in it and interprets it on
  \<open>memStateDB\<close>. StateDiff specifies the reported changes as the difference of two states.

  Types, Evm, Validator (types.go, evm.go, validator.go): the messages, \<open>executeEVM\<close> and the four
  validation levels. go-ethereum's interpreter is the parameter \<open>evm\<close>. What the properties rely
  on is \<open>evm_contract\<close>: it changes the state only through the StateDB interface,
  reads a slot before it writes it, and returns no more gas than it
  was given. \<open>plain_evm\<close>, which performs the value transfer of a call and nothing else,
  satisfies it.

  TaskOrder (the loops of \<open>NewMemStateDB\<close>): Go ranges over the maps of a task in any order, and the
  database does not depend on it.

  Agent (main.go, worker.go, client.go): \<open>processBatch\<close>, registration, heartbeats, the task
  stream as a labelled step relation \<open>stream_step\<close>, the connection options, the start of a worker.

  Flags, Startup (main.go): Go's command lines; the subcommands, flags, environment variables and
  the workers \<open>main\<close> starts.

  OsFiles, Config, Service (upgrade.go, status.go, service.go): files; version comparison (an
  instance of \<open>linorder\<close>), the configuration file, the status report; the service files, their
  installation and removal.

  Amount (\<open>iotxToWei\<close>, \<open>weiToIOTX\<close>): the arithmetic of \<open>big.Float\<close> with its roundings, and how far
  the results are from the exact ones.

  Chain, Fund, Claim, Deploy, Keys (fund.go, claim.go, deploy.go, keygen.go): the commands that
  send transactions, over a node and a key library as records of functions (locales \<open>key_laws\<close>
  and \<open>node_laws\<close>, interpreted on \<open>ledger_node\<close>, a ledger that carries transactions out). \<open>logged\<close>
  adds to any node the list of what is sent to it, and the safety lemmas are about that list.

  Json, Http, Codec (codec.go, types.go): JSON values, their printer and parser with the round trip
  \<open>unmarshal_marshal\<close>, the decoding of structs; requests, headers, base64 and query strings; the
  messages of types.go as they travel.

  LlmSetup, Llm (llm_setup.go, llm.go): the OAuth login and its token file; the proxy's models,
  routing, provider requests, replies and handlers.

  Reports (status.go, rewards.go, upgrade.go): what these commands print.

  Samples, CommandSamples: the concrete inputs the witnesses evaluate.

  PARAMETERS. Code that is not under src/ is an argument: the wire package (\<open>P\<close>), the database
  (\<open>B\<close>), the go-ethereum helpers (\<open>L\<close>), keys (\<open>K\<close>), node (\<open>N\<close>), ABI (\<open>A\<close>) and interpreter, and
  the node hash \<open>H\<close>. So are the answers of the world: HTTP replies, the files, the environment,
  random bytes, the clock, and the texts of errors; and of the standard library SHA-256 (\<open>sha\<close>), the
  quoting of \<open>%q\<close> (\<open>goQuote\<close>) and the reading and printing of decimal floats (\<open>fparse\<close>, \<open>fshow\<close>).
  Every law stated of one of them is discharged by an instance, so no property holds by an
  unsatisfiable hypothesis.

  BOUNDS. \<open>None\<close> is a computation that does not return. The decoders are total
  (\<open>decoders_terminate\<close>): each iteration consumes a byte. \<open>trie_loop\<close> carries no fuel: it is a
  partial function, and \<open>trie_lookup_terminates\<close> and \<open>empty_extension_cycle_diverges\<close> say when it
  returns. The JSON parser's fuel is the length of its input, and more makes no difference
  (\<open>unmarshal_fuel\<close>). The commands poll for a receipt 30 and 60 times, as the code does. Nonces,
  gas, heights and counters are 64- or 32-bit words, balances in the EVM 256-bit words; decimal
  balances and amounts are integers, as \<open>big.Int\<close> is.

  NOT MODELLED. Logging, sleeps, timeouts and signals, which have no effect on the state; gRPC and
  the gzip reader (a snapshot is its uncompressed stream); the interpreter; the JSON of the
  heartbeats, whose fields are floats; the escapes of U+2028 and U+2029 in \<open>json.Marshal\<close>;
  redirects of \<open>ServeMux\<close>; opening a browser.
\<close>

section \<open>Properties\<close>



text \<open>
  C2: Storing a trie and looking a key up. The nodes of a trie are encoded with the encoders of
  mpt.go and written under their hashes by \<open>ApplyDiff\<close>; when the hash tells the nodes apart,
  \<open>trieGet\<close> from the root finds for every key what the trie, as a map, holds for it.
\<close>

theorem trie_lookup_agrees:
  assumes "protowire_laws P" and "bolt_laws B"
    and "ApplyDiff B s h (trie_entries P H t) = (None, s')"
    and "bkBegin B (st_db s') = None"
    and "wf_ctrie t" and "inj_on H (set (trie_nodes P H [] t))"
    and "\<And>d. d \<in> set (trie_nodes P H [] t) \<Longrightarrow> length d < 2 ^ 63"
    and "root_hash P H t \<noteq> []" and "root_hash P H t \<noteq> emptyTrieRoot"
  shows "trieGet P B s' (root_hash P H t) key = Some (lookup_result (tlookup (abs_trie t) key))"
  by (rule stored_trie_lookup [OF assms])

theorem trie_lookup_agrees_witness:
  "\<exists>s'. ApplyDiff mem_bolt demo_store 13 (trie_entries wire_format (Cons 1) demo_trie) = (None, s') \<and>
     trieGet wire_format mem_bolt s' (root_hash wire_format (Cons 1) demo_trie) [3, 4] = Some (Inr (Some [6]))"
proof -
  from demo_trie_stored obtain s' where
    s': "ApplyDiff mem_bolt demo_store 13 (trie_entries wire_format (Cons 1) demo_trie) = (None, s')" by blast
  have "root_hash wire_format (Cons 1) demo_trie \<noteq> []"
    "root_hash wire_format (Cons 1) demo_trie \<noteq> emptyTrieRoot"
    by (simp_all add: root_hash_def emptyTrieRoot_def)
  moreover have "length d < 2 ^ 63" if "d \<in> set (trie_nodes wire_format (Cons 1) [] demo_trie)" for d
    using demo_trie_ok(3) [OF that] by simp
  moreover have "bkBegin mem_bolt (st_db s') = None" by simp
  ultimately have "trieGet wire_format mem_bolt s' (root_hash wire_format (Cons 1) demo_trie) [3, 4] =
      Some (lookup_result (tlookup (abs_trie demo_trie) [3, 4]))"
    by (intro trie_lookup_agrees [OF wire.protowire_laws_axioms mem.bolt_laws_axioms s'] demo_trie_ok)
  then show ?thesis using s' by (simp add: demo_trie_lookup lookup_result_def)
qed



text \<open>
  C4: A block's diff is applied entry by entry. After a successful \<open>ApplyDiff\<close> every key holds what
  the last put or delete for it wrote, keys the block does not write are unchanged, entries of
  unknown type do nothing, and the height is the block's.
\<close>

theorem diff_last_write_wins:
  assumes "bolt_laws B" and "ApplyDiff B s h es = (None, s')"
    and "ns \<noteq> nsMeta \<or> k \<noteq> metaHeight"
  shows "Height s' = h \<and> db_view B (st_db s') ns k =
    (case last_write ns k es of None \<Rightarrow> db_view B (st_db s) ns k | Some e \<Rightarrow> written e)"
  using bolt_laws.ApplyDiff_ok [OF assms(1,2)] assms(3)
  by (auto simp: Height_def with_height_def diff_effect_last_write)

theorem diff_last_write_wins_witness:
  "\<exists>s'. ApplyDiff mem_bolt demo_store 13 demo_diff = (None, s') \<and>
     db_view mem_bolt (st_db s') nsCode [1] = Some [3]"
proof -
  from demo_diff_applies obtain s' where s': "ApplyDiff mem_bolt demo_store 13 demo_diff = (None, s')"
    by blast
  have "nsCode \<noteq> nsMeta \<or> [1] \<noteq> metaHeight" by (simp add: ns_defs)
  from diff_last_write_wins [OF mem.bolt_laws_axioms s' this] s' show ?thesis
    by (simp add: demo_diff_def last_write_def writes_def written_def WriteTypePut_def WriteTypeDelete_def Let_def)
qed

text \<open>
  C5: A failed block leaves no trace. When a sequence of blocks stops with an error, the store is the
  one the blocks before the failing block produce: nothing of the failing block is visible and
  the height is that of the block before.
\<close>

theorem failed_block_keeps_prefix:
  assumes "bolt_laws B" and "run_blocks (ApplyDiff B) s bs = (Some e, s')"
  shows "\<exists>pre h es post. bs = pre @ (h, es) # post \<and> run_blocks (ApplyDiff B) s pre = (None, s') \<and>
    fst (ApplyDiff B s' h es) = Some e \<and>
    Height s' = (if pre = [] then Height s else fst (last pre)) \<and>
    db_view B (st_db s') = blocks_effect (db_view B (st_db s)) pre"
proof -
  note V = bolt_versioned [OF assms(1)]
  from versioned_store.run_blocks_error [OF V assms(2)] obtain pre h es post where
    p: "bs = pre @ (h, es) # post" "run_blocks (ApplyDiff B) s pre = (None, s')"
    "fst (ApplyDiff B s' h es) = Some e" by blast
  with versioned_store.run_blocks_view [OF V p(2)] versioned_store.run_blocks_height [OF V p(2)]
  show ?thesis unfolding Height_def by blast
qed

theorem failed_block_keeps_prefix_witness:
  "\<exists>e s'. run_blocks (ApplyDiff mem_bolt) demo_store [(13, demo_diff), (14, bad_diff)] = (Some e, s') \<and>
     Height s' = 13"
proof -
  from demo_bad_run obtain e s' where
    run: "run_blocks (ApplyDiff mem_bolt) demo_store [(13, demo_diff), (14, bad_diff)] = (Some e, s')"
    and h: "Height s' \<noteq> 12" by blast
  from failed_block_keeps_prefix [OF mem.bolt_laws_axioms run] obtain pre h es post where
    p: "[(13, demo_diff), (14, bad_diff)] = pre @ (h, es) # post"
    "Height s' = (if pre = [] then Height demo_store else fst (last pre))" by blast
  have "Height demo_store = 12" by (simp add: Height_def demo_store_def)
  with p h have "pre \<noteq> []" by auto
  with p(1) have "pre = [(13, demo_diff)]" by (auto simp: Cons_eq_append_conv)
  with p(2) run show ?thesis by auto
qed

text \<open>
  C6: The order in which Go ranges over a task's maps does not matter. Take two tasks that differ in
  the order of the entries of the contract code and of the storage slots only. When no two keys of
  a map name the same address or slot, \<open>NewMemStateDB\<close> builds the same database from both and
  every level gives both the same result.
\<close>

theorem map_order_is_irrelevant:
  assumes "same_maps t t'" and "keys_apart E t"
  shows "NewMemStateDB E t = NewMemStateDB E t' \<and>
    validateTask E evm active latency t level = validateTask E evm active latency t' level"
  using NewMemStateDB_same [OF assms] validateTask_same [OF assms] by blast

theorem map_order_is_irrelevant_witness:
  "NewMemStateDB demo_env demo_two = NewMemStateDB demo_env demo_two' \<and>
   validateTask demo_env (plain_evm demo_env) None 0 demo_two ''L3'' =
     validateTask demo_env (plain_evm demo_env) None 0 demo_two' ''L3''"
  by (rule map_order_is_irrelevant [OF demo_two_same])

text \<open>
  C7: The synchroniser refines the sequence of applied blocks. In every run of \<open>syncLoop\<close>, with
  failures, reconnects and cancellation at any point, the contents of the store are the initial
  ones with the applied diffs in order, and the height is that of the last one.
\<close>

theorem synced_store_is_the_diffs:
  assumes "bolt_laws B" and "sync_run B (Start (NewStateSync st agentID)) tr ss"
  shows "db_view B (st_db (sy_store ss)) = blocks_effect (db_view B (st_db st)) (applied tr) \<and>
    Height (sy_store ss) = (if applied tr = [] then Height st else fst (last (applied tr)))"
proof -
  note V = bolt_versioned [OF assms(1)]
  have start: "sy_store (Start (NewStateSync st agentID)) = st" by (simp add: Start_def NewStateSync_def)
  note run = sync_run_blocks [OF assms(2), unfolded start]
  show ?thesis
    using versioned_store.run_blocks_view [OF V run] versioned_store.run_blocks_height [OF V run]
    by (simp add: Height_def)
qed

theorem synced_store_is_the_diffs_witness:
  "\<exists>tr ss. sync_run mem_bolt (Start (NewStateSync demo_store ''a'')) tr ss \<and>
     applied tr = [(13, demo_diff)] \<and> Height (sy_store ss) = 13"
proof -
  obtain tr ss where run: "sync_run mem_bolt (Start (NewStateSync demo_store ''a'')) tr ss"
    and tr: "applied tr = [(13, demo_diff)]" using demo_sync by blast
  from synced_store_is_the_diffs [OF mem.bolt_laws_axioms run] run tr show ?thesis by auto
qed



text \<open>
  C9: The proxy keeps providers apart. What a chat request makes the proxy send is at most one request;
  it goes to the host of the provider that the prefix of the model names, whose key is set. Nothing
  the proxy does with the request, neither what it sends nor what it answers, depends on the keys
  of the other providers, so no key reaches a provider it is not for.
\<close>

theorem llm_request_stays_with_its_provider:
  assumes "handleLLMChat E send now method body = (resp, sent)" and "sent \<noteq> []"
  shows "\<exists>r p req. method = ''POST'' \<and> Option.bind (decode_first body) (dec_request empty_request) = Some r \<and>
    provider_of (chat_model (lqModel r)) = Some p \<and> llm_key E p \<noteq> [] \<and>
    sent = [req] \<and> has_prefix (hqURL req) (provider_host p) \<and>
    (\<forall>E'. llm_key E' p = llm_key E p \<and> leJsonError E' = leJsonError E \<longrightarrow>
       handleLLMChat E' send now method body = (resp, sent))"
proof -
  from handleLLMChat_sent [OF assms] obtain r p req where
    r: "method = ''POST''" "Option.bind (decode_first body) (dec_request empty_request) = Some r"
    "provider_of (chat_model (lqModel r)) = Some p" "llm_key E p \<noteq> []" "sent = [req]"
    "has_prefix (hqURL req) (provider_host p)" .
  have "handleLLMChat E' send now method body = (resp, sent)"
    if "llm_key E' p = llm_key E p" "leJsonError E' = leJsonError E" for E'
    using handleLLMChat_key [OF r(2,3) that] assms(1) by simp
  with r show ?thesis by blast
qed

theorem llm_request_stays_with_its_provider_witness:
  "\<exists>resp req. handleLLMChat demo_llm (\<lambda>r. Inl ''down'') 0 ''POST'' (marshal (request_json demo_chat)) = (resp, [req]) \<and>
     has_prefix (hqURL req) ''https://generativelanguage.googleapis.com/''"
proof -
  let ?body = "marshal (request_json demo_chat)"
  have dec: "Option.bind (decode_first ?body) (dec_request empty_request) = Some demo_chat"
    by (rule demo_chat_decoded)
  obtain resp req where run: "handleLLMChat demo_llm (\<lambda>r. Inl ''down'') 0 ''POST'' ?body = (resp, [req])"
    using demo_chat_sent by blast
  have "[req] \<noteq> []" by simp
  from llm_request_stays_with_its_provider [OF run this] dec demo_chat_model run show ?thesis
    by (auto simp: provider_host_def)
qed

text \<open>
  C10: Re-delivery of a block is harmless: after a reconnect the coordinator may send a block again,
  and applying it a second time leaves the contents and the height as they were.
\<close>

theorem replayed_block_changes_nothing:
  assumes "bolt_laws B" and "ApplyDiff B s h es = (None, s1)" and "ApplyDiff B s1 h es = (None, s2)"
  shows "db_view B (st_db s2) = db_view B (st_db s1) \<and> Height s2 = Height s1"
  using versioned_store.replay_view [OF bolt_versioned [OF assms(1)] assms(2,3)]
    bolt_laws.ApplyDiff_ok [OF assms(1,2)] bolt_laws.ApplyDiff_ok [OF assms(1,3)]
  by (simp add: Height_def)

theorem replayed_block_changes_nothing_witness:
  "\<exists>s1 s2. ApplyDiff mem_bolt demo_store 13 demo_diff = (None, s1) \<and>
     ApplyDiff mem_bolt s1 13 demo_diff = (None, s2) \<and>
     db_view mem_bolt (st_db s2) = db_view mem_bolt (st_db s1)"
proof -
  obtain s1 where s1: "ApplyDiff mem_bolt demo_store 13 demo_diff = (None, s1)"
    using demo_diff_applies by blast
  obtain s2 where s2: "ApplyDiff mem_bolt s1 13 demo_diff = (None, s2)"
    using demo_diff_again [OF s1] by blast
  from replayed_block_changes_nothing [OF mem.bolt_laws_axioms s1 s2] s1 s2 show ?thesis by blast
qed

text \<open>
  C11: A restart loses nothing. After opening a database and applying any blocks, with or without
  failures, opening the database again gives a store with the same height and contents.
\<close>

theorem height_survives_restart:
  assumes "bolt_laws B" and "OpenStateStore B (Inr d) = Inr s0"
    and "OpenStateStore B (Inr (st_db (apply_all B s0 bs))) = Inr s1"
  shows "Height s1 = Height (apply_all B s0 bs) \<and>
    db_view B (st_db s1) = db_view B (st_db (apply_all B s0 bs))"
  using bolt_laws.restart_height [OF assms(1) apply_all_inv [OF assms(1)
        bolt_laws.OpenStateStore_ok(1) [OF assms(1,2)]] assms(3)]
  by (simp add: Height_def)

theorem height_survives_restart_witness:
  "\<exists>s0 s1. OpenStateStore mem_bolt (Inr []) = Inr s0 \<and>
     OpenStateStore mem_bolt (Inr (st_db (apply_all mem_bolt s0 [(13, demo_diff)]))) = Inr s1 \<and>
     Height s1 = Height (apply_all mem_bolt s0 [(13, demo_diff)])"
proof -
  obtain s0 where s0: "OpenStateStore mem_bolt (Inr []) = Inr s0" using demo_open by blast
  obtain s1 where s1: "OpenStateStore mem_bolt (Inr (st_db (apply_all mem_bolt s0 [(13, demo_diff)]))) = Inr s1"
    using demo_open by blast
  from height_survives_restart [OF mem.bolt_laws_axioms s0 s1] s0 s1 show ?thesis by blast
qed

text \<open>
  C12: Readiness is published once. In every run the synchroniser is ready exactly when it has applied
  a diff, \<open>readyCh\<close> is closed exactly when it is ready, so \<open>WaitReady\<close> can return without an
  error exactly then, and the close that would panic never happens.
\<close>

theorem ready_once:
  assumes "sync_run B (Start (NewStateSync st agentID)) tr ss"
  shows "(Ready ss \<longleftrightarrow> applied tr \<noteq> []) \<and> (wait_ready ss done None \<longleftrightarrow> Ready ss) \<and> sy_phase ss \<noteq> Panicked"
  using sync_run_ready [OF assms] sync_run_inv [OF assms sync_inv_start [OF sync_inv_new]]
  by (simp add: Ready_def wait_ready_ok sync_inv_def Start_def NewStateSync_def)

theorem ready_once_witness:
  "\<exists>tr ss. sync_run mem_bolt (Start (NewStateSync demo_store ''a'')) tr ss \<and>
     applied tr = [(13, demo_diff)] \<and> Ready ss \<and> wait_ready ss False None"
proof -
  obtain tr ss where run: "sync_run mem_bolt (Start (NewStateSync demo_store ''a'')) tr ss"
    and tr: "applied tr = [(13, demo_diff)]" using demo_sync by blast
  from ready_once [OF run, of False] run tr show ?thesis by auto
qed

text \<open>
  C13: Reconnecting leaves no gap and repeats nothing. When the store is past block 0 and the
  coordinator serves consecutive blocks from the height each stream asks for, the heights of the
  applied diffs are consecutive from the store's height on, over any number of reconnects.
\<close>

theorem reconnect_leaves_no_gap:
  assumes "sync_run B (Start (NewStateSync st agentID)) tr ss" and "serves n tr"
    and "Height st \<noteq> 0" and "unat (Height st) + length (applied tr) < 2 ^ 64"
  shows "consecutive (Height st) (map fst (applied tr))"
proof -
  have start: "sy_store (Start (NewStateSync st agentID)) = st"
    "sy_phase (Start (NewStateSync st agentID)) = Top" by (simp_all add: Start_def NewStateSync_def)
  show ?thesis
    using sync_run_consecutive [OF assms(1) sync_inv_start [OF sync_inv_new], of n] assms(2-4)
    by (simp add: start Height_def)
qed

theorem reconnect_leaves_no_gap_witness:
  "\<exists>tr ss. sync_run mem_bolt (Start (NewStateSync demo_store ''a'')) tr ss \<and>
     applied tr = [(13, demo_diff)] \<and> consecutive 12 (map fst (applied tr))"
proof -
  obtain tr ss where run: "sync_run mem_bolt (Start (NewStateSync demo_store ''a'')) tr ss"
    and tr: "applied tr = [(13, demo_diff)]" "serves 0 tr" using demo_sync by blast
  have "Height demo_store = 12" by (simp add: Height_def demo_store_def)
  with reconnect_leaves_no_gap [OF run tr(2)] run tr(1) show ?thesis by auto
qed

text \<open>
  C14: Writing and loading a snapshot. A stream the writer produced, followed by anything, is loaded
  as one \<open>ApplyDiff\<close> of its entries as puts at its height, and the height and the number of
  entries are returned.
\<close>

theorem snapshot_round_trip:
  assumes "Height store < height" and "\<forall>e \<in> set es. wf_snapEntry e"
    and "length es < 2 ^ 63" and "length (sha (snapshot_body height es)) = 32"
  shows "LoadSnapshot sha B (Inr (writeSnapshot sha height es @ junk)) store =
    (case ApplyDiff B store height (map put_of es) of
       (Some e, store') \<Rightarrow> (Inl (ApplySnapshot e), store')
     | (None, store') \<Rightarrow> (Inr (height, length es), store'))"
  using assms by (rule LoadSnapshot_write)

theorem snapshot_round_trip_witness:
  "LoadSnapshot (\<lambda>b. replicate 32 0) mem_bolt
     (Inr (writeSnapshot (\<lambda>b. replicate 32 0) 13 demo_entries @ [])) demo_store =
   (case ApplyDiff mem_bolt demo_store 13 (map put_of demo_entries) of
      (Some e, store') \<Rightarrow> (Inl (ApplySnapshot e), store')
    | (None, store') \<Rightarrow> (Inr (13, length demo_entries), store'))"
  by (rule snapshot_round_trip) (simp_all add: Height_def demo_store_def demo_entries_def wf_snapEntry_def)



text \<open>
  C16: Funding completes. On a node that answers, takes a transaction with the next nonce whose cost is
  covered, and is not used for the account by anyone else, \<open>runFund\<close> ends with every wallet funded
  and no failure, when the wallet holds the amounts and the gas of all transfers and the keys can
  sign.
\<close>

theorem fund_completes:
  assumes "node_laws K valid N pending funds price"
    and "\<And>tx. \<exists>s. kSign K tx (ff_chainID f) key = Inr s"
    and "ff_privateKey f \<noteq> []" and "kHexToECDSA K (trim_prefix (ff_privateKey f) ''0x'') = Inr key"
    and "wallets \<noteq> []" and "\<not> ff_dryRun f"
    and "iotxToWei (ff_amount f) = Wei amountWei" and "0 \<le> amountWei"
    and "int (length wallets) * (amountWei + 21000 * price) \<le> funds c (kAddress K key)"
  shows "\<exists>as c'. runFund L K N getenv f wallets c = (FundDone as (length wallets) 0, c')"
  by (rule node_laws.runFund_completes [OF assms])

theorem fund_completes_witness:
  "\<exists>as c'. runFund eth_instance plain_keys demo_node (\<lambda>v. []) demo_fund demo_wallets demo_ledger =
     (FundDone as (length demo_wallets) 0, c')"
  by (rule fund_completes [OF led.node_laws_axioms [of 5] plain_signs, where amountWei = "10 ^ 18"])
    (simp_all add: demo_private_key iotxToWei_float_1 demo_wallets_def demo_ledger_def)

text \<open>
  C17: A claim sends at most one transaction. If it sends one, the run is not dry, the reward contract
  answered the wallet's address with an amount that is not zero, and the transaction is the
  contract's \<open>claim()\<close> with no value, signed with the wallet's key and carrying the nonce and the
  gas price the node gave. The command ends without a receipt only after thirty polls that found
  none.
\<close>

theorem claim_sends_at_most_once:
  assumes "runClaim L K (logged N) A getenv f0 (c, []) = (r, c', l)" and "f = claim_env getenv f0"
  shows "(l = [] \<or> (\<exists>s key answer v c1 c2 d. l = [s] \<and> \<not> cf_dryRun f0 \<and>
      kHexToECDSA K (trim_prefix (cf_privateKey f) ''0x'') = Inr key \<and>
      claim_sent K N A f (HexToAddress L (cf_contract f)) key s \<and>
      abPackClaimable A (kAddress K key) = Inr d \<and>
      ndCall N (HexToAddress L (cf_contract f)) d c1 = (Inr answer, c2) \<and>
      abUnpackClaimable A answer = Inr v \<and> v \<noteq> 0)) \<and>
    (r = ClaimUnconfirmed h \<longrightarrow> (\<exists>d. \<forall>j < 30. no_receipt (logged N) h d j))"
  using runClaim_log [OF assms] runClaim_unconfirmed [of L K "logged N" A getenv f0 "(c, [])" h "(c', l)"] assms(1)
  by blast

theorem claim_sends_at_most_once_witness:
  "\<exists>r c' s. runClaim eth_instance plain_keys (logged demo_node) demo_abi (\<lambda>v. []) demo_claim (demo_ledger, []) =
     (r, c', [s]) \<and> \<not> cf_dryRun demo_claim"
proof -
  from demo_claim_run obtain r c' s where
    run: "runClaim eth_instance plain_keys (logged demo_node) demo_abi (\<lambda>v. []) demo_claim (demo_ledger, []) =
      (r, c', [s])" by blast
  from claim_sends_at_most_once [OF run refl] run show ?thesis by blast
qed

text \<open>
  C18: Only an authentic snapshot is applied. When \<open>LoadSnapshot\<close> succeeds at a new height, the stream
  begins with a complete snapshot: header, entries, count, and the digest of exactly these
  bytes, and the store is the result of its entries.
\<close>

theorem snapshot_only_authentic:
  assumes "LoadSnapshot sha B (Inr stream) store = (Inr (height, n), store')"
    and "Height store < height"
  shows "\<exists>es junk. stream = writeSnapshot sha height es @ junk \<and> n = length es \<and>
    (\<forall>e \<in> set es. wf_snapEntry e) \<and> length (sha (snapshot_body height es)) = 32 \<and> n < 2 ^ 63 \<and>
    ApplyDiff B store height (map put_of es) = (None, store')"
  using assms by (rule LoadSnapshot_accepts)

theorem snapshot_only_authentic_witness:
  "\<exists>store'. LoadSnapshot (\<lambda>b. replicate 32 0) mem_bolt (Inr demo_snapshot) demo_store = (Inr (13, 1), store') \<and>
     (\<exists>es junk. demo_snapshot = writeSnapshot (\<lambda>b. replicate 32 0) 13 es @ junk \<and> 1 = length es)"
proof -
  obtain store' where ld:
    "LoadSnapshot (\<lambda>b. replicate 32 0) mem_bolt (Inr demo_snapshot) demo_store = (Inr (13, 1), store')"
    using demo_load by blast
  have "Height demo_store < 13" by (simp add: Height_def demo_store_def)
  from snapshot_only_authentic [OF ld this] ld show ?thesis by blast
qed

text \<open>
  C19: A snapshot cut short anywhere is refused: loading any proper prefix of a written snapshot
  returns an error and leaves the store as it was.
\<close>

theorem truncated_snapshot_rejected:
  assumes "Height store < height" and "\<forall>e \<in> set es. wf_snapEntry e" and "length es < 2 ^ 63"
    and "\<And>b. length (sha b) = 32" and "stream @ missing = writeSnapshot sha height es" and "missing \<noteq> []"
  shows "\<exists>e. LoadSnapshot sha B (Inr stream) store = (Inl e, store)"
  using assms by (rule LoadSnapshot_truncated)

theorem truncated_snapshot_rejected_witness:
  "\<exists>e. LoadSnapshot (\<lambda>b. replicate 32 0) mem_bolt (Inr (butlast demo_snapshot)) demo_store = (Inl e, demo_store)"
proof (rule truncated_snapshot_rejected)
  show "butlast demo_snapshot @ [last demo_snapshot] = writeSnapshot (\<lambda>b. replicate 32 0) 13 demo_entries"
    using demo_snapshot_nonempty by (simp add: demo_snapshot_def)
qed (simp_all add: Height_def demo_store_def demo_entries_def wf_snapEntry_def)

text \<open>
  C20: The signature check of L1 accepts exactly the raw transactions that are a payload followed by
  32 bytes of r, 32 bytes of s and one byte of v, with both numbers strictly between 0 and the
  order of secp256k1.
\<close>

theorem signature_check_exact:
  "vrValid (validateL1 task) \<longleftrightarrow>
   (\<exists>body r s v. tpTxRaw task = signed_tx body r s v \<and>
      0 < r \<and> r < secp256k1N \<and> 0 < s \<and> s < secp256k1N)"
  by (rule validateL1_valid)


text \<open>
  C22: L4 accepts only senders that can pay and do not replay: when a task is valid, either the local
  store holds the sender's account with a positive balance and a nonce not above the
  transaction's, or the coordinator's snapshot passed the checks of L2; and the signature passed
  L1 in both cases.
\<close>

theorem l4_accepts_only_funded_senders:
  assumes "validateL4 E evm (Some store) task = Some r" and "vrValid r"
  shows "vrValid (validateL1 task) \<and>
    ((\<exists>sender h acct. tpSender task = Some sender \<and> addressToHash160 (snAddress sender) = Inr h \<and>
        GetAccount (ev_pw E) (ev_bk E) store h = Some (Inr (Some acct)) \<and>
        0 < acBalance acct \<and> acNonce acct \<le> extractTxNonce (tpTxRaw task)) \<or>
      vrValid (validateL2 task))"
  using validateL4_sender [OF assms] validateL4_valid(1) [OF assms] by blast

theorem l4_accepts_only_funded_senders_witness:
  "\<exists>r. validateL4 demo_env (plain_evm demo_env) (Some demo_store) demo_plain_task = Some r \<and>
     vrValid r \<and> vrValid (validateL1 demo_plain_task)"
proof -
  obtain r where r: "validateL4 demo_env (plain_evm demo_env) (Some demo_store) demo_plain_task = Some r"
    "vrValid r" using demo_L4 by blast
  from l4_accepts_only_funded_senders [OF r] r show ?thesis by blast
qed

text \<open>
  C23: The local state has precedence: when the store has the sender's account and there is no EVM
  transaction to run, the L4 verdict is the same for every balance and nonce the coordinator
  may claim for the sender.
\<close>

theorem local_account_overrides_snapshot:
  assumes "tpSender task = Some sender" and "addressToHash160 (snAddress sender) = Inr h"
    and "GetAccount (ev_pw E) (ev_bk E) store h = Some (Inr (Some acct))" and "tpEvmTx task = None"
  shows "validateL4 E evm (Some store) (task\<lparr>tpSender := Some (sender\<lparr>snBalance := b, snNonce := n\<rparr>)\<rparr>) =
    validateL4 E evm (Some store) task"
  by (rule validateL4_local [OF assms])

theorem local_account_overrides_snapshot_witness:
  "validateL4 demo_env (plain_evm demo_env) (Some demo_store)
     (demo_plain_task\<lparr>tpSender := Some (demo_sender\<lparr>snBalance := ''junk'', snNonce := 99\<rparr>)\<rparr>) =
   validateL4 demo_env (plain_evm demo_env) (Some demo_store) demo_plain_task"
  using local_account_overrides_snapshot [of demo_plain_task demo_sender "addr_bytes 7" demo_env demo_store
      "\<lparr>acNonce = 3, acBalance = 1000, acRoot = [1], acCodeHash = []\<rparr>"]
  by (simp add: demo_GetAccount)

text \<open>
  C24: Every result is consistent, at every level: it carries the task's identifier and the measured
  latency, it is valid exactly when no reject reason is given, and a valid one reports no
  execution error.
\<close>

theorem task_result_consistent_all_levels:
  assumes "validateTask E evm active latency task level = Some r"
  shows "trTaskID r = tpTaskID task \<and> trLatencyUs r = latency \<and>
    (trValid r \<longleftrightarrow> trRejectReason r = NoReason) \<and> (trValid r \<longrightarrow> trExecError r = NoExecError)"
proof -
  obtain res where "verdict_ok res" "r = task_result task latency res"
    using validateTask_result [OF assms] by blast
  from task_result_consistent [OF this] show ?thesis by blast
qed

theorem task_result_consistent_all_levels_witness:
  "\<exists>r. validateTask demo_env (plain_evm demo_env) None 0 demo_task ''L3'' = Some r \<and>
     trTaskID r = 1 \<and> trRejectReason r = NoReason"
proof -
  obtain r where r: "validateTask demo_env (plain_evm demo_env) None 0 demo_task ''L3'' = Some r" "trValid r"
    using demo_L3 by blast
  from task_result_consistent_all_levels [OF r(1)] r show ?thesis by auto
qed



text \<open>
  C26: A value transfer conserves value. When \<open>canTransfer\<close> holds and the recipient's balance has room,
  \<open>iotexTransfer\<close> takes the amount from the sender and gives it to the recipient; every other
  balance, cached or only in the local store, stays, and a transfer to oneself changes nothing.
\<close>

theorem transfer_conserves_value:
  assumes "canTransfer E a v s = Some (True, s1)" and "iotexTransfer E a b v s1 = Some s2"
    and "observed_balance E s c = Some x"
    and "\<And>y. a \<noteq> b \<Longrightarrow> observed_balance E s b = Some y \<Longrightarrow> uint y + uint v < 2 ^ 256"
  shows "\<exists>x'. observed_balance E s2 c = Some x' \<and>
    uint x' = uint x - (if c = a then uint v else 0) + (if c = b then uint v else 0)"
  using assms by (rule transfer_moves)

theorem transfer_conserves_value_witness:
  "\<exists>x'. observed_balance demo_env demo_moved 7 = Some x' \<and> uint x' = 480"
proof -
  have "observed_balance demo_env demo_new 7 = Some 500"
    by (simp add: observed_balance_eq demo_new_def)
  moreover have "uint y + uint (20 :: u256) < 2 ^ 256" if "observed_balance demo_env demo_new 8 = Some y" for y
  proof -
    have "observed_balance demo_env demo_new 8 = Some 0"
      by (simp add: observed_balance_eq demo_new_def empty_db_def store_balance_def loadAccountFromStore_def)
    with that have "y = 0" by simp
    then show ?thesis by simp
  qed
  ultimately have "\<exists>x'. observed_balance demo_env demo_moved 7 = Some x' \<and>
      uint x' = uint (500 :: u256) - (if 7 = (7 :: address) then uint (20 :: u256) else 0) +
        (if 7 = (8 :: address) then uint (20 :: u256) else 0)"
    by (intro transfer_conserves_value [OF demo_can demo_transfer]) simp_all
  then show ?thesis by simp
qed

text \<open>
  C27: The original value of a slot, on which the price of a store depends, never changes while a
  transaction runs: after any StateDB operations, snapshots and reverts, \<open>GetCommittedState\<close>
  finds what it would have found at the start.
\<close>

theorem committed_values_fixed:
  assumes "run_db E cs (start_db E store task) = Some s"
  shows "map_option fst (GetCommittedState E a k s) =
    map_option fst (GetCommittedState E a k (start_db E store task))"
proof -
  have "committed_value E s = committed_value E (start_db E store task)"
    using run_db_committed [OF assms start_db_committed] by blast
  then show ?thesis unfolding committed_value_def by meson
qed

theorem committed_values_fixed_witness:
  "\<exists>s. run_db demo_env [Snap, Do (OSetState 8 0 3), Revert 0, Do (OSetState 8 0 6)]
       (start_db demo_env None demo_task) = Some s \<and>
     map_option fst (GetCommittedState demo_env 8 0 s) = Some 4"
proof -
  let ?cs = "[Snap, Do (OSetState 8 0 3), Revert 0, Do (OSetState 8 0 6)]"
  obtain s where s: "run_db demo_env ?cs (start_db demo_env None demo_task) = Some s" by simp
  have "map_option fst (GetCommittedState demo_env 8 0 (start_db demo_env None demo_task)) = Some 4"
    by (simp add: start_db_def demo_NewMemStateDB demo_new_def GetCommittedState_def get2_def)
  with committed_values_fixed [OF s, of 8 0] s show ?thesis by auto
qed




text \<open>
  C30: The token a login saves is the one the proxy uses. After a login that succeeds, \<open>loadToken\<close> reads
  the very token back from the file, marked as one of type claude; without an API key in the
  environment \<open>getClaudeKey\<close> gives its access token; no other file has changed.
\<close>

theorem saved_login_is_used:
  assumes "orResult (runClaudeOAuth X fs) = Inr t"
    and "leGetenv E ''ANTHROPIC_API_KEY'' = []" and "leHome E = oaHome X"
    and "leFiles E = orFiles (runClaudeOAuth X fs)"
  shows "loadToken (oaHome X) (orFiles (runClaudeOAuth X fs)) = Inr t \<and> ctType t = ''claude'' \<and>
    getClaudeKey E = ctAccessToken t \<and>
    (\<forall>p. p \<noteq> tokenPath (oaHome X) \<longrightarrow> orFiles (runClaudeOAuth X fs) p = fs p)"
proof (cases rule: runClaudeOAuth_cases [of X fs])
  case (stopped e)
  with assms(1) show ?thesis by simp
next
  case (exchanged q c printed)
  then obtain r where "finish_exchange X fs r = (Inr t, orFiles (runClaudeOAuth X fs))"
    using assms(1) by (auto simp: exchange_code_def Let_def prod_eq_iff)
  from finish_exchange_ok [OF this] assms(2-4) show ?thesis
    by (auto simp: getClaudeKey_def)
qed

theorem saved_login_is_used_witness:
  "getClaudeKey (demo_llm\<lparr>leFiles := orFiles (runClaudeOAuth demo_login Map.empty)\<rparr>) = ''tok''"
proof -
  from demo_login_token obtain t where t: "orResult (runClaudeOAuth demo_login Map.empty) = Inr t" "ctAccessToken t = ''tok''"
    by blast
  from saved_login_is_used [OF t(1), of "demo_llm\<lparr>leFiles := orFiles (runClaudeOAuth demo_login Map.empty)\<rparr>"] t(2)
  show ?thesis by (simp add: demo_llm_def demo_login_def demo_getenv_def)
qed









text \<open>
  C35: Lookups end: when no extension node in the store has an empty path, \<open>trieGet\<close> returns for every
  root hash and every key, however the stored nodes are malformed and whatever cycles the hashes
  form.
\<close>

theorem trie_lookup_terminates:
  assumes "protowire_laws P" and "no_empty_ext P B s"
  shows "\<exists>r. trieGet P B s root key = Some r"
  by (rule protowire_laws.trieGet_total [OF assms])

theorem trie_lookup_terminates_witness:
  "\<exists>r. trieGet wire_format mem_bolt demo_store [1] (hash_bytes 5) = Some r"
  by (rule trie_lookup_terminates [OF wire.protowire_laws_axioms demo_no_empty_ext])

text \<open>
  C36: Nothing bounds the walk itself. An extension node with an empty path that names itself as its
  child makes \<open>trieGet\<close> run forever, for every key: the offset does not move and node hashes
  are not checked.
\<close>

theorem empty_extension_cycle_diverges:
  assumes "Get B s nsContract root = Inr (Some data)"
    and "decodeNodePb P data = Some (Inr (NodeE \<lparr>ex_path = [], childHash = root\<rparr>))"
    and "root \<noteq> []" and "root \<noteq> emptyTrieRoot"
  shows "trieGet P B s root key = None"
  using trie_loop_diverges [OF assms(1,2), of 0 key] assms(3,4) by (simp add: trieGet_def)

theorem empty_extension_cycle_diverges_witness:
  "trieGet wire_format mem_bolt cycle_store [1] [] = None"
  by (rule empty_extension_cycle_diverges [OF cycle_Get cycle_decode]) (simp_all add: emptyTrieRoot_def)

text \<open>
  C37: The three kinds of trie node survive encoding: a branch node for every order in which the encoder
  visits its children, leaf and extension nodes for every key, value, path and child hash that
  fits a length prefix.
\<close>

theorem node_encoding_round_trip:
  assumes "protowire_laws P" and "length (encodeBranchNode P es) < 2 ^ 63" and "distinct (map fst es)"
    and "length (encodeLeafNode P k v) < 2 ^ 63" and "length (encodeExtensionNode P p h) < 2 ^ 63"
  shows "decodeNodePb P (encodeBranchNode P es) = Some (Inr (NodeB (map_of es))) \<and>
    decodeNodePb P (encodeLeafNode P k v) = Some (Inr (NodeL \<lparr>lf_key = k, lf_value = Some v\<rparr>)) \<and>
    decodeNodePb P (encodeExtensionNode P p h) = Some (Inr (NodeE \<lparr>ex_path = p, childHash = h\<rparr>))"
  using protowire_laws.decode_encodeBranchNode [OF assms(1-3)]
    protowire_laws.decode_encodeLeafNode [OF assms(1,4)]
    protowire_laws.decode_encodeExtensionNode [OF assms(1,5)] by blast

theorem node_encoding_round_trip_witness:
  "decodeNodePb wire_format (encodeBranchNode wire_format [(7, [1, 2]), (0, [3])]) =
     Some (Inr (NodeB (map_of [(7, [1, 2]), (0, [3])]))) \<and>
   decodeNodePb wire_format (encodeLeafNode wire_format [1] [2, 3]) =
     Some (Inr (NodeL \<lparr>lf_key = [1], lf_value = Some [2, 3]\<rparr>)) \<and>
   decodeNodePb wire_format (encodeExtensionNode wire_format [4] [5]) =
     Some (Inr (NodeE \<lparr>ex_path = [4], childHash = [5]\<rparr>))"
  by (rule node_encoding_round_trip [OF wire.protowire_laws_axioms]) (simp_all add: encode_defs)



text \<open>
  C39: The decoders end on every input: on any bytes at all, \<open>DecodeAccount\<close> and \<open>decodeNodePb\<close> return a
  value or an error, since each iteration consumes at least a tag.
\<close>

theorem decoders_terminate:
  assumes "protowire_laws P"
  shows "(\<exists>r. DecodeAccount P data = Some r) \<and> (\<exists>r. decodeNodePb P data = Some r)"
  using protowire_laws.DecodeAccount_total [OF assms] protowire_laws.decodeNodePb_total [OF assms] by blast

theorem decoders_terminate_witness:
  "(\<exists>r. DecodeAccount wire_format [255, 255] = Some r) \<and> (\<exists>r. decodeNodePb wire_format [255, 255] = Some r)"
  by (rule decoders_terminate [OF wire.protowire_laws_axioms])

text \<open>
  C40: Self-destruction of a contract created by an earlier transaction, in favour of itself: the
  interpreter takes the balance, gives it back and calls \<open>SelfDestruct6780\<close>, which clears the
  balance of the contract although it is not destroyed, so the ether is gone.
\<close>

theorem selfdestruct_to_self_burns:
  assumes "accounts s a = Some x" and "\<not> isNew x"
    and "SubBalance E a (balance x) s = Some (p, s1)" and "AddBalance E a p s1 = Some (q, s2)"
  shows "observed_balance E s2 a = Some (balance x) \<and>
    fst (SelfDestruct6780 a s2) = (balance x, False) \<and>
    observed_balance E (snd (SelfDestruct6780 a s2)) a = Some 0 \<and>
    HasSelfDestructed a (snd (SelfDestruct6780 a s2)) = suicided x"
proof -
  from assms have s2: "accounts s2 a = Some x"
    by (auto simp: SubBalance_def AddBalance_def getOrCreateAccount_def put_account_def Let_def)
  with assms(2) show ?thesis
    by (simp add: observed_balance_eq SelfDestruct6780_def HasSelfDestructed_def put_account_def)
qed

theorem selfdestruct_to_self_burns_witness:
  "\<exists>s2. observed_balance demo_env s2 7 = Some 500 \<and>
     observed_balance demo_env (snd (SelfDestruct6780 7 s2)) 7 = Some 0"
proof -
  let ?x = "\<lparr>balance = 500, nonce = 1, code = [], codeHash = emptyCodeHash demo_env, suicided = False, isNew = False\<rparr>"
  have x: "accounts demo_new 7 = Some ?x" "\<not> isNew ?x" by (simp_all add: demo_new_def)
  obtain p s1 where s1: "SubBalance demo_env 7 (balance ?x) demo_new = Some (p, s1)"
    by (simp add: SubBalance_def getOrCreateAccount_def demo_new_def Let_def)
  obtain q s2 where s2: "AddBalance demo_env 7 p s1 = Some (q, s2)"
    using SubBalance_balance(2) [OF s1] s1
    by (auto simp: SubBalance_def AddBalance_def getOrCreateAccount_def put_account_def Let_def x)
  from selfdestruct_to_self_burns [OF x s1 s2] show ?thesis by auto
qed

end
